(* ===== verification/Prelude.thy ===== *)
theory Prelude
  imports Main "HOL-Library.Char_ord" "HOL-Library.List_Lexorder" "HOL-Library.Sublist"
begin

text \<open>
  Shared ground of the development: the Python string operations the program uses, table
  operations (first match, guarded update with a row count), sums as results, reachability of a
  step relation, and the lemma collections the component theories fill.

  Strings are lists of characters; a character is a code point below 256 (Latin-1), which is what
  the string literals, the identifiers and the header values of the program use. An instant
  is an \<open>int\<close>: microseconds since the epoch, in UTC, the resolution of Python's \<open>datetime\<close>.
\<close>

type_synonym time = int

named_theorems table_simps \<open>rewriting of selects and guarded updates on tables\<close>
named_theorems frame_simps \<open>what an operation leaves unchanged\<close>
named_theorems inv_intros \<open>preservation of well-formedness by the operations\<close>

section \<open>Python strings\<close>

text \<open>\<open>str.isspace\<close>, \<open>str.lower\<close> and \<open>str.strip\<close> on the code points below 256.\<close>

definition py_isspace :: "char \<Rightarrow> bool" where
  "py_isspace c = (let n = (of_char c :: nat) in
     (9 \<le> n \<and> n \<le> 13) \<or> (28 \<le> n \<and> n \<le> 32) \<or> n = 133 \<or> n = 160)"

definition py_lower_char :: "char \<Rightarrow> char" where
  "py_lower_char c = (let n = (of_char c :: nat) in
     if (65 \<le> n \<and> n \<le> 90) \<or> (192 \<le> n \<and> n \<le> 222 \<and> n \<noteq> 215) then char_of (n + 32) else c)"

definition py_lower :: "string \<Rightarrow> string" where
  "py_lower s = map py_lower_char s"

definition py_lstrip :: "string \<Rightarrow> string" where
  "py_lstrip s = dropWhile py_isspace s"

definition py_strip :: "string \<Rightarrow> string" where
  "py_strip s = rev (py_lstrip (rev (py_lstrip s)))"

text \<open>\<open>s.split(sep)\<close> for a separator of one character: never empty, separators dropped.\<close>

fun py_split :: "char \<Rightarrow> string \<Rightarrow> string list" where
  "py_split sep [] = [[]]"
| "py_split sep (c # cs) =
     (if c = sep then [] # py_split sep cs
      else (case py_split sep cs of [] \<Rightarrow> [[c]] | w # ws \<Rightarrow> (c # w) # ws))"

definition py_startswith :: "string \<Rightarrow> string \<Rightarrow> bool" where
  "py_startswith s p = (take (length p) s = p)"

definition py_endswith :: "string \<Rightarrow> string \<Rightarrow> bool" where
  "py_endswith s p = py_startswith (rev s) (rev p)"

text \<open>\<open>a or b\<close> on an optional string: an empty string is false.\<close>

definition py_or :: "string option \<Rightarrow> string \<Rightarrow> string" where
  "py_or a b = (case a of None \<Rightarrow> b | Some x \<Rightarrow> if x = [] then b else x)"

lemma py_isspace_lower [simp]: "py_isspace (py_lower_char c) = py_isspace c"
  by (auto simp: py_isspace_def py_lower_char_def Let_def)

lemma py_lower_char_idem [simp]: "py_lower_char (py_lower_char c) = py_lower_char c"
  by (auto simp: py_lower_char_def Let_def)

lemma py_lower_idem [simp]: "py_lower (py_lower s) = py_lower s"
  by (simp add: py_lower_def)

lemma py_lstrip_idem [simp]: "py_lstrip (py_lstrip s) = py_lstrip s"
  by (simp add: py_lstrip_def)

lemma py_lstrip_hd: "py_lstrip s \<noteq> [] \<Longrightarrow> \<not> py_isspace (hd (py_lstrip s))"
  by (simp add: py_lstrip_def hd_dropWhile)

lemma py_lstrip_id: "s = [] \<or> \<not> py_isspace (hd s) \<Longrightarrow> py_lstrip s = s"
  by (cases s) (auto simp: py_lstrip_def)

lemma py_lstrip_suffix: "suffix (py_lstrip s) s"
  unfolding py_lstrip_def suffix_def by (metis takeWhile_dropWhile_id)

text \<open>Stripping the right end keeps the left end, so \<open>strip\<close> is idempotent.\<close>

lemma hd_rev_py_lstrip_rev:
  assumes "t \<noteq> []" and "\<not> py_isspace (hd t)"
  shows "hd (rev (py_lstrip (rev t))) = hd t \<and> py_lstrip (rev t) \<noteq> []"
proof -
  obtain c t' where t: "t = c # t'" using assms(1) by (cases t) auto
  have "dropWhile py_isspace (rev t' @ [c]) = dropWhile py_isspace (rev t') @ [c]"
    using assms(2) t by (simp add: dropWhile_append)
  then show ?thesis by (simp add: t py_lstrip_def)
qed

lemma py_strip_idem [simp]: "py_strip (py_strip s) = py_strip s"
proof (cases "py_lstrip s = []")
  case True
  then have "py_strip s = []" by (simp only: py_strip_def) (simp add: py_lstrip_def)
  moreover have "py_strip [] = []" by (simp add: py_strip_def py_lstrip_def)
  ultimately show ?thesis by simp
next
  case False
  define t where "t = py_lstrip s"
  have t: "t \<noteq> []" "\<not> py_isspace (hd t)" using False py_lstrip_hd by (auto simp: t_def)
  from hd_rev_py_lstrip_rev [OF this]
  have "py_lstrip (rev (py_lstrip (rev t))) = rev (py_lstrip (rev t))"
    using t(2) by (intro py_lstrip_id) auto
  then show ?thesis by (simp add: py_strip_def t_def)
qed

lemma py_lstrip_lower: "py_lstrip (py_lower s) = py_lower (py_lstrip s)"
  by (simp add: py_lstrip_def py_lower_def dropWhile_map comp_def)

lemma py_strip_lower: "py_strip (py_lower s) = py_lower (py_strip s)"
proof -
  have rev: "rev (py_lower u) = py_lower (rev u)" for u by (simp add: py_lower_def rev_map)
  show ?thesis by (simp add: py_strip_def py_lstrip_lower rev)
qed

lemma py_split_not_Nil [simp]: "py_split sep s \<noteq> []"
  by (induction sep s rule: py_split.induct) (auto split: list.splits)

lemma py_split_no_sep: "w \<in> set (py_split sep s) \<Longrightarrow> sep \<notin> set w"
proof (induction sep s arbitrary: w rule: py_split.induct)
  case (2 sep c cs)
  then show ?case
    by (cases "c = sep"; cases "py_split sep cs") auto
qed simp

section \<open>Results\<close>

definition is_ok :: "'e + 'a \<Rightarrow> bool" where
  "is_ok r = (case r of Inl _ \<Rightarrow> False | Inr _ \<Rightarrow> True)"

lemma is_ok_simps [simp]: "is_ok (Inr a)" "\<not> is_ok (Inl e)"
  by (simp_all add: is_ok_def)

lemma is_ok_iff: "is_ok r \<longleftrightarrow> (\<exists>a. r = Inr a)"
  by (cases r) auto

section \<open>Tables\<close>

text \<open>
  A table is the list of its rows in insertion order. A \<open>select ... where\<close> read with
  \<open>session.scalar\<close> is the first row that matches; an \<open>update ... where\<close> rewrites every row that
  matches and answers how many there were (\<open>rowcount\<close>).
\<close>

definition update_where :: "('r \<Rightarrow> bool) \<Rightarrow> ('r \<Rightarrow> 'r) \<Rightarrow> 'r list \<Rightarrow> 'r list" where
  "update_where P f rows = map (\<lambda>r. if P r then f r else r) rows"

definition rowcount :: "('r \<Rightarrow> bool) \<Rightarrow> 'r list \<Rightarrow> nat" where
  "rowcount P rows = length (filter P rows)"

lemma set_update_where: "set (update_where P f rows) = (\<lambda>r. if P r then f r else r) ` set rows"
  by (simp add: update_where_def)

lemma length_update_where [simp]: "length (update_where P f rows) = length rows"
  by (simp add: update_where_def)

lemma update_where_none: "(\<And>r. r \<in> set rows \<Longrightarrow> \<not> P r) \<Longrightarrow> update_where P f rows = rows"
  by (simp add: update_where_def map_idI)

lemma map_update_where [table_simps]:
  "(\<And>r. k (f r) = k r) \<Longrightarrow> map k (update_where P f rows) = map k rows"
  by (simp add: update_where_def)

lemma filter_update_where:
  "(\<And>r. P r \<Longrightarrow> \<not> Q r \<and> \<not> Q (f r)) \<Longrightarrow> filter Q (update_where P f rows) = filter Q rows"
  by (induction rows) (auto simp: update_where_def)

lemma rowcount_0: "rowcount P rows = 0 \<longleftrightarrow> (\<forall>r \<in> set rows. \<not> P r)"
  by (simp add: rowcount_def filter_empty_conv)

lemma find_None: "List.find P rows = None \<longleftrightarrow> (\<forall>r \<in> set rows. \<not> P r)"
  by (induction rows) auto

lemma find_SomeD: "List.find P rows = Some r \<Longrightarrow> r \<in> set rows \<and> P r"
  by (auto simp: find_Some_iff)

lemma find_unique:
  assumes "r \<in> set rows" "P r" "\<And>q. q \<in> set rows \<Longrightarrow> P q \<Longrightarrow> q = r"
  shows "List.find P rows = Some r"
proof (cases "List.find P rows")
  case None
  with assms(1,2) show ?thesis by (auto simp: find_None)
next
  case (Some q)
  then have "q \<in> set rows" "P q" using find_SomeD by metis+
  with Some assms(3) show ?thesis by simp
qed

text \<open>Where the key is unique, a row is determined by its key and a guarded update hits one row.\<close>

lemma key_unique: "distinct (map k rows) \<Longrightarrow> r \<in> set rows \<Longrightarrow> q \<in> set rows \<Longrightarrow> k r = k q \<Longrightarrow> r = q"
  by (simp add: distinct_map inj_on_def)

lemma find_key:
  assumes "distinct (map k rows)" "r \<in> set rows" "k r = x" "Q r"
  shows "List.find (\<lambda>r. k r = x \<and> Q r) rows = Some r"
  using assms by (intro find_unique) (auto dest: key_unique [OF assms(1)])

lemma rowcount_key:
  assumes "distinct (map k rows)"
  shows "rowcount (\<lambda>r. k r = x \<and> Q r) rows =
    (case List.find (\<lambda>r. k r = x \<and> Q r) rows of None \<Rightarrow> 0 | Some _ \<Rightarrow> 1)"
  using assms
proof (induction rows)
  case Nil
  then show ?case by (simp add: rowcount_def)
next
  case (Cons r rows)
  show ?case
  proof (cases "k r = x \<and> Q r")
    case True
    then have "\<And>q. q \<in> set rows \<Longrightarrow> k q \<noteq> x"
      using Cons.prems by (auto simp: rev_image_eqI)
    then have "filter (\<lambda>r. k r = x \<and> Q r) rows = []" by (simp add: filter_empty_conv)
    with True show ?thesis by (simp add: rowcount_def)
  next
    case False
    with Cons show ?thesis by (auto simp: rowcount_def)
  qed
qed

lemma find_update_where_other:
  "(\<And>r. P r \<Longrightarrow> \<not> Q r \<and> \<not> Q (f r)) \<Longrightarrow> List.find Q (update_where P f rows) = List.find Q rows"
  by (induction rows) (auto simp: update_where_def)

lemma find_update_where_hit:
  assumes "List.find P rows = Some r" "\<And>q. P q \<Longrightarrow> Q (f q)" "\<And>q. \<not> P q \<Longrightarrow> \<not> Q q"
  shows "List.find Q (update_where P f rows) = Some (f r)"
  using assms(1) by (induction rows) (auto simp: update_where_def assms(2,3) split: if_splits)

section \<open>Reachability\<close>

inductive reachable :: "('s \<Rightarrow> bool) \<Rightarrow> ('s \<Rightarrow> 's \<Rightarrow> bool) \<Rightarrow> 's \<Rightarrow> bool"
  for init :: "'s \<Rightarrow> bool" and step :: "'s \<Rightarrow> 's \<Rightarrow> bool" where
  reach_init: "init s \<Longrightarrow> reachable init step s"
| reach_step: "reachable init step s \<Longrightarrow> step s t \<Longrightarrow> reachable init step t"

text \<open>An invariant of a step relation: it holds initially and every step keeps it.\<close>

locale invariant_of =
  fixes init :: "'s \<Rightarrow> bool" and step :: "'s \<Rightarrow> 's \<Rightarrow> bool" and inv :: "'s \<Rightarrow> bool"
  assumes inv_init: "init s \<Longrightarrow> inv s"
    and inv_step: "inv s \<Longrightarrow> step s t \<Longrightarrow> inv t"
begin

lemma inv_reachable: "reachable init step s \<Longrightarrow> inv s"
  by (induction rule: reachable.induct) (auto intro: inv_init inv_step)

end

end
