(* ===== verification/Schema.thy ===== *)
theory Schema
  imports Prelude
begin

text \<open>
  The relational schema of \<open>app/shared/models.py\<close> and the session of \<open>app/shared/database.py\<close>.

  Each mapped class is a record with its columns (nullable columns are options); a \<open>db\<close> holds the
  table of every class. \<open>db_ok\<close> is the conjunction of the declared constraints: primary keys,
  \<open>UniqueConstraint\<close>s, \<open>unique=True\<close> columns and foreign keys, enforced as PostgreSQL enforces
  them. A session is the database as its transaction sees it together with the objects added but
  not yet flushed: the factories pass \<open>autoflush=False\<close>, so a query does not see them.
  A flush does not check column lengths and integer widths here; the declared types and
  widths stand beside the rows in \<open>Table_Constraints\<close> and \<open>Column_Widths\<close>.
\<close>

section \<open>Exceptions\<close>

text \<open>The exception classes of the modules, with the argument their handlers use.\<close>

datatype exn =
    RequisitionNotFoundError string
  | CandidateEmailAlreadyExistsError
  | CandidateNotFoundError string
  | ConcurrencyConflictError string
  | InvalidTransitionError string string
  | ValueError string
  | KeyError string
  | IndexError
  | CandidateNotEligibleForOfferError
  | OfferAlreadyExistsError
  | OfferNotFoundError string
  | OfferConcurrencyConflictError string
  | InvalidOfferApprovalError string
  | InterviewSchedulingTargetNotFoundError
  | InterviewNotFoundError string
  | InterviewerNotAssignedError
  | FeedbackAlreadySubmittedError
  | TenantSlugAlreadyExistsError
  | AttachmentNotFoundError string
  | InvalidAttachmentError string
  | AttachmentTooLargeError int
  | MalwareScanRejectedError
  | MalwareScannerUnavailableError
  | FileNotFoundError string
  | FileExistsError
  | CalendarSubscriptionNotFoundError string
  | IntegrityError
  | OperationalError
  | RedisError

text \<open>Values of the JSON columns, and a JSON object in key order.\<close>

datatype json = JStr string | JInt int

type_synonym json_object = "(string \<times> json) list"

section \<open>The mapped classes\<close>

record tenant =
  tn_id :: string
  tn_name :: string
  tn_slug :: string
  tn_created_at :: time

record user =
  us_id :: string
  us_email :: "string option"
  us_created_at :: time

record membership =
  mb_id :: string
  mb_tenant_id :: string
  mb_user_id :: string
  mb_role :: string
  mb_created_at :: time

record requisition =
  rq_id :: string
  rq_tenant_id :: string
  rq_title :: string
  rq_department :: string
  rq_created_by :: string
  rq_created_at :: time

record candidate_row =
  cr_id :: string
  cr_tenant_id :: string
  cr_requisition_id :: string
  cr_first_name :: string
  cr_last_name :: string
  cr_email :: string
  cr_stage :: string
  cr_version :: int
  cr_created_by :: string
  cr_created_at :: time
  cr_anonymized_at :: "time option"
  cr_terminal_at :: "time option"

record retention_policy =
  rp_tenant_id :: string
  rp_retention_days :: int
  rp_updated_at :: time

record legal_hold =
  lh_candidate_case_id :: string
  lh_tenant_id :: string
  lh_reason :: string
  lh_created_by :: string
  lh_created_at :: time

record attachment_row =
  at_id :: string
  at_tenant_id :: string
  at_candidate_case_id :: string
  at_document_type :: string
  at_original_filename :: string
  at_content_type :: string
  at_size_bytes :: int
  at_sha256 :: string
  at_storage_key :: string
  at_created_by :: string
  at_created_at :: time

record interview_row =
  iv_id :: string
  iv_tenant_id :: string
  iv_candidate_case_id :: string
  iv_interviewer_id :: string
  iv_scheduled_at :: time
  iv_created_by :: string
  iv_created_at :: time

record calendar_row =
  cs_id :: string
  cs_tenant_id :: string
  cs_interviewer_id :: string
  cs_token_hash :: string
  cs_created_by :: string
  cs_created_at :: time
  cs_expires_at :: time
  cs_revoked_at :: "time option"

record feedback_row =
  fb_id :: string
  fb_tenant_id :: string
  fb_interview_id :: string
  fb_interviewer_id :: string
  fb_score :: int
  fb_recommendation :: string
  fb_comments :: string
  fb_submitted_at :: time

record offer_row =
  or_id :: string
  or_tenant_id :: string
  or_candidate_case_id :: string
  or_title :: string
  or_annual_salary :: int
  or_currency :: string
  or_status :: string
  or_approval_step :: int
  or_version :: int
  or_created_by :: string

record decision_row =
  ad_id :: string
  ad_offer_id :: string
  ad_tenant_id :: string
  ad_step :: int
  ad_actor_id :: string
  ad_decision :: string

record outbox_row =
  ob_id :: string
  ob_tenant_id :: string
  ob_topic :: string
  ob_payload :: json_object
  ob_status :: string
  ob_published_at :: "time option"
  ob_created_at :: time

record delivery_row =
  nd_id :: string
  nd_outbox_event_id :: string
  nd_tenant_id :: string
  nd_recipient_id :: string
  nd_channel :: string
  nd_status :: string
  nd_attempts :: int
  nd_last_error :: "string option"
  nd_payload :: json_object
  nd_lease_owner :: "string option"
  nd_lease_expires_at :: "time option"
  nd_created_at :: time

record audit_row =
  ae_id :: string
  ae_tenant_id :: string
  ae_actor_id :: string
  ae_action :: string
  ae_aggregate_type :: string
  ae_aggregate_id :: string
  ae_correlation_id :: string
  ae_metadata :: json_object
  ae_created_at :: time

record db =
  tenants :: "tenant list"
  users :: "user list"
  memberships :: "membership list"
  requisitions :: "requisition list"
  candidate_cases :: "candidate_row list"
  retention_policies :: "retention_policy list"
  legal_holds :: "legal_hold list"
  attachments :: "attachment_row list"
  interviews :: "interview_row list"
  calendar_subscriptions :: "calendar_row list"
  feedbacks :: "feedback_row list"
  offers :: "offer_row list"
  approval_decisions :: "decision_row list"
  outbox_events :: "outbox_row list"
  deliveries :: "delivery_row list"
  audit_events :: "audit_row list"

definition empty_db :: db where
  "empty_db = \<lparr>tenants = [], users = [], memberships = [], requisitions = [],
     candidate_cases = [], retention_policies = [], legal_holds = [], attachments = [],
     interviews = [], calendar_subscriptions = [], feedbacks = [], offers = [],
     approval_decisions = [], outbox_events = [], deliveries = [], audit_events = []\<rparr>"

section \<open>Constraints\<close>

abbreviation has_tenant :: "db \<Rightarrow> string \<Rightarrow> bool" where
  "has_tenant d x \<equiv> x \<in> set (map tn_id (tenants d))"
abbreviation has_user :: "db \<Rightarrow> string \<Rightarrow> bool" where
  "has_user d x \<equiv> x \<in> set (map us_id (users d))"
abbreviation has_requisition :: "db \<Rightarrow> string \<Rightarrow> bool" where
  "has_requisition d x \<equiv> x \<in> set (map rq_id (requisitions d))"
abbreviation has_candidate :: "db \<Rightarrow> string \<Rightarrow> bool" where
  "has_candidate d x \<equiv> x \<in> set (map cr_id (candidate_cases d))"
abbreviation has_interview :: "db \<Rightarrow> string \<Rightarrow> bool" where
  "has_interview d x \<equiv> x \<in> set (map iv_id (interviews d))"
abbreviation has_offer :: "db \<Rightarrow> string \<Rightarrow> bool" where
  "has_offer d x \<equiv> x \<in> set (map or_id (offers d))"
abbreviation has_event :: "db \<Rightarrow> string \<Rightarrow> bool" where
  "has_event d x \<equiv> x \<in> set (map ob_id (outbox_events d))"

definition tenants_ok :: "db \<Rightarrow> bool" where
  "tenants_ok d = (distinct (map tn_id (tenants d)) \<and> distinct (map tn_slug (tenants d)))"

definition users_ok :: "db \<Rightarrow> bool" where
  "users_ok d = (distinct (map us_id (users d)) \<and> distinct (List.map_filter us_email (users d)))"

definition memberships_ok :: "db \<Rightarrow> bool" where
  "memberships_ok d =
    (distinct (map mb_id (memberships d)) \<and>
     distinct (map (\<lambda>m. (mb_tenant_id m, mb_user_id m)) (memberships d)) \<and>
     list_all (\<lambda>m. has_tenant d (mb_tenant_id m) \<and> has_user d (mb_user_id m)) (memberships d))"

definition requisitions_ok :: "db \<Rightarrow> bool" where
  "requisitions_ok d =
    (distinct (map rq_id (requisitions d)) \<and>
     list_all (\<lambda>r. has_tenant d (rq_tenant_id r) \<and> has_user d (rq_created_by r)) (requisitions d))"

definition candidate_cases_ok :: "db \<Rightarrow> bool" where
  "candidate_cases_ok d =
    (distinct (map cr_id (candidate_cases d)) \<and>
     distinct (map (\<lambda>c. (cr_tenant_id c, cr_email c)) (candidate_cases d)) \<and>
     list_all (\<lambda>c. has_tenant d (cr_tenant_id c) \<and> has_requisition d (cr_requisition_id c) \<and>
       has_user d (cr_created_by c)) (candidate_cases d))"

definition retention_policies_ok :: "db \<Rightarrow> bool" where
  "retention_policies_ok d =
    (distinct (map rp_tenant_id (retention_policies d)) \<and>
     list_all (\<lambda>p. has_tenant d (rp_tenant_id p)) (retention_policies d))"

definition legal_holds_ok :: "db \<Rightarrow> bool" where
  "legal_holds_ok d =
    (distinct (map lh_candidate_case_id (legal_holds d)) \<and>
     list_all (\<lambda>h. has_candidate d (lh_candidate_case_id h) \<and> has_tenant d (lh_tenant_id h) \<and>
       has_user d (lh_created_by h)) (legal_holds d))"

definition attachments_ok :: "db \<Rightarrow> bool" where
  "attachments_ok d =
    (distinct (map at_id (attachments d)) \<and> distinct (map at_storage_key (attachments d)) \<and>
     list_all (\<lambda>a. has_tenant d (at_tenant_id a) \<and> has_candidate d (at_candidate_case_id a) \<and>
       has_user d (at_created_by a)) (attachments d))"

definition interviews_ok :: "db \<Rightarrow> bool" where
  "interviews_ok d =
    (distinct (map iv_id (interviews d)) \<and>
     list_all (\<lambda>i. has_tenant d (iv_tenant_id i) \<and> has_candidate d (iv_candidate_case_id i) \<and>
       has_user d (iv_interviewer_id i) \<and> has_user d (iv_created_by i)) (interviews d))"

definition calendar_subscriptions_ok :: "db \<Rightarrow> bool" where
  "calendar_subscriptions_ok d =
    (distinct (map cs_id (calendar_subscriptions d)) \<and>
     distinct (map cs_token_hash (calendar_subscriptions d)) \<and>
     list_all (\<lambda>s. has_tenant d (cs_tenant_id s) \<and> has_user d (cs_interviewer_id s) \<and>
       has_user d (cs_created_by s)) (calendar_subscriptions d))"

definition feedbacks_ok :: "db \<Rightarrow> bool" where
  "feedbacks_ok d =
    (distinct (map fb_id (feedbacks d)) \<and> distinct (map fb_interview_id (feedbacks d)) \<and>
     list_all (\<lambda>f. has_tenant d (fb_tenant_id f) \<and> has_interview d (fb_interview_id f) \<and>
       has_user d (fb_interviewer_id f)) (feedbacks d))"

definition offers_ok :: "db \<Rightarrow> bool" where
  "offers_ok d =
    (distinct (map or_id (offers d)) \<and> distinct (map or_candidate_case_id (offers d)) \<and>
     list_all (\<lambda>f. has_tenant d (or_tenant_id f) \<and> has_candidate d (or_candidate_case_id f) \<and>
       has_user d (or_created_by f)) (offers d))"

definition approval_decisions_ok :: "db \<Rightarrow> bool" where
  "approval_decisions_ok d =
    (distinct (map ad_id (approval_decisions d)) \<and>
     distinct (map (\<lambda>a. (ad_offer_id a, ad_step a)) (approval_decisions d)) \<and>
     list_all (\<lambda>a. has_offer d (ad_offer_id a) \<and> has_tenant d (ad_tenant_id a) \<and>
       has_user d (ad_actor_id a)) (approval_decisions d))"

definition outbox_events_ok :: "db \<Rightarrow> bool" where
  "outbox_events_ok d =
    (distinct (map ob_id (outbox_events d)) \<and>
     list_all (\<lambda>e. has_tenant d (ob_tenant_id e)) (outbox_events d))"

definition deliveries_ok :: "db \<Rightarrow> bool" where
  "deliveries_ok d =
    (distinct (map nd_id (deliveries d)) \<and> distinct (map nd_outbox_event_id (deliveries d)) \<and>
     list_all (\<lambda>n. has_event d (nd_outbox_event_id n) \<and> has_tenant d (nd_tenant_id n) \<and>
       has_user d (nd_recipient_id n)) (deliveries d))"

definition audit_events_ok :: "db \<Rightarrow> bool" where
  "audit_events_ok d =
    (distinct (map ae_id (audit_events d)) \<and>
     list_all (\<lambda>e. has_tenant d (ae_tenant_id e)) (audit_events d))"

definition db_ok :: "db \<Rightarrow> bool" where
  "db_ok d = (tenants_ok d \<and> users_ok d \<and> memberships_ok d \<and> requisitions_ok d \<and>
     candidate_cases_ok d \<and> retention_policies_ok d \<and> legal_holds_ok d \<and> attachments_ok d \<and>
     interviews_ok d \<and> calendar_subscriptions_ok d \<and> feedbacks_ok d \<and> offers_ok d \<and>
     approval_decisions_ok d \<and> outbox_events_ok d \<and> deliveries_ok d \<and> audit_events_ok d)"

lemmas table_ok_defs =
  tenants_ok_def users_ok_def memberships_ok_def requisitions_ok_def candidate_cases_ok_def
  retention_policies_ok_def legal_holds_ok_def attachments_ok_def interviews_ok_def
  calendar_subscriptions_ok_def feedbacks_ok_def offers_ok_def approval_decisions_ok_def
  outbox_events_ok_def deliveries_ok_def audit_events_ok_def

lemma empty_db_ok [simp]: "db_ok empty_db"
  by (simp add: db_ok_def table_ok_defs empty_db_def List.map_filter_def)

section \<open>Inserts\<close>

datatype row =
    Tenant_Row tenant
  | User_Row user
  | Membership_Row membership
  | Requisition_Row requisition
  | Candidate_Row candidate_row
  | Policy_Row retention_policy
  | Hold_Row legal_hold
  | Attachment_Row attachment_row
  | Interview_Row interview_row
  | Calendar_Row calendar_row
  | Feedback_Row feedback_row
  | Offer_Row offer_row
  | Decision_Row decision_row
  | Outbox_Row outbox_row
  | Delivery_Row delivery_row
  | Audit_Row audit_row

fun db_insert :: "db \<Rightarrow> row \<Rightarrow> db" where
  "db_insert d (Tenant_Row x) = d\<lparr>tenants := tenants d @ [x]\<rparr>"
| "db_insert d (User_Row x) = d\<lparr>users := users d @ [x]\<rparr>"
| "db_insert d (Membership_Row x) = d\<lparr>memberships := memberships d @ [x]\<rparr>"
| "db_insert d (Requisition_Row x) = d\<lparr>requisitions := requisitions d @ [x]\<rparr>"
| "db_insert d (Candidate_Row x) = d\<lparr>candidate_cases := candidate_cases d @ [x]\<rparr>"
| "db_insert d (Policy_Row x) = d\<lparr>retention_policies := retention_policies d @ [x]\<rparr>"
| "db_insert d (Hold_Row x) = d\<lparr>legal_holds := legal_holds d @ [x]\<rparr>"
| "db_insert d (Attachment_Row x) = d\<lparr>attachments := attachments d @ [x]\<rparr>"
| "db_insert d (Interview_Row x) = d\<lparr>interviews := interviews d @ [x]\<rparr>"
| "db_insert d (Calendar_Row x) = d\<lparr>calendar_subscriptions := calendar_subscriptions d @ [x]\<rparr>"
| "db_insert d (Feedback_Row x) = d\<lparr>feedbacks := feedbacks d @ [x]\<rparr>"
| "db_insert d (Offer_Row x) = d\<lparr>offers := offers d @ [x]\<rparr>"
| "db_insert d (Decision_Row x) = d\<lparr>approval_decisions := approval_decisions d @ [x]\<rparr>"
| "db_insert d (Outbox_Row x) = d\<lparr>outbox_events := outbox_events d @ [x]\<rparr>"
| "db_insert d (Delivery_Row x) = d\<lparr>deliveries := deliveries d @ [x]\<rparr>"
| "db_insert d (Audit_Row x) = d\<lparr>audit_events := audit_events d @ [x]\<rparr>"

definition db_insert_all :: "db \<Rightarrow> row list \<Rightarrow> db" where
  "db_insert_all d rs = foldl db_insert d rs"

lemma db_insert_all_simps [simp]:
  "db_insert_all d [] = d"
  "db_insert_all d (r # rs) = db_insert_all (db_insert d r) rs"
  by (simp_all add: db_insert_all_def)

text \<open>The constraints a row must meet to be inserted, table by table.\<close>

fun row_ok :: "db \<Rightarrow> row \<Rightarrow> bool" where
  "row_ok d (Tenant_Row x) =
     (\<not> has_tenant d (tn_id x) \<and> tn_slug x \<notin> set (map tn_slug (tenants d)))"
| "row_ok d (User_Row x) =
     (\<not> has_user d (us_id x) \<and>
      (case us_email x of None \<Rightarrow> True | Some e \<Rightarrow> e \<notin> set (List.map_filter us_email (users d))))"
| "row_ok d (Membership_Row x) =
     (mb_id x \<notin> set (map mb_id (memberships d)) \<and>
      (mb_tenant_id x, mb_user_id x) \<notin> set (map (\<lambda>m. (mb_tenant_id m, mb_user_id m)) (memberships d)) \<and>
      has_tenant d (mb_tenant_id x) \<and> has_user d (mb_user_id x))"
| "row_ok d (Requisition_Row x) =
     (\<not> has_requisition d (rq_id x) \<and> has_tenant d (rq_tenant_id x) \<and> has_user d (rq_created_by x))"
| "row_ok d (Candidate_Row x) =
     (\<not> has_candidate d (cr_id x) \<and>
      (cr_tenant_id x, cr_email x) \<notin> set (map (\<lambda>c. (cr_tenant_id c, cr_email c)) (candidate_cases d)) \<and>
      has_tenant d (cr_tenant_id x) \<and> has_requisition d (cr_requisition_id x) \<and>
      has_user d (cr_created_by x))"
| "row_ok d (Policy_Row x) =
     (rp_tenant_id x \<notin> set (map rp_tenant_id (retention_policies d)) \<and> has_tenant d (rp_tenant_id x))"
| "row_ok d (Hold_Row x) =
     (lh_candidate_case_id x \<notin> set (map lh_candidate_case_id (legal_holds d)) \<and>
      has_candidate d (lh_candidate_case_id x) \<and> has_tenant d (lh_tenant_id x) \<and>
      has_user d (lh_created_by x))"
| "row_ok d (Attachment_Row x) =
     (at_id x \<notin> set (map at_id (attachments d)) \<and>
      at_storage_key x \<notin> set (map at_storage_key (attachments d)) \<and>
      has_tenant d (at_tenant_id x) \<and> has_candidate d (at_candidate_case_id x) \<and>
      has_user d (at_created_by x))"
| "row_ok d (Interview_Row x) =
     (\<not> has_interview d (iv_id x) \<and> has_tenant d (iv_tenant_id x) \<and>
      has_candidate d (iv_candidate_case_id x) \<and> has_user d (iv_interviewer_id x) \<and>
      has_user d (iv_created_by x))"
| "row_ok d (Calendar_Row x) =
     (cs_id x \<notin> set (map cs_id (calendar_subscriptions d)) \<and>
      cs_token_hash x \<notin> set (map cs_token_hash (calendar_subscriptions d)) \<and>
      has_tenant d (cs_tenant_id x) \<and> has_user d (cs_interviewer_id x) \<and>
      has_user d (cs_created_by x))"
| "row_ok d (Feedback_Row x) =
     (fb_id x \<notin> set (map fb_id (feedbacks d)) \<and>
      fb_interview_id x \<notin> set (map fb_interview_id (feedbacks d)) \<and>
      has_tenant d (fb_tenant_id x) \<and> has_interview d (fb_interview_id x) \<and>
      has_user d (fb_interviewer_id x))"
| "row_ok d (Offer_Row x) =
     (\<not> has_offer d (or_id x) \<and>
      or_candidate_case_id x \<notin> set (map or_candidate_case_id (offers d)) \<and>
      has_tenant d (or_tenant_id x) \<and> has_candidate d (or_candidate_case_id x) \<and>
      has_user d (or_created_by x))"
| "row_ok d (Decision_Row x) =
     (ad_id x \<notin> set (map ad_id (approval_decisions d)) \<and>
      (ad_offer_id x, ad_step x) \<notin> set (map (\<lambda>a. (ad_offer_id a, ad_step a)) (approval_decisions d)) \<and>
      has_offer d (ad_offer_id x) \<and> has_tenant d (ad_tenant_id x) \<and> has_user d (ad_actor_id x))"
| "row_ok d (Outbox_Row x) = (\<not> has_event d (ob_id x) \<and> has_tenant d (ob_tenant_id x))"
| "row_ok d (Delivery_Row x) =
     (nd_id x \<notin> set (map nd_id (deliveries d)) \<and>
      nd_outbox_event_id x \<notin> set (map nd_outbox_event_id (deliveries d)) \<and>
      has_event d (nd_outbox_event_id x) \<and> has_tenant d (nd_tenant_id x) \<and>
      has_user d (nd_recipient_id x))"
| "row_ok d (Audit_Row x) =
     (ae_id x \<notin> set (map ae_id (audit_events d)) \<and> has_tenant d (ae_tenant_id x))"

lemma list_all_grow:
  "list_all P xs \<Longrightarrow> (\<And>x. P x \<Longrightarrow> Q x) \<Longrightarrow> list_all Q xs"
  by (auto simp: list_all_iff)

text \<open>Inserting a row into a consistent database keeps it consistent exactly when the row fits.\<close>

lemma db_insert_ok:
  assumes "db_ok d"
  shows "db_ok (db_insert d r) \<longleftrightarrow> row_ok d r"
proof (cases r)
  case (User_Row x)
  then show ?thesis using assms
    by (cases "us_email x")
       (auto simp: db_ok_def table_ok_defs List.map_filter_def list_all_iff)
qed (use assms in \<open>auto simp: db_ok_def table_ok_defs list_all_iff\<close>)

end
