(* ===== verification/Session.thy ===== *)
theory Session
  imports Schema
begin

text \<open>
  The database session of a request or a worker (\<open>app/shared/database.py\<close>), the values a call
  draws from its environment, and the preservation of the schema's constraints by inserts and
  guarded updates.
\<close>

section \<open>What a call draws from its environment\<close>

text \<open>
  \<open>cx_uuid k\<close> is the \<open>k\<close>-th identifier the call draws (\<open>uuid4()\<close> and the column defaults that
  call it), \<open>cx_now\<close> what the code's own \<open>datetime.now(UTC)\<close> answers, \<open>cx_ts\<close> the clock reading of
  the column default \<open>now_utc\<close>, and \<open>cx_db_up\<close> whether the server accepts the flush: a lost
  connection is \<open>OperationalError\<close>.
\<close>

record ctx =
  cx_uuid :: "nat \<Rightarrow> string"
  cx_now :: time
  cx_ts :: time
  cx_db_up :: bool

section \<open>Sessions\<close>

record session =
  ss_db :: db
  ss_new :: "row list"

definition open_session :: "db \<Rightarrow> session" where
  "open_session d = \<lparr>ss_db = d, ss_new = []\<rparr>"

definition session_add :: "row \<Rightarrow> session \<Rightarrow> session" where
  "session_add r s = s\<lparr>ss_new := ss_new s @ [r]\<rparr>"

definition session_flush :: "ctx \<Rightarrow> session \<Rightarrow> exn + session" where
  "session_flush cx s =
    (let d = db_insert_all (ss_db s) (ss_new s)
     in if \<not> cx_db_up cx then Inl OperationalError
        else if db_ok d then Inr \<lparr>ss_db = d, ss_new = []\<rparr>
        else Inl IntegrityError)"

text \<open>A commit flushes what is pending; the transaction's database becomes the committed one.\<close>

definition session_commit :: "ctx \<Rightarrow> session \<Rightarrow> exn + db" where
  "session_commit cx s = (case session_flush cx s of Inl e \<Rightarrow> Inl e | Inr s' \<Rightarrow> Inr (ss_db s'))"

text \<open>
  \<open>get_session\<close>: the session of a request is closed when the handler ends; what was not committed
  is rolled back, so after an exception the database is the one the request started from.
\<close>

definition with_session :: "(session \<Rightarrow> exn + 'a \<times> db) \<Rightarrow> db \<Rightarrow> (exn + 'a) \<times> db" where
  "with_session h d =
    (case h (open_session d) of Inl e \<Rightarrow> (Inl e, d) | Inr (a, d') \<Rightarrow> (Inr a, d'))"

lemma open_session_simps [simp]: "ss_db (open_session d) = d" "ss_new (open_session d) = []"
  by (simp_all add: open_session_def)

lemma session_add_simps [simp]:
  "ss_db (session_add r s) = ss_db s" "ss_new (session_add r s) = ss_new s @ [r]"
  by (simp_all add: session_add_def)

lemma db_insert_all_append [simp]:
  "db_insert_all d (rs @ qs) = db_insert_all (db_insert_all d rs) qs"
  by (simp add: db_insert_all_def)

lemma session_commit_eq:
  "session_commit cx s =
    (let d = db_insert_all (ss_db s) (ss_new s)
     in if \<not> cx_db_up cx then Inl OperationalError else if db_ok d then Inr d else Inl IntegrityError)"
  by (simp add: session_commit_def session_flush_def Let_def)

lemma session_commitD:
  "session_commit cx s = Inr d \<Longrightarrow>
    d = db_insert_all (ss_db s) (ss_new s) \<and> db_ok d \<and> cx_db_up cx"
  by (simp add: session_commit_eq Let_def split: if_splits)

lemma session_commit_Inl:
  "session_commit cx s = Inl e \<Longrightarrow> e = OperationalError \<or> e = IntegrityError"
  by (simp add: session_commit_eq Let_def split: if_splits)

lemma session_flushD:
  "session_flush cx s = Inr s' \<Longrightarrow>
    s' = \<lparr>ss_db = db_insert_all (ss_db s) (ss_new s), ss_new = []\<rparr> \<and> db_ok (ss_db s') \<and> cx_db_up cx"
  by (auto simp: session_flush_def Let_def split: if_splits)

text \<open>Rows that fit one after the other are committed.\<close>

fun rows_ok :: "db \<Rightarrow> row list \<Rightarrow> bool" where
  "rows_ok d [] = True"
| "rows_ok d (r # rs) = (row_ok d r \<and> rows_ok (db_insert d r) rs)"

lemma db_insert_all_ok: "db_ok d \<Longrightarrow> rows_ok d rs \<Longrightarrow> db_ok (db_insert_all d rs)"
  by (induction rs arbitrary: d) (auto simp: db_insert_ok)

lemma session_commit_rows:
  "db_ok (ss_db s) \<Longrightarrow> rows_ok (ss_db s) (ss_new s) \<Longrightarrow> cx_db_up cx \<Longrightarrow>
    session_commit cx s = Inr (db_insert_all (ss_db s) (ss_new s))"
  by (simp add: session_commit_eq db_insert_all_ok)

lemma with_session_error: "fst (with_session h d) = Inl e \<Longrightarrow> snd (with_session h d) = d"
  by (auto simp: with_session_def split: sum.splits)

lemma with_session_Inr:
  "with_session h d = (Inr a, d') \<longleftrightarrow> h (open_session d) = Inr (a, d')"
  by (auto simp: with_session_def split: sum.splits)

lemma with_session_Inl:
  "with_session h d = (Inl e, d') \<longleftrightarrow> h (open_session d) = Inl e \<and> d' = d"
  by (auto simp: with_session_def split: sum.splits)

section \<open>Updates keep the constraints\<close>

text \<open>
  Each table's constraints read its rows through the key columns only, so an update that leaves
  those columns alone keeps them.
\<close>

lemma distinct_update_where [table_simps]:
  "(\<And>r. k (f r) = k r) \<Longrightarrow> distinct (map k (update_where P f rows)) = distinct (map k rows)"
  by (simp add: map_update_where)

lemma list_all_update_where [table_simps]:
  "(\<And>r. R (f r) = R r) \<Longrightarrow> list_all R (update_where P f rows) = list_all R rows"
  by (induction rows) (auto simp: update_where_def)

lemma set_map_update_where [table_simps]:
  "(\<And>r. k (f r) = k r) \<Longrightarrow> k ` set (update_where P f rows) = k ` set rows"
  by (metis list.set_map map_update_where)

lemma db_ok_update_candidates [inv_intros]:
  assumes "db_ok d"
    and "\<And>r. cr_id (f r) = cr_id r \<and> cr_tenant_id (f r) = cr_tenant_id r \<and>
      cr_requisition_id (f r) = cr_requisition_id r \<and> cr_email (f r) = cr_email r \<and>
      cr_created_by (f r) = cr_created_by r"
  shows "db_ok (d\<lparr>candidate_cases := update_where P f (candidate_cases d)\<rparr>)"
  using assms by (simp add: db_ok_def table_ok_defs table_simps)

lemma db_ok_update_offers [inv_intros]:
  assumes "db_ok d"
    and "\<And>r. or_id (f r) = or_id r \<and> or_tenant_id (f r) = or_tenant_id r \<and>
      or_candidate_case_id (f r) = or_candidate_case_id r \<and> or_created_by (f r) = or_created_by r"
  shows "db_ok (d\<lparr>offers := update_where P f (offers d)\<rparr>)"
  using assms by (simp add: db_ok_def table_ok_defs table_simps)

lemma db_ok_update_outbox [inv_intros]:
  assumes "db_ok d"
    and "\<And>r. ob_id (f r) = ob_id r \<and> ob_tenant_id (f r) = ob_tenant_id r"
  shows "db_ok (d\<lparr>outbox_events := update_where P f (outbox_events d)\<rparr>)"
  using assms by (simp add: db_ok_def table_ok_defs table_simps)

lemma db_ok_update_deliveries [inv_intros]:
  assumes "db_ok d"
    and "\<And>r. nd_id (f r) = nd_id r \<and> nd_outbox_event_id (f r) = nd_outbox_event_id r \<and>
      nd_tenant_id (f r) = nd_tenant_id r \<and> nd_recipient_id (f r) = nd_recipient_id r"
  shows "db_ok (d\<lparr>deliveries := update_where P f (deliveries d)\<rparr>)"
  using assms by (simp add: db_ok_def table_ok_defs table_simps)

lemma db_ok_update_policies [inv_intros]:
  assumes "db_ok d" and "\<And>r. rp_tenant_id (f r) = rp_tenant_id r"
  shows "db_ok (d\<lparr>retention_policies := update_where P f (retention_policies d)\<rparr>)"
  using assms by (simp add: db_ok_def table_ok_defs table_simps)

lemma db_ok_update_holds [inv_intros]:
  assumes "db_ok d"
    and "\<And>r. lh_candidate_case_id (f r) = lh_candidate_case_id r \<and>
      lh_tenant_id (f r) = lh_tenant_id r \<and> lh_created_by (f r) = lh_created_by r"
  shows "db_ok (d\<lparr>legal_holds := update_where P f (legal_holds d)\<rparr>)"
  using assms by (simp add: db_ok_def table_ok_defs table_simps)

lemma db_ok_update_calendar [inv_intros]:
  assumes "db_ok d"
    and "\<And>r. cs_id (f r) = cs_id r \<and> cs_tenant_id (f r) = cs_tenant_id r \<and>
      cs_interviewer_id (f r) = cs_interviewer_id r \<and> cs_token_hash (f r) = cs_token_hash r \<and>
      cs_created_by (f r) = cs_created_by r"
  shows "db_ok (d\<lparr>calendar_subscriptions := update_where P f (calendar_subscriptions d)\<rparr>)"
  using assms by (simp add: db_ok_def table_ok_defs table_simps)

text \<open>Deleting rows that nothing refers to keeps them as well.\<close>

lemma distinct_map_filter_mono: "distinct (map k rows) \<Longrightarrow> distinct (map k (filter P rows))"
  by (induction rows) auto

lemma db_ok_delete_holds [inv_intros]:
  "db_ok d \<Longrightarrow> db_ok (d\<lparr>legal_holds := filter P (legal_holds d)\<rparr>)"
  by (auto simp: db_ok_def table_ok_defs distinct_map_filter_mono list_all_iff)

lemma db_ok_delete_attachments [inv_intros]:
  "db_ok d \<Longrightarrow> db_ok (d\<lparr>attachments := filter P (attachments d)\<rparr>)"
  by (auto simp: db_ok_def table_ok_defs distinct_map_filter_mono list_all_iff)

section \<open>Projections of the constraints the handlers rely on\<close>

lemma db_ok_keys:
  assumes "db_ok d"
  shows "distinct (map cr_id (candidate_cases d))" "distinct (map or_id (offers d))"
    "distinct (map iv_id (interviews d))" "distinct (map ob_id (outbox_events d))"
    "distinct (map nd_id (deliveries d))" "distinct (map tn_id (tenants d))"
    "distinct (map us_id (users d))" "distinct (map rq_id (requisitions d))"
    "distinct (map nd_outbox_event_id (deliveries d))" "distinct (map cs_id (calendar_subscriptions d))"
    "distinct (map at_id (attachments d))" "distinct (map lh_candidate_case_id (legal_holds d))"
    "distinct (map rp_tenant_id (retention_policies d))"
  using assms by (simp_all add: db_ok_def table_ok_defs)

lemma db_ok_candidate_refs:
  "db_ok d \<Longrightarrow> r \<in> set (candidate_cases d) \<Longrightarrow>
    has_tenant d (cr_tenant_id r) \<and> has_requisition d (cr_requisition_id r) \<and>
    has_user d (cr_created_by r)"
  by (simp add: db_ok_def candidate_cases_ok_def list_all_iff)

lemma db_ok_requisition_refs:
  "db_ok d \<Longrightarrow> r \<in> set (requisitions d) \<Longrightarrow>
    has_tenant d (rq_tenant_id r) \<and> has_user d (rq_created_by r)"
  by (simp add: db_ok_def requisitions_ok_def list_all_iff)

lemma db_ok_membership_refs:
  "db_ok d \<Longrightarrow> m \<in> set (memberships d) \<Longrightarrow>
    has_tenant d (mb_tenant_id m) \<and> has_user d (mb_user_id m)"
  by (simp add: db_ok_def memberships_ok_def list_all_iff)

lemma db_ok_offer_refs:
  "db_ok d \<Longrightarrow> r \<in> set (offers d) \<Longrightarrow>
    has_tenant d (or_tenant_id r) \<and> has_candidate d (or_candidate_case_id r) \<and>
    has_user d (or_created_by r)"
  by (simp add: db_ok_def offers_ok_def list_all_iff)

lemma db_ok_interview_refs:
  "db_ok d \<Longrightarrow> r \<in> set (interviews d) \<Longrightarrow>
    has_tenant d (iv_tenant_id r) \<and> has_candidate d (iv_candidate_case_id r) \<and>
    has_user d (iv_interviewer_id r) \<and> has_user d (iv_created_by r)"
  by (simp add: db_ok_def interviews_ok_def list_all_iff)

lemma db_ok_outbox_refs:
  "db_ok d \<Longrightarrow> e \<in> set (outbox_events d) \<Longrightarrow> has_tenant d (ob_tenant_id e)"
  by (simp add: db_ok_def outbox_events_ok_def list_all_iff)

end
