(* ===== verification/Samples.thy ===== *)
theory Samples
  imports Session
begin

text \<open>
  One small consistent database and one call environment, on which the theorems of the component
  theories are instantiated: a tenant with a recruiter, a hiring manager, an administrator and an
  interviewer; three cases, one of them with a pending offer; one scheduled interview.
\<close>

definition sample_ctx :: ctx where
  "sample_ctx = \<lparr>cx_uuid = (\<lambda>k. if k = 0 then ''n0'' else if k = 1 then ''n1'' else ''n2''),
     cx_now = 1000, cx_ts = 1000, cx_db_up = True\<rparr>"

definition sample_ctx2 :: ctx where
  "sample_ctx2 = \<lparr>cx_uuid = (\<lambda>k. if k = 0 then ''m0'' else if k = 1 then ''m1'' else ''m2''),
     cx_now = 2000, cx_ts = 2000, cx_db_up = True\<rparr>"

definition sample_case :: "string \<Rightarrow> string \<Rightarrow> string \<Rightarrow> int \<Rightarrow> candidate_row" where
  "sample_case i mail st v = \<lparr>cr_id = i, cr_tenant_id = ''t'', cr_requisition_id = ''q'',
     cr_first_name = ''A'', cr_last_name = ''B'', cr_email = mail, cr_stage = st, cr_version = v,
     cr_created_by = ''r'', cr_created_at = 0, cr_anonymized_at = None, cr_terminal_at = None\<rparr>"

definition sample_offer :: offer_row where
  "sample_offer = \<lparr>or_id = ''o'', or_tenant_id = ''t'', or_candidate_case_id = ''c3'',
     or_title = ''T'', or_annual_salary = 1, or_currency = ''USD'',
     or_status = ''pending_approval'', or_approval_step = 1, or_version = 1, or_created_by = ''r''\<rparr>"

definition sample_interview :: interview_row where
  "sample_interview = \<lparr>iv_id = ''i'', iv_tenant_id = ''t'', iv_candidate_case_id = ''c2'',
     iv_interviewer_id = ''v'', iv_scheduled_at = 5000, iv_created_by = ''r'', iv_created_at = 0\<rparr>"

definition sample_db :: db where
  "sample_db = empty_db\<lparr>
     tenants := [\<lparr>tn_id = ''t'', tn_name = ''T'', tn_slug = ''t'', tn_created_at = 0\<rparr>],
     users := map (\<lambda>i. \<lparr>us_id = i, us_email = None, us_created_at = 0\<rparr>) [''r'', ''h'', ''a'', ''v''],
     memberships := map (\<lambda>(i, role). \<lparr>mb_id = i, mb_tenant_id = ''t'', mb_user_id = i, mb_role = role,
       mb_created_at = 0\<rparr>) [(''r'', ''recruiter''), (''h'', ''hiring_manager''),
         (''a'', ''tenant_admin''), (''v'', ''interviewer'')],
     requisitions := [\<lparr>rq_id = ''q'', rq_tenant_id = ''t'', rq_title = ''E'', rq_department = ''D'',
       rq_created_by = ''r'', rq_created_at = 0\<rparr>],
     candidate_cases := [sample_case ''c1'' ''x'' ''applied'' 1, sample_case ''c2'' ''y'' ''interviewing'' 3,
       sample_case ''c3'' ''z'' ''offer_pending_approval'' 4],
     interviews := [sample_interview],
     offers := [sample_offer]\<rparr>"

lemma sample_ctx_simps [simp]:
  "cx_uuid sample_ctx 0 = ''n0''" "cx_uuid sample_ctx (Suc 0) = ''n1''" "cx_db_up sample_ctx"
  "cx_uuid sample_ctx2 0 = ''m0''" "cx_uuid sample_ctx2 (Suc 0) = ''m1''" "cx_db_up sample_ctx2"
  by (simp_all add: sample_ctx_def sample_ctx2_def)

lemma sample_db_tables [simp]:
  "map tn_id (tenants sample_db) = [''t'']" "map tn_slug (tenants sample_db) = [''t'']"
  "map us_id (users sample_db) = [''r'', ''h'', ''a'', ''v'']"
  "map rq_id (requisitions sample_db) = [''q'']"
  "candidate_cases sample_db = [sample_case ''c1'' ''x'' ''applied'' 1,
     sample_case ''c2'' ''y'' ''interviewing'' 3, sample_case ''c3'' ''z'' ''offer_pending_approval'' 4]"
  "interviews sample_db = [sample_interview]" "offers sample_db = [sample_offer]"
  "approval_decisions sample_db = []" "outbox_events sample_db = []" "deliveries sample_db = []"
  "audit_events sample_db = []" "feedbacks sample_db = []" "legal_holds sample_db = []"
  "attachments sample_db = []" "calendar_subscriptions sample_db = []" "retention_policies sample_db = []"
  by (simp_all add: sample_db_def empty_db_def)

lemma sample_rows [simp]:
  "cr_id (sample_case i m st v) = i" "cr_tenant_id (sample_case i m st v) = ''t''"
  "cr_requisition_id (sample_case i m st v) = ''q''" "cr_email (sample_case i m st v) = m"
  "cr_stage (sample_case i m st v) = st" "cr_version (sample_case i m st v) = v"
  "cr_created_by (sample_case i m st v) = ''r''" "cr_terminal_at (sample_case i m st v) = None"
  "or_id sample_offer = ''o''" "or_tenant_id sample_offer = ''t''"
  "or_candidate_case_id sample_offer = ''c3''" "or_status sample_offer = ''pending_approval''"
  "or_approval_step sample_offer = 1" "or_version sample_offer = 1" "or_created_by sample_offer = ''r''"
  "iv_id sample_interview = ''i''" "iv_tenant_id sample_interview = ''t''"
  "iv_candidate_case_id sample_interview = ''c2''" "iv_interviewer_id sample_interview = ''v''"
  "iv_created_by sample_interview = ''r''"
  by (simp_all add: sample_case_def sample_offer_def sample_interview_def)

lemma sample_db_ok [simp]: "db_ok sample_db"
proof -
  have "users_ok sample_db" "memberships_ok sample_db" "requisitions_ok sample_db"
    by (simp_all add: users_ok_def memberships_ok_def requisitions_ok_def sample_db_def List.map_filter_def)
  then show ?thesis
    by (simp add: db_ok_def tenants_ok_def candidate_cases_ok_def
      retention_policies_ok_def legal_holds_ok_def attachments_ok_def interviews_ok_def
      calendar_subscriptions_ok_def feedbacks_ok_def offers_ok_def approval_decisions_ok_def
      outbox_events_ok_def deliveries_ok_def audit_events_ok_def)
qed

end
