(* ===== verification/Workflow.thy ===== *)
theory Workflow
  imports Schema
begin

text \<open>
  The candidate state machine (\<open>workflow/domain/candidate_state_machine.py\<close>) and the
  \<open>CandidateCase\<close> aggregate built on it (\<open>candidates/domain/candidate_case.py\<close>).
\<close>

section \<open>Stages\<close>

datatype candidate_stage =
    APPLIED
  | SCREENING
  | INTERVIEWING
  | OFFER_PENDING_APPROVAL
  | OFFER_APPROVED
  | OFFER_REJECTED
  | HIRED
  | REJECTED
  | WITHDRAWN

fun stage_value :: "candidate_stage \<Rightarrow> string" where
  "stage_value APPLIED = ''applied''"
| "stage_value SCREENING = ''screening''"
| "stage_value INTERVIEWING = ''interviewing''"
| "stage_value OFFER_PENDING_APPROVAL = ''offer_pending_approval''"
| "stage_value OFFER_APPROVED = ''offer_approved''"
| "stage_value OFFER_REJECTED = ''offer_rejected''"
| "stage_value HIRED = ''hired''"
| "stage_value REJECTED = ''rejected''"
| "stage_value WITHDRAWN = ''withdrawn''"

definition all_stages :: "candidate_stage list" where
  "all_stages = [APPLIED, SCREENING, INTERVIEWING, OFFER_PENDING_APPROVAL, OFFER_APPROVED,
     OFFER_REJECTED, HIRED, REJECTED, WITHDRAWN]"

text \<open>The enum constructor \<open>CandidateStage(value)\<close>: \<open>ValueError\<close> when no member has the value.\<close>

definition CandidateStage :: "string \<Rightarrow> exn + candidate_stage" where
  "CandidateStage v =
    (case List.find (\<lambda>st. stage_value st = v) all_stages of
       None \<Rightarrow> Inl (ValueError v) | Some st \<Rightarrow> Inr st)"

lemma set_all_stages: "set all_stages = UNIV"
proof -
  have "st \<in> set all_stages" for st by (cases st) (simp_all add: all_stages_def)
  then show ?thesis by auto
qed

lemma stage_value_inject [simp]: "stage_value a = stage_value b \<longleftrightarrow> a = b"
  by (cases a; cases b) simp_all

lemma CandidateStage_value [simp]: "CandidateStage (stage_value st) = Inr st"
  by (cases st) (simp_all add: CandidateStage_def all_stages_def)

lemma CandidateStage_Inr: "CandidateStage v = Inr st \<longleftrightarrow> v = stage_value st"
proof
  assume "CandidateStage v = Inr st"
  then have "List.find (\<lambda>st. stage_value st = v) all_stages = Some st"
    by (simp add: CandidateStage_def split: option.splits)
  then show "v = stage_value st" by (auto dest: find_SomeD)
qed simp

lemma CandidateStage_Inl: "CandidateStage v = Inl e \<longleftrightarrow> e = ValueError v \<and> (\<forall>st. v \<noteq> stage_value st)"
  by (auto simp: CandidateStage_def find_None set_all_stages split: option.splits dest: find_SomeD)

text \<open>The stages in declaration order; the workflow only moves forward in it.\<close>

definition stage_rank :: "candidate_stage \<Rightarrow> nat" where
  "stage_rank st = (case st of APPLIED \<Rightarrow> 0 | SCREENING \<Rightarrow> 1 | INTERVIEWING \<Rightarrow> 2
     | OFFER_PENDING_APPROVAL \<Rightarrow> 3 | OFFER_APPROVED \<Rightarrow> 4 | OFFER_REJECTED \<Rightarrow> 5 | HIRED \<Rightarrow> 6
     | REJECTED \<Rightarrow> 7 | WITHDRAWN \<Rightarrow> 8)"

lemma stage_rank_inject: "stage_rank a = stage_rank b \<Longrightarrow> a = b"
  by (cases a; cases b) (simp_all add: stage_rank_def)

instantiation candidate_stage :: linorder
begin

definition less_eq_candidate_stage :: "candidate_stage \<Rightarrow> candidate_stage \<Rightarrow> bool" where
  "less_eq_candidate_stage a b = (stage_rank a \<le> stage_rank b)"

definition less_candidate_stage :: "candidate_stage \<Rightarrow> candidate_stage \<Rightarrow> bool" where
  "less_candidate_stage a b = (stage_rank a < stage_rank b)"

instance
  by standard (auto simp: less_eq_candidate_stage_def less_candidate_stage_def
      dest: stage_rank_inject)

end

section \<open>Transitions\<close>

fun allowed_transitions :: "candidate_stage \<Rightarrow> candidate_stage set" where
  "allowed_transitions APPLIED = {SCREENING, REJECTED, WITHDRAWN}"
| "allowed_transitions SCREENING = {INTERVIEWING, REJECTED, WITHDRAWN}"
| "allowed_transitions INTERVIEWING = {OFFER_PENDING_APPROVAL, REJECTED, WITHDRAWN}"
| "allowed_transitions OFFER_PENDING_APPROVAL = {OFFER_APPROVED, OFFER_REJECTED, WITHDRAWN}"
| "allowed_transitions OFFER_APPROVED = {HIRED, WITHDRAWN}"
| "allowed_transitions OFFER_REJECTED = {REJECTED, WITHDRAWN}"
| "allowed_transitions HIRED = {}"
| "allowed_transitions REJECTED = {}"
| "allowed_transitions WITHDRAWN = {}"

definition transition_to :: "candidate_stage \<Rightarrow> candidate_stage \<Rightarrow> exn + candidate_stage" where
  "transition_to current target =
    (if target \<notin> allowed_transitions current
     then Inl (InvalidTransitionError (stage_value current) (stage_value target))
     else Inr target)"

lemma transition_to_Inr: "transition_to a b = Inr c \<longleftrightarrow> b \<in> allowed_transitions a \<and> c = b"
  by (auto simp: transition_to_def)

lemma allowed_forward: "b \<in> allowed_transitions a \<Longrightarrow> a < b"
  by (cases a) (auto simp: less_candidate_stage_def stage_rank_def)

text \<open>Paths of the state machine, and how a candidate can come to be hired.\<close>

inductive stage_path :: "candidate_stage \<Rightarrow> candidate_stage list \<Rightarrow> candidate_stage \<Rightarrow> bool" where
  path_nil: "stage_path a [] a"
| path_cons: "b \<in> allowed_transitions a \<Longrightarrow> stage_path b p c \<Longrightarrow> stage_path a (b # p) c"

inductive_simps stage_path_Nil_iff: "stage_path a [] c"
inductive_simps stage_path_Cons_iff: "stage_path a (b # p) c"

lemma stage_path_append:
  "stage_path a (p @ q) c \<longleftrightarrow> (\<exists>b. stage_path a p b \<and> stage_path b q c)"
  by (induction p arbitrary: a) (auto simp: stage_path_Nil_iff stage_path_Cons_iff)

lemma stage_path_forward: "stage_path a p c \<Longrightarrow> p \<noteq> [] \<Longrightarrow> a < c"
proof (induction rule: stage_path.induct)
  case (path_cons b a p c)
  then show ?case
    by (cases "p = []") (auto simp: stage_path_Nil_iff dest: allowed_forward less_trans)
qed simp

lemma allowed_into:
  "HIRED \<in> allowed_transitions a \<longleftrightarrow> a = OFFER_APPROVED"
  "OFFER_APPROVED \<in> allowed_transitions a \<longleftrightarrow> a = OFFER_PENDING_APPROVAL"
  "OFFER_REJECTED \<in> allowed_transitions a \<longleftrightarrow> a = OFFER_PENDING_APPROVAL"
  "OFFER_PENDING_APPROVAL \<in> allowed_transitions a \<longleftrightarrow> a = INTERVIEWING"
  "INTERVIEWING \<in> allowed_transitions a \<longleftrightarrow> a = SCREENING"
  "SCREENING \<in> allowed_transitions a \<longleftrightarrow> a = APPLIED"
  "APPLIED \<notin> allowed_transitions a"
  by (cases a; simp)+

lemma stage_path_snocE:
  assumes "stage_path a p c" "a \<noteq> c"
  obtains q b where "p = q @ [c]" "stage_path a q b" "c \<in> allowed_transitions b"
proof (cases p rule: rev_cases)
  case Nil
  with assms show ?thesis by (simp add: stage_path_Nil_iff)
next
  case (snoc q x)
  with assms(1) that show ?thesis
    by (auto simp: stage_path_append stage_path_Cons_iff stage_path_Nil_iff)
qed

text \<open>
  A case's version counts its transitions; since a path is at most five steps long, the versions
  a stage can carry are known.
\<close>

fun stage_versions :: "candidate_stage \<Rightarrow> int set" where
  "stage_versions APPLIED = {1}"
| "stage_versions SCREENING = {2}"
| "stage_versions INTERVIEWING = {3}"
| "stage_versions OFFER_PENDING_APPROVAL = {4}"
| "stage_versions OFFER_APPROVED = {5}"
| "stage_versions OFFER_REJECTED = {5}"
| "stage_versions HIRED = {6}"
| "stage_versions REJECTED = {2, 3, 4, 6}"
| "stage_versions WITHDRAWN = {2, 3, 4, 5, 6}"

lemma stage_versions_step:
  "v \<in> stage_versions a \<Longrightarrow> b \<in> allowed_transitions a \<Longrightarrow> v + 1 \<in> stage_versions b"
  by (cases a) auto

lemma stage_versions_bound: "v \<in> stage_versions a \<Longrightarrow> 1 \<le> v \<and> v \<le> 6"
  by (cases a) auto

text \<open>
  Claim C12 (safety): the only way from \<open>applied\<close> to \<open>hired\<close> leads through the whole pipeline:
  screening, interviewing, an offer waiting for approval, an approved offer.
\<close>

theorem hired_only_through_approval:
  assumes "stage_path APPLIED p HIRED"
  shows "p = [SCREENING, INTERVIEWING, OFFER_PENDING_APPROVAL, OFFER_APPROVED, HIRED]"
proof -
  note E = stage_path_snocE
  obtain p1 b1 where 1: "p = p1 @ [HIRED]" "stage_path APPLIED p1 b1" "HIRED \<in> allowed_transitions b1"
    using E [OF assms] by auto
  obtain p2 b2 where 2: "p1 = p2 @ [OFFER_APPROVED]" "stage_path APPLIED p2 b2" "OFFER_APPROVED \<in> allowed_transitions b2"
    using E [OF 1(2)] 1(3) by (auto simp: allowed_into)
  obtain p3 b3 where 3: "p2 = p3 @ [OFFER_PENDING_APPROVAL]" "stage_path APPLIED p3 b3"
    "OFFER_PENDING_APPROVAL \<in> allowed_transitions b3" using E [OF 2(2)] 2(3) by (auto simp: allowed_into)
  obtain p4 b4 where 4: "p3 = p4 @ [INTERVIEWING]" "stage_path APPLIED p4 b4" "INTERVIEWING \<in> allowed_transitions b4"
    using E [OF 3(2)] 3(3) by (auto simp: allowed_into)
  obtain p5 b5 where 5: "p4 = p5 @ [SCREENING]" "stage_path APPLIED p5 b5" "SCREENING \<in> allowed_transitions b5"
    using E [OF 4(2)] 4(3) by (auto simp: allowed_into)
  have "p5 = []" using stage_path_forward [OF 5(2)] 5(3) by (auto simp: allowed_into)
  with 1 2 3 4 5 show ?thesis by simp
qed

theorem hired_only_through_approval_witness:
  "stage_path APPLIED [SCREENING, INTERVIEWING, OFFER_PENDING_APPROVAL, OFFER_APPROVED, HIRED] HIRED \<and>
   \<not> stage_path APPLIED [SCREENING, INTERVIEWING, HIRED] HIRED"
  using hired_only_through_approval [of "[SCREENING, INTERVIEWING, HIRED]"]
  by (auto simp: stage_path_Cons_iff stage_path_Nil_iff)

text \<open>
  The workflow only moves forward. A path of the state machine visits
  ever later stages, has at most five steps, and cannot leave a final stage.
\<close>

lemma stage_paths_bounded:
  assumes "stage_path a p c"
  shows "sorted_wrt (<) (a # p) \<and> length p \<le> 5 \<and> (a \<in> {HIRED, REJECTED, WITHDRAWN} \<longrightarrow> p = [])"
proof -
  have v: "\<forall>v \<in> stage_versions a. v + int (length p) \<in> stage_versions c"
    using assms
  proof (induction rule: stage_path.induct)
    case (path_cons b a p c)
    have "(v + 1) + int (length p) \<in> stage_versions c" if "v \<in> stage_versions a" for v
      using path_cons.IH stage_versions_step [OF that path_cons.hyps(1)] by blast
    then show ?case by (simp add: add.assoc)
  qed simp
  obtain u where "u \<in> stage_versions a" by (cases a) auto
  with v have "1 \<le> u" "u + int (length p) \<le> 6" using stage_versions_bound by blast+
  then have "length p \<le> 5" by linarith
  moreover from assms have "sorted_wrt (<) (a # p)"
  proof (induction rule: stage_path.induct)
    case (path_cons b a p c)
    then show ?case using allowed_forward [OF path_cons(1)] by (auto dest: less_trans)
  qed simp
  moreover from assms have "a \<in> {HIRED, REJECTED, WITHDRAWN} \<longrightarrow> p = []" by cases auto
  ultimately show ?thesis by blast
qed

lemma stage_paths_bounded_witness:
  "sorted_wrt (<) [SCREENING, INTERVIEWING, OFFER_PENDING_APPROVAL, WITHDRAWN]"
  using stage_paths_bounded [of SCREENING "[INTERVIEWING, OFFER_PENDING_APPROVAL, WITHDRAWN]" WITHDRAWN]
  by (simp add: stage_path_Cons_iff stage_path_Nil_iff)

text \<open>
  The enum constructor is the inverse of \<open>value\<close>, and every other string
  raises \<open>ValueError\<close>.
\<close>

lemma stage_value_roundtrip:
  "(CandidateStage v = Inr st \<longleftrightarrow> v = stage_value st) \<and>
   (CandidateStage v = Inl e \<longleftrightarrow> e = ValueError v \<and> v \<notin> range stage_value)"
  by (auto simp: CandidateStage_Inr CandidateStage_Inl)

section \<open>The aggregate\<close>

record candidate_case =
  cc_id :: string
  cc_tenant_id :: string
  cc_requisition_id :: string
  cc_stage :: candidate_stage
  cc_version :: int

definition candidate_open :: "string \<Rightarrow> string \<Rightarrow> string \<Rightarrow> candidate_case" where
  "candidate_open new_id tenant_id requisition_id =
    \<lparr>cc_id = new_id, cc_tenant_id = tenant_id, cc_requisition_id = requisition_id,
     cc_stage = APPLIED, cc_version = 1\<rparr>"

definition candidate_transition :: "candidate_case \<Rightarrow> candidate_stage \<Rightarrow> exn + candidate_case" where
  "candidate_transition c target =
    (case transition_to (cc_stage c) target of
       Inl e \<Rightarrow> Inl e
     | Inr st \<Rightarrow> Inr \<lparr>cc_id = cc_id c, cc_tenant_id = cc_tenant_id c,
         cc_requisition_id = cc_requisition_id c, cc_stage = st, cc_version = cc_version c + 1\<rparr>)"

lemma candidate_transition_Inr:
  "candidate_transition c target = Inr c' \<longleftrightarrow>
    target \<in> allowed_transitions (cc_stage c) \<and>
    c' = c\<lparr>cc_stage := target, cc_version := cc_version c + 1\<rparr>"
  by (cases c) (auto simp: candidate_transition_def transition_to_def)

lemma candidate_transition_Inl:
  "candidate_transition c target = Inl e \<longleftrightarrow>
    target \<notin> allowed_transitions (cc_stage c) \<and>
    e = InvalidTransitionError (stage_value (cc_stage c)) (stage_value target)"
  by (auto simp: candidate_transition_def transition_to_def)

end
