(* ===== verification/Version_Guard.thy ===== *)
theory Version_Guard
  imports Prelude
begin

text \<open>
  The interface behind the optimistic concurrency control of the candidate and the offer
  repositories: a store that writes an aggregate only while the stored version is the expected one
  and answers whether it did. The laws are proved of both repositories; what follows from them
  (a stale writer is refused, exactly one of several writers that read the same version wins) is
  proved once, here.
\<close>

text \<open>Writers that come one after the other, each with the version it read.\<close>

fun store_all :: "('a \<Rightarrow> int \<Rightarrow> 's \<Rightarrow> bool \<times> 's) \<Rightarrow> ('a \<times> int) list \<Rightarrow> 's \<Rightarrow> bool list \<times> 's" where
  "store_all store [] s = ([], s)"
| "store_all store ((a, v) # ws) s =
     (let (ok, s1) = store a v s; (oks, s2) = store_all store ws s1 in (ok # oks, s2))"

definition winners :: "bool list \<Rightarrow> nat" where
  "winners oks = length (filter (\<lambda>b. b) oks)"

lemma winners_simps [simp]:
  "winners [] = 0" "winners (True # bs) = Suc (winners bs)" "winners (False # bs) = winners bs"
  by (simp_all add: winners_def)

locale version_guard =
  fixes wf :: "'s \<Rightarrow> bool"
    and load :: "'k \<Rightarrow> 's \<Rightarrow> 'a option"
    and key :: "'a \<Rightarrow> 'k"
    and version :: "'a \<Rightarrow> int"
    and merge :: "'a \<Rightarrow> 'a \<Rightarrow> 'a"
    and store :: "'a \<Rightarrow> int \<Rightarrow> 's \<Rightarrow> bool \<times> 's"
  assumes store_wf: "wf s \<Longrightarrow> wf (snd (store a v s))"
    and store_accepts: "wf s \<Longrightarrow> load (key a) s = Some b \<Longrightarrow> version b = v \<Longrightarrow> fst (store a v s)"
    and store_guard: "wf s \<Longrightarrow> fst (store a v s) \<Longrightarrow> \<exists>b. load (key a) s = Some b \<and> version b = v"
    and store_load: "wf s \<Longrightarrow> fst (store a v s) \<Longrightarrow> load (key a) s = Some b \<Longrightarrow>
      load (key a) (snd (store a v s)) = Some (merge b a)"
    and store_reject: "wf s \<Longrightarrow> \<not> fst (store a v s) \<Longrightarrow> snd (store a v s) = s"
    and store_frame: "wf s \<Longrightarrow> k \<noteq> key a \<Longrightarrow> load k (snd (store a v s)) = load k s"
    and version_merge: "version (merge b a) = version a"
begin

lemma store_iff:
  "wf s \<Longrightarrow> fst (store a v s) \<longleftrightarrow> (\<exists>b. load (key a) s = Some b \<and> version b = v)"
  using store_accepts store_guard by metis

lemma stale_refused:
  assumes "wf s" "load (key a) s = Some b" "version b \<noteq> v"
  shows "store a v s = (False, s)"
proof -
  have "\<not> fst (store a v s)" using assms by (simp add: store_iff)
  with store_reject [OF assms(1) this] show ?thesis by (cases "store a v s") simp
qed

lemma missing_refused:
  assumes "wf s" "load (key a) s = None"
  shows "store a v s = (False, s)"
proof -
  have "\<not> fst (store a v s)" using assms by (simp add: store_iff)
  with store_reject [OF assms(1) this] show ?thesis by (cases "store a v s") simp
qed

text \<open>No lost update: once a writer has moved the version on, another one that read it is refused.\<close>

lemma no_lost_update:
  assumes "wf s" "fst (store a v s)" "version a \<noteq> v" "key b = key a"
  shows "store b v (snd (store a v s)) = (False, snd (store a v s))"
proof -
  obtain c where "load (key a) s = Some c" using store_guard assms(1,2) by blast
  with store_load [OF assms(1,2)] have "load (key b) (snd (store a v s)) = Some (merge c a)"
    using assms(4) by simp
  then show ?thesis using stale_refused [OF store_wf [OF assms(1)]] assms(3) by (simp add: version_merge)
qed

lemma losers:
  assumes "wf s" "load k s = Some b" "version b \<noteq> v"
    and "\<And>a u. (a, u) \<in> set ws \<Longrightarrow> key a = k \<and> u = v"
  shows "winners (fst (store_all store ws s)) = 0 \<and> snd (store_all store ws s) = s"
  using assms(4)
proof (induction ws)
  case (Cons w ws)
  obtain a u where w: "w = (a, u)" by (cases w)
  with Cons.prems have "key a = k" "u = v" by auto
  then have "store a u s = (False, s)" using stale_refused assms(1-3) by metis
  moreover have "winners (fst (store_all store ws s)) = 0 \<and> snd (store_all store ws s) = s"
    using Cons by auto
  ultimately show ?case by (simp add: w split_beta)
qed simp

text \<open>Of any number of writers that read version \<open>v\<close>, exactly the first one wins.\<close>

lemma one_winner:
  assumes "wf s" "load k s = Some b" "version b = v" "ws \<noteq> []"
    and w: "\<And>a u. (a, u) \<in> set ws \<Longrightarrow> key a = k \<and> u = v \<and> version a \<noteq> v"
  shows "winners (fst (store_all store ws s)) = 1"
    and "load k (snd (store_all store ws s)) = Some (merge b (fst (hd ws)))"
proof -
  obtain a ws' where ws: "ws = (a, v) # ws'" using assms(4) w by (cases ws) auto
  have a: "key a = k" "version a \<noteq> v" using w ws by auto
  have ok: "fst (store a v s)" using store_accepts assms(1-3) a by metis
  define s1 where "s1 = snd (store a v s)"
  have l: "load k s1 = Some (merge b a)" using store_load [OF assms(1) ok] assms(2) a by (simp add: s1_def)
  have "winners (fst (store_all store ws' s1)) = 0 \<and> snd (store_all store ws' s1) = s1"
    using w ws a(2) by (intro losers [OF _ l]) (auto simp: s1_def store_wf assms(1) version_merge)
  moreover have st: "store a v s = (True, s1)" using ok by (cases "store a v s") (simp add: s1_def)
  ultimately show "winners (fst (store_all store ws s)) = 1"
    "load k (snd (store_all store ws s)) = Some (merge b (fst (hd ws)))"
    using l by (simp_all add: ws split_beta)
qed

end

end
