(* ===== verification/Candidates.thy ===== *)
theory Candidates
  imports Samples Workflow Version_Guard
begin

text \<open>
  The candidates module: the SQLAlchemy repositories of
  \<open>candidates/infrastructure/sqlalchemy_repository.py\<close> and the handlers of
  \<open>candidates/application\<close>. A handler is a function of the call's environment, its command and a
  session; its result is the exception it raises or its value with the committed database.
\<close>

section \<open>Repositories\<close>

definition candidate_to_domain :: "candidate_row \<Rightarrow> exn + candidate_case" where
  "candidate_to_domain r =
    (case CandidateStage (cr_stage r) of
       Inl e \<Rightarrow> Inl e
     | Inr st \<Rightarrow> Inr \<lparr>cc_id = cr_id r, cc_tenant_id = cr_tenant_id r,
         cc_requisition_id = cr_requisition_id r, cc_stage = st, cc_version = cr_version r\<rparr>)"

definition candidate_get :: "string \<Rightarrow> string \<Rightarrow> session \<Rightarrow> exn + candidate_case option" where
  "candidate_get candidate_id tenant_id s =
    (case List.find (\<lambda>r. cr_id r = candidate_id \<and> cr_tenant_id r = tenant_id)
        (candidate_cases (ss_db s)) of
       None \<Rightarrow> Inr None
     | Some r \<Rightarrow> map_sum id Some (candidate_to_domain r))"

definition candidate_email_exists :: "string \<Rightarrow> string \<Rightarrow> session \<Rightarrow> bool" where
  "candidate_email_exists tenant_id email s =
    (List.find (\<lambda>r. cr_tenant_id r = tenant_id \<and> cr_email r = email) (candidate_cases (ss_db s)) \<noteq> None)"

definition candidate_add ::
  "ctx \<Rightarrow> candidate_case \<Rightarrow> string \<Rightarrow> string \<Rightarrow> string \<Rightarrow> string \<Rightarrow> session \<Rightarrow> session" where
  "candidate_add cx c first_name last_name email created_by s =
    session_add (Candidate_Row
      \<lparr>cr_id = cc_id c, cr_tenant_id = cc_tenant_id c, cr_requisition_id = cc_requisition_id c,
       cr_first_name = first_name, cr_last_name = last_name, cr_email = email,
       cr_stage = stage_value (cc_stage c), cr_version = cc_version c, cr_created_by = created_by,
       cr_created_at = cx_ts cx, cr_anonymized_at = None, cr_terminal_at = None\<rparr>) s"

text \<open>The guarded update: \<open>terminal_at\<close> is stamped exactly when the new stage is terminal.\<close>

definition candidate_guard :: "candidate_case \<Rightarrow> int \<Rightarrow> candidate_row \<Rightarrow> bool" where
  "candidate_guard c expected_version r =
    (cr_id r = cc_id c \<and> cr_tenant_id r = cc_tenant_id c \<and> cr_version r = expected_version)"

definition candidate_set_stage :: "ctx \<Rightarrow> candidate_case \<Rightarrow> candidate_row \<Rightarrow> candidate_row" where
  "candidate_set_stage cx c r = r\<lparr>
     cr_stage := stage_value (cc_stage c),
     cr_version := cc_version c,
     cr_terminal_at :=
       (if stage_value (cc_stage c) \<in> {''rejected'', ''withdrawn''} then Some (cx_now cx) else None)\<rparr>"

definition candidate_store :: "ctx \<Rightarrow> candidate_case \<Rightarrow> int \<Rightarrow> session \<Rightarrow> bool \<times> session" where
  "candidate_store cx c expected_version s =
    (let d = ss_db s; P = candidate_guard c expected_version
     in (rowcount P (candidate_cases d) = 1,
         s\<lparr>ss_db := d\<lparr>candidate_cases :=
           update_where P (candidate_set_stage cx c) (candidate_cases d)\<rparr>\<rparr>))"

definition requisition_exists :: "string \<Rightarrow> string \<Rightarrow> session \<Rightarrow> bool" where
  "requisition_exists requisition_id tenant_id s =
    (List.find (\<lambda>r. rq_id r = requisition_id \<and> rq_tenant_id r = tenant_id)
       (requisitions (ss_db s)) \<noteq> None)"

definition audit_candidate_created ::
  "ctx \<Rightarrow> string \<Rightarrow> candidate_case \<Rightarrow> string \<Rightarrow> string \<Rightarrow> session \<Rightarrow> session" where
  "audit_candidate_created cx event_id c actor_id correlation_id s =
    session_add (Audit_Row
      \<lparr>ae_id = event_id, ae_tenant_id = cc_tenant_id c, ae_actor_id = actor_id,
       ae_action = ''candidate_case.created'', ae_aggregate_type = ''candidate_case'',
       ae_aggregate_id = cc_id c, ae_correlation_id = correlation_id,
       ae_metadata = [(''requisition_id'', JStr (cc_requisition_id c)),
                      (''stage'', JStr (stage_value (cc_stage c)))],
       ae_created_at = cx_ts cx\<rparr>) s"

definition stage_transitioned_event ::
  "ctx \<Rightarrow> string \<Rightarrow> candidate_case \<Rightarrow> string \<Rightarrow> string \<Rightarrow> string \<Rightarrow> audit_row" where
  "stage_transitioned_event cx event_id c prior_stage actor_id correlation_id =
      \<lparr>ae_id = event_id, ae_tenant_id = cc_tenant_id c, ae_actor_id = actor_id,
       ae_action = ''candidate_case.stage_transitioned'', ae_aggregate_type = ''candidate_case'',
       ae_aggregate_id = cc_id c, ae_correlation_id = correlation_id,
       ae_metadata = [(''from_stage'', JStr prior_stage),
                      (''to_stage'', JStr (stage_value (cc_stage c))),
                      (''version'', JInt (cc_version c))],
       ae_created_at = cx_ts cx\<rparr>"

definition audit_stage_transitioned ::
  "ctx \<Rightarrow> string \<Rightarrow> candidate_case \<Rightarrow> string \<Rightarrow> string \<Rightarrow> string \<Rightarrow> session \<Rightarrow> session" where
  "audit_stage_transitioned cx event_id c prior_stage actor_id correlation_id s =
    session_add (Audit_Row (stage_transitioned_event cx event_id c prior_stage actor_id correlation_id)) s"

section \<open>Creating a candidate case\<close>

record create_candidate_command =
  kc_tenant_id :: string
  kc_requisition_id :: string
  kc_first_name :: string
  kc_last_name :: string
  kc_email :: string
  kc_actor_id :: string
  kc_correlation_id :: string

record created_candidate =
  kd_candidate :: candidate_case
  kd_first_name :: string
  kd_last_name :: string
  kd_email :: string

definition normalize_email :: "string \<Rightarrow> string" where
  "normalize_email e = py_lower (py_strip e)"

definition create_candidate ::
  "ctx \<Rightarrow> create_candidate_command \<Rightarrow> session \<Rightarrow> exn + created_candidate \<times> db" where
  "create_candidate cx c s =
    (if \<not> requisition_exists (kc_requisition_id c) (kc_tenant_id c) s
     then Inl (RequisitionNotFoundError (kc_requisition_id c))
     else
       let email = normalize_email (kc_email c) in
       if candidate_email_exists (kc_tenant_id c) email s
       then Inl CandidateEmailAlreadyExistsError
       else
         let candidate = candidate_open (cx_uuid cx 0) (kc_tenant_id c) (kc_requisition_id c);
             s1 = candidate_add cx candidate (py_strip (kc_first_name c)) (py_strip (kc_last_name c))
                    email (kc_actor_id c) s;
             s2 = audit_candidate_created cx (cx_uuid cx 1) candidate (kc_actor_id c)
                    (kc_correlation_id c) s1
         in case session_commit cx s2 of
              Inl e \<Rightarrow> Inl e
            | Inr d \<Rightarrow> Inr (\<lparr>kd_candidate = candidate, kd_first_name = py_strip (kc_first_name c),
                kd_last_name = py_strip (kc_last_name c), kd_email = email\<rparr>, d))"

section \<open>Moving a candidate case to another stage\<close>

record transition_command =
  tc_candidate_id :: string
  tc_tenant_id :: string
  tc_target_stage :: string
  tc_expected_version :: int
  tc_actor_id :: string
  tc_correlation_id :: string

text \<open>
  The handler in two parts: what it decides from the case it read, and what it then writes. The
  split matters when other sessions run between the read and the write.
\<close>

definition transition_decide ::
  "transition_command \<Rightarrow> candidate_case option \<Rightarrow> exn + candidate_case \<times> candidate_case" where
  "transition_decide c found =
    (case found of
       None \<Rightarrow> Inl (CandidateNotFoundError (tc_candidate_id c))
     | Some candidate \<Rightarrow>
         if cc_version candidate \<noteq> tc_expected_version c
         then Inl (ConcurrencyConflictError (tc_candidate_id c))
         else (case CandidateStage (tc_target_stage c) of
             Inl e \<Rightarrow> Inl e
           | Inr target \<Rightarrow>
               (case candidate_transition candidate target of
                  Inl e \<Rightarrow> Inl e
                | Inr transitioned \<Rightarrow> Inr (candidate, transitioned))))"

definition transition_persist ::
  "ctx \<Rightarrow> transition_command \<Rightarrow> candidate_case \<Rightarrow> candidate_case \<Rightarrow> session \<Rightarrow> exn + candidate_case \<times> db" where
  "transition_persist cx c candidate transitioned s =
    (case candidate_store cx transitioned (tc_expected_version c) s of
       (ok, s1) \<Rightarrow>
         if \<not> ok then Inl (ConcurrencyConflictError (tc_candidate_id c))
         else
           let s2 = audit_stage_transitioned cx (cx_uuid cx 0) transitioned
                      (stage_value (cc_stage candidate)) (tc_actor_id c) (tc_correlation_id c) s1
           in case session_commit cx s2 of
                Inl e \<Rightarrow> Inl e
              | Inr d \<Rightarrow> Inr (transitioned, d))"

definition transition_candidate ::
  "ctx \<Rightarrow> transition_command \<Rightarrow> session \<Rightarrow> exn + candidate_case \<times> db" where
  "transition_candidate cx c s =
    (case candidate_get (tc_candidate_id c) (tc_tenant_id c) s of
       Inl e \<Rightarrow> Inl e
     | Inr found \<Rightarrow>
         (case transition_decide c found of
            Inl e \<Rightarrow> Inl e
          | Inr (candidate, transitioned) \<Rightarrow> transition_persist cx c candidate transitioned s))"

section \<open>Listing\<close>

record list_query =
  lq_tenant_id :: string
  lq_stage :: "string option"
  lq_requisition_id :: "string option"
  lq_cursor :: "string option"
  lq_limit :: nat

record list_item =
  li_id :: string
  li_requisition_id :: string
  li_first_name :: string
  li_last_name :: string
  li_email :: string
  li_stage :: string
  li_version :: int

record candidate_page =
  pg_items :: "list_item list"
  pg_next_cursor :: "string option"
  pg_total :: nat

text \<open>\<open>if value: filters.append(...)\<close>: an absent or empty value adds no condition.\<close>

definition when_given :: "string option \<Rightarrow> (string \<Rightarrow> bool) \<Rightarrow> bool" where
  "when_given v P = (case v of None \<Rightarrow> True | Some x \<Rightarrow> x = [] \<or> P x)"

definition list_filters :: "list_query \<Rightarrow> candidate_row \<Rightarrow> bool" where
  "list_filters q r =
    (cr_tenant_id r = lq_tenant_id q \<and>
     when_given (lq_stage q) (\<lambda>x. cr_stage r = x) \<and>
     when_given (lq_requisition_id q) (\<lambda>x. cr_requisition_id r = x))"

definition to_list_item :: "candidate_row \<Rightarrow> list_item" where
  "to_list_item r = \<lparr>li_id = cr_id r, li_requisition_id = cr_requisition_id r,
     li_first_name = cr_first_name r, li_last_name = cr_last_name r, li_email = cr_email r,
     li_stage = cr_stage r, li_version = cr_version r\<rparr>"

text \<open>\<open>page[-1]\<close> raises \<open>IndexError\<close> on an empty page, which a limit of zero would make it.\<close>

definition candidate_list_page :: "list_query \<Rightarrow> session \<Rightarrow> exn + candidate_page" where
  "candidate_list_page q s =
    (let rows = candidate_cases (ss_db s);
         records = take (lq_limit q + 1) (sort_key cr_id
           (filter (\<lambda>r. list_filters q r \<and> when_given (lq_cursor q) (\<lambda>x. x < cr_id r)) rows));
         page = take (lq_limit q) records;
         total = length (filter (list_filters q) rows)
     in if length records > lq_limit q
        then if page = [] then Inl IndexError
             else Inr \<lparr>pg_items = map to_list_item page, pg_next_cursor = Some (cr_id (last page)),
                    pg_total = total\<rparr>
        else Inr \<lparr>pg_items = map to_list_item page, pg_next_cursor = None, pg_total = total\<rparr>)"

definition list_candidates :: "list_query \<Rightarrow> session \<Rightarrow> exn + candidate_page" where
  "list_candidates q s = candidate_list_page q s"

section \<open>The repository as a version guard\<close>

definition candidate_load :: "string \<times> string \<Rightarrow> session \<Rightarrow> candidate_case option" where
  "candidate_load k s = (case candidate_get (fst k) (snd k) s of Inl e \<Rightarrow> None | Inr found \<Rightarrow> found)"

definition candidate_key :: "candidate_case \<Rightarrow> string \<times> string" where
  "candidate_key c = (cc_id c, cc_tenant_id c)"

text \<open>The stored row keeps its requisition: the guarded update does not write it.\<close>

definition candidate_merge :: "candidate_case \<Rightarrow> candidate_case \<Rightarrow> candidate_case" where
  "candidate_merge stored c = c\<lparr>cc_requisition_id := cc_requisition_id stored\<rparr>"

definition stages_valid :: "db \<Rightarrow> bool" where
  "stages_valid d = list_all (\<lambda>r. is_ok (CandidateStage (cr_stage r))) (candidate_cases d)"

definition candidates_wf :: "session \<Rightarrow> bool" where
  "candidates_wf s =
    (distinct (map cr_id (candidate_cases (ss_db s))) \<and> stages_valid (ss_db s))"

text \<open>What the row of a case reads as, once its stage is a member of the enum.\<close>

definition row_case :: "candidate_row \<Rightarrow> candidate_stage \<Rightarrow> candidate_case" where
  "row_case r st = \<lparr>cc_id = cr_id r, cc_tenant_id = cr_tenant_id r,
     cc_requisition_id = cr_requisition_id r, cc_stage = st, cc_version = cr_version r\<rparr>"

lemma row_case_simps [simp]:
  "cc_id (row_case r st) = cr_id r" "cc_tenant_id (row_case r st) = cr_tenant_id r"
  "cc_requisition_id (row_case r st) = cr_requisition_id r" "cc_stage (row_case r st) = st"
  "cc_version (row_case r st) = cr_version r"
  by (simp_all add: row_case_def)

lemma candidate_to_domain_eq: "cr_stage r = stage_value st \<Longrightarrow> candidate_to_domain r = Inr (row_case r st)"
  by (simp add: candidate_to_domain_def row_case_def)

lemma candidate_to_domain_Inr:
  "candidate_to_domain r = Inr c \<longleftrightarrow> cr_stage r = stage_value (cc_stage c) \<and> c = row_case r (cc_stage c)"
  by (auto simp: candidate_to_domain_def row_case_def CandidateStage_Inr split: sum.splits)
lemma candidate_get_Some:
  "candidate_get i t s = Inr (Some c) \<Longrightarrow>
    \<exists>r \<in> set (candidate_cases (ss_db s)). cr_id r = i \<and> cr_tenant_id r = t \<and>
      cr_stage r = stage_value (cc_stage c) \<and> c = row_case r (cc_stage c)"
  by (auto simp: candidate_get_def candidate_to_domain_Inr map_sum_def split: option.splits sum.splits
      dest!: find_SomeD)

lemma candidate_get_row:
  assumes "distinct (map cr_id (candidate_cases (ss_db s)))" "r \<in> set (candidate_cases (ss_db s))"
    "cr_stage r = stage_value st"
  shows "candidate_get (cr_id r) (cr_tenant_id r) s = Inr (Some (row_case r st))"
  using find_key [OF assms(1,2) refl, of "\<lambda>q. cr_tenant_id q = cr_tenant_id r"] assms(3)
  by (simp add: candidate_get_def candidate_to_domain_eq)

lemma candidate_get_None:
  "candidate_get i t s = Inr None \<longleftrightarrow>
    (\<forall>r \<in> set (candidate_cases (ss_db s)). \<not> (cr_id r = i \<and> cr_tenant_id r = t))"
  by (auto simp: candidate_get_def find_None map_sum_def split: option.splits sum.splits dest: find_SomeD)

lemma stages_validD: "stages_valid d \<Longrightarrow> r \<in> set (candidate_cases d) \<Longrightarrow> \<exists>st. cr_stage r = stage_value st"
  by (auto simp: stages_valid_def list_all_iff is_ok_iff CandidateStage_Inr)

lemma candidate_load_row:
  assumes "candidates_wf s" "r \<in> set (candidate_cases (ss_db s))" "cr_stage r = stage_value st"
  shows "candidate_load (cr_id r, cr_tenant_id r) s = Some (row_case r st)"
  using assms candidate_get_row by (simp add: candidate_load_def candidates_wf_def)

lemma candidate_load_Some:
  "candidate_load k s = Some c \<Longrightarrow>
    \<exists>r \<in> set (candidate_cases (ss_db s)). cr_id r = fst k \<and> cr_tenant_id r = snd k \<and>
      cr_stage r = stage_value (cc_stage c) \<and> c = row_case r (cc_stage c)"
  unfolding candidate_load_def by (rule candidate_get_Some) (auto split: sum.splits)

lemma candidate_guard_count:
  assumes "distinct (map cr_id rows)"
  shows "rowcount (candidate_guard c v) rows = 1 \<longleftrightarrow> (\<exists>r \<in> set rows. candidate_guard c v r)"
proof -
  have "candidate_guard c v = (\<lambda>r. cr_id r = cc_id c \<and> cr_tenant_id r = cc_tenant_id c \<and> cr_version r = v)"
    by (auto simp: candidate_guard_def)
  with rowcount_key [OF assms, of "cc_id c" "\<lambda>r. cr_tenant_id r = cc_tenant_id c \<and> cr_version r = v"]
  show ?thesis by (auto simp: find_None split: option.splits dest: find_SomeD)
qed

lemma candidate_store_fst:
  "candidates_wf s \<Longrightarrow> fst (candidate_store cx c v s) \<longleftrightarrow>
    (\<exists>r \<in> set (candidate_cases (ss_db s)). candidate_guard c v r)"
  unfolding candidate_store_def Let_def fst_conv
  by (rule candidate_guard_count) (simp add: candidates_wf_def)

lemma candidate_set_stage_simps [simp]:
  "cr_id (candidate_set_stage cx c r) = cr_id r"
  "cr_tenant_id (candidate_set_stage cx c r) = cr_tenant_id r"
  "cr_requisition_id (candidate_set_stage cx c r) = cr_requisition_id r"
  "cr_email (candidate_set_stage cx c r) = cr_email r"
  "cr_created_by (candidate_set_stage cx c r) = cr_created_by r"
  "cr_stage (candidate_set_stage cx c r) = stage_value (cc_stage c)"
  "cr_version (candidate_set_stage cx c r) = cc_version c"
  by (simp_all add: candidate_set_stage_def)

lemma candidate_store_rows:
  "candidate_cases (ss_db (snd (candidate_store cx c v s))) =
    update_where (candidate_guard c v) (candidate_set_stage cx c) (candidate_cases (ss_db s))"
  by (simp add: candidate_store_def Let_def)

lemma candidate_store_wf: "candidates_wf s \<Longrightarrow> candidates_wf (snd (candidate_store cx c v s))"
  by (auto simp: candidates_wf_def stages_valid_def candidate_store_rows distinct_update_where
      list_all_iff set_update_where)

lemma candidate_store_none:
  "candidates_wf s \<Longrightarrow> \<not> fst (candidate_store cx c v s) \<Longrightarrow> snd (candidate_store cx c v s) = s"
  by (simp add: candidate_store_fst) (auto simp: candidate_store_def Let_def update_where_none)

lemma candidate_store_frame:
  assumes "candidates_wf s" "k \<noteq> candidate_key c"
  shows "candidate_load k (snd (candidate_store cx c v s)) = candidate_load k s"
proof -
  have "List.find (\<lambda>r. cr_id r = fst k \<and> cr_tenant_id r = snd k)
      (update_where (candidate_guard c v) (candidate_set_stage cx c) (candidate_cases (ss_db s))) =
    List.find (\<lambda>r. cr_id r = fst k \<and> cr_tenant_id r = snd k) (candidate_cases (ss_db s))"
    by (rule find_update_where_other)
       (use assms(2) in \<open>auto simp: candidate_guard_def candidate_key_def prod_eq_iff\<close>)
  then show ?thesis by (simp add: candidate_load_def candidate_get_def candidate_store_rows)
qed

lemma candidate_store_load:
  assumes wf: "candidates_wf s" and ok: "fst (candidate_store cx c v s)"
    and l: "candidate_load (candidate_key c) s = Some b"
  shows "candidate_load (candidate_key c) (snd (candidate_store cx c v s)) = Some (candidate_merge b c)"
proof -
  obtain r where r: "r \<in> set (candidate_cases (ss_db s))" "candidate_guard c v r"
    using ok candidate_store_fst [OF wf] by blast
  obtain q where q: "q \<in> set (candidate_cases (ss_db s))" "cr_id q = cc_id c" "b = row_case q (cc_stage b)"
    using candidate_load_Some [OF l] by (auto simp: candidate_key_def)
  have "q = r"
    by (rule key_unique [of cr_id "candidate_cases (ss_db s)"])
       (use wf r q in \<open>auto simp: candidates_wf_def candidate_guard_def\<close>)
  let ?r = "candidate_set_stage cx c r"
  have "?r \<in> set (candidate_cases (ss_db (snd (candidate_store cx c v s))))"
    using r by (auto simp: candidate_store_rows set_update_where)
  from candidate_load_row [OF candidate_store_wf [OF wf] this, of "cc_stage c"]
  have "candidate_load (candidate_key c) (snd (candidate_store cx c v s)) = Some (row_case ?r (cc_stage c))"
    using r(2) by (simp add: candidate_key_def candidate_guard_def)
  moreover have "cc_requisition_id b = cr_requisition_id r"
    using q(3) \<open>q = r\<close> by (metis row_case_simps(3))
  then have "row_case ?r (cc_stage c) = candidate_merge b c"
    using r(2) by (cases c) (simp add: row_case_def candidate_merge_def candidate_guard_def)
  ultimately show ?thesis by simp
qed

interpretation cases_guard: version_guard candidates_wf candidate_load candidate_key cc_version
  candidate_merge "candidate_store cx" for cx
proof
  fix s a v b
  assume wf: "candidates_wf s" and l: "candidate_load (candidate_key a) s = Some b" and v: "cc_version b = v"
  obtain r where "r \<in> set (candidate_cases (ss_db s))" "cr_id r = cc_id a"
      "cr_tenant_id r = cc_tenant_id a" "b = row_case r (cc_stage b)"
    using candidate_load_Some [OF l] by (auto simp: candidate_key_def)
  moreover have "cr_version r = v" using \<open>b = row_case r (cc_stage b)\<close> v by (metis row_case_simps(5))
  ultimately show "fst (candidate_store cx a v s)"
    unfolding candidate_store_fst [OF wf] candidate_guard_def by blast
next
  fix s a v
  assume wf: "candidates_wf s" and ok: "fst (candidate_store cx a v s)"
  then obtain r where r: "r \<in> set (candidate_cases (ss_db s))" "candidate_guard a v r"
    by (auto simp: candidate_store_fst)
  moreover obtain st where "cr_stage r = stage_value st"
    using stages_validD r wf by (auto simp: candidates_wf_def)
  ultimately show "\<exists>b. candidate_load (candidate_key a) s = Some b \<and> cc_version b = v"
    using candidate_load_row [OF wf r(1)] by (auto simp: candidate_guard_def candidate_key_def row_case_def)
qed (auto simp: candidate_store_wf candidate_store_load candidate_store_none candidate_store_frame
      candidate_merge_def)

section \<open>Transitions: when they are accepted and what they write\<close>

lemma transition_decide_Inr:
  "transition_decide c found = Inr (cand, moved) \<longleftrightarrow>
    (\<exists>target. found = Some cand \<and> cc_version cand = tc_expected_version c \<and>
      tc_target_stage c = stage_value target \<and> target \<in> allowed_transitions (cc_stage cand) \<and>
      moved = cand\<lparr>cc_stage := target, cc_version := cc_version cand + 1\<rparr>)"
  by (auto simp: transition_decide_def candidate_transition_Inr candidate_transition_Inl CandidateStage_Inr
      split: option.splits sum.splits if_splits)

text \<open>The effect of an accepted transition on the database: the row and one audit event.\<close>

definition moved_case :: "candidate_row \<Rightarrow> candidate_stage \<Rightarrow> candidate_case" where
  "moved_case r b = \<lparr>cc_id = cr_id r, cc_tenant_id = cr_tenant_id r,
     cc_requisition_id = cr_requisition_id r, cc_stage = b, cc_version = cr_version r + 1\<rparr>"

definition stage_set :: "ctx \<Rightarrow> candidate_row \<Rightarrow> candidate_stage \<Rightarrow> db \<Rightarrow> db" where
  "stage_set cx r b d = d\<lparr>candidate_cases :=
     update_where (\<lambda>q. cr_id q = cr_id r) (candidate_set_stage cx (moved_case r b)) (candidate_cases d)\<rparr>"

definition stage_move ::
  "ctx \<Rightarrow> transition_command \<Rightarrow> candidate_row \<Rightarrow> candidate_stage \<Rightarrow> candidate_stage \<Rightarrow> db \<Rightarrow> db" where
  "stage_move cx c r a b d =
     db_insert (stage_set cx r b d) (Audit_Row (stage_transitioned_event cx (cx_uuid cx 0)
       (moved_case r b) (stage_value a) (tc_actor_id c) (tc_correlation_id c)))"

lemma moved_case_simps [simp]:
  "cc_id (moved_case r b) = cr_id r" "cc_tenant_id (moved_case r b) = cr_tenant_id r"
  "cc_requisition_id (moved_case r b) = cr_requisition_id r" "cc_stage (moved_case r b) = b"
  "cc_version (moved_case r b) = cr_version r + 1"
  by (simp_all add: moved_case_def)

lemma moved_case_eq: "(row_case r a)\<lparr>cc_stage := b, cc_version := cr_version r + 1\<rparr> = moved_case r b"
  by (simp add: row_case_def moved_case_def)

lemma candidate_guard_row:
  assumes "distinct (map cr_id rows)" "r \<in> set rows"
    and "cc_id c = cr_id r" "cc_tenant_id c = cr_tenant_id r"
  shows "update_where (candidate_guard c (cr_version r)) f rows = update_where (\<lambda>q. cr_id q = cr_id r) f rows"
  unfolding update_where_def
  using assms by (auto simp: candidate_guard_def dest: key_unique)

lemma candidate_store_hit:
  assumes "distinct (map cr_id (candidate_cases (ss_db s)))" "r \<in> set (candidate_cases (ss_db s))"
  shows "candidate_store cx (moved_case r b) (cr_version r) s = (True, s\<lparr>ss_db := stage_set cx r b (ss_db s)\<rparr>)"
proof -
  have "rowcount (candidate_guard (moved_case r b) (cr_version r)) (candidate_cases (ss_db s)) = 1"
    unfolding candidate_guard_count [OF assms(1)] using assms(2) by (auto simp: candidate_guard_def)
  then show ?thesis
    using candidate_guard_row [OF assms, of "moved_case r b"]
    by (simp add: candidate_store_def stage_set_def Let_def)
qed

lemma stage_set_ok: "db_ok d \<Longrightarrow> db_ok (stage_set cx r b d)"
  unfolding stage_set_def by (rule db_ok_update_candidates) simp_all

lemma stage_set_frame [frame_simps]:
  "tenants (stage_set cx r b d) = tenants d" "users (stage_set cx r b d) = users d"
  "memberships (stage_set cx r b d) = memberships d" "requisitions (stage_set cx r b d) = requisitions d"
  "retention_policies (stage_set cx r b d) = retention_policies d"
  "legal_holds (stage_set cx r b d) = legal_holds d" "attachments (stage_set cx r b d) = attachments d"
  "interviews (stage_set cx r b d) = interviews d"
  "calendar_subscriptions (stage_set cx r b d) = calendar_subscriptions d"
  "feedbacks (stage_set cx r b d) = feedbacks d" "offers (stage_set cx r b d) = offers d"
  "approval_decisions (stage_set cx r b d) = approval_decisions d"
  "outbox_events (stage_set cx r b d) = outbox_events d" "deliveries (stage_set cx r b d) = deliveries d"
  "audit_events (stage_set cx r b d) = audit_events d"
  by (simp_all add: stage_set_def)

lemma transition_persist_eq:
  assumes "distinct (map cr_id (candidate_cases (ss_db s)))" "r \<in> set (candidate_cases (ss_db s))"
    and "ss_new s = []" "tc_expected_version c = cr_version r"
  shows "transition_persist cx c (row_case r a) (moved_case r b) s =
    (case session_commit cx (open_session (stage_move cx c r a b (ss_db s))) of
       Inl e \<Rightarrow> Inl e | Inr d \<Rightarrow> Inr (moved_case r b, d))"
  using assms
  by (simp add: transition_persist_def candidate_store_hit audit_stage_transitioned_def
      session_commit_eq stage_move_def)

lemma stage_move_ok:
  assumes "db_ok d" "r \<in> set (candidate_cases d)"
  shows "db_ok (stage_move cx c r a b d) \<longleftrightarrow> cx_uuid cx 0 \<notin> set (map ae_id (audit_events d))"
  using db_ok_candidate_refs [OF assms]
  by (simp add: stage_move_def db_insert_ok [OF stage_set_ok [OF assms(1)]] frame_simps
      stage_transitioned_event_def del: db_insert.simps)

lemma transition_candidate_eq:
  assumes "db_ok d" "r \<in> set (candidate_cases d)" "cr_stage r = stage_value a"
    and "tc_candidate_id c = cr_id r" "tc_tenant_id c = cr_tenant_id r"
    and "tc_expected_version c = cr_version r" "tc_target_stage c = stage_value b"
    and "b \<in> allowed_transitions a"
  shows "transition_candidate cx c (open_session d) =
    (case session_commit cx (open_session (stage_move cx c r a b d)) of
       Inl e \<Rightarrow> Inl e | Inr d' \<Rightarrow> Inr (moved_case r b, d'))"
proof -
  have g: "candidate_get (cr_id r) (cr_tenant_id r) (open_session d) = Inr (Some (row_case r a))"
    using assms db_ok_keys(1) by (intro candidate_get_row) auto
  have t: "transition_decide c (Some (row_case r a)) =
      Inr (row_case r a, moved_case r b)"
    using assms by (simp add: transition_decide_Inr moved_case_eq)
  show ?thesis
    using transition_persist_eq [of "open_session d" r c] assms db_ok_keys(1) [OF assms(1)]
    by (simp add: transition_candidate_def g t)
qed

lemma transition_candidate_Inr:
  assumes "db_ok d" "transition_candidate cx c (open_session d) = Inr (m, d')"
  obtains r a b where "r \<in> set (candidate_cases d)" "cr_stage r = stage_value a"
    "tc_candidate_id c = cr_id r" "tc_tenant_id c = cr_tenant_id r" "tc_expected_version c = cr_version r"
    "tc_target_stage c = stage_value b" "b \<in> allowed_transitions a"
    "m = moved_case r b" "d' = stage_move cx c r a b d" "db_ok d'"
proof -
  obtain found cand moved where g: "candidate_get (tc_candidate_id c) (tc_tenant_id c) (open_session d) = Inr found"
    and t: "transition_decide c found = Inr (cand, moved)"
    using assms(2) by (auto simp: transition_candidate_def split: sum.splits)
  obtain b where b: "found = Some cand" "cc_version cand = tc_expected_version c"
    "tc_target_stage c = stage_value b" "b \<in> allowed_transitions (cc_stage cand)"
    using t by (auto simp: transition_decide_Inr)
  obtain r where r: "r \<in> set (candidate_cases d)" "cr_id r = tc_candidate_id c"
    "cr_tenant_id r = tc_tenant_id c" "cr_stage r = stage_value (cc_stage cand)" "cand = row_case r (cc_stage cand)"
    using candidate_get_Some [OF g [unfolded b(1)]] by auto
  have "cc_version cand = cr_version r" using r(5) by (metis row_case_simps(5))
  with b r have v: "tc_expected_version c = cr_version r" by simp
  note eq = transition_candidate_eq [OF assms(1) r(1,4) r(2) [symmetric] r(3) [symmetric] v b(3,4)]
  have m: "m = moved_case r b"
    and com: "session_commit cx (open_session (stage_move cx c r (cc_stage cand) b d)) = Inr d'"
    using assms(2) by (simp_all add: eq split: sum.splits)
  have "d' = stage_move cx c r (cc_stage cand) b d" "db_ok d'" using session_commitD [OF com] by auto
  then show ?thesis using that [of r "cc_stage cand" b] r b v m by simp
qed

lemma sample_stages_valid [simp]: "stages_valid sample_db"
proof -
  have "''applied'' = stage_value APPLIED" "''interviewing'' = stage_value INTERVIEWING"
    "''offer_pending_approval'' = stage_value OFFER_PENDING_APPROVAL" by simp_all
  then show ?thesis by (simp add: stages_valid_def del: stage_value.simps)
qed

definition sample_transition :: "string \<Rightarrow> int \<Rightarrow> string \<Rightarrow> transition_command" where
  "sample_transition i v st = \<lparr>tc_candidate_id = i, tc_tenant_id = ''t'', tc_target_stage = st,
     tc_expected_version = v, tc_actor_id = ''r'', tc_correlation_id = ''k''\<rparr>"

text \<open>
  Claim C13 (functional, error): a transition is accepted exactly when the case belongs to the
  caller's tenant, carries the expected version, and the target is a stage the state machine
  allows; nothing else (no constraint of the schema) can stop it.
\<close>

theorem transition_accepted_iff:
  assumes "db_ok d" "stages_valid d" "cx_uuid cx 0 \<notin> set (map ae_id (audit_events d))" "cx_db_up cx"
  shows "is_ok (fst (with_session (transition_candidate cx c) d)) \<longleftrightarrow>
    (\<exists>r a b. r \<in> set (candidate_cases d) \<and> cr_id r = tc_candidate_id c \<and> cr_tenant_id r = tc_tenant_id c \<and>
      cr_version r = tc_expected_version c \<and> cr_stage r = stage_value a \<and>
      tc_target_stage c = stage_value b \<and> b \<in> allowed_transitions a)" (is "_ \<longleftrightarrow> ?R")
proof
  assume "is_ok (fst (with_session (transition_candidate cx c) d))"
  then obtain m d' where "transition_candidate cx c (open_session d) = Inr (m, d')"
    by (auto simp: with_session_def is_ok_iff split: sum.splits)
  from transition_candidate_Inr [OF assms(1) this] show ?R by metis
next
  assume ?R
  then obtain r a b where r: "r \<in> set (candidate_cases d)" "cr_stage r = stage_value a"
    "tc_candidate_id c = cr_id r" "tc_tenant_id c = cr_tenant_id r" "tc_expected_version c = cr_version r"
    "tc_target_stage c = stage_value b" "b \<in> allowed_transitions a" by metis
  from transition_candidate_eq [OF assms(1) r] stage_move_ok [OF assms(1) r(1)] assms(3,4)
  show "is_ok (fst (with_session (transition_candidate cx c) d))"
    by (simp add: with_session_def session_commit_eq)
qed

theorem transition_accepted_iff_witness:
  "is_ok (fst (with_session (transition_candidate sample_ctx (sample_transition ''c2'' 3 ''rejected'')) sample_db)) \<and>
   \<not> is_ok (fst (with_session (transition_candidate sample_ctx (sample_transition ''c2'' 2 ''rejected'')) sample_db))"
proof
  show "is_ok (fst (with_session (transition_candidate sample_ctx (sample_transition ''c2'' 3 ''rejected'')) sample_db))"
  proof (rule iffD2 [OF transition_accepted_iff], goal_cases)
    case 5
    show ?case
      by (rule exI [of _ "sample_case ''c2'' ''y'' ''interviewing'' 3"], rule exI [of _ INTERVIEWING],
          rule exI [of _ REJECTED]) (simp add: sample_transition_def)
  qed simp_all
  show "\<not> is_ok (fst (with_session (transition_candidate sample_ctx (sample_transition ''c2'' 2 ''rejected'')) sample_db))"
  proof (subst transition_accepted_iff, goal_cases)
    case 5
    show ?case by (auto simp: sample_transition_def)
  qed simp_all
qed

text \<open>
  An accepted transition changes one row, to the target stage and the next
  version, stamps \<open>terminal_at\<close> exactly when the new stage is a rejection or a withdrawal, appends
  one audit event with both stages and the version, and changes nothing else.
\<close>

lemma transition_writes:
  assumes "db_ok d" "with_session (transition_candidate cx c) d = (Inr m, d')"
  shows "\<exists>r \<in> set (candidate_cases d). cr_id r = tc_candidate_id c \<and> cr_tenant_id r = tc_tenant_id c \<and>
    cc_id m = cr_id r \<and> stage_value (cc_stage m) = tc_target_stage c \<and> cc_version m = tc_expected_version c + 1 \<and>
    d' = d\<lparr>candidate_cases := map (\<lambda>q. if q = r then q\<lparr>
            cr_stage := tc_target_stage c,
            cr_version := tc_expected_version c + 1,
            cr_terminal_at := (if tc_target_stage c \<in> {''rejected'', ''withdrawn''} then Some (cx_now cx) else None)\<rparr>
          else q) (candidate_cases d),
        audit_events := audit_events d @ [\<lparr>ae_id = cx_uuid cx 0, ae_tenant_id = tc_tenant_id c,
          ae_actor_id = tc_actor_id c, ae_action = ''candidate_case.stage_transitioned'',
          ae_aggregate_type = ''candidate_case'', ae_aggregate_id = tc_candidate_id c,
          ae_correlation_id = tc_correlation_id c,
          ae_metadata = [(''from_stage'', JStr (cr_stage r)), (''to_stage'', JStr (tc_target_stage c)),
            (''version'', JInt (tc_expected_version c + 1))],
          ae_created_at = cx_ts cx\<rparr>]\<rparr>"
proof -
  from assms(2) have "transition_candidate cx c (open_session d) = Inr (m, d')"
    by (simp add: with_session_Inr)
  from transition_candidate_Inr [OF assms(1) this] obtain r a b where
    r: "r \<in> set (candidate_cases d)" "cr_stage r = stage_value a"
    "tc_candidate_id c = cr_id r" "tc_tenant_id c = cr_tenant_id r" "tc_expected_version c = cr_version r"
    "tc_target_stage c = stage_value b" "m = moved_case r b" "d' = stage_move cx c r a b d" .
  have "(cr_id q = cr_id r) = (q = r)" if "q \<in> set (candidate_cases d)" for q
    using key_unique [OF db_ok_keys(1) [OF assms(1)] that r(1)] by auto
  then have rows: "update_where (\<lambda>q. cr_id q = cr_id r) (candidate_set_stage cx (moved_case r b)) (candidate_cases d) =
      map (\<lambda>q. if q = r then candidate_set_stage cx (moved_case r b) q else q) (candidate_cases d)"
    unfolding update_where_def by (intro map_cong [OF refl]) simp
  have set: "candidate_set_stage cx (moved_case r b) = (\<lambda>q. q\<lparr>
            cr_stage := tc_target_stage c,
            cr_version := tc_expected_version c + 1,
            cr_terminal_at := (if tc_target_stage c \<in> {''rejected'', ''withdrawn''} then Some (cx_now cx) else None)\<rparr>)"
    by (rule ext) (simp add: candidate_set_stage_def r(5,6))
  have ev: "stage_transitioned_event cx (cx_uuid cx 0) (moved_case r b) (stage_value a) (tc_actor_id c) (tc_correlation_id c) =
      \<lparr>ae_id = cx_uuid cx 0, ae_tenant_id = tc_tenant_id c,
          ae_actor_id = tc_actor_id c, ae_action = ''candidate_case.stage_transitioned'',
          ae_aggregate_type = ''candidate_case'', ae_aggregate_id = tc_candidate_id c,
          ae_correlation_id = tc_correlation_id c,
          ae_metadata = [(''from_stage'', JStr (cr_stage r)), (''to_stage'', JStr (tc_target_stage c)),
            (''version'', JInt (tc_expected_version c + 1))],
          ae_created_at = cx_ts cx\<rparr>"
    by (simp add: stage_transitioned_event_def r(2-6))
  have "d' = d\<lparr>candidate_cases := map (\<lambda>q. if q = r then candidate_set_stage cx (moved_case r b) q else q) (candidate_cases d),
      audit_events := audit_events d @ [stage_transitioned_event cx (cx_uuid cx 0) (moved_case r b)
        (stage_value a) (tc_actor_id c) (tc_correlation_id c)]\<rparr>"
    by (simp only: r(8) stage_move_def stage_set_def rows) simp
  then show ?thesis
    unfolding set ev by (intro bexI [OF _ r(1)]) (simp add: r(3-7))
qed

text \<open>A transition of a case in \<open>interviewing\<close>, run on the sample database.\<close>

lemma sample_transition_run:
  "fst (with_session (transition_candidate sample_ctx (sample_transition ''c2'' 3 ''rejected'')) sample_db) =
    Inr (moved_case (sample_case ''c2'' ''y'' ''interviewing'' 3) REJECTED)"
proof -
  let ?c = "sample_transition ''c2'' 3 ''rejected''" and ?r = "sample_case ''c2'' ''y'' ''interviewing'' 3"
  have v: "stage_value INTERVIEWING = ''interviewing''" "stage_value REJECTED = ''rejected''" by simp_all
  have "transition_candidate sample_ctx ?c (open_session sample_db) =
    (case session_commit sample_ctx (open_session (stage_move sample_ctx ?c ?r INTERVIEWING REJECTED sample_db)) of
       Inl e \<Rightarrow> Inl e | Inr d' \<Rightarrow> Inr (moved_case ?r REJECTED, d'))"
    by (rule transition_candidate_eq) (simp_all add: sample_transition_def v)
  moreover have "db_ok (stage_move sample_ctx ?c ?r INTERVIEWING REJECTED sample_db)"
    by (subst stage_move_ok) simp_all
  ultimately show ?thesis by (simp add: with_session_def session_commit_eq)
qed

lemma transition_writes_witness:
  "length (audit_events (snd (with_session (transition_candidate sample_ctx
     (sample_transition ''c2'' 3 ''rejected'')) sample_db))) = 1"
proof -
  let ?w = "with_session (transition_candidate sample_ctx (sample_transition ''c2'' 3 ''rejected'')) sample_db"
  have "?w = (Inr (moved_case (sample_case ''c2'' ''y'' ''interviewing'' 3) REJECTED), snd ?w)"
    using sample_transition_run by (metis prod.collapse)
  from transition_writes [OF sample_db_ok this] show ?thesis by auto
qed

text \<open>
  No lost update. Of any number of writers that read the same version of a case
  and write it one after the other, exactly the first one is accepted, and what it wrote is what
  remains stored.
\<close>

lemma one_case_writer_wins:
  assumes "candidates_wf s" "candidate_load k s = Some b" "ws \<noteq> []"
    and "\<And>c v. (c, v) \<in> set ws \<Longrightarrow> candidate_key c = k \<and> v = cc_version b \<and> cc_version c \<noteq> cc_version b"
  shows "winners (fst (store_all (candidate_store cx) ws s)) = 1 \<and>
    candidate_load k (snd (store_all (candidate_store cx) ws s)) = Some (candidate_merge b (fst (hd ws)))"
  using cases_guard.one_winner [OF assms(1,2) refl assms(3)] assms(4) by blast

section \<open>Creation: the handler's checks imply the schema's constraints\<close>

definition created_row :: "ctx \<Rightarrow> create_candidate_command \<Rightarrow> candidate_row" where
  "created_row cx c =
    \<lparr>cr_id = cx_uuid cx 0, cr_tenant_id = kc_tenant_id c, cr_requisition_id = kc_requisition_id c,
     cr_first_name = py_strip (kc_first_name c), cr_last_name = py_strip (kc_last_name c),
     cr_email = normalize_email (kc_email c), cr_stage = ''applied'', cr_version = 1,
     cr_created_by = kc_actor_id c, cr_created_at = cx_ts cx,
     cr_anonymized_at = None, cr_terminal_at = None\<rparr>"

definition created_event :: "ctx \<Rightarrow> create_candidate_command \<Rightarrow> audit_row" where
  "created_event cx c =
    \<lparr>ae_id = cx_uuid cx 1, ae_tenant_id = kc_tenant_id c, ae_actor_id = kc_actor_id c,
     ae_action = ''candidate_case.created'', ae_aggregate_type = ''candidate_case'',
     ae_aggregate_id = cx_uuid cx 0, ae_correlation_id = kc_correlation_id c,
     ae_metadata = [(''requisition_id'', JStr (kc_requisition_id c)), (''stage'', JStr ''applied'')],
     ae_created_at = cx_ts cx\<rparr>"

definition created_result :: "ctx \<Rightarrow> create_candidate_command \<Rightarrow> created_candidate" where
  "created_result cx c =
    \<lparr>kd_candidate = candidate_open (cx_uuid cx 0) (kc_tenant_id c) (kc_requisition_id c),
     kd_first_name = py_strip (kc_first_name c), kd_last_name = py_strip (kc_last_name c),
     kd_email = normalize_email (kc_email c)\<rparr>"

lemma requisition_exists_iff:
  "requisition_exists q t s \<longleftrightarrow> (\<exists>r \<in> set (requisitions (ss_db s)). rq_id r = q \<and> rq_tenant_id r = t)"
  by (simp add: requisition_exists_def find_None)

lemma candidate_email_exists_iff:
  "candidate_email_exists t e s \<longleftrightarrow>
    (\<exists>r \<in> set (candidate_cases (ss_db s)). cr_tenant_id r = t \<and> cr_email r = e)"
  by (simp add: candidate_email_exists_def find_None)

lemma candidate_email_pairs:
  "(t, e) \<in> (\<lambda>c. (cr_tenant_id c, cr_email c)) ` set rows \<longleftrightarrow>
    (\<exists>r \<in> set rows. cr_tenant_id r = t \<and> cr_email r = e)"
  by auto

lemma create_candidate_eq:
  "create_candidate cx c (open_session d) =
    (if \<not> requisition_exists (kc_requisition_id c) (kc_tenant_id c) (open_session d)
     then Inl (RequisitionNotFoundError (kc_requisition_id c))
     else if candidate_email_exists (kc_tenant_id c) (normalize_email (kc_email c)) (open_session d)
     then Inl CandidateEmailAlreadyExistsError
     else (case session_commit cx \<lparr>ss_db = d, ss_new = [Candidate_Row (created_row cx c), Audit_Row (created_event cx c)]\<rparr> of
        Inl e \<Rightarrow> Inl e | Inr d' \<Rightarrow> Inr (created_result cx c, d')))"
  by (simp add: create_candidate_def Let_def candidate_add_def audit_candidate_created_def
      session_commit_eq candidate_open_def created_row_def created_event_def created_result_def)

lemma create_candidate_Inr:
  assumes "create_candidate cx c (open_session d) = Inr (k, d')"
  shows "requisition_exists (kc_requisition_id c) (kc_tenant_id c) (open_session d)"
    "\<not> candidate_email_exists (kc_tenant_id c) (normalize_email (kc_email c)) (open_session d)"
    "k = created_result cx c"
    "d' = db_insert_all d [Candidate_Row (created_row cx c), Audit_Row (created_event cx c)]" "db_ok d'"
  using assms by (auto simp: create_candidate_eq split: if_splits sum.splits dest: session_commitD)

text \<open>
  Creating a case answers \<open>RequisitionNotFoundError\<close> when the
  caller's tenant has no such requisition, \<open>CandidateEmailAlreadyExistsError\<close> when the tenant
  already has a case with the normalised email, and otherwise commits one case in the stage
  \<open>applied\<close> at version 1 together with its audit event, and nothing else. A refusal leaves the
  database as it was.
\<close>

lemma create_candidate_result:
  assumes "db_ok d" "has_user d (kc_actor_id c)" "\<not> has_candidate d (cx_uuid cx 0)"
    "cx_uuid cx 1 \<notin> set (map ae_id (audit_events d))" "cx_db_up cx"
  shows "with_session (create_candidate cx c) d =
    (if \<not> (\<exists>r \<in> set (requisitions d). rq_id r = kc_requisition_id c \<and> rq_tenant_id r = kc_tenant_id c)
     then (Inl (RequisitionNotFoundError (kc_requisition_id c)), d)
     else if \<exists>r \<in> set (candidate_cases d). cr_tenant_id r = kc_tenant_id c \<and> cr_email r = normalize_email (kc_email c)
     then (Inl CandidateEmailAlreadyExistsError, d)
     else (Inr (created_result cx c),
       d\<lparr>candidate_cases := candidate_cases d @ [created_row cx c],
         audit_events := audit_events d @ [created_event cx c]\<rparr>))"
proof (cases "requisition_exists (kc_requisition_id c) (kc_tenant_id c) (open_session d) \<and>
    \<not> candidate_email_exists (kc_tenant_id c) (normalize_email (kc_email c)) (open_session d)")
  case True
  then obtain r where r: "r \<in> set (requisitions d)" "rq_id r = kc_requisition_id c" "rq_tenant_id r = kc_tenant_id c"
    by (auto simp: requisition_exists_iff)
  have "has_tenant d (kc_tenant_id c)" "has_requisition d (kc_requisition_id c)"
    using db_ok_requisition_refs [OF assms(1) r(1)] r by (auto simp: rev_image_eqI)
  with True have "rows_ok d [Candidate_Row (created_row cx c), Audit_Row (created_event cx c)]"
    using assms(2-4)
    by (simp add: candidate_email_exists_iff candidate_email_pairs created_row_def created_event_def)
  then have "session_commit cx \<lparr>ss_db = d, ss_new = [Candidate_Row (created_row cx c), Audit_Row (created_event cx c)]\<rparr> =
      Inr (d\<lparr>candidate_cases := candidate_cases d @ [created_row cx c],
        audit_events := audit_events d @ [created_event cx c]\<rparr>)"
    using assms(1,5) by (subst session_commit_rows) simp_all
  with True show ?thesis
    by (simp add: with_session_def create_candidate_eq requisition_exists_iff candidate_email_exists_iff)
next
  case False
  then show ?thesis
    by (auto simp: with_session_def create_candidate_eq requisition_exists_iff candidate_email_exists_iff)
qed

definition sample_create :: "string \<Rightarrow> create_candidate_command" where
  "sample_create email = \<lparr>kc_tenant_id = ''t'', kc_requisition_id = ''q'', kc_first_name = '' N'',
     kc_last_name = ''M '', kc_email = email, kc_actor_id = ''r'', kc_correlation_id = ''k''\<rparr>"

lemma sample_requisition:
  "requisition_exists ''q'' ''t'' (open_session sample_db)"
  by (simp add: requisition_exists_def sample_db_def)

lemma create_candidate_result_witness:
  "fst (with_session (create_candidate sample_ctx (sample_create '' W '')) sample_db) =
     Inr (created_result sample_ctx (sample_create '' W '')) \<and>
   fst (with_session (create_candidate sample_ctx (sample_create '' X '')) sample_db) =
     Inl CandidateEmailAlreadyExistsError"
proof -
  have e: "normalize_email '' W '' = ''w''" "normalize_email '' X '' = ''x''" by code_simp+
  have q: "\<exists>r \<in> set (requisitions sample_db). rq_id r = ''q'' \<and> rq_tenant_id r = ''t''"
    using sample_requisition by (simp add: requisition_exists_iff)
  have r: "kc_requisition_id (sample_create m) = ''q''" "kc_tenant_id (sample_create m) = ''t''"
    "kc_email (sample_create m) = m" "kc_actor_id (sample_create m) = ''r''" for m
    by (simp_all add: sample_create_def)
  show ?thesis
    using create_candidate_result [of sample_db "sample_create '' W ''" sample_ctx]
      create_candidate_result [of sample_db "sample_create '' X ''" sample_ctx] q
    by (simp add: e r)
qed

text \<open>
  Once a case has been created, a second one in the same tenant whose email
  differs in letter case or surrounding blanks only is refused.
\<close>

lemma create_candidate_email_unique:
  assumes "with_session (create_candidate cx c) d = (Inr k, d1)"
    and "kc_tenant_id c2 = kc_tenant_id c" "normalize_email (kc_email c2) = normalize_email (kc_email c)"
    and "requisition_exists (kc_requisition_id c2) (kc_tenant_id c2) (open_session d)"
  shows "with_session (create_candidate cx2 c2) d1 = (Inl CandidateEmailAlreadyExistsError, d1)"
proof -
  have d1: "d1 = d\<lparr>candidate_cases := candidate_cases d @ [created_row cx c],
      audit_events := audit_events d @ [created_event cx c]\<rparr>"
    using create_candidate_Inr(4) assms(1) by (simp add: with_session_Inr)
  have "requisition_exists (kc_requisition_id c2) (kc_tenant_id c2) (open_session d1)"
    using assms(4) by (simp add: d1 requisition_exists_iff)
  moreover have "candidate_email_exists (kc_tenant_id c2) (normalize_email (kc_email c2)) (open_session d1)"
    using assms(2,3) by (simp add: d1 candidate_email_exists_iff created_row_def)
  ultimately show ?thesis by (simp add: with_session_def create_candidate_eq)
qed

lemma create_candidate_email_unique_witness:
  "\<exists>d1. with_session (create_candidate sample_ctx (sample_create ''w'')) sample_db =
      (Inr (created_result sample_ctx (sample_create ''w'')), d1) \<and>
    with_session (create_candidate sample_ctx2 (sample_create '' W '')) d1 =
      (Inl CandidateEmailAlreadyExistsError, d1)"
proof -
  have e: "normalize_email '' W '' = ''w''" "normalize_email ''w'' = ''w''" by code_simp+
  have r: "kc_requisition_id (sample_create m) = ''q''" "kc_tenant_id (sample_create m) = ''t''"
    "kc_email (sample_create m) = m" "kc_actor_id (sample_create m) = ''r''" for m
    by (simp_all add: sample_create_def)
  define d1 where "d1 = snd (with_session (create_candidate sample_ctx (sample_create ''w'')) sample_db)"
  have ok: "rows_ok sample_db [Candidate_Row (created_row sample_ctx (sample_create ''w'')),
      Audit_Row (created_event sample_ctx (sample_create ''w''))]"
    by (simp add: created_row_def created_event_def e r)
  let ?rows = "[Candidate_Row (created_row sample_ctx (sample_create ''w'')),
      Audit_Row (created_event sample_ctx (sample_create ''w''))]"
  have "session_commit sample_ctx \<lparr>ss_db = sample_db, ss_new = ?rows\<rparr> = Inr (db_insert_all sample_db ?rows)"
    using session_commit_rows [of "\<lparr>ss_db = sample_db, ss_new = ?rows\<rparr>" sample_ctx] ok
    by (simp del: db_insert_all_simps rows_ok.simps)
  moreover have "\<not> candidate_email_exists ''t'' ''w'' (open_session sample_db)"
    by (simp add: candidate_email_exists_iff)
  ultimately have "create_candidate sample_ctx (sample_create ''w'') (open_session sample_db) =
      Inr (created_result sample_ctx (sample_create ''w''), db_insert_all sample_db ?rows)"
    by (simp add: create_candidate_eq e r sample_requisition)
  then have w: "with_session (create_candidate sample_ctx (sample_create ''w'')) sample_db =
      (Inr (created_result sample_ctx (sample_create ''w'')), d1)"
    by (simp add: d1_def with_session_def)
  have "with_session (create_candidate sample_ctx2 (sample_create '' W '')) d1 =
      (Inl CandidateEmailAlreadyExistsError, d1)"
    by (rule create_candidate_email_unique [OF w]) (simp_all add: e r sample_requisition)
  with w show ?thesis by blast
qed

lemma normalize_email_idem: "normalize_email (normalize_email e) = normalize_email e"
  by (simp add: normalize_email_def py_strip_lower)

section \<open>Pagination\<close>

text \<open>A client that follows \<open>next_cursor\<close> from page to page, for at most \<open>n\<close> pages.\<close>

fun follow_pages :: "nat \<Rightarrow> list_query \<Rightarrow> session \<Rightarrow> list_item list list option" where
  "follow_pages 0 q s = None"
| "follow_pages (Suc n) q s =
     (case list_candidates q s of
        Inl e \<Rightarrow> None
      | Inr pg \<Rightarrow>
          (case pg_next_cursor pg of
             None \<Rightarrow> Some [pg_items pg]
           | Some x \<Rightarrow> map_option (Cons (pg_items pg)) (follow_pages n (q\<lparr>lq_cursor := Some x\<rparr>) s)))"

definition matching_rows :: "list_query \<Rightarrow> db \<Rightarrow> candidate_row list" where
  "matching_rows q d = sort_key cr_id (filter (list_filters q) (candidate_cases d))"

definition after_cursor :: "list_query \<Rightarrow> db \<Rightarrow> candidate_row list" where
  "after_cursor q d = filter (\<lambda>r. when_given (lq_cursor q) (\<lambda>x. x < cr_id r)) (matching_rows q d)"

lemma after_cursor_eq:
  "after_cursor q d = sort_key cr_id
     (filter (\<lambda>r. list_filters q r \<and> when_given (lq_cursor q) (\<lambda>x. x < cr_id r)) (candidate_cases d))"
  by (simp add: after_cursor_def matching_rows_def filter_sort conj_commute)

lemma list_filters_cursor [simp]: "list_filters (q\<lparr>lq_cursor := x\<rparr>) = list_filters q"
  by (rule ext) (simp add: list_filters_def)

lemma matching_rows_cursor [simp]: "matching_rows (q\<lparr>lq_cursor := x\<rparr>) d = matching_rows q d"
  by (simp add: matching_rows_def)

lemma list_candidates_eq:
  assumes "0 < lq_limit q"
  shows "list_candidates q (open_session d) =
    (let T = after_cursor q d in
     Inr \<lparr>pg_items = map to_list_item (take (lq_limit q) T),
       pg_next_cursor = (if length T > lq_limit q then Some (cr_id (T ! (lq_limit q - 1))) else None),
       pg_total = length (matching_rows q d)\<rparr>)"
proof -
  let ?T = "after_cursor q d"
  have "length (filter (list_filters q) (candidate_cases d)) = length (matching_rows q d)"
    by (simp add: matching_rows_def)
  moreover have "take (lq_limit q) (take (lq_limit q + 1) ?T) = take (lq_limit q) ?T"
    by (simp add: min_def)
  moreover have "length (take (lq_limit q + 1) ?T) > lq_limit q \<longleftrightarrow> length ?T > lq_limit q" by auto
  moreover have "length ?T > lq_limit q \<Longrightarrow> last (take (lq_limit q) ?T) = ?T ! (lq_limit q - 1)"
    using assms by (subst last_conv_nth) (auto simp: min_def)
  moreover have "length ?T > lq_limit q \<Longrightarrow> take (lq_limit q) ?T \<noteq> []" using assms by auto
  ultimately show ?thesis
    unfolding list_candidates_def candidate_list_page_def open_session_simps after_cursor_eq [symmetric] Let_def
    using assms by (simp del: take_take)
qed

lemma matching_strict:
  assumes "distinct (map cr_id (candidate_cases d))"
  shows "sorted_wrt (\<lambda>a b. cr_id a < cr_id b) (matching_rows q d)"
proof -
  have "distinct (map cr_id (matching_rows q d))"
    using distinct_map_filter_mono [OF assms] by (simp add: matching_rows_def distinct_map)
  moreover have "sorted (map cr_id (matching_rows q d))" by (simp add: matching_rows_def)
  ultimately have "sorted_wrt (<) (map cr_id (matching_rows q d))" by (simp add: strict_sorted_iff)
  then show ?thesis by (simp add: sorted_wrt_map)
qed

lemma filter_after:
  assumes "sorted_wrt (\<lambda>a b. cr_id a < cr_id b) (xs @ y # zs)"
  shows "filter (\<lambda>r. cr_id y < cr_id r) (xs @ y # zs) = zs"
proof -
  have "filter (\<lambda>r. cr_id y < cr_id r) xs = []"
    using assms by (auto simp: sorted_wrt_append filter_empty_conv not_less less_imp_le)
  moreover have "filter (\<lambda>r. cr_id y < cr_id r) zs = zs"
    using assms by (auto simp: sorted_wrt_append filter_id_conv)
  ultimately show ?thesis by simp
qed

lemma follow_pages_from:
  assumes "0 < lq_limit q" "distinct (map cr_id (candidate_cases d))"
    and "\<And>r. r \<in> set (candidate_cases d) \<Longrightarrow> cr_id r \<noteq> []"
    and "matching_rows q d = pre @ after_cursor q d" "length (after_cursor q d) < n"
  shows "\<exists>pages. follow_pages n q (open_session d) = Some pages \<and>
    concat pages = map to_list_item (after_cursor q d) \<and> (\<forall>p \<in> set pages. length p \<le> lq_limit q)"
  using assms
proof (induction n arbitrary: q pre)
  case (Suc n)
  let ?T = "after_cursor q d" and ?l = "lq_limit q"
  show ?case
  proof (cases "length ?T > ?l")
    case False
    then show ?thesis using Suc.prems(1) by (simp add: list_candidates_eq Let_def)
  next
    case True
    define y where "y = ?T ! (?l - 1)"
    define q' where "q' = q\<lparr>lq_cursor := Some (cr_id y)\<rparr>"
    have T: "?T = take (?l - 1) ?T @ y # drop ?l ?T"
      using id_take_nth_drop [of "?l - 1" ?T] True Suc.prems(1) by (simp add: y_def)
    have R: "matching_rows q d = (pre @ take (?l - 1) ?T) @ y # drop ?l ?T"
      using Suc.prems(4) T by (metis append.assoc)
    have "y \<in> set (candidate_cases d)"
      using R by (metis filter_is_subset in_mono in_set_conv_decomp matching_rows_def set_sort)
    then have ne: "cr_id y \<noteq> []" using Suc.prems(3) by blast
    have a: "after_cursor q' d = drop ?l ?T"
    proof -
      have "after_cursor q' d = filter (\<lambda>r. cr_id y < cr_id r) (matching_rows q d)"
        using ne by (simp add: after_cursor_def q'_def when_given_def)
      also have "\<dots> = drop ?l ?T"
        unfolding R by (rule filter_after) (use matching_strict [OF Suc.prems(2), of q] R in simp)
      finally show ?thesis .
    qed
    have "\<exists>pages. follow_pages n q' (open_session d) = Some pages \<and>
      concat pages = map to_list_item (after_cursor q' d) \<and> (\<forall>p \<in> set pages. length p \<le> lq_limit q')"
    proof (rule Suc.IH)
      show "matching_rows q' d = (pre @ take (?l - 1) ?T @ [y]) @ after_cursor q' d"
        using R by (simp add: q'_def a [unfolded q'_def])
      show "length (after_cursor q' d) < n" using Suc.prems(1,5) True by (simp add: a)
    qed (use Suc.prems in \<open>simp_all add: q'_def\<close>)
    then obtain pages where p: "follow_pages n q' (open_session d) = Some pages"
      "concat pages = map to_list_item (drop ?l ?T)" "\<forall>p \<in> set pages. length p \<le> ?l"
      using a by (auto simp: q'_def)
    have "map to_list_item (take ?l ?T) @ map to_list_item (drop ?l ?T) = map to_list_item ?T"
      by (metis append_take_drop_id map_append)
    moreover have "q\<lparr>lq_cursor := Some (cr_id (?T ! (?l - 1)))\<rparr> = q'" by (simp add: q'_def y_def)
    ultimately show ?thesis using p True Suc.prems(1)
      by (intro exI [of _ "map to_list_item (take ?l ?T) # pages"])
         (simp add: list_candidates_eq Let_def)
  qed
qed simp

text \<open>
  Claim C15 (functional, termination): cursor pagination is complete and exact. A client that
  starts without a cursor and follows \<open>next_cursor\<close> reaches the last page after finitely many
  pages; the pages, of at most \<open>limit\<close> items each, put together are all cases of the tenant that
  match the filters, in the order of their identifiers, each exactly once.
\<close>

theorem pages_cover_matches:
  assumes "0 < lq_limit q" "lq_cursor q = None" "db_ok d"
    and "\<And>r. r \<in> set (candidate_cases d) \<Longrightarrow> cr_id r \<noteq> []" "length (matching_rows q d) < n"
  shows "\<exists>pages. follow_pages n q (open_session d) = Some pages \<and>
    concat pages = map to_list_item (matching_rows q d) \<and> (\<forall>p \<in> set pages. length p \<le> lq_limit q)"
proof -
  have "after_cursor q d = matching_rows q d" using assms(2) by (simp add: after_cursor_def when_given_def)
  with follow_pages_from [of q d "[]" n] assms db_ok_keys(1) show ?thesis by simp
qed

definition sample_query :: list_query where
  "sample_query = \<lparr>lq_tenant_id = ''t'', lq_stage = None, lq_requisition_id = Some ''q'',
     lq_cursor = None, lq_limit = 2\<rparr>"

theorem pages_cover_matches_witness:
  "\<exists>pages. follow_pages 4 sample_query (open_session sample_db) = Some pages \<and>
    map li_id (concat pages) = [''c1'', ''c2'', ''c3'']"
proof -
  have "list_filters sample_query (sample_case i m st v)" for i m st v
    by (simp add: list_filters_def sample_query_def when_given_def)
  then have m: "map cr_id (matching_rows sample_query sample_db) = [''c1'', ''c2'', ''c3'']"
    by (simp add: matching_rows_def)
  then have "length (matching_rows sample_query sample_db) < 4"
    using length_map [of cr_id "matching_rows sample_query sample_db"] by simp
  then have "\<exists>pages. follow_pages 4 sample_query (open_session sample_db) = Some pages \<and>
      concat pages = map to_list_item (matching_rows sample_query sample_db) \<and>
      (\<forall>p \<in> set pages. length p \<le> lq_limit sample_query)"
    by (intro pages_cover_matches) (auto simp: sample_query_def)
  then obtain pages where p: "follow_pages 4 sample_query (open_session sample_db) = Some pages"
    "concat pages = map to_list_item (matching_rows sample_query sample_db)" by blast
  have "li_id (to_list_item r) = cr_id r" for r
    by (simp add: to_list_item_def)
  with p m show ?thesis by auto
qed

end
