(* ===== verification/Candidate_Concurrency.thy ===== *)
theory Candidate_Concurrency
  imports Candidates
begin

text \<open>
  The transition handler under concurrency. Each client runs \<open>TransitionCandidateHandler.handle\<close>
  in its own session: it reads the case, decides, and later writes. Between the read and the
  write any number of other clients may run. The guarded update takes the row's lock, so the write
  and the commit are one step.
\<close>

datatype client =
    Waiting transition_command
  | Decided transition_command candidate_case candidate_case
  | Finished transition_command "exn + candidate_case"

record world =
  w_db :: db
  w_client :: "nat \<Rightarrow> client"

definition world_init :: "db \<Rightarrow> world \<Rightarrow> bool" where
  "world_init d w = (w_db w = d \<and> (\<forall>i. \<exists>c. w_client w i = Waiting c))"

inductive client_step :: "(nat \<Rightarrow> ctx) \<Rightarrow> world \<Rightarrow> world \<Rightarrow> bool" for env :: "nat \<Rightarrow> ctx" where
  read_decides: "client_step env w (w\<lparr>w_client := (w_client w)(i := Decided c cand moved)\<rparr>)"
    if "w_client w i = Waiting c"
      and "candidate_get (tc_candidate_id c) (tc_tenant_id c) (open_session (w_db w)) = Inr found"
      and "transition_decide c found = Inr (cand, moved)"
| read_raises: "client_step env w (w\<lparr>w_client := (w_client w)(i := Finished c (Inl e))\<rparr>)"
    if "w_client w i = Waiting c"
      and "candidate_get (tc_candidate_id c) (tc_tenant_id c) (open_session (w_db w)) = Inl e \<or>
        candidate_get (tc_candidate_id c) (tc_tenant_id c) (open_session (w_db w)) = Inr found \<and>
        transition_decide c found = Inl e"
| writes: "client_step env w (w\<lparr>w_db := d', w_client := (w_client w)(i := Finished c res)\<rparr>)"
    if "w_client w i = Decided c cand moved"
      and "with_session (transition_persist (env i) c cand moved) (w_db w) = (res, d')"

text \<open>The handler run as one step, for the refinement.\<close>

definition atomic_step :: "db \<Rightarrow> db \<Rightarrow> bool" where
  "atomic_step d d' = (\<exists>cx c. d' = snd (with_session (transition_candidate cx c) d))"

section \<open>What holds in every reachable world\<close>

text \<open>
  A client that has decided holds a case whose row is still there, at the version it read with the
  stage it read, or at a later version. A client that has won left its version behind.
\<close>

definition decided_ok :: "db \<Rightarrow> transition_command \<Rightarrow> candidate_case \<Rightarrow> candidate_case \<Rightarrow> bool" where
  "decided_ok d c cand moved =
    (\<exists>r b. r \<in> set (candidate_cases d) \<and> cr_id r = tc_candidate_id c \<and> cr_tenant_id r = tc_tenant_id c \<and>
      cr_requisition_id r = cc_requisition_id cand \<and>
      cc_id cand = cr_id r \<and> cc_tenant_id cand = cr_tenant_id r \<and>
      cc_version cand = tc_expected_version c \<and> cc_version cand \<le> cr_version r \<and>
      (cr_version r = cc_version cand \<longrightarrow> cr_stage r = stage_value (cc_stage cand)) \<and>
      tc_target_stage c = stage_value b \<and> b \<in> allowed_transitions (cc_stage cand) \<and>
      moved = cand\<lparr>cc_stage := b, cc_version := cc_version cand + 1\<rparr>)"

definition won_ok :: "db \<Rightarrow> transition_command \<Rightarrow> bool" where
  "won_ok d c = (\<exists>r \<in> set (candidate_cases d). cr_id r = tc_candidate_id c \<and>
     cr_tenant_id r = tc_tenant_id c \<and> tc_expected_version c < cr_version r)"

definition same_case_version :: "transition_command \<Rightarrow> transition_command \<Rightarrow> bool" where
  "same_case_version c c' = (tc_candidate_id c = tc_candidate_id c' \<and>
     tc_tenant_id c = tc_tenant_id c' \<and> tc_expected_version c = tc_expected_version c')"

definition world_inv :: "db \<Rightarrow> world \<Rightarrow> bool" where
  "world_inv d0 w =
    (db_ok (w_db w) \<and> reachable (\<lambda>d. d = d0) atomic_step (w_db w) \<and>
     (\<forall>i c cand moved. w_client w i = Decided c cand moved \<longrightarrow> decided_ok (w_db w) c cand moved) \<and>
     (\<forall>i c m. w_client w i = Finished c (Inr m) \<longrightarrow> won_ok (w_db w) c) \<and>
     (\<forall>i j c c' m m'. w_client w i = Finished c (Inr m) \<longrightarrow> w_client w j = Finished c' (Inr m') \<longrightarrow>
        same_case_version c c' \<longrightarrow> i = j))"

lemma decided_ok_read:
  assumes "candidate_get (tc_candidate_id c) (tc_tenant_id c) (open_session d) = Inr found"
    and "transition_decide c found = Inr (cand, moved)"
  shows "decided_ok d c cand moved"
proof -
  obtain b where b: "found = Some cand" "cc_version cand = tc_expected_version c"
    "tc_target_stage c = stage_value b" "b \<in> allowed_transitions (cc_stage cand)"
    "moved = cand\<lparr>cc_stage := b, cc_version := cc_version cand + 1\<rparr>"
    using assms(2) by (auto simp: transition_decide_Inr)
  obtain r where r: "r \<in> set (candidate_cases d)" "cr_id r = tc_candidate_id c"
    "cr_tenant_id r = tc_tenant_id c" "cr_stage r = stage_value (cc_stage cand)" "cand = row_case r (cc_stage cand)"
    using candidate_get_Some [OF assms(1) [unfolded b(1)]] by auto
  have "cc_id cand = cr_id r" "cc_tenant_id cand = cr_tenant_id r" "cc_version cand = cr_version r"
    "cc_requisition_id cand = cr_requisition_id r"
    using r(5) by (metis row_case_simps)+
  with b r show ?thesis unfolding decided_ok_def by (intro exI [of _ r] exI [of _ b]) simp
qed

text \<open>A write either fails and changes nothing, or is the atomic handler's own step.\<close>

lemma decided_write:
  assumes ok: "db_ok d" and dec: "decided_ok d c cand moved"
    and w: "with_session (transition_persist cx c cand moved) d = (Inr m, d')"
  obtains r a b where "r \<in> set (candidate_cases d)" "cr_id r = tc_candidate_id c"
    "cr_tenant_id r = tc_tenant_id c" "cr_version r = tc_expected_version c"
    "d' = stage_move cx c r a b d" "db_ok d'"
    "with_session (transition_candidate cx c) d = (Inr m, d')"
proof -
  obtain r b where r: "r \<in> set (candidate_cases d)" "cr_id r = tc_candidate_id c" "cr_tenant_id r = tc_tenant_id c"
      "cr_requisition_id r = cc_requisition_id cand" "cc_id cand = cr_id r" "cc_tenant_id cand = cr_tenant_id r"
      "cc_version cand = tc_expected_version c"
      "cr_version r = cc_version cand \<longrightarrow> cr_stage r = stage_value (cc_stage cand)"
      "tc_target_stage c = stage_value b" "b \<in> allowed_transitions (cc_stage cand)"
      "moved = cand\<lparr>cc_stage := b, cc_version := cc_version cand + 1\<rparr>"
    using dec by (auto simp: decided_ok_def)
  let ?s = "open_session d"
  have d: "distinct (map cr_id (candidate_cases d))" using db_ok_keys(1) [OF ok] .
  have "fst (candidate_store cx moved (tc_expected_version c) ?s)"
    using w by (auto simp: with_session_Inr transition_persist_def split: prod.splits if_splits)
  then obtain q where q: "q \<in> set (candidate_cases d)" "candidate_guard moved (tc_expected_version c) q"
    using candidate_guard_count [OF d] by (auto simp: candidate_store_def Let_def)
  have "q = r" by (rule key_unique [OF d]) (use q r in \<open>auto simp: candidate_guard_def\<close>)
  with q have v: "cr_version r = tc_expected_version c" by (simp add: candidate_guard_def)
  with r have st: "cr_stage r = stage_value (cc_stage cand)" by simp
  have cand: "cand = row_case r (cc_stage cand)" using r v by (cases cand) (simp add: row_case_def)
  have moved: "moved = moved_case r b" using r v by (cases cand) (simp add: moved_case_def)
  have p: "transition_persist cx c (row_case r (cc_stage cand)) (moved_case r b) ?s =
      transition_candidate cx c ?s"
    using transition_candidate_eq [OF ok r(1) st r(2)[symmetric] r(3)[symmetric] v[symmetric] r(9,10)]
      transition_persist_eq [of ?s r c cx "cc_stage cand" b] d r(1) v by simp
  with w cand moved have t: "transition_candidate cx c ?s = Inr (m, d')" by (simp add: with_session_Inr)
  then have "session_commit cx (open_session (stage_move cx c r (cc_stage cand) b d)) = Inr d'"
    using transition_candidate_eq [OF ok r(1) st r(2)[symmetric] r(3)[symmetric] v[symmetric] r(9,10)]
    by (simp split: sum.splits)
  then have "d' = stage_move cx c r (cc_stage cand) b d" "db_ok d'"
    by (auto dest: session_commitD)
  with t r v that show ?thesis by (simp add: with_session_Inr)
qed

lemma stage_move_rows:
  "candidate_cases (stage_move cx c r a b d) =
    map (\<lambda>q. if cr_id q = cr_id r then candidate_set_stage cx (moved_case r b) q else q) (candidate_cases d)"
  by (simp add: stage_move_def stage_set_def update_where_def)

text \<open>A later version of the row keeps what the other clients know.\<close>

lemma decided_ok_move:
  assumes d: "distinct (map cr_id (candidate_cases d))" and r: "r \<in> set (candidate_cases d)"
    and dec: "decided_ok d c' cand moved"
  shows "decided_ok (stage_move cx c r a b d) c' cand moved"
proof -
  obtain q t where q: "q \<in> set (candidate_cases d)" "cr_id q = tc_candidate_id c'" "cr_tenant_id q = tc_tenant_id c'"
      "cr_requisition_id q = cc_requisition_id cand" "cc_id cand = cr_id q" "cc_tenant_id cand = cr_tenant_id q"
      "cc_version cand = tc_expected_version c'" "cc_version cand \<le> cr_version q"
      "cr_version q = cc_version cand \<longrightarrow> cr_stage q = stage_value (cc_stage cand)"
      "tc_target_stage c' = stage_value t" "t \<in> allowed_transitions (cc_stage cand)"
      "moved = cand\<lparr>cc_stage := t, cc_version := cc_version cand + 1\<rparr>"
    using dec by (auto simp: decided_ok_def)
  let ?q = "if cr_id q = cr_id r then candidate_set_stage cx (moved_case r b) q else q"
  have "cr_id q = cr_id r \<Longrightarrow> q = r" using key_unique [OF d q(1) r] .
  then have "cc_version cand \<le> cr_version ?q \<and>
      (cr_version ?q = cc_version cand \<longrightarrow> cr_stage ?q = stage_value (cc_stage cand))"
    using q(8,9) by auto
  moreover have "?q \<in> set (candidate_cases (stage_move cx c r a b d))"
    using q(1) by (auto simp: stage_move_rows)
  moreover have "cr_id ?q = cr_id q" "cr_tenant_id ?q = cr_tenant_id q" "cr_requisition_id ?q = cr_requisition_id q"
    by simp_all
  ultimately show ?thesis
    unfolding decided_ok_def using q by (intro exI [of _ ?q] exI [of _ t]) simp
qed

lemma won_ok_move:
  assumes "distinct (map cr_id (candidate_cases d))" "r \<in> set (candidate_cases d)" "won_ok d c'"
  shows "won_ok (stage_move cx c r a b d) c'"
proof -
  obtain q where q: "q \<in> set (candidate_cases d)" "cr_id q = tc_candidate_id c'" "cr_tenant_id q = tc_tenant_id c'"
    "tc_expected_version c' < cr_version q" using assms(3) by (auto simp: won_ok_def)
  let ?q = "if cr_id q = cr_id r then candidate_set_stage cx (moved_case r b) q else q"
  have "cr_id q = cr_id r \<Longrightarrow> q = r" using key_unique [OF assms(1) q(1) assms(2)] .
  then have "tc_expected_version c' < cr_version ?q" using q(4) by auto
  moreover have "?q \<in> set (candidate_cases (stage_move cx c r a b d))"
    using q(1) by (auto simp: stage_move_rows)
  ultimately show ?thesis unfolding won_ok_def using q by (intro bexI [of _ ?q]) auto
qed

lemma world_inv_init: "world_init d0 w \<Longrightarrow> db_ok d0 \<Longrightarrow> world_inv d0 w"
  by (auto simp: world_init_def world_inv_def intro: reach_init) (metis client.distinct)+


lemma world_invD:
  assumes "world_inv d0 w"
  shows "db_ok (w_db w)" "reachable (\<lambda>d. d = d0) atomic_step (w_db w)"
    "w_client w i = Decided c cand moved \<Longrightarrow> decided_ok (w_db w) c cand moved"
    "w_client w i = Finished c (Inr m) \<Longrightarrow> won_ok (w_db w) c"
    "w_client w i = Finished c (Inr m) \<Longrightarrow> w_client w j = Finished c' (Inr m') \<Longrightarrow>
      same_case_version c c' \<Longrightarrow> i = j"
  using assms unfolding world_inv_def by blast+

text \<open>A client that is not the one that wrote keeps its state; the writer's own is finished.\<close>

lemma world_inv_write:
  assumes inv: "world_inv d0 w" and wi: "w_client w i = Decided c cand moved"
    and wr: "with_session (transition_persist cx c cand moved) (w_db w) = (res, d')"
  shows "world_inv d0 (w\<lparr>w_db := d', w_client := (w_client w)(i := Finished c res)\<rparr>)"
proof (cases res)
  case (Inl e)
  then have "d' = w_db w" using wr by (simp add: with_session_Inl)
  with inv Inl show ?thesis by (auto simp: world_inv_def)
next
  case (Inr m)
  note W = world_invD [OF inv]
  have ok: "db_ok (w_db w)" and dec: "decided_ok (w_db w) c cand moved" using W(1,3) wi by blast+
  obtain r a b where r: "r \<in> set (candidate_cases (w_db w))" "cr_id r = tc_candidate_id c"
      "cr_tenant_id r = tc_tenant_id c" "cr_version r = tc_expected_version c"
      "d' = stage_move cx c r a b (w_db w)" "db_ok d'"
      "with_session (transition_candidate cx c) (w_db w) = (Inr m, d')"
    using decided_write [OF ok dec] wr Inr by metis
  note d = db_ok_keys(1) [OF ok]
  have "atomic_step (w_db w) d'" using r(7) unfolding atomic_step_def by (metis snd_conv)
  then have reach: "reachable (\<lambda>d. d = d0) atomic_step d'"
    using inv by (auto simp: world_inv_def intro: reach_step)
  have "candidate_set_stage cx (moved_case r b) r \<in> set (candidate_cases d')"
    using r(1,5) by (auto simp: stage_move_rows)
  then have won: "won_ok d' c" unfolding won_ok_def using r(2-4) by (intro bexI) auto
  have lose: "\<not> same_case_version c c'" if prior: "won_ok (w_db w) c'" for c'
  proof
    assume s: "same_case_version c c'"
    obtain q where q: "q \<in> set (candidate_cases (w_db w))" "cr_id q = tc_candidate_id c'"
      "tc_expected_version c' < cr_version q" using prior unfolding won_ok_def by blast
    have "q = r" by (rule key_unique [OF d q(1) r(1)]) (use q r s in \<open>simp add: same_case_version_def\<close>)
    with q r s show False by (simp add: same_case_version_def)
  qed
  have sym: "same_case_version c' c \<longleftrightarrow> same_case_version c c'" for c'
    by (auto simp: same_case_version_def)
  show ?thesis unfolding world_inv_def
  proof (intro conjI allI impI, goal_cases)
    case (3 j c' cand' moved')
    then have "w_client w j = Decided c' cand' moved'" by (auto split: if_splits)
    from decided_ok_move [OF d r(1) W(3) [OF this]] show ?case by (simp add: r(5))
  next
    case (4 j c' m')
    show ?case
    proof (cases "j = i")
      case False
      with 4 have "w_client w j = Finished c' (Inr m')" by simp
      then have "won_ok (w_db w) c'" by (rule W(4))
      from won_ok_move [OF d r(1) this] show ?thesis by (simp add: r(5))
    qed (use 4 won in simp)
  next
    case (5 j k c' c'' m1 m2)
    have old: "w_client w l = Finished e (Inr n) \<and> won_ok (w_db w) e"
      if "(if l = i then Finished c res else w_client w l) = Finished e (Inr n)" "l \<noteq> i" for l e n
      using that W(4) by metis
    consider "j = i" "k = i" | "j = i" "k \<noteq> i" | "j \<noteq> i" "k = i" | "j \<noteq> i" "k \<noteq> i" by blast
    then show ?case
    proof cases
      case 2
      with 5 have "c' = c" "won_ok (w_db w) c''" using old [of k c'' m2] by simp_all
      with 5(3) lose show ?thesis by blast
    next
      case 3
      with 5 have "c'' = c" "won_ok (w_db w) c'" using old [of j c' m1] by simp_all
      with 5(3) lose sym show ?thesis by blast
    next
      case 4
      with 5 have "w_client w j = Finished c' (Inr m1)" "w_client w k = Finished c'' (Inr m2)" by simp_all
      then show ?thesis using 5(3) by (rule W(5))
    qed simp
  qed (use reach r(6) in simp_all)
qed

lemma world_inv_step:
  assumes "world_inv d0 w" "client_step env w w'"
  shows "world_inv d0 w'"
  using assms(2)
proof cases
  case (read_decides i c found cand moved)
  then have "decided_ok (w_db w) c cand moved" by (intro decided_ok_read)
  with assms(1) read_decides show ?thesis by (auto simp: world_inv_def)
next
  case (read_raises i c e found)
  with assms(1) show ?thesis by (auto simp: world_inv_def)
next
  case (writes i c cand moved d' res)
  with world_inv_write [OF assms(1)] show ?thesis by simp
qed

interpretation clients: invariant_of "\<lambda>w. world_init d0 w \<and> db_ok d0" "client_step env" "world_inv d0"
  for env d0
  by unfold_locales (auto intro: world_inv_init world_inv_step)

text \<open>
  Claim C14 (equivalence): the transition handler is serialisable. However the reads and writes of any number of
  concurrent clients interleave, every database they can reach is one that whole handler runs, one
  after the other, can reach from the same start.
\<close>

theorem transitions_serialisable:
  assumes "db_ok d0"
    and "reachable (\<lambda>w. world_init d0 w \<and> db_ok d0) (client_step env) w"
  shows "reachable (\<lambda>d. d = d0) atomic_step (w_db w) \<and> db_ok (w_db w)"
  using clients.inv_reachable [OF assms(2)] by (simp add: world_inv_def)

text \<open>
  No lost update between concurrent clients. Of all clients that sent a transition of
  the same case with the same expected version, at most one ever receives a success.
\<close>

lemma one_transition_wins:
  assumes "reachable (\<lambda>w. world_init d0 w \<and> db_ok d0) (client_step env) w"
    and "w_client w i = Finished c (Inr m)" "w_client w j = Finished c' (Inr m')"
    and "same_case_version c c'"
  shows "i = j"
  using clients.inv_reachable [OF assms(1)] assms(2-) by (auto simp: world_inv_def)

definition sample_world :: world where
  "sample_world = \<lparr>w_db = sample_db,
     w_client = (\<lambda>i. Waiting (sample_transition ''c2'' 3 (if i = 0 then ''rejected'' else ''withdrawn'')))\<rparr>"

definition sample_decided :: world where
  "sample_decided = sample_world\<lparr>w_client := (w_client sample_world)(0 := Decided (sample_transition ''c2'' 3 ''rejected'')
       (row_case (sample_case ''c2'' ''y'' ''interviewing'' 3) INTERVIEWING)
       (moved_case (sample_case ''c2'' ''y'' ''interviewing'' 3) REJECTED))\<rparr>"

text \<open>The first client reads and decides; then it writes.\<close>

lemma sample_reads:
  "reachable (\<lambda>w. world_init sample_db w \<and> db_ok sample_db) (client_step (\<lambda>_. sample_ctx))
    sample_decided"
proof (rule reach_step)
  show "reachable (\<lambda>w. world_init sample_db w \<and> db_ok sample_db) (client_step (\<lambda>_. sample_ctx)) sample_world"
    by (rule reach_init) (simp add: world_init_def sample_world_def)
  have "candidate_get ''c2'' ''t'' (open_session sample_db) =
      Inr (Some (row_case (sample_case ''c2'' ''y'' ''interviewing'' 3) INTERVIEWING))"
    using candidate_get_row [of "open_session sample_db" "sample_case ''c2'' ''y'' ''interviewing'' 3" INTERVIEWING]
    by simp
  moreover have "transition_decide (sample_transition ''c2'' 3 ''rejected'')
      (Some (row_case (sample_case ''c2'' ''y'' ''interviewing'' 3) INTERVIEWING)) =
    Inr (row_case (sample_case ''c2'' ''y'' ''interviewing'' 3) INTERVIEWING,
      moved_case (sample_case ''c2'' ''y'' ''interviewing'' 3) REJECTED)"
    unfolding transition_decide_Inr
    by (rule exI [of _ REJECTED]) (simp add: sample_transition_def row_case_def moved_case_def)
  ultimately show "client_step (\<lambda>_. sample_ctx) sample_world
     sample_decided"
    unfolding sample_decided_def
    by (intro read_decides) (simp_all add: sample_world_def sample_transition_def)
qed

lemma sample_writes:
  "\<exists>w m. reachable (\<lambda>w. world_init sample_db w \<and> db_ok sample_db) (client_step (\<lambda>_. sample_ctx)) w \<and>
    w_client w 0 = Finished (sample_transition ''c2'' 3 ''rejected'') (Inr m)"
proof -
  let ?c = "sample_transition ''c2'' 3 ''rejected''" and ?r = "sample_case ''c2'' ''y'' ''interviewing'' 3"
  let ?w = sample_decided
  have db: "w_db ?w = sample_db" by (simp add: sample_decided_def sample_world_def)
  have dec: "w_client ?w 0 = Decided ?c (row_case ?r INTERVIEWING) (moved_case ?r REJECTED)"
    by (simp add: sample_decided_def)
  have ok: "db_ok (stage_move sample_ctx ?c ?r INTERVIEWING REJECTED sample_db)"
    by (subst stage_move_ok) simp_all
  have v: "tc_expected_version ?c = cr_version ?r" by (simp add: sample_transition_def)
  have "transition_persist sample_ctx ?c (row_case ?r INTERVIEWING) (moved_case ?r REJECTED) (open_session sample_db) =
    (case session_commit sample_ctx (open_session (stage_move sample_ctx ?c ?r INTERVIEWING REJECTED sample_db)) of
       Inl e \<Rightarrow> Inl e | Inr d \<Rightarrow> Inr (moved_case ?r REJECTED, d))"
    using transition_persist_eq [of "open_session sample_db" ?r ?c, OF _ _ _ v] by simp
  then have p: "with_session (transition_persist sample_ctx ?c (row_case ?r INTERVIEWING) (moved_case ?r REJECTED)) (w_db ?w) =
      (Inr (moved_case ?r REJECTED), stage_move sample_ctx ?c ?r INTERVIEWING REJECTED sample_db)"
    using ok by (simp add: db with_session_Inr session_commit_eq)
  define w1 where "w1 = ?w\<lparr>w_db := stage_move sample_ctx ?c ?r INTERVIEWING REJECTED sample_db,
      w_client := (w_client ?w)(0 := Finished ?c (Inr (moved_case ?r REJECTED)))\<rparr>"
  have "client_step (\<lambda>_. sample_ctx) ?w w1"
    unfolding w1_def by (rule writes [OF dec p])
  with sample_reads have "reachable (\<lambda>w. world_init sample_db w \<and> db_ok sample_db) (client_step (\<lambda>_. sample_ctx)) w1"
    by (rule reach_step)
  moreover have "w_client w1 0 = Finished ?c (Inr (moved_case ?r REJECTED))" by (simp add: w1_def)
  ultimately show ?thesis by blast
qed

theorem transitions_serialisable_witness:
  "\<exists>w :: world. reachable (\<lambda>d. d = sample_db) atomic_step (w_db w) \<and> db_ok (w_db w)"
  by (rule exI) (rule transitions_serialisable [OF sample_db_ok sample_reads])

lemma one_transition_wins_witness:
  "\<exists>(w :: world) m. w_client w 0 = Finished (sample_transition ''c2'' 3 ''rejected'') (Inr m) \<and>
    (\<forall>j m'. w_client w j = Finished (sample_transition ''c2'' 3 ''withdrawn'') (Inr m') \<longrightarrow> j = 0)"
proof -
  obtain w m where w: "reachable (\<lambda>w. world_init sample_db w \<and> db_ok sample_db) (client_step (\<lambda>_. sample_ctx)) w"
    "w_client w 0 = Finished (sample_transition ''c2'' 3 ''rejected'') (Inr m)" using sample_writes by blast
  have "same_case_version (sample_transition ''c2'' 3 ''withdrawn'') (sample_transition ''c2'' 3 ''rejected'')"
    by (simp add: same_case_version_def sample_transition_def)
  then have "\<forall>j m'. w_client w j = Finished (sample_transition ''c2'' 3 ''withdrawn'') (Inr m') \<longrightarrow> j = 0"
    using one_transition_wins [OF w(1) _ w(2)] by simp
  with w(2) show ?thesis by (intro exI [of _ w] exI [of _ m]) simp
qed

end
