(* ===== verification/Offers.thy ===== *)
theory Offers
  imports Candidates
begin

text \<open>
  The offers module: the approval policy and the \<open>Offer\<close> aggregate of \<open>offers/domain\<close>, the
  repository of \<open>offers/infrastructure/sqlalchemy_repository.py\<close> and the handlers of
  \<open>offers/application\<close>. The offer repository is the second provider of the version guard.
\<close>

section \<open>Approval policy\<close>

record approval_step =
  as_number :: int
  as_role :: string

record approval_policy =
  ap_steps :: "approval_step list"

definition standard_policy :: approval_policy where
  "standard_policy = \<lparr>ap_steps =
    [\<lparr>as_number = 1, as_role = ''hiring_manager''\<rparr>, \<lparr>as_number = 2, as_role = ''tenant_admin''\<rparr>]\<rparr>"

definition required_role :: "approval_policy \<Rightarrow> int \<Rightarrow> exn + string" where
  "required_role policy n =
    (case List.find (\<lambda>st. as_number st = n) (ap_steps policy) of
       Some st \<Rightarrow> Inr (as_role st)
     | None \<Rightarrow> Inl (ValueError ''Unknown approval step''))"

section \<open>The offer aggregate\<close>

record offer =
  of_id :: string
  of_tenant_id :: string
  of_candidate_case_id :: string
  of_status :: string
  of_approval_step :: int
  of_version :: int

definition offer_pending :: "string \<Rightarrow> string \<Rightarrow> string \<Rightarrow> offer" where
  "offer_pending new_id tenant_id candidate_case_id =
    \<lparr>of_id = new_id, of_tenant_id = tenant_id, of_candidate_case_id = candidate_case_id,
     of_status = ''pending_approval'', of_approval_step = 1, of_version = 1\<rparr>"

record offer_decision =
  od_offer :: offer
  od_candidate_target_stage :: "candidate_stage option"
  od_step :: int
  od_decision :: string

definition offer_decide :: "offer \<Rightarrow> string \<Rightarrow> string \<Rightarrow> approval_policy \<Rightarrow> exn + offer_decision" where
  "offer_decide f decision actor_role policy =
    (if decision \<notin> {''approved'', ''rejected''}
     then Inl (InvalidOfferApprovalError ''Unsupported offer approval decision'')
     else (case required_role policy (of_approval_step f) of
         Inl e \<Rightarrow> Inl e
       | Inr role \<Rightarrow>
           if actor_role \<noteq> role
           then Inl (InvalidOfferApprovalError ''Actor is not the required approver'')
           else if decision = ''rejected''
           then Inr \<lparr>od_offer = \<lparr>of_id = of_id f, of_tenant_id = of_tenant_id f,
                  of_candidate_case_id = of_candidate_case_id f, of_status = ''rejected'',
                  of_approval_step = of_approval_step f, of_version = of_version f + 1\<rparr>,
                od_candidate_target_stage = Some OFFER_REJECTED,
                od_step = of_approval_step f, od_decision = decision\<rparr>
           else if ap_steps policy = [] then Inl IndexError
           else if of_approval_step f = as_number (last (ap_steps policy))
           then Inr \<lparr>od_offer = \<lparr>of_id = of_id f, of_tenant_id = of_tenant_id f,
                  of_candidate_case_id = of_candidate_case_id f, of_status = ''approved'',
                  of_approval_step = of_approval_step f, of_version = of_version f + 1\<rparr>,
                od_candidate_target_stage = Some OFFER_APPROVED,
                od_step = of_approval_step f, od_decision = decision\<rparr>
           else Inr \<lparr>od_offer = \<lparr>of_id = of_id f, of_tenant_id = of_tenant_id f,
                  of_candidate_case_id = of_candidate_case_id f, of_status = of_status f,
                  of_approval_step = of_approval_step f + 1, of_version = of_version f + 1\<rparr>,
                od_candidate_target_stage = None,
                od_step = of_approval_step f, od_decision = decision\<rparr>))"

section \<open>The repository\<close>

definition offer_to_domain :: "offer_row \<Rightarrow> offer" where
  "offer_to_domain r = \<lparr>of_id = or_id r, of_tenant_id = or_tenant_id r,
     of_candidate_case_id = or_candidate_case_id r, of_status = or_status r,
     of_approval_step = or_approval_step r, of_version = or_version r\<rparr>"

definition offer_get :: "string \<Rightarrow> string \<Rightarrow> session \<Rightarrow> offer option" where
  "offer_get offer_id tenant_id s =
    map_option offer_to_domain
      (List.find (\<lambda>r. or_id r = offer_id \<and> or_tenant_id r = tenant_id) (offers (ss_db s)))"

definition offer_add :: "offer \<Rightarrow> string \<Rightarrow> int \<Rightarrow> string \<Rightarrow> string \<Rightarrow> session \<Rightarrow> session" where
  "offer_add f title annual_salary currency created_by s =
    session_add (Offer_Row
      \<lparr>or_id = of_id f, or_tenant_id = of_tenant_id f,
       or_candidate_case_id = of_candidate_case_id f, or_title = title,
       or_annual_salary = annual_salary, or_currency = currency, or_status = of_status f,
       or_approval_step = of_approval_step f, or_version = of_version f,
       or_created_by = created_by\<rparr>) s"

definition offer_guard :: "offer \<Rightarrow> int \<Rightarrow> offer_row \<Rightarrow> bool" where
  "offer_guard f expected_version r =
    (or_id r = of_id f \<and> or_tenant_id r = of_tenant_id f \<and> or_version r = expected_version)"

definition offer_set :: "offer \<Rightarrow> offer_row \<Rightarrow> offer_row" where
  "offer_set f r = r\<lparr>or_status := of_status f, or_approval_step := of_approval_step f,
     or_version := of_version f\<rparr>"

definition offer_store :: "offer \<Rightarrow> int \<Rightarrow> session \<Rightarrow> bool \<times> session" where
  "offer_store f expected_version s =
    (let d = ss_db s; P = offer_guard f expected_version
     in (rowcount P (offers d) = 1,
         s\<lparr>ss_db := d\<lparr>offers := update_where P (offer_set f) (offers d)\<rparr>\<rparr>))"

definition record_decision ::
  "string \<Rightarrow> offer \<Rightarrow> int \<Rightarrow> string \<Rightarrow> string \<Rightarrow> session \<Rightarrow> session" where
  "record_decision new_id f step actor_id decision s =
    session_add (Decision_Row
      \<lparr>ad_id = new_id, ad_offer_id = of_id f, ad_tenant_id = of_tenant_id f, ad_step = step,
       ad_actor_id = actor_id, ad_decision = decision\<rparr>) s"

definition record_outbox_event ::
  "ctx \<Rightarrow> string \<Rightarrow> offer \<Rightarrow> string \<Rightarrow> string \<Rightarrow> session \<Rightarrow> session" where
  "record_outbox_event cx new_id f actor_id decision s =
    session_add (Outbox_Row
      \<lparr>ob_id = new_id, ob_tenant_id = of_tenant_id f, ob_topic = ''offer.approval_recorded.v1'',
       ob_payload = [(''offer_id'', JStr (of_id f)), (''decision'', JStr decision),
                     (''actor_id'', JStr actor_id)],
       ob_status = ''pending'', ob_published_at = None, ob_created_at = cx_ts cx\<rparr>) s"

section \<open>Creating an offer\<close>

record create_offer_command =
  ko_tenant_id :: string
  ko_candidate_case_id :: string
  ko_title :: string
  ko_annual_salary :: int
  ko_currency :: string
  ko_actor_id :: string

definition create_offer :: "ctx \<Rightarrow> create_offer_command \<Rightarrow> session \<Rightarrow> exn + offer \<times> db" where
  "create_offer cx c s =
    (case candidate_get (ko_candidate_case_id c) (ko_tenant_id c) s of
       Inl e \<Rightarrow> Inl e
     | Inr None \<Rightarrow> Inl CandidateNotEligibleForOfferError
     | Inr (Some candidate) \<Rightarrow>
         if cc_stage candidate \<noteq> INTERVIEWING then Inl CandidateNotEligibleForOfferError
         else
           let f = offer_pending (cx_uuid cx 0) (ko_tenant_id c) (cc_id candidate)
           in case candidate_transition candidate OFFER_PENDING_APPROVAL of
                Inl e \<Rightarrow> Inl e
              | Inr transitioned \<Rightarrow>
                  (case candidate_store cx transitioned (cc_version candidate) s of
                     (ok, s1) \<Rightarrow>
                       if \<not> ok then Inl OfferAlreadyExistsError
                       else
                         let s2 = offer_add f (ko_title c) (ko_annual_salary c) (ko_currency c)
                                    (ko_actor_id c) s1
                         in case session_commit cx s2 of
                              Inl e \<Rightarrow> Inl e
                            | Inr d \<Rightarrow> Inr (f, d)))"

section \<open>Deciding an offer\<close>

record decide_offer_command =
  do_offer_id :: string
  do_tenant_id :: string
  do_actor_id :: string
  do_actor_role :: string
  do_decision :: string
  do_expected_version :: int

text \<open>The candidate's part of a decision: the stage it moves to, or none before the final step.\<close>

definition decide_candidate ::
  "ctx \<Rightarrow> decide_offer_command \<Rightarrow> offer \<Rightarrow> candidate_stage option \<Rightarrow> session \<Rightarrow> exn + string \<times> session" where
  "decide_candidate cx c f target s =
    (case target of
       None \<Rightarrow> Inr (''offer_pending_approval'', s)
     | Some st \<Rightarrow>
         (case candidate_get (of_candidate_case_id f) (do_tenant_id c) s of
            Inl e \<Rightarrow> Inl e
          | Inr None \<Rightarrow> Inl (OfferConcurrencyConflictError (do_offer_id c))
          | Inr (Some candidate) \<Rightarrow>
              (case candidate_transition candidate st of
                 Inl e \<Rightarrow> Inl e
               | Inr transitioned \<Rightarrow>
                   (case candidate_store cx transitioned (cc_version candidate) s of
                      (ok, s1) \<Rightarrow>
                        if \<not> ok then Inl (OfferConcurrencyConflictError (do_offer_id c))
                        else Inr (stage_value st, s1)))))"

definition decide_offer ::
  "ctx \<Rightarrow> approval_policy \<Rightarrow> decide_offer_command \<Rightarrow> session \<Rightarrow> exn + (offer \<times> string) \<times> db" where
  "decide_offer cx policy c s =
    (case offer_get (do_offer_id c) (do_tenant_id c) s of
       None \<Rightarrow> Inl (OfferNotFoundError (do_offer_id c))
     | Some f \<Rightarrow>
         if of_version f \<noteq> do_expected_version c
         then Inl (OfferConcurrencyConflictError (do_offer_id c))
         else (case offer_decide f (do_decision c) (do_actor_role c) policy of
             Inl e \<Rightarrow> Inl e
           | Inr outcome \<Rightarrow>
               (case offer_store (od_offer outcome) (do_expected_version c) s of
                  (ok, s1) \<Rightarrow>
                    if \<not> ok then Inl (OfferConcurrencyConflictError (do_offer_id c))
                    else (case decide_candidate cx c f (od_candidate_target_stage outcome) s1 of
                        Inl e \<Rightarrow> Inl e
                      | Inr (candidate_stage, s2) \<Rightarrow>
                          let s3 = record_decision (cx_uuid cx 0) f (od_step outcome)
                                     (do_actor_id c) (od_decision outcome) s2;
                              s4 = record_outbox_event cx (cx_uuid cx 1) f (do_actor_id c)
                                     (od_decision outcome) s3
                          in case session_commit cx s4 of
                               Inl e \<Rightarrow> Inl e
                             | Inr d \<Rightarrow> Inr ((od_offer outcome, candidate_stage), d)))))"

section \<open>The repository as a version guard\<close>

definition offer_load :: "string \<times> string \<Rightarrow> session \<Rightarrow> offer option" where
  "offer_load k s = offer_get (fst k) (snd k) s"

definition offer_key :: "offer \<Rightarrow> string \<times> string" where
  "offer_key f = (of_id f, of_tenant_id f)"

definition offer_merge :: "offer \<Rightarrow> offer \<Rightarrow> offer" where
  "offer_merge stored f = f\<lparr>of_candidate_case_id := of_candidate_case_id stored\<rparr>"

definition offers_wf :: "session \<Rightarrow> bool" where
  "offers_wf s = distinct (map or_id (offers (ss_db s)))"

lemma offer_to_domain_simps [simp]:
  "of_id (offer_to_domain r) = or_id r" "of_tenant_id (offer_to_domain r) = or_tenant_id r"
  "of_candidate_case_id (offer_to_domain r) = or_candidate_case_id r"
  "of_status (offer_to_domain r) = or_status r"
  "of_approval_step (offer_to_domain r) = or_approval_step r" "of_version (offer_to_domain r) = or_version r"
  by (simp_all add: offer_to_domain_def)

lemma offer_set_simps [simp]:
  "or_id (offer_set f r) = or_id r" "or_tenant_id (offer_set f r) = or_tenant_id r"
  "or_candidate_case_id (offer_set f r) = or_candidate_case_id r"
  "or_created_by (offer_set f r) = or_created_by r" "or_status (offer_set f r) = of_status f"
  "or_approval_step (offer_set f r) = of_approval_step f" "or_version (offer_set f r) = of_version f"
  by (simp_all add: offer_set_def)

lemma offer_get_Some:
  "offer_get i t s = Some f \<Longrightarrow>
    \<exists>r \<in> set (offers (ss_db s)). or_id r = i \<and> or_tenant_id r = t \<and> f = offer_to_domain r"
  by (auto simp: offer_get_def dest!: find_SomeD)

lemma offer_get_row:
  "distinct (map or_id (offers (ss_db s))) \<Longrightarrow> r \<in> set (offers (ss_db s)) \<Longrightarrow>
    offer_get (or_id r) (or_tenant_id r) s = Some (offer_to_domain r)"
  using find_key [of or_id "offers (ss_db s)" r "or_id r" "\<lambda>q. or_tenant_id q = or_tenant_id r"]
  by (simp add: offer_get_def)

lemma offer_guard_count:
  assumes "distinct (map or_id rows)"
  shows "rowcount (offer_guard f v) rows = 1 \<longleftrightarrow> (\<exists>r \<in> set rows. offer_guard f v r)"
proof -
  have "offer_guard f v = (\<lambda>r. or_id r = of_id f \<and> or_tenant_id r = of_tenant_id f \<and> or_version r = v)"
    by (auto simp: offer_guard_def)
  with rowcount_key [OF assms, of "of_id f" "\<lambda>r. or_tenant_id r = of_tenant_id f \<and> or_version r = v"]
  show ?thesis by (auto simp: find_None split: option.splits dest: find_SomeD)
qed

lemma offer_store_fst:
  "offers_wf s \<Longrightarrow> fst (offer_store f v s) \<longleftrightarrow> (\<exists>r \<in> set (offers (ss_db s)). offer_guard f v r)"
  unfolding offer_store_def Let_def fst_conv
  by (rule offer_guard_count) (simp add: offers_wf_def)

lemma offer_store_rows:
  "offers (ss_db (snd (offer_store f v s))) = update_where (offer_guard f v) (offer_set f) (offers (ss_db s))"
  by (simp add: offer_store_def Let_def)

lemma offer_store_wf: "offers_wf s \<Longrightarrow> offers_wf (snd (offer_store f v s))"
  by (simp add: offers_wf_def offer_store_rows distinct_update_where)

lemma offer_load_row:
  "offers_wf s \<Longrightarrow> r \<in> set (offers (ss_db s)) \<Longrightarrow>
    offer_load (or_id r, or_tenant_id r) s = Some (offer_to_domain r)"
  by (simp add: offer_load_def offers_wf_def offer_get_row)

lemma offer_store_load:
  assumes wf: "offers_wf s" and ok: "fst (offer_store f v s)" and l: "offer_load (offer_key f) s = Some b"
  shows "offer_load (offer_key f) (snd (offer_store f v s)) = Some (offer_merge b f)"
proof -
  obtain r where r: "r \<in> set (offers (ss_db s))" "offer_guard f v r"
    using ok offer_store_fst [OF wf] by blast
  have k: "offer_key f = (or_id r, or_tenant_id r)" using r(2) by (simp add: offer_key_def offer_guard_def)
  have b: "b = offer_to_domain r" using l offer_load_row [OF wf r(1)] k by simp
  have "offer_set f r \<in> set (offers (ss_db (snd (offer_store f v s))))"
    using r by (auto simp: offer_store_rows set_update_where)
  from offer_load_row [OF offer_store_wf [OF wf] this] show ?thesis
    using r(2) b k by (simp add: offer_merge_def offer_to_domain_def offer_guard_def)
qed

lemma offer_store_frame:
  assumes "k \<noteq> offer_key f"
  shows "offer_load k (snd (offer_store f v s)) = offer_load k s"
proof -
  have "List.find (\<lambda>r. or_id r = fst k \<and> or_tenant_id r = snd k)
      (update_where (offer_guard f v) (offer_set f) (offers (ss_db s))) =
    List.find (\<lambda>r. or_id r = fst k \<and> or_tenant_id r = snd k) (offers (ss_db s))"
    by (rule find_update_where_other)
       (use assms in \<open>auto simp: offer_guard_def offer_key_def prod_eq_iff\<close>)
  then show ?thesis by (simp add: offer_load_def offer_get_def offer_store_rows)
qed

interpretation offers_guard: version_guard offers_wf offer_load offer_key of_version offer_merge offer_store
proof
  fix s f v b
  assume wf: "offers_wf s" and l: "offer_load (offer_key f) s = Some b" and v: "of_version b = v"
  then show "fst (offer_store f v s)"
    unfolding offer_store_fst [OF wf] offer_guard_def offer_load_def offer_key_def
    by (auto dest!: offer_get_Some)
next
  fix s f v
  assume wf: "offers_wf s" and "fst (offer_store f v s)"
  then obtain r where "r \<in> set (offers (ss_db s))" "offer_guard f v r" by (auto simp: offer_store_fst)
  then show "\<exists>b. offer_load (offer_key f) s = Some b \<and> of_version b = v"
    using offer_load_row [OF wf, of r] by (auto simp: offer_guard_def offer_key_def)
next
  fix s f v
  assume wf: "offers_wf s" and "\<not> fst (offer_store f v s)"
  then show "snd (offer_store f v s) = s"
    by (simp add: offer_store_fst) (auto simp: offer_store_def Let_def update_where_none)
qed (auto simp: offer_store_wf offer_store_load offer_store_frame offer_merge_def)

end
