(* ===== verification/Offer_Approval.thy ===== *)
theory Offer_Approval
  imports Offers
begin

text \<open>
  What the offer handlers guarantee: when a decision is accepted, what it writes, and the history
  every offer has. The history of an offer is the list of its recorded decisions; \<open>offers_inv\<close>
  says that status, step and version of each offer are those its history leads to, and
  \<open>outbox_lockstep\<close> that the outbox holds one event per decision, in the same order.
\<close>

section \<open>The standard policy\<close>

definition decided_offer :: "offer \<Rightarrow> string \<Rightarrow> offer" where
  "decided_offer f dec = f\<lparr>
     of_status := (if dec = ''rejected'' then ''rejected''
       else if of_approval_step f = 2 then ''approved'' else of_status f),
     of_approval_step := (if dec = ''approved'' \<and> of_approval_step f = 1 then 2 else of_approval_step f),
     of_version := of_version f + 1\<rparr>"

definition decision_target :: "int \<Rightarrow> string \<Rightarrow> candidate_stage option" where
  "decision_target step dec =
    (if dec = ''rejected'' then Some OFFER_REJECTED
     else if step = 2 then Some OFFER_APPROVED else None)"

definition may_decide :: "int \<Rightarrow> string \<Rightarrow> string \<Rightarrow> bool" where
  "may_decide step role dec =
    ((dec = ''approved'' \<or> dec = ''rejected'') \<and>
     (step = 1 \<and> role = ''hiring_manager'' \<or> step = 2 \<and> role = ''tenant_admin''))"

lemma required_role_standard:
  "required_role standard_policy n =
    (if n = 1 then Inr ''hiring_manager'' else if n = 2 then Inr ''tenant_admin''
     else Inl (ValueError ''Unknown approval step''))"
  by (simp add: required_role_def standard_policy_def)

lemma standard_policy_steps:
  "ap_steps standard_policy \<noteq> []" "as_number (last (ap_steps standard_policy)) = 2"
  by (simp_all add: standard_policy_def)

lemma offer_decide_standard:
  "offer_decide f dec role standard_policy = Inr o1 \<longleftrightarrow>
    may_decide (of_approval_step f) role dec \<and>
    o1 = \<lparr>od_offer = decided_offer f dec,
      od_candidate_target_stage = decision_target (of_approval_step f) dec,
      od_step = of_approval_step f, od_decision = dec\<rparr>"
proof (cases "may_decide (of_approval_step f) role dec")
  case True
  then have "(dec = ''approved'' \<or> dec = ''rejected'') \<and>
      (of_approval_step f = 1 \<and> role = ''hiring_manager'' \<or> of_approval_step f = 2 \<and> role = ''tenant_admin'')"
    by (simp add: may_decide_def)
  with True show ?thesis
    by (cases f) (elim conjE disjE; simp add: offer_decide_def required_role_standard decided_offer_def
        decision_target_def standard_policy_steps eq_commute [of o1])
next
  case False
  then have "offer_decide f dec role standard_policy \<noteq> Inr o1"
    by (auto simp: offer_decide_def required_role_standard may_decide_def)
  with False show ?thesis by simp
qed

section \<open>The effect of a decision\<close>

definition offer_put :: "offer_row \<Rightarrow> string \<Rightarrow> db \<Rightarrow> db" where
  "offer_put r dec d = d\<lparr>offers :=
     update_where (\<lambda>q. or_id q = or_id r) (offer_set (decided_offer (offer_to_domain r) dec)) (offers d)\<rparr>"

definition decision_of :: "ctx \<Rightarrow> decide_offer_command \<Rightarrow> offer_row \<Rightarrow> decision_row" where
  "decision_of cx c r = \<lparr>ad_id = cx_uuid cx 0, ad_offer_id = or_id r, ad_tenant_id = or_tenant_id r,
     ad_step = or_approval_step r, ad_actor_id = do_actor_id c, ad_decision = do_decision c\<rparr>"

definition decision_payload :: "decision_row \<Rightarrow> json_object" where
  "decision_payload a = [(''offer_id'', JStr (ad_offer_id a)), (''decision'', JStr (ad_decision a)),
     (''actor_id'', JStr (ad_actor_id a))]"

definition decision_event :: "ctx \<Rightarrow> decide_offer_command \<Rightarrow> offer_row \<Rightarrow> outbox_row" where
  "decision_event cx c r = \<lparr>ob_id = cx_uuid cx 1, ob_tenant_id = or_tenant_id r,
     ob_topic = ''offer.approval_recorded.v1'', ob_payload = decision_payload (decision_of cx c r),
     ob_status = ''pending'', ob_published_at = None, ob_created_at = cx_ts cx\<rparr>"

text \<open>The candidate's part: untouched before the final step, otherwise one allowed stage move.\<close>

definition candidate_part ::
  "ctx \<Rightarrow> string \<Rightarrow> string \<Rightarrow> candidate_stage option \<Rightarrow> db \<Rightarrow> db \<Rightarrow> bool" where
  "candidate_part cx i t target d d' =
    (case target of
       None \<Rightarrow> d' = d
     | Some b \<Rightarrow> (\<exists>q a. q \<in> set (candidate_cases d) \<and> cr_id q = i \<and> cr_tenant_id q = t \<and>
         cr_stage q = stage_value a \<and> b \<in> allowed_transitions a \<and> d' = stage_set cx q b d))"

definition stage_answer :: "candidate_stage option \<Rightarrow> string" where
  "stage_answer target = (case target of None \<Rightarrow> ''offer_pending_approval'' | Some b \<Rightarrow> stage_value b)"

lemma decide_candidate_Inr:
  assumes d: "distinct (map cr_id (candidate_cases (ss_db s)))"
  shows "decide_candidate cx c f target s = Inr (v, s2) \<longleftrightarrow>
    v = stage_answer target \<and>
    (\<exists>d2. candidate_part cx (of_candidate_case_id f) (do_tenant_id c) target (ss_db s) d2 \<and>
      s2 = s\<lparr>ss_db := d2\<rparr>)"
proof (cases target)
  case (Some b)
  let ?i = "of_candidate_case_id f" and ?t = "do_tenant_id c"
  have run: "decide_candidate cx c f (Some b) s = Inr (stage_value b, s\<lparr>ss_db := stage_set cx q b (ss_db s)\<rparr>)"
    if q: "q \<in> set (candidate_cases (ss_db s))" "cr_id q = ?i" "cr_tenant_id q = ?t"
      "cr_stage q = stage_value a" "b \<in> allowed_transitions a" for q a
    using candidate_get_row [OF d q(1,4)] candidate_store_hit [OF d q(1)] q(2,3,5)
      candidate_transition_Inr [of "row_case q a" b "moved_case q b"]
    by (simp add: decide_candidate_def row_case_def moved_case_def)
  show ?thesis
  proof
    assume L: "decide_candidate cx c f target s = Inr (v, s2)"
    then obtain cand moved where g: "candidate_get ?i ?t s = Inr (Some cand)"
      and m: "candidate_transition cand b = Inr moved"
      using Some by (auto simp: decide_candidate_def split: sum.splits option.splits)
    obtain q where q: "q \<in> set (candidate_cases (ss_db s))" "cr_id q = ?i" "cr_tenant_id q = ?t"
      "cr_stage q = stage_value (cc_stage cand)" using candidate_get_Some [OF g] by auto
    have "b \<in> allowed_transitions (cc_stage cand)" using m by (simp add: candidate_transition_Inr)
    with q L run show "v = stage_answer target \<and>
        (\<exists>d2. candidate_part cx ?i ?t target (ss_db s) d2 \<and> s2 = s\<lparr>ss_db := d2\<rparr>)"
      unfolding Some by (fastforce simp: candidate_part_def stage_answer_def)
  next
    assume "v = stage_answer target \<and> (\<exists>d2. candidate_part cx ?i ?t target (ss_db s) d2 \<and> s2 = s\<lparr>ss_db := d2\<rparr>)"
    then show "decide_candidate cx c f target s = Inr (v, s2)"
      using run unfolding Some by (auto simp: candidate_part_def stage_answer_def)
  qed
qed (auto simp: decide_candidate_def candidate_part_def stage_answer_def)

lemma candidate_part_ok: "candidate_part cx i t target d d' \<Longrightarrow> db_ok d \<Longrightarrow> db_ok d'"
  by (auto simp: candidate_part_def stage_set_ok split: option.splits)

lemma candidate_part_frame:
  assumes "candidate_part cx i t target d d'"
  shows "tenants d' = tenants d" "users d' = users d" "memberships d' = memberships d"
    "requisitions d' = requisitions d" "offers d' = offers d" "approval_decisions d' = approval_decisions d"
    "outbox_events d' = outbox_events d" "deliveries d' = deliveries d" "audit_events d' = audit_events d"
    "legal_holds d' = legal_holds d" "attachments d' = attachments d" "interviews d' = interviews d"
    "feedbacks d' = feedbacks d" "calendar_subscriptions d' = calendar_subscriptions d"
    "retention_policies d' = retention_policies d"
  using assms by (auto simp: candidate_part_def frame_simps split: option.splits)

lemma offer_put_ok: "db_ok d \<Longrightarrow> db_ok (offer_put r dec d)"
  unfolding offer_put_def by (rule db_ok_update_offers) simp_all

lemma offer_store_hit:
  assumes "distinct (map or_id (offers (ss_db s)))" "r \<in> set (offers (ss_db s))"
  shows "offer_store (decided_offer (offer_to_domain r) dec) (or_version r) s =
    (True, s\<lparr>ss_db := offer_put r dec (ss_db s)\<rparr>)"
proof -
  let ?f = "decided_offer (offer_to_domain r) dec"
  have id: "of_id ?f = or_id r" "of_tenant_id ?f = or_tenant_id r" by (simp_all add: decided_offer_def)
  have "rowcount (offer_guard ?f (or_version r)) (offers (ss_db s)) = 1"
    unfolding offer_guard_count [OF assms(1)] using assms(2) id by (auto simp: offer_guard_def)
  moreover have "update_where (offer_guard ?f (or_version r)) g (offers (ss_db s)) =
      update_where (\<lambda>q. or_id q = or_id r) g (offers (ss_db s))" for g
    unfolding update_where_def using key_unique [OF assms(1)] assms(2) id by (auto simp: offer_guard_def)
  ultimately show ?thesis by (simp add: offer_store_def offer_put_def Let_def)
qed

text \<open>A decision that is accepted, as one relation between the databases before and after.\<close>

definition decision_writes ::
  "ctx \<Rightarrow> decide_offer_command \<Rightarrow> offer_row \<Rightarrow> db \<Rightarrow> db \<Rightarrow> bool" where
  "decision_writes cx c r d d' =
    (r \<in> set (offers d) \<and> or_id r = do_offer_id c \<and> or_tenant_id r = do_tenant_id c \<and>
     or_version r = do_expected_version c \<and>
     may_decide (or_approval_step r) (do_actor_role c) (do_decision c) \<and>
     (\<exists>d2. candidate_part cx (or_candidate_case_id r) (do_tenant_id c)
         (decision_target (or_approval_step r) (do_decision c)) (offer_put r (do_decision c) d) d2 \<and>
       d' = db_insert_all d2 [Decision_Row (decision_of cx c r), Outbox_Row (decision_event cx c r)]))"

lemma decide_offer_eq:
  assumes "db_ok d" "r \<in> set (offers d)" "or_id r = do_offer_id c" "or_tenant_id r = do_tenant_id c"
    and "or_version r = do_expected_version c"
    and "may_decide (or_approval_step r) (do_actor_role c) (do_decision c)"
  shows "decide_offer cx standard_policy c (open_session d) =
    (case decide_candidate cx c (offer_to_domain r)
        (decision_target (or_approval_step r) (do_decision c)) (open_session (offer_put r (do_decision c) d)) of
       Inl e \<Rightarrow> Inl e
     | Inr (st, s2) \<Rightarrow>
         (case session_commit cx (s2\<lparr>ss_new := ss_new s2 @
             [Decision_Row (decision_of cx c r), Outbox_Row (decision_event cx c r)]\<rparr>) of
            Inl e \<Rightarrow> Inl e
          | Inr d' \<Rightarrow> Inr ((decided_offer (offer_to_domain r) (do_decision c), st), d')))"
proof -
  note d = db_ok_keys(2) [OF assms(1)]
  have g: "offer_get (do_offer_id c) (do_tenant_id c) (open_session d) = Some (offer_to_domain r)"
    using offer_get_row [of "open_session d" r] d assms by simp
  have o: "offer_decide (offer_to_domain r) (do_decision c) (do_actor_role c) standard_policy =
      Inr \<lparr>od_offer = decided_offer (offer_to_domain r) (do_decision c),
      od_candidate_target_stage = decision_target (or_approval_step r) (do_decision c),
      od_step = or_approval_step r, od_decision = do_decision c\<rparr>"
    using assms(6) by (simp add: offer_decide_standard)
  have st: "offer_store (decided_offer (offer_to_domain r) (do_decision c)) (do_expected_version c) (open_session d) =
      (True, open_session (offer_put r (do_decision c) d))"
    using offer_store_hit [of "open_session d" r] d assms by (simp add: open_session_def)
  have add: "record_outbox_event cx (cx_uuid cx 1) (offer_to_domain r) (do_actor_id c) (do_decision c)
      (record_decision (cx_uuid cx 0) (offer_to_domain r) (or_approval_step r) (do_actor_id c) (do_decision c) s2) =
      s2\<lparr>ss_new := ss_new s2 @ [Decision_Row (decision_of cx c r), Outbox_Row (decision_event cx c r)]\<rparr>" for s2
    by (simp add: record_outbox_event_def record_decision_def session_add_def decision_of_def
        decision_event_def decision_payload_def)
  show ?thesis
    by (simp add: decide_offer_def g o st add [unfolded One_nat_def] assms(5) split: sum.splits prod.splits)
qed

lemma decide_offer_Inr:
  assumes "db_ok d" "decide_offer cx standard_policy c (open_session d) = Inr (out, d')"
  obtains r where "decision_writes cx c r d d'" "db_ok d'"
    "out = (decided_offer (offer_to_domain r) (do_decision c),
      stage_answer (decision_target (or_approval_step r) (do_decision c)))"
proof -
  obtain f o1 where g: "offer_get (do_offer_id c) (do_tenant_id c) (open_session d) = Some f"
    and v: "of_version f = do_expected_version c"
    and o: "offer_decide f (do_decision c) (do_actor_role c) standard_policy = Inr o1"
    using assms(2) by (auto simp: decide_offer_def split: option.splits sum.splits if_splits)
  obtain r where r: "r \<in> set (offers d)" "or_id r = do_offer_id c" "or_tenant_id r = do_tenant_id c"
    "f = offer_to_domain r" using offer_get_Some [OF g] by auto
  have may: "may_decide (or_approval_step r) (do_actor_role c) (do_decision c)"
    using o r(4) by (simp add: offer_decide_standard)
  have v: "or_version r = do_expected_version c" using v r(4) by simp
  have dc: "distinct (map cr_id (candidate_cases (ss_db (open_session (offer_put r (do_decision c) d)))))"
    using db_ok_keys(1) [OF assms(1)] by (simp add: offer_put_def)
  from assms(2) obtain st s2 where s2: "decide_candidate cx c (offer_to_domain r)
        (decision_target (or_approval_step r) (do_decision c)) (open_session (offer_put r (do_decision c) d)) = Inr (st, s2)"
    and com: "session_commit cx (s2\<lparr>ss_new := ss_new s2 @
             [Decision_Row (decision_of cx c r), Outbox_Row (decision_event cx c r)]\<rparr>) = Inr d'"
    and out: "out = (decided_offer (offer_to_domain r) (do_decision c), st)"
    unfolding decide_offer_eq [OF assms(1) r(1-3) v may] by (auto split: sum.splits prod.splits)
  from s2 [unfolded decide_candidate_Inr [OF dc]] obtain d2 where
    d2: "candidate_part cx (or_candidate_case_id r) (do_tenant_id c)
      (decision_target (or_approval_step r) (do_decision c)) (offer_put r (do_decision c) d) d2"
    and "st = stage_answer (decision_target (or_approval_step r) (do_decision c))"
    and "s2 = open_session d2" by (auto simp: open_session_def)
  with session_commitD [OF com] r v may out that [of r] show ?thesis
    unfolding decision_writes_def by auto
qed

lemma decide_offer_run:
  assumes "db_ok d" "decision_writes cx c r d d'" "db_ok d'" "cx_db_up cx"
  shows "with_session (decide_offer cx standard_policy c) d =
    (Inr (decided_offer (offer_to_domain r) (do_decision c),
      stage_answer (decision_target (or_approval_step r) (do_decision c))), d')"
proof -
  obtain d2 where r: "r \<in> set (offers d)" "or_id r = do_offer_id c" "or_tenant_id r = do_tenant_id c"
      "or_version r = do_expected_version c" "may_decide (or_approval_step r) (do_actor_role c) (do_decision c)"
    and d2: "candidate_part cx (or_candidate_case_id r) (do_tenant_id c)
      (decision_target (or_approval_step r) (do_decision c)) (offer_put r (do_decision c) d) d2"
    and d': "d' = db_insert_all d2 [Decision_Row (decision_of cx c r), Outbox_Row (decision_event cx c r)]"
    using assms(2) by (auto simp: decision_writes_def)
  let ?s = "open_session (offer_put r (do_decision c) d)"
  have "distinct (map cr_id (candidate_cases (ss_db ?s)))"
    using db_ok_keys(1) [OF assms(1)] by (simp add: offer_put_def)
  from decide_candidate_Inr [OF this, of cx c "offer_to_domain r"] d2
  have "decide_candidate cx c (offer_to_domain r) (decision_target (or_approval_step r) (do_decision c)) ?s =
      Inr (stage_answer (decision_target (or_approval_step r) (do_decision c)), open_session d2)"
    by (auto simp: open_session_def)
  with decide_offer_eq [OF assms(1) r] assms(3,4) show ?thesis
    by (simp add: with_session_def session_commit_eq d')
qed

section \<open>Histories\<close>

definition decision_history :: "db \<Rightarrow> string \<Rightarrow> (int \<times> string) list" where
  "decision_history d i =
    map (\<lambda>a. (ad_step a, ad_decision a)) (filter (\<lambda>a. ad_offer_id a = i) (approval_decisions d))"

definition offer_state :: "db \<Rightarrow> offer_row \<Rightarrow> string \<times> int \<times> int \<times> (int \<times> string) list" where
  "offer_state d r = (or_status r, or_approval_step r, or_version r, decision_history d (or_id r))"

definition offer_states :: "(string \<times> int \<times> int \<times> (int \<times> string) list) list" where
  "offer_states =
    [(''pending_approval'', 1, 1, []),
     (''pending_approval'', 2, 2, [(1, ''approved'')]),
     (''approved'', 2, 3, [(1, ''approved''), (2, ''approved'')]),
     (''rejected'', 1, 2, [(1, ''rejected'')]),
     (''rejected'', 2, 3, [(1, ''approved''), (2, ''rejected'')])]"

definition offers_inv :: "db \<Rightarrow> bool" where
  "offers_inv d = list_all (\<lambda>r. offer_state d r \<in> set offer_states) (offers d)"

definition outbox_lockstep :: "db \<Rightarrow> bool" where
  "outbox_lockstep d =
    (map (\<lambda>e. (ob_tenant_id e, ob_topic e, ob_payload e)) (outbox_events d) =
     map (\<lambda>a. (ad_tenant_id a, ''offer.approval_recorded.v1'', decision_payload a)) (approval_decisions d))"

lemma decision_writes_tables:
  assumes "decision_writes cx c r d d'"
  shows "offers d' = offers (offer_put r (do_decision c) d)"
    "approval_decisions d' = approval_decisions d @ [decision_of cx c r]"
    "outbox_events d' = outbox_events d @ [decision_event cx c r]"
    "tenants d' = tenants d" "users d' = users d" "memberships d' = memberships d"
    "requisitions d' = requisitions d" "deliveries d' = deliveries d" "audit_events d' = audit_events d"
    "legal_holds d' = legal_holds d" "attachments d' = attachments d" "interviews d' = interviews d"
    "feedbacks d' = feedbacks d" "calendar_subscriptions d' = calendar_subscriptions d"
    "retention_policies d' = retention_policies d"
  using assms by (auto simp: decision_writes_def candidate_part_frame offer_put_def)

lemma decision_of_simps [simp]:
  "ad_offer_id (decision_of cx c r) = or_id r" "ad_step (decision_of cx c r) = or_approval_step r"
  "ad_decision (decision_of cx c r) = do_decision c" "ad_tenant_id (decision_of cx c r) = or_tenant_id r"
  "ad_actor_id (decision_of cx c r) = do_actor_id c" "ad_id (decision_of cx c r) = cx_uuid cx 0"
  by (simp_all add: decision_of_def)

text \<open>The schema accepts one decision per step, so a step in the history cannot be decided again.\<close>

lemma decided_steps:
  "n \<in> fst ` set (decision_history d i) \<longleftrightarrow>
    (i, n) \<in> set (map (\<lambda>a. (ad_offer_id a, ad_step a)) (approval_decisions d))"
  by (force simp: decision_history_def)

lemma decision_writes_fresh:
  assumes "decision_writes cx c r d d'" "db_ok d'"
  shows "or_approval_step r \<notin> fst ` set (decision_history d (or_id r))" "has_user d (do_actor_id c)"
proof -
  have "approval_decisions_ok d'" using assms(2) by (simp add: db_ok_def)
  with decision_writes_tables [OF assms(1)]
  show "or_approval_step r \<notin> fst ` set (decision_history d (or_id r))" "has_user d (do_actor_id c)"
    unfolding decided_steps by (auto simp: approval_decisions_ok_def)
qed

text \<open>A state of the list whose step has not been decided is pending, and its version is its step.\<close>

lemma undecided_state:
  assumes "offer_state d r \<in> set offer_states"
  shows "or_approval_step r \<notin> fst ` set (decision_history d (or_id r)) \<longleftrightarrow> or_status r = ''pending_approval''"
  using assms by (auto simp: offer_state_def offer_states_def)

lemma next_state:
  assumes "(st, n, v, h) \<in> set offer_states" "st = ''pending_approval''" "may_decide n role dec"
  shows "(if dec = ''rejected'' then ''rejected'' else if n = 2 then ''approved'' else st,
    if dec = ''approved'' \<and> n = 1 then 2 else n, v + 1, h @ [(n, dec)]) \<in> set offer_states"
  using assms by (auto simp: offer_states_def may_decide_def)

lemma decision_keeps_offers_inv:
  assumes inv: "offers_inv d" and w: "decision_writes cx c r d d'" and ok: "db_ok d" "db_ok d'"
  shows "offers_inv d'"
proof -
  have r: "r \<in> set (offers d)" "may_decide (or_approval_step r) (do_actor_role c) (do_decision c)"
    using w by (auto simp: decision_writes_def)
  have st: "offer_state d r \<in> set offer_states" using inv r(1) by (simp add: offers_inv_def list_all_iff)
  have pend: "or_status r = ''pending_approval''"
    using undecided_state [OF st] decision_writes_fresh(1) [OF w ok(2)] by simp
  have hist: "decision_history d' i =
      decision_history d i @ (if i = or_id r then [(or_approval_step r, do_decision c)] else [])" for i
    by (simp add: decision_history_def decision_writes_tables(2) [OF w])
  have "offer_state d' q' \<in> set offer_states" if q': "q' \<in> set (offers d')" for q'
  proof -
    obtain q where q: "q \<in> set (offers d)"
      "q' = (if or_id q = or_id r then offer_set (decided_offer (offer_to_domain r) (do_decision c)) q else q)"
      using q' by (auto simp: decision_writes_tables(1) [OF w] offer_put_def set_update_where)
    show ?thesis
    proof (cases "or_id q = or_id r")
      case True
      have "offer_state d' q' =
          (if do_decision c = ''rejected'' then ''rejected''
           else if or_approval_step r = 2 then ''approved'' else or_status r,
           if do_decision c = ''approved'' \<and> or_approval_step r = 1 then 2 else or_approval_step r,
           or_version r + 1, decision_history d (or_id r) @ [(or_approval_step r, do_decision c)])"
        using True by (simp add: q(2) offer_state_def hist decided_offer_def)
      with next_state [OF st [unfolded offer_state_def] pend r(2)] show ?thesis by simp
    next
      case False
      with inv q show ?thesis by (simp add: offer_state_def hist offers_inv_def list_all_iff)
    qed
  qed
  then show ?thesis by (simp add: offers_inv_def list_all_iff)
qed

lemma decision_keeps_lockstep:
  "outbox_lockstep d \<Longrightarrow> decision_writes cx c r d d' \<Longrightarrow> outbox_lockstep d'"
  by (simp add: outbox_lockstep_def decision_writes_tables decision_event_def)

section \<open>When a decision is accepted\<close>

definition decision_enabled :: "decide_offer_command \<Rightarrow> offer_row \<Rightarrow> db \<Rightarrow> bool" where
  "decision_enabled c r d =
    (r \<in> set (offers d) \<and> or_id r = do_offer_id c \<and> or_tenant_id r = do_tenant_id c \<and>
     or_version r = do_expected_version c \<and> or_status r = ''pending_approval'' \<and>
     may_decide (or_approval_step r) (do_actor_role c) (do_decision c) \<and>
     (or_approval_step r = 1 \<and> do_decision c = ''approved'' \<or>
      (\<exists>q \<in> set (candidate_cases d). cr_id q = or_candidate_case_id r \<and>
         cr_tenant_id q = do_tenant_id c \<and> cr_stage q = ''offer_pending_approval'')))"

lemma candidate_part_enabled:
  assumes "may_decide n role dec"
  shows "(\<exists>d2. candidate_part cx i t (decision_target n dec) d d2) \<longleftrightarrow>
    (n = 1 \<and> dec = ''approved'' \<or>
     (\<exists>q \<in> set (candidate_cases d). cr_id q = i \<and> cr_tenant_id q = t \<and>
        cr_stage q = ''offer_pending_approval''))"
proof (cases "decision_target n dec")
  case None
  with assms show ?thesis
    by (auto simp: candidate_part_def decision_target_def may_decide_def split: if_splits)
next
  case (Some b)
  then have b: "b = OFFER_REJECTED \<or> b = OFFER_APPROVED" and n: "\<not> (n = 1 \<and> dec = ''approved'')"
    using assms by (auto simp: decision_target_def may_decide_def split: if_splits)
  from b have "b \<in> allowed_transitions a \<longleftrightarrow> a = OFFER_PENDING_APPROVAL" for a
    by (auto simp: allowed_into)
  then have st: "(\<exists>a. x = stage_value a \<and> b \<in> allowed_transitions a) \<longleftrightarrow> x = ''offer_pending_approval''" for x
    by auto
  have "(\<exists>d2. candidate_part cx i t (Some b) d d2) \<longleftrightarrow>
      (\<exists>q \<in> set (candidate_cases d). cr_id q = i \<and> cr_tenant_id q = t \<and>
        (\<exists>a. cr_stage q = stage_value a \<and> b \<in> allowed_transitions a))"
    unfolding candidate_part_def option.case by blast
  then show ?thesis using n unfolding Some st by blast
qed

lemma offer_put_candidates [simp]: "candidate_cases (offer_put r dec d) = candidate_cases d"
  by (simp add: offer_put_def)

lemma decision_commits:
  assumes ok: "db_ok d" and inv: "offers_inv d" and w: "decision_writes cx c r d d'"
    and st: "or_status r = ''pending_approval''" and u: "has_user d (do_actor_id c)"
    and fresh: "cx_uuid cx 0 \<notin> set (map ad_id (approval_decisions d))" "\<not> has_event d (cx_uuid cx 1)"
  shows "db_ok d'"
proof -
  obtain d2 where r: "r \<in> set (offers d)"
    and d2: "candidate_part cx (or_candidate_case_id r) (do_tenant_id c)
      (decision_target (or_approval_step r) (do_decision c)) (offer_put r (do_decision c) d) d2"
    and d': "d' = db_insert_all d2 [Decision_Row (decision_of cx c r), Outbox_Row (decision_event cx c r)]"
    using w by (auto simp: decision_writes_def)
  have "offer_state d r \<in> set offer_states" using inv r by (simp add: offers_inv_def list_all_iff)
  then have "(or_id r, or_approval_step r) \<notin> set (map (\<lambda>a. (ad_offer_id a, ad_step a)) (approval_decisions d))"
    using undecided_state st decided_steps by metis
  moreover have "has_tenant d (or_tenant_id r)" using db_ok_offer_refs [OF ok r] by simp
  moreover have "or_id r \<in> set (map or_id (offers (offer_put r (do_decision c) d)))"
    using r by (auto simp: offer_put_def table_simps)
  ultimately have "rows_ok d2 [Decision_Row (decision_of cx c r), Outbox_Row (decision_event cx c r)]"
    using u fresh by (simp add: candidate_part_frame [OF d2] offer_put_def decision_event_def)
  with candidate_part_ok [OF d2 offer_put_ok [OF ok]] show ?thesis
    unfolding d' by (rule db_insert_all_ok)
qed

lemma decide_offer_ok_iff:
  assumes ok: "db_ok d" and inv: "offers_inv d" and up: "cx_db_up cx"
    and fresh: "cx_uuid cx 0 \<notin> set (map ad_id (approval_decisions d))" "\<not> has_event d (cx_uuid cx 1)"
  shows "is_ok (fst (with_session (decide_offer cx standard_policy c) d)) \<longleftrightarrow>
    has_user d (do_actor_id c) \<and> (\<exists>r. decision_enabled c r d)"
proof
  assume "is_ok (fst (with_session (decide_offer cx standard_policy c) d))"
  then obtain out d' where "decide_offer cx standard_policy c (open_session d) = Inr (out, d')"
    by (auto simp: with_session_def is_ok_iff split: sum.splits)
  from decide_offer_Inr [OF ok this] obtain r where r: "decision_writes cx c r d d'" "db_ok d'" by metis
  have st: "offer_state d r \<in> set offer_states"
    using r(1) inv by (simp add: decision_writes_def offers_inv_def list_all_iff)
  have "or_status r = ''pending_approval''" "has_user d (do_actor_id c)"
    using undecided_state [OF st] decision_writes_fresh [OF r] by simp_all
  moreover have "or_approval_step r = 1 \<and> do_decision c = ''approved'' \<or>
      (\<exists>q \<in> set (candidate_cases d). cr_id q = or_candidate_case_id r \<and>
         cr_tenant_id q = do_tenant_id c \<and> cr_stage q = ''offer_pending_approval'')"
    using r(1) candidate_part_enabled [of "or_approval_step r" "do_actor_role c" "do_decision c" cx
        "or_candidate_case_id r" "do_tenant_id c" "offer_put r (do_decision c) d"]
    by (auto simp: decision_writes_def)
  ultimately show "has_user d (do_actor_id c) \<and> (\<exists>r. decision_enabled c r d)"
    using r(1) unfolding decision_enabled_def decision_writes_def by blast
next
  assume "has_user d (do_actor_id c) \<and> (\<exists>r. decision_enabled c r d)"
  then obtain r where u: "has_user d (do_actor_id c)" and r: "decision_enabled c r d" by blast
  then obtain d2 where "candidate_part cx (or_candidate_case_id r) (do_tenant_id c)
      (decision_target (or_approval_step r) (do_decision c)) (offer_put r (do_decision c) d) d2"
    using candidate_part_enabled [of "or_approval_step r" "do_actor_role c" "do_decision c" cx
        "or_candidate_case_id r" "do_tenant_id c" "offer_put r (do_decision c) d"]
    by (auto simp: decision_enabled_def)
  then have w: "decision_writes cx c r d
      (db_insert_all d2 [Decision_Row (decision_of cx c r), Outbox_Row (decision_event cx c r)])"
    using r by (auto simp: decision_enabled_def decision_writes_def)
  have "or_status r = ''pending_approval''" using r by (simp add: decision_enabled_def)
  from decide_offer_run [OF ok w decision_commits [OF ok inv w this u fresh] up]
  show "is_ok (fst (with_session (decide_offer cx standard_policy c) d))" by simp
qed

section \<open>Creating an offer\<close>

definition created_offer :: "ctx \<Rightarrow> create_offer_command \<Rightarrow> offer_row" where
  "created_offer cx c =
    \<lparr>or_id = cx_uuid cx 0, or_tenant_id = ko_tenant_id c,
     or_candidate_case_id = ko_candidate_case_id c, or_title = ko_title c,
     or_annual_salary = ko_annual_salary c, or_currency = ko_currency c,
     or_status = ''pending_approval'', or_approval_step = 1, or_version = 1,
     or_created_by = ko_actor_id c\<rparr>"

definition offer_creation :: "ctx \<Rightarrow> create_offer_command \<Rightarrow> candidate_row \<Rightarrow> db \<Rightarrow> db" where
  "offer_creation cx c r d =
    db_insert (stage_set cx r OFFER_PENDING_APPROVAL d) (Offer_Row (created_offer cx c))"

definition creation_enabled :: "create_offer_command \<Rightarrow> candidate_row \<Rightarrow> db \<Rightarrow> bool" where
  "creation_enabled c r d =
    (r \<in> set (candidate_cases d) \<and> cr_id r = ko_candidate_case_id c \<and>
     cr_tenant_id r = ko_tenant_id c \<and> cr_stage r = ''interviewing'')"

lemma create_offer_eq:
  assumes "db_ok d" "creation_enabled c r d"
  shows "create_offer cx c (open_session d) =
    (case session_commit cx (open_session (offer_creation cx c r d)) of
       Inl e \<Rightarrow> Inl e
     | Inr d' \<Rightarrow> Inr (offer_pending (cx_uuid cx 0) (ko_tenant_id c) (ko_candidate_case_id c), d'))"
proof -
  have r: "r \<in> set (candidate_cases d)" "cr_id r = ko_candidate_case_id c"
    "cr_tenant_id r = ko_tenant_id c" "cr_stage r = stage_value INTERVIEWING"
    using assms(2) by (simp_all add: creation_enabled_def)
  note d = db_ok_keys(1) [OF assms(1)]
  have g: "candidate_get (ko_candidate_case_id c) (ko_tenant_id c) (open_session d) =
      Inr (Some (row_case r INTERVIEWING))"
    using candidate_get_row [of "open_session d" r INTERVIEWING] d r by simp
  have t: "candidate_transition (row_case r INTERVIEWING) OFFER_PENDING_APPROVAL =
      Inr (moved_case r OFFER_PENDING_APPROVAL)"
    by (simp add: candidate_transition_Inr row_case_def moved_case_def)
  have st: "candidate_store cx (moved_case r OFFER_PENDING_APPROVAL) (cr_version r) (open_session d) =
      (True, (open_session d)\<lparr>ss_db := stage_set cx r OFFER_PENDING_APPROVAL d\<rparr>)"
    using candidate_store_hit [of "open_session d" r] d r by simp
  have com: "session_commit cx (offer_add (offer_pending (cx_uuid cx 0) (ko_tenant_id c) (cr_id r))
      (ko_title c) (ko_annual_salary c) (ko_currency c) (ko_actor_id c)
      ((open_session d)\<lparr>ss_db := stage_set cx r OFFER_PENDING_APPROVAL d\<rparr>)) =
    session_commit cx (open_session (offer_creation cx c r d))"
    using r(2) by (simp add: offer_add_def offer_pending_def session_commit_eq offer_creation_def created_offer_def)
  show ?thesis using r(2) com by (simp add: create_offer_def g t st)
qed

lemma create_offer_Inr:
  assumes "db_ok d" "create_offer cx c (open_session d) = Inr (f, d')"
  obtains r where "creation_enabled c r d" "d' = offer_creation cx c r d" "db_ok d'"
    "f = offer_pending (cx_uuid cx 0) (ko_tenant_id c) (ko_candidate_case_id c)"
proof -
  obtain cand where g: "candidate_get (ko_candidate_case_id c) (ko_tenant_id c) (open_session d) = Inr (Some cand)"
    and st: "cc_stage cand = INTERVIEWING"
    using assms(2) by (auto simp: create_offer_def split: option.splits sum.splits if_splits)
  obtain r where r: "creation_enabled c r d"
    using candidate_get_Some [OF g] st by (auto simp: creation_enabled_def)
  from assms(2) [unfolded create_offer_eq [OF assms(1) r]]
  have com: "session_commit cx (open_session (offer_creation cx c r d)) = Inr d'"
    and f: "f = offer_pending (cx_uuid cx 0) (ko_tenant_id c) (ko_candidate_case_id c)"
    by (auto split: sum.splits)
  have "d' = offer_creation cx c r d" "db_ok d'" using session_commitD [OF com] by auto
  then show ?thesis by (rule that [OF r _ _ f])
qed

lemma offer_creation_ok:
  assumes "db_ok d" "creation_enabled c r d"
  shows "db_ok (offer_creation cx c r d) \<longleftrightarrow>
    \<not> has_offer d (cx_uuid cx 0) \<and> has_user d (ko_actor_id c) \<and>
    ko_candidate_case_id c \<notin> set (map or_candidate_case_id (offers d))"
proof -
  have r: "r \<in> set (candidate_cases d)" "cr_id r = ko_candidate_case_id c" "cr_tenant_id r = ko_tenant_id c"
    using assms(2) by (simp_all add: creation_enabled_def)
  have "ko_candidate_case_id c \<in> set (map cr_id (candidate_cases (stage_set cx r OFFER_PENDING_APPROVAL d)))"
    using r by (force simp: stage_set_def table_simps)
  moreover have "has_tenant d (ko_tenant_id c)" using db_ok_candidate_refs [OF assms(1) r(1)] r by simp
  ultimately show ?thesis
    unfolding offer_creation_def db_insert_ok [OF stage_set_ok [OF assms(1)]]
    by (auto simp: frame_simps created_offer_def)
qed

lemma offer_creation_tables:
  "offers (offer_creation cx c r d) = offers d @ [created_offer cx c]"
  "candidate_cases (offer_creation cx c r d) = candidate_cases (stage_set cx r OFFER_PENDING_APPROVAL d)"
  "approval_decisions (offer_creation cx c r d) = approval_decisions d"
  "outbox_events (offer_creation cx c r d) = outbox_events d"
  "tenants (offer_creation cx c r d) = tenants d" "users (offer_creation cx c r d) = users d"
  "memberships (offer_creation cx c r d) = memberships d" "requisitions (offer_creation cx c r d) = requisitions d"
  "deliveries (offer_creation cx c r d) = deliveries d" "audit_events (offer_creation cx c r d) = audit_events d"
  "legal_holds (offer_creation cx c r d) = legal_holds d" "attachments (offer_creation cx c r d) = attachments d"
  "interviews (offer_creation cx c r d) = interviews d" "feedbacks (offer_creation cx c r d) = feedbacks d"
  "calendar_subscriptions (offer_creation cx c r d) = calendar_subscriptions d"
  "retention_policies (offer_creation cx c r d) = retention_policies d"
  by (simp_all add: offer_creation_def frame_simps)

lemma creation_keeps_offers_inv:
  assumes "offers_inv d" "db_ok d" "\<not> has_offer d (cx_uuid cx 0)"
  shows "offers_inv (offer_creation cx c r d)"
proof -
  have h: "decision_history (offer_creation cx c r d) = decision_history d"
    by (simp add: fun_eq_iff decision_history_def offer_creation_tables)
  have "\<And>a. a \<in> set (approval_decisions d) \<Longrightarrow> has_offer d (ad_offer_id a)"
    using assms(2) by (simp add: db_ok_def approval_decisions_ok_def list_all_iff)
  with assms(3) have "\<And>a. a \<in> set (approval_decisions d) \<Longrightarrow> ad_offer_id a \<noteq> cx_uuid cx 0" by metis
  then have "decision_history d (cx_uuid cx 0) = []"
    by (auto simp: decision_history_def filter_empty_conv)
  then show ?thesis
    using assms(1)
    by (simp add: offers_inv_def offer_state_def h offer_creation_tables created_offer_def offer_states_def)
qed

section \<open>Offers and the stage of their candidate\<close>

text \<open>The case of an offer belongs to the offer's tenant and has left the stages before the offer.\<close>

definition past_interviewing :: "string \<Rightarrow> bool" where
  "past_interviewing s = (s \<notin> {''applied'', ''screening'', ''interviewing''})"

definition offers_linked :: "db \<Rightarrow> bool" where
  "offers_linked d = list_all (\<lambda>f. list_ex (\<lambda>q. cr_id q = or_candidate_case_id f \<and>
     cr_tenant_id q = or_tenant_id f \<and> past_interviewing (cr_stage q)) (candidate_cases d)) (offers d)"

lemma offers_linkedD:
  "offers_linked d \<Longrightarrow> f \<in> set (offers d) \<Longrightarrow>
    \<exists>q \<in> set (candidate_cases d). cr_id q = or_candidate_case_id f \<and>
      cr_tenant_id q = or_tenant_id f \<and> past_interviewing (cr_stage q)"
  by (simp add: offers_linked_def list_all_iff list_ex_iff)

lemma past_interviewing_forward:
  "past_interviewing (stage_value a) \<Longrightarrow> b \<in> allowed_transitions a \<Longrightarrow> past_interviewing (stage_value b)"
  by (cases a) (auto simp: past_interviewing_def)

lemma linked_stage_set:
  assumes "offers_linked d" "db_ok d" "r \<in> set (candidate_cases d)" "cr_stage r = stage_value a"
    "b \<in> allowed_transitions a" "offers d' = offers d"
    "candidate_cases d' = candidate_cases (stage_set cx r b d)"
  shows "offers_linked d'"
  unfolding offers_linked_def list_all_iff list_ex_iff
proof
  fix f assume "f \<in> set (offers d')"
  then obtain q where q: "q \<in> set (candidate_cases d)" "cr_id q = or_candidate_case_id f"
    "cr_tenant_id q = or_tenant_id f" "past_interviewing (cr_stage q)"
    using offers_linkedD [OF assms(1)] assms(6) by auto
  let ?q = "if cr_id q = cr_id r then candidate_set_stage cx (moved_case r b) q else q"
  have "?q \<in> set (candidate_cases d')" using q(1) by (auto simp: assms(7) stage_set_def set_update_where)
  moreover have "cr_id q = cr_id r \<Longrightarrow> q = r" using key_unique [OF db_ok_keys(1) [OF assms(2)] q(1) assms(3)] .
  then have "past_interviewing (cr_stage ?q)" using q(4) assms(4,5) past_interviewing_forward by auto
  ultimately show "\<exists>q \<in> set (candidate_cases d'). cr_id q = or_candidate_case_id f \<and>
      cr_tenant_id q = or_tenant_id f \<and> past_interviewing (cr_stage q)"
    using q(2,3) by (intro bexI [of _ ?q]) auto
qed

lemma creation_linked:
  assumes "offers_linked d" "db_ok d" "creation_enabled c r d"
  shows "offers_linked (offer_creation cx c r d)"
proof -
  have r: "r \<in> set (candidate_cases d)" "cr_stage r = stage_value INTERVIEWING"
    using assms(3) by (simp_all add: creation_enabled_def)
  let ?d = "stage_set cx r OFFER_PENDING_APPROVAL d"
  have "offers_linked ?d" by (rule linked_stage_set [OF assms(1,2) r]) (simp_all add: frame_simps)
  moreover have "candidate_set_stage cx (moved_case r OFFER_PENDING_APPROVAL) r \<in> set (candidate_cases ?d)"
    using r(1) by (auto simp: stage_set_def set_update_where)
  then have "\<exists>q \<in> set (candidate_cases ?d). cr_id q = ko_candidate_case_id c \<and>
      cr_tenant_id q = ko_tenant_id c \<and> past_interviewing (cr_stage q)"
    using assms(3) by (intro bexI) (auto simp: creation_enabled_def past_interviewing_def)
  ultimately show ?thesis
    by (simp add: offers_linked_def offer_creation_tables frame_simps created_offer_def list_ex_iff)
qed

lemma decision_linked:
  assumes "offers_linked d" "db_ok d" "decision_writes cx c r d d'"
  shows "offers_linked d'"
proof -
  have l: "offers_linked (offer_put r (do_decision c) d)"
    using assms(1) by (simp add: offers_linked_def offer_put_def list_all_update_where)
  obtain d2 where d2: "candidate_part cx (or_candidate_case_id r) (do_tenant_id c)
      (decision_target (or_approval_step r) (do_decision c)) (offer_put r (do_decision c) d) d2"
    "d' = db_insert_all d2 [Decision_Row (decision_of cx c r), Outbox_Row (decision_event cx c r)]"
    using assms(3) by (auto simp: decision_writes_def)
  have "offers_linked d2"
  proof (cases "decision_target (or_approval_step r) (do_decision c)")
    case None
    with d2(1) l show ?thesis by (simp add: candidate_part_def)
  next
    case (Some b)
    with d2(1) obtain q a where "q \<in> set (candidate_cases (offer_put r (do_decision c) d))"
      "cr_stage q = stage_value a" "b \<in> allowed_transitions a"
      "d2 = stage_set cx q b (offer_put r (do_decision c) d)" by (auto simp: candidate_part_def)
    then show ?thesis
      using linked_stage_set [OF l offer_put_ok [OF assms(2)]] by (simp add: frame_simps)
  qed
  then show ?thesis by (simp add: d2(2) offers_linked_def)
qed

text \<open>The two approvals of a pending offer, one after the other.\<close>

lemma decision_step_version:
  assumes "offer_state d r \<in> set offer_states" "or_status r = ''pending_approval''"
  shows "or_version r = or_approval_step r"
  using assms by (auto simp: offer_state_def offer_states_def)

lemma decided_row_after:
  assumes w: "decision_writes cx c r d d'"
  shows "offer_set (decided_offer (offer_to_domain r) (do_decision c)) r \<in> set (offers d')"
  using w by (auto simp: decision_writes_tables(1) [OF w] offer_put_def set_update_where decision_writes_def)

lemma first_approval_candidates:
  assumes "decision_writes cx c r d d'" "or_approval_step r = 1" "do_decision c = ''approved''"
  shows "candidate_cases d' = candidate_cases d"
  using assms by (auto simp: decision_writes_def decision_target_def candidate_part_def)

lemma final_approval_stage:
  assumes "decision_writes cx c r d d'" "or_approval_step r = 2" "do_decision c = ''approved''" "db_ok d"
  shows "\<exists>q \<in> set (candidate_cases d'). cr_id q = or_candidate_case_id r \<and> cr_stage q = ''offer_approved''"
proof -
  obtain q a where "q \<in> set (candidate_cases d)" "cr_id q = or_candidate_case_id r"
    "candidate_cases d' = candidate_cases (stage_set cx q OFFER_APPROVED (offer_put r (do_decision c) d))"
    using assms by (auto simp: decision_writes_def decision_target_def candidate_part_def)
  then show ?thesis
    by (intro bexI [of _ "candidate_set_stage cx (moved_case q OFFER_APPROVED) q"])
       (auto simp: stage_set_def set_update_where)
qed

text \<open>
  Creating an offer succeeds exactly when the caller's tenant has
  the case and the case is in the stage \<open>interviewing\<close> (and the actor is a known user); the case
  then is in \<open>offer_pending_approval\<close> with its version moved on by one and there is one new offer,
  at step 1 and version 1, both in the same commit. In every other case nothing changes.
\<close>

lemma offer_creation_accepted:
  assumes "db_ok d" "offers_linked d" "cx_db_up cx" "\<not> has_offer d (cx_uuid cx 0)"
    and "has_user d (ko_actor_id c)"
  shows "if \<exists>r. creation_enabled c r d
    then \<exists>r. creation_enabled c r d \<and>
      with_session (create_offer cx c) d =
        (Inr (offer_pending (cx_uuid cx 0) (ko_tenant_id c) (ko_candidate_case_id c)), offer_creation cx c r d)
    else \<exists>e. with_session (create_offer cx c) d = (Inl e, d)"
proof (cases "\<exists>r. creation_enabled c r d")
  case True
  then obtain r where r: "creation_enabled c r d" by blast
  have "ko_candidate_case_id c \<notin> set (map or_candidate_case_id (offers d))"
  proof
    assume "ko_candidate_case_id c \<in> set (map or_candidate_case_id (offers d))"
    then obtain f where "f \<in> set (offers d)" "or_candidate_case_id f = ko_candidate_case_id c" by auto
    then obtain q where q: "q \<in> set (candidate_cases d)" "cr_id q = ko_candidate_case_id c"
      "past_interviewing (cr_stage q)" using offers_linkedD [OF assms(2)] by metis
    with r have "q = r"
      using key_unique [OF db_ok_keys(1) [OF assms(1)]] by (auto simp: creation_enabled_def)
    with q r show False by (simp add: creation_enabled_def past_interviewing_def)
  qed
  with assms have "db_ok (offer_creation cx c r d)" by (simp add: offer_creation_ok [OF assms(1) r])
  with r True assms(3) show ?thesis
    by (auto intro!: exI [of _ r] simp: with_session_def create_offer_eq [OF assms(1) r] session_commit_eq)
next
  case False
  then show ?thesis
    using create_offer_Inr [OF assms(1)] by (auto simp: with_session_def split: sum.splits) metis
qed

definition sample_create_offer :: create_offer_command where
  "sample_create_offer = \<lparr>ko_tenant_id = ''t'', ko_candidate_case_id = ''c2'', ko_title = ''T'',
     ko_annual_salary = 1, ko_currency = ''USD'', ko_actor_id = ''r''\<rparr>"

definition sample_decide :: "string \<Rightarrow> string \<Rightarrow> string \<Rightarrow> int \<Rightarrow> decide_offer_command" where
  "sample_decide actor role dec v = \<lparr>do_offer_id = ''o'', do_tenant_id = ''t'', do_actor_id = actor,
     do_actor_role = role, do_decision = dec, do_expected_version = v\<rparr>"

lemma sample_decide_simps [simp]:
  "do_offer_id (sample_decide a r dec v) = ''o''" "do_tenant_id (sample_decide a r dec v) = ''t''"
  "do_actor_id (sample_decide a r dec v) = a" "do_actor_role (sample_decide a r dec v) = r"
  "do_decision (sample_decide a r dec v) = dec" "do_expected_version (sample_decide a r dec v) = v"
  by (simp_all add: sample_decide_def)

lemma sample_offers_inv [simp]: "offers_inv sample_db" "outbox_lockstep sample_db" "offers_linked sample_db"
  by (simp_all add: offers_inv_def offer_state_def decision_history_def offer_states_def
      outbox_lockstep_def offers_linked_def past_interviewing_def)

lemma offer_creation_accepted_witness:
  "\<exists>d'. with_session (create_offer sample_ctx sample_create_offer) sample_db =
    (Inr (offer_pending ''n0'' ''t'' ''c2''), d')"
proof -
  have "creation_enabled sample_create_offer (sample_case ''c2'' ''y'' ''interviewing'' 3) sample_db"
    by (simp add: creation_enabled_def sample_create_offer_def)
  then have e: "\<exists>r. creation_enabled sample_create_offer r sample_db" by blast
  have "has_user sample_db (ko_actor_id sample_create_offer)" by (simp add: sample_create_offer_def)
  with offer_creation_accepted [OF sample_db_ok sample_offers_inv(3), of sample_ctx sample_create_offer] e
  obtain d' where "with_session (create_offer sample_ctx sample_create_offer) sample_db =
    (Inr (offer_pending (cx_uuid sample_ctx 0) (ko_tenant_id sample_create_offer)
      (ko_candidate_case_id sample_create_offer)), d')" by auto
  then show ?thesis by (simp add: sample_create_offer_def)
qed


lemma sample_enabled:
  "decision_enabled (sample_decide ''h'' ''hiring_manager'' ''approved'' 1) sample_offer sample_db"
  by (simp add: decision_enabled_def may_decide_def)


lemma sample_decided:
  "\<exists>out d'. with_session (decide_offer sample_ctx standard_policy
     (sample_decide ''h'' ''hiring_manager'' ''approved'' 1)) sample_db = (Inr out, d')"
proof -
  have "is_ok (fst (with_session (decide_offer sample_ctx standard_policy
     (sample_decide ''h'' ''hiring_manager'' ''approved'' 1)) sample_db))"
    by (rule iffD2 [OF decide_offer_ok_iff]) (use sample_enabled in auto)
  then show ?thesis by (metis is_ok_iff prod.collapse)
qed

text \<open>
  Claim C17 (liveness): the staged approval can be completed. When an offer waits at its first step
  and its case in \<open>offer_pending_approval\<close>, an approval by a hiring manager and then one by a
  tenant administrator, each with the version it has read, are both accepted, and the case ends in
  \<open>offer_approved\<close>.
\<close>

theorem two_approvals_approve:
  assumes "db_ok d" "offers_inv d" "r \<in> set (offers d)" "or_status r = ''pending_approval''"
    and "or_approval_step r = 1"
    and "q \<in> set (candidate_cases d)" "cr_id q = or_candidate_case_id r" "cr_tenant_id q = or_tenant_id r"
      "cr_stage q = ''offer_pending_approval''"
    and c1: "do_offer_id c1 = or_id r" "do_tenant_id c1 = or_tenant_id r" "do_decision c1 = ''approved''"
      "do_actor_role c1 = ''hiring_manager''" "do_expected_version c1 = or_version r" "has_user d (do_actor_id c1)"
    and c2: "do_offer_id c2 = or_id r" "do_tenant_id c2 = or_tenant_id r" "do_decision c2 = ''approved''"
      "do_actor_role c2 = ''tenant_admin''" "do_expected_version c2 = or_version r + 1" "has_user d (do_actor_id c2)"
    and cx1: "cx_db_up cx1" "cx_uuid cx1 0 \<notin> set (map ad_id (approval_decisions d))" "\<not> has_event d (cx_uuid cx1 1)"
    and cx2: "cx_db_up cx2" "cx_uuid cx2 0 \<notin> insert (cx_uuid cx1 0) (set (map ad_id (approval_decisions d)))"
      "cx_uuid cx2 1 \<noteq> cx_uuid cx1 1" "\<not> has_event d (cx_uuid cx2 1)"
  shows "\<exists>out1 d1 out2 d2.
    with_session (decide_offer cx1 standard_policy c1) d = (Inr out1, d1) \<and>
    with_session (decide_offer cx2 standard_policy c2) d1 = (Inr out2, d2) \<and>
    of_status (fst out2) = ''approved'' \<and> snd out2 = ''offer_approved'' \<and>
    (\<exists>q \<in> set (candidate_cases d2). cr_id q = or_candidate_case_id r \<and> cr_stage q = ''offer_approved'')"
proof -
  have may: "may_decide 1 (do_actor_role c1) ''approved''" "may_decide 2 (do_actor_role c2) ''approved''"
    using c1(4) c2(4) by (simp_all add: may_decide_def)
  have "decision_enabled c1 r d" using assms(3-5) c1 may by (simp add: decision_enabled_def)
  with decide_offer_ok_iff [OF assms(1,2) cx1, of c1] c1(6) obtain out1 d1 where
    1: "with_session (decide_offer cx1 standard_policy c1) d = (Inr out1, d1)"
    by (metis is_ok_iff prod.collapse)
  then obtain r' where w': "decision_writes cx1 c1 r' d d1" "db_ok d1"
    using decide_offer_Inr [OF assms(1)] by (metis with_session_Inr surj_pair)
  have "r' = r" using w'(1) key_unique [OF db_ok_keys(2) [OF assms(1)] _ assms(3)] c1(1)
    by (simp add: decision_writes_def)
  with w' have w: "decision_writes cx1 c1 r d d1" by simp
  let ?r = "offer_set (decided_offer (offer_to_domain r) ''approved'') r"
  have r: "?r \<in> set (offers d1)" using decided_row_after [OF w] c1(3) by simp
  have s: "or_status ?r = ''pending_approval''" "or_approval_step ?r = 2" "or_version ?r = or_version r + 1"
    using assms(4,5) by (simp_all add: decided_offer_def)
  have "q \<in> set (candidate_cases d1)" using first_approval_candidates [OF w] assms(5,6) c1(3) by simp
  then have "decision_enabled c2 ?r d1"
    using r s c2 may assms(7-9) by (auto simp: decision_enabled_def)
  moreover have "offers_inv d1" by (rule decision_keeps_offers_inv [OF assms(2) w assms(1) w'(2)])
  ultimately have "is_ok (fst (with_session (decide_offer cx2 standard_policy c2) d1))"
    using cx2 c2(6) by (subst decide_offer_ok_iff [OF w'(2)])
      (auto simp: decision_writes_tables [OF w] decision_event_def)
  then obtain out2 d2 where 2: "with_session (decide_offer cx2 standard_policy c2) d1 = (Inr out2, d2)"
    by (metis is_ok_iff prod.collapse)
  then obtain r2 where w2: "decision_writes cx2 c2 r2 d1 d2"
    "out2 = (decided_offer (offer_to_domain r2) (do_decision c2),
      stage_answer (decision_target (or_approval_step r2) (do_decision c2)))"
    using decide_offer_Inr [OF w'(2)] by (metis with_session_Inr surj_pair)
  have "r2 = ?r" using w2(1) key_unique [OF db_ok_keys(2) [OF w'(2)] _ r] c2(1)
    by (simp add: decision_writes_def)
  with w2 s c2(3) have "of_status (fst out2) = ''approved''" "snd out2 = ''offer_approved''"
    by (simp_all add: decided_offer_def decision_target_def stage_answer_def)
  moreover have "\<exists>q \<in> set (candidate_cases d2). cr_id q = or_candidate_case_id r \<and> cr_stage q = ''offer_approved''"
    using final_approval_stage [OF w2(1) _ c2(3) w'(2)] s(2) \<open>r2 = ?r\<close> by simp
  ultimately show ?thesis using 1 2 by blast
qed

theorem two_approvals_approve_witness:
  "\<exists>out1 d1 out2 d2.
    with_session (decide_offer sample_ctx standard_policy (sample_decide ''h'' ''hiring_manager'' ''approved'' 1)) sample_db =
      (Inr out1, d1) \<and>
    with_session (decide_offer sample_ctx2 standard_policy (sample_decide ''a'' ''tenant_admin'' ''approved'' 2)) d1 =
      (Inr out2, d2) \<and>
    of_status (fst out2) = ''approved'' \<and> snd out2 = ''offer_approved'' \<and>
    (\<exists>q \<in> set (candidate_cases d2). cr_id q = or_candidate_case_id sample_offer \<and> cr_stage q = ''offer_approved'')"
  by (rule two_approvals_approve [where q = "sample_case ''c3'' ''z'' ''offer_pending_approval'' 4"]) simp_all

text \<open>
  Claim C18 (invariant): every decision that is accepted keeps each offer in one of the five
  histories of the staged approval (status, step and version are those the recorded decisions lead
  to), writes exactly one decision and one outbox event, and keeps the outbox in lockstep with the
  decisions.
\<close>

theorem decision_keeps_history:
  assumes "db_ok d" "offers_inv d" "outbox_lockstep d"
    and "with_session (decide_offer cx standard_policy c) d = (Inr out, d')"
  shows "offers_inv d' \<and> outbox_lockstep d' \<and>
    length (approval_decisions d') = length (approval_decisions d) + 1 \<and>
    length (outbox_events d') = length (outbox_events d) + 1"
proof -
  obtain r where r: "decision_writes cx c r d d'" "db_ok d'"
    using decide_offer_Inr [OF assms(1)] assms(4) by (metis with_session_Inr surj_pair)
  then show ?thesis
    using decision_keeps_offers_inv [OF assms(2) r(1) assms(1) r(2)] decision_keeps_lockstep [OF assms(3) r(1)]
    by (simp add: decision_writes_tables)
qed

theorem decision_keeps_history_witness:
  "\<exists>d'. offers_inv d' \<and> outbox_lockstep d' \<and> length (approval_decisions d') = 1"
proof -
  obtain out d' where "with_session (decide_offer sample_ctx standard_policy
     (sample_decide ''h'' ''hiring_manager'' ''approved'' 1)) sample_db = (Inr out, d')"
    using sample_decided by blast
  from decision_keeps_history [OF sample_db_ok sample_offers_inv(1,2) this] show ?thesis by auto
qed

text \<open>
  An offer that has been approved or rejected cannot be decided again: whatever
  the command, the handler raises and the database stays as it is. (The aggregate itself would
  accept the decision; it is the one-decision-per-step constraint and the state machine that stop it.)
\<close>

lemma closed_offer_stays_closed:
  assumes "db_ok d" "offers_inv d" "r \<in> set (offers d)" "or_id r = do_offer_id c"
    and "or_status r = ''approved'' \<or> or_status r = ''rejected''"
  shows "\<exists>e. with_session (decide_offer cx standard_policy c) d = (Inl e, d)"
proof (cases "decide_offer cx standard_policy c (open_session d)")
  case (Inr res)
  obtain out d' where "res = (out, d')" by (cases res)
  with Inr obtain q where q: "decision_writes cx c q d d'" "db_ok d'"
    using decide_offer_Inr [OF assms(1)] by metis
  have "q = r" using q(1) key_unique [OF db_ok_keys(2) [OF assms(1)] _ assms(3)] assms(4)
    by (simp add: decision_writes_def)
  moreover have "offer_state d r \<in> set offer_states" using assms(2,3) by (simp add: offers_inv_def list_all_iff)
  ultimately have "or_status r = ''pending_approval''"
    using undecided_state decision_writes_fresh(1) [OF q] by simp
  with assms(5) show ?thesis by auto
qed (simp add: with_session_def)

definition sample_closed :: db where
  "sample_closed = db_insert (sample_db\<lparr>offers := [sample_offer\<lparr>or_status := ''rejected'', or_version := 2\<rparr>]\<rparr>)
     (Decision_Row \<lparr>ad_id = ''z'', ad_offer_id = ''o'', ad_tenant_id = ''t'', ad_step = 1, ad_actor_id = ''h'',
       ad_decision = ''rejected''\<rparr>)"

lemma sample_closed_ok: "db_ok sample_closed" "offers_inv sample_closed"
proof -
  let ?d = "sample_db\<lparr>offers := [sample_offer\<lparr>or_status := ''rejected'', or_version := 2\<rparr>]\<rparr>"
  have "db_ok ?d"
    using sample_db_ok by (simp add: db_ok_def table_ok_defs)
  then show "db_ok sample_closed"
    unfolding sample_closed_def by (subst db_insert_ok) simp_all
  show "offers_inv sample_closed"
    by (simp add: sample_closed_def offers_inv_def offer_state_def offer_states_def decision_history_def)
qed

lemma closed_offer_stays_closed_witness:
  "\<exists>e. with_session (decide_offer sample_ctx standard_policy
     (sample_decide ''h'' ''hiring_manager'' ''approved'' 2)) sample_closed = (Inl e, sample_closed)"
  by (rule closed_offer_stays_closed [OF sample_closed_ok,
      of "sample_offer\<lparr>or_status := ''rejected'', or_version := 2\<rparr>"])
     (simp_all add: sample_closed_def)

text \<open>
  The aggregate alone does not protect a closed offer: a rejected offer at the
  first step accepts an approval and waits for the second step again.
\<close>

lemma aggregate_reopens_rejected:
  assumes "of_status f = ''rejected''" "of_approval_step f = 1"
  shows "\<exists>o1. offer_decide f ''approved'' ''hiring_manager'' standard_policy = Inr o1 \<and>
    of_approval_step (od_offer o1) = 2 \<and> od_candidate_target_stage o1 = None"
  using assms by (simp add: offer_decide_standard may_decide_def decided_offer_def decision_target_def)

lemma aggregate_reopens_rejected_witness:
  "\<exists>o1. offer_decide (offer_to_domain (sample_offer\<lparr>or_status := ''rejected''\<rparr>)) ''approved''
      ''hiring_manager'' standard_policy = Inr o1 \<and> of_approval_step (od_offer o1) = 2"
  using aggregate_reopens_rejected [of "offer_to_domain (sample_offer\<lparr>or_status := ''rejected''\<rparr>)"] by auto

end
