(* ===== verification/Interviews.thy ===== *)
theory Interviews
  imports Samples
begin

text \<open>
  The interviews module: \<open>interviews/domain\<close>, the repository of
  \<open>interviews/infrastructure/sqlalchemy_repository.py\<close> and the two handlers of
  \<open>interviews/application\<close>. What they guarantee: an interview joins a case of the tenant with an
  interviewer of the tenant, and its feedback is given once, by that interviewer.
\<close>

section \<open>Domain\<close>

record interview =
  in_id :: string
  in_tenant_id :: string
  in_candidate_case_id :: string
  in_interviewer_id :: string
  in_scheduled_at :: time

definition interview_schedule :: "string \<Rightarrow> string \<Rightarrow> string \<Rightarrow> string \<Rightarrow> time \<Rightarrow> interview" where
  "interview_schedule new_id tenant_id candidate_case_id interviewer_id scheduled_at =
    \<lparr>in_id = new_id, in_tenant_id = tenant_id, in_candidate_case_id = candidate_case_id,
     in_interviewer_id = interviewer_id, in_scheduled_at = scheduled_at\<rparr>"

definition assert_feedback_can_be_submitted :: "bool \<Rightarrow> bool \<Rightarrow> exn + unit" where
  "assert_feedback_can_be_submitted is_assigned feedback_exists =
    (if \<not> is_assigned then Inl InterviewerNotAssignedError
     else if feedback_exists then Inl FeedbackAlreadySubmittedError
     else Inr ())"

section \<open>The repository\<close>

definition interview_candidate_exists :: "string \<Rightarrow> string \<Rightarrow> session \<Rightarrow> bool" where
  "interview_candidate_exists candidate_id tenant_id s =
    (List.find (\<lambda>r. cr_id r = candidate_id \<and> cr_tenant_id r = tenant_id)
       (candidate_cases (ss_db s)) \<noteq> None)"

definition interviewer_exists :: "string \<Rightarrow> string \<Rightarrow> session \<Rightarrow> bool" where
  "interviewer_exists interviewer_id tenant_id s =
    (List.find (\<lambda>m. mb_tenant_id m = tenant_id \<and> mb_user_id m = interviewer_id \<and>
       mb_role m = ''interviewer'') (memberships (ss_db s)) \<noteq> None)"

definition interview_add :: "ctx \<Rightarrow> interview \<Rightarrow> string \<Rightarrow> session \<Rightarrow> session" where
  "interview_add cx i created_by s =
    session_add (Interview_Row
      \<lparr>iv_id = in_id i, iv_tenant_id = in_tenant_id i, iv_candidate_case_id = in_candidate_case_id i,
       iv_interviewer_id = in_interviewer_id i, iv_scheduled_at = in_scheduled_at i,
       iv_created_by = created_by, iv_created_at = cx_ts cx\<rparr>) s"

definition interview_to_domain :: "interview_row \<Rightarrow> interview" where
  "interview_to_domain r = \<lparr>in_id = iv_id r, in_tenant_id = iv_tenant_id r,
     in_candidate_case_id = iv_candidate_case_id r, in_interviewer_id = iv_interviewer_id r,
     in_scheduled_at = iv_scheduled_at r\<rparr>"

definition interview_get :: "string \<Rightarrow> string \<Rightarrow> session \<Rightarrow> interview option" where
  "interview_get interview_id tenant_id s =
    map_option interview_to_domain
      (List.find (\<lambda>r. iv_id r = interview_id \<and> iv_tenant_id r = tenant_id) (interviews (ss_db s)))"

definition feedback_exists :: "string \<Rightarrow> session \<Rightarrow> bool" where
  "feedback_exists interview_id s =
    (List.find (\<lambda>f. fb_interview_id f = interview_id) (feedbacks (ss_db s)) \<noteq> None)"

record feedback =
  fe_id :: string
  fe_interview_id :: string
  fe_score :: int
  fe_recommendation :: string
  fe_comments :: string

definition add_feedback ::
  "ctx \<Rightarrow> string \<Rightarrow> interview \<Rightarrow> int \<Rightarrow> string \<Rightarrow> string \<Rightarrow> session \<Rightarrow> exn + feedback \<times> session" where
  "add_feedback cx new_id i score recommendation comments s =
    (let record = \<lparr>fb_id = new_id, fb_tenant_id = in_tenant_id i, fb_interview_id = in_id i,
           fb_interviewer_id = in_interviewer_id i, fb_score = score,
           fb_recommendation = recommendation, fb_comments = comments,
           fb_submitted_at = cx_ts cx\<rparr>
     in case session_flush cx (session_add (Feedback_Row record) s) of
          Inl e \<Rightarrow> Inl e
        | Inr s' \<Rightarrow> Inr (\<lparr>fe_id = fb_id record, fe_interview_id = fb_interview_id record,
            fe_score = fb_score record, fe_recommendation = fb_recommendation record,
            fe_comments = fb_comments record\<rparr>, s'))"

definition interview_record_audit ::
  "ctx \<Rightarrow> string \<Rightarrow> string \<Rightarrow> string \<Rightarrow> string \<Rightarrow> string \<Rightarrow> string \<Rightarrow> json_object \<Rightarrow> session \<Rightarrow> session" where
  "interview_record_audit cx new_id action aggregate_id tenant_id actor_id correlation_id metadata s =
    session_add (Audit_Row
      \<lparr>ae_id = new_id, ae_tenant_id = tenant_id, ae_actor_id = actor_id, ae_action = action,
       ae_aggregate_type = ''interview'', ae_aggregate_id = aggregate_id,
       ae_correlation_id = correlation_id, ae_metadata = metadata, ae_created_at = cx_ts cx\<rparr>) s"

section \<open>Handlers\<close>

record schedule_interview_command =
  si_tenant_id :: string
  si_candidate_case_id :: string
  si_interviewer_id :: string
  si_scheduled_at :: time
  si_actor_id :: string
  si_correlation_id :: string

definition schedule_interview ::
  "ctx \<Rightarrow> schedule_interview_command \<Rightarrow> session \<Rightarrow> exn + interview \<times> db" where
  "schedule_interview cx c s =
    (if \<not> interview_candidate_exists (si_candidate_case_id c) (si_tenant_id c) s \<or>
        \<not> interviewer_exists (si_interviewer_id c) (si_tenant_id c) s
     then Inl InterviewSchedulingTargetNotFoundError
     else
       let i = interview_schedule (cx_uuid cx 0) (si_tenant_id c) (si_candidate_case_id c)
                 (si_interviewer_id c) (si_scheduled_at c);
           s1 = interview_add cx i (si_actor_id c) s;
           s2 = interview_record_audit cx (cx_uuid cx 1) ''interview.scheduled'' (in_id i)
                  (si_tenant_id c) (si_actor_id c) (si_correlation_id c)
                  [(''candidate_case_id'', JStr (in_candidate_case_id i)),
                   (''interviewer_id'', JStr (in_interviewer_id i))] s1
       in case session_commit cx s2 of
            Inl e \<Rightarrow> Inl e
          | Inr d \<Rightarrow> Inr (i, d))"

record submit_feedback_command =
  sf_interview_id :: string
  sf_tenant_id :: string
  sf_actor_id :: string
  sf_score :: int
  sf_recommendation :: string
  sf_comments :: string
  sf_correlation_id :: string

definition submit_feedback ::
  "ctx \<Rightarrow> submit_feedback_command \<Rightarrow> session \<Rightarrow> exn + feedback \<times> db" where
  "submit_feedback cx c s =
    (case interview_get (sf_interview_id c) (sf_tenant_id c) s of
       None \<Rightarrow> Inl (InterviewNotFoundError (sf_interview_id c))
     | Some i \<Rightarrow>
         (case assert_feedback_can_be_submitted (in_interviewer_id i = sf_actor_id c)
             (feedback_exists (in_id i) s) of
            Inl e \<Rightarrow> Inl e
          | Inr _ \<Rightarrow>
              (case add_feedback cx (cx_uuid cx 0) i (sf_score c) (sf_recommendation c)
                  (py_strip (sf_comments c)) s of
                 Inl e \<Rightarrow> Inl e
               | Inr (f, s1) \<Rightarrow>
                   let s2 = interview_record_audit cx (cx_uuid cx 1) ''interview.feedback_submitted''
                              (in_id i) (sf_tenant_id c) (sf_actor_id c) (sf_correlation_id c)
                              [(''score'', JInt (fe_score f)),
                               (''recommendation'', JStr (fe_recommendation f))] s1
                   in case session_commit cx s2 of
                        Inl e \<Rightarrow> Inl e
                      | Inr d \<Rightarrow> Inr (f, d))))"

section \<open>What the handlers write\<close>

definition scheduled_row :: "ctx \<Rightarrow> schedule_interview_command \<Rightarrow> interview_row" where
  "scheduled_row cx c = \<lparr>iv_id = cx_uuid cx 0, iv_tenant_id = si_tenant_id c,
     iv_candidate_case_id = si_candidate_case_id c, iv_interviewer_id = si_interviewer_id c,
     iv_scheduled_at = si_scheduled_at c, iv_created_by = si_actor_id c, iv_created_at = cx_ts cx\<rparr>"

definition scheduled_event :: "ctx \<Rightarrow> schedule_interview_command \<Rightarrow> audit_row" where
  "scheduled_event cx c = \<lparr>ae_id = cx_uuid cx 1, ae_tenant_id = si_tenant_id c, ae_actor_id = si_actor_id c,
     ae_action = ''interview.scheduled'', ae_aggregate_type = ''interview'',
     ae_aggregate_id = cx_uuid cx 0, ae_correlation_id = si_correlation_id c,
     ae_metadata = [(''candidate_case_id'', JStr (si_candidate_case_id c)),
       (''interviewer_id'', JStr (si_interviewer_id c))], ae_created_at = cx_ts cx\<rparr>"

definition feedback_row_of :: "ctx \<Rightarrow> submit_feedback_command \<Rightarrow> interview_row \<Rightarrow> feedback_row" where
  "feedback_row_of cx c r = \<lparr>fb_id = cx_uuid cx 0, fb_tenant_id = iv_tenant_id r,
     fb_interview_id = iv_id r, fb_interviewer_id = iv_interviewer_id r, fb_score = sf_score c,
     fb_recommendation = sf_recommendation c, fb_comments = py_strip (sf_comments c),
     fb_submitted_at = cx_ts cx\<rparr>"

definition feedback_event :: "ctx \<Rightarrow> submit_feedback_command \<Rightarrow> audit_row" where
  "feedback_event cx c = \<lparr>ae_id = cx_uuid cx 1, ae_tenant_id = sf_tenant_id c, ae_actor_id = sf_actor_id c,
     ae_action = ''interview.feedback_submitted'', ae_aggregate_type = ''interview'',
     ae_aggregate_id = sf_interview_id c, ae_correlation_id = sf_correlation_id c,
     ae_metadata = [(''score'', JInt (sf_score c)), (''recommendation'', JStr (sf_recommendation c))],
     ae_created_at = cx_ts cx\<rparr>"

definition feedback_answer :: "ctx \<Rightarrow> submit_feedback_command \<Rightarrow> feedback" where
  "feedback_answer cx c = \<lparr>fe_id = cx_uuid cx 0, fe_interview_id = sf_interview_id c,
     fe_score = sf_score c, fe_recommendation = sf_recommendation c,
     fe_comments = py_strip (sf_comments c)\<rparr>"

lemma schedule_interview_eq:
  "schedule_interview cx c (open_session d) =
    (if (\<exists>r \<in> set (candidate_cases d). cr_id r = si_candidate_case_id c \<and> cr_tenant_id r = si_tenant_id c) \<and>
        (\<exists>m \<in> set (memberships d). mb_tenant_id m = si_tenant_id c \<and> mb_user_id m = si_interviewer_id c \<and>
           mb_role m = ''interviewer'')
     then (case session_commit cx \<lparr>ss_db = d, ss_new = [Interview_Row (scheduled_row cx c),
           Audit_Row (scheduled_event cx c)]\<rparr> of
        Inl e \<Rightarrow> Inl e
      | Inr d' \<Rightarrow> Inr (interview_to_domain (scheduled_row cx c), d'))
     else Inl InterviewSchedulingTargetNotFoundError)"
  by (auto simp: schedule_interview_def Let_def interview_candidate_exists_def interviewer_exists_def
      find_None interview_add_def interview_record_audit_def session_commit_eq interview_schedule_def
      scheduled_row_def scheduled_event_def interview_to_domain_def)

lemma interview_get_row:
  "db_ok d \<Longrightarrow> r \<in> set (interviews d) \<Longrightarrow>
    interview_get (iv_id r) (iv_tenant_id r) (open_session d) = Some (interview_to_domain r)"
  using find_key [of iv_id "interviews d" r "iv_id r" "\<lambda>q. iv_tenant_id q = iv_tenant_id r"] db_ok_keys(3)
  by (simp add: interview_get_def)

lemma interview_get_None:
  "interview_get i t (open_session d) = None \<longleftrightarrow>
    (\<forall>r \<in> set (interviews d). \<not> (iv_id r = i \<and> iv_tenant_id r = t))"
  by (auto simp: interview_get_def find_None)

lemma flush_then_commit:
  "(case session_flush cx \<lparr>ss_db = d, ss_new = rs\<rparr> of Inl e \<Rightarrow> Inl e
     | Inr s' \<Rightarrow> session_commit cx (session_add r s')) =
   (if \<not> cx_db_up cx then Inl OperationalError
    else if db_ok (db_insert_all d rs) \<and> db_ok (db_insert (db_insert_all d rs) r)
    then Inr (db_insert (db_insert_all d rs) r) else Inl IntegrityError)"
  by (simp add: session_flush_def session_commit_eq Let_def)

lemma submit_feedback_eq:
  assumes "db_ok d" "r \<in> set (interviews d)" "iv_id r = sf_interview_id c" "iv_tenant_id r = sf_tenant_id c"
  shows "submit_feedback cx c (open_session d) =
    (if iv_interviewer_id r \<noteq> sf_actor_id c then Inl InterviewerNotAssignedError
     else if \<exists>f \<in> set (feedbacks d). fb_interview_id f = sf_interview_id c then Inl FeedbackAlreadySubmittedError
     else (case session_flush cx \<lparr>ss_db = d, ss_new = [Feedback_Row (feedback_row_of cx c r)]\<rparr> of
         Inl e \<Rightarrow> Inl e
       | Inr s' \<Rightarrow> (case session_commit cx (session_add (Audit_Row (feedback_event cx c)) s') of
           Inl e \<Rightarrow> Inl e | Inr d' \<Rightarrow> Inr (feedback_answer cx c, d'))))"
proof -
  have g: "interview_get (sf_interview_id c) (sf_tenant_id c) (open_session d) = Some (interview_to_domain r)"
    using interview_get_row [OF assms(1,2)] assms(3,4) by simp
  have f: "feedback_exists (sf_interview_id c) (open_session d) \<longleftrightarrow>
      (\<exists>f \<in> set (feedbacks d). fb_interview_id f = sf_interview_id c)"
    by (simp add: feedback_exists_def find_None)
  have a: "add_feedback cx (cx_uuid cx 0) (interview_to_domain r) (sf_score c) (sf_recommendation c)
      (py_strip (sf_comments c)) (open_session d) =
    (case session_flush cx \<lparr>ss_db = d, ss_new = [Feedback_Row (feedback_row_of cx c r)]\<rparr> of
       Inl e \<Rightarrow> Inl e | Inr s' \<Rightarrow> Inr (feedback_answer cx c, s'))"
    using assms(3) by (simp add: add_feedback_def Let_def interview_to_domain_def feedback_row_of_def
        feedback_answer_def session_add_def open_session_def split: sum.splits)
  have e: "interview_record_audit cx (cx_uuid cx 1) ''interview.feedback_submitted'' (sf_interview_id c)
      (sf_tenant_id c) (sf_actor_id c) (sf_correlation_id c)
      [(''score'', JInt (sf_score c)), (''recommendation'', JStr (sf_recommendation c))] s' =
    session_add (Audit_Row (feedback_event cx c)) s'" for s'
    by (simp add: interview_record_audit_def feedback_event_def)
  have i: "in_id (interview_to_domain r) = sf_interview_id c" "in_interviewer_id (interview_to_domain r) = iv_interviewer_id r"
    "fe_score (feedback_answer cx c) = sf_score c" "fe_recommendation (feedback_answer cx c) = sf_recommendation c"
    using assms(3) by (simp_all add: interview_to_domain_def feedback_answer_def)
  show ?thesis
    by (simp add: submit_feedback_def g i f a e [unfolded One_nat_def] assert_feedback_can_be_submitted_def split: sum.splits)
qed

lemma schedule_interview_Inr:
  assumes "schedule_interview cx c (open_session d) = Inr (i, d')"
  shows "\<exists>r \<in> set (candidate_cases d). cr_id r = si_candidate_case_id c \<and> cr_tenant_id r = si_tenant_id c"
    "\<exists>m \<in> set (memberships d). mb_tenant_id m = si_tenant_id c \<and> mb_user_id m = si_interviewer_id c \<and>
       mb_role m = ''interviewer''"
    "d' = d\<lparr>interviews := interviews d @ [scheduled_row cx c], audit_events := audit_events d @ [scheduled_event cx c]\<rparr>"
    "db_ok d'"
  using assms by (auto simp: schedule_interview_eq split: if_splits sum.splits dest: session_commitD)

lemma submit_feedback_Inr:
  assumes ok: "db_ok d" and res: "submit_feedback cx c (open_session d) = Inr (f, d')"
  obtains r where "r \<in> set (interviews d)" "iv_id r = sf_interview_id c" "iv_tenant_id r = sf_tenant_id c"
    "iv_interviewer_id r = sf_actor_id c" "\<And>q. q \<in> set (feedbacks d) \<Longrightarrow> fb_interview_id q \<noteq> sf_interview_id c"
    "d' = d\<lparr>feedbacks := feedbacks d @ [feedback_row_of cx c r], audit_events := audit_events d @ [feedback_event cx c]\<rparr>"
    "f = feedback_answer cx c" "db_ok d'"
proof -
  have "interview_get (sf_interview_id c) (sf_tenant_id c) (open_session d) \<noteq> None"
    using res by (auto simp: submit_feedback_def split: option.splits)
  then obtain r where r: "r \<in> set (interviews d)" "iv_id r = sf_interview_id c" "iv_tenant_id r = sf_tenant_id c"
    by (auto simp: interview_get_None)
  note res = res [unfolded submit_feedback_eq [OF ok r]]
  from res obtain s' where "iv_interviewer_id r = sf_actor_id c"
    "\<forall>f \<in> set (feedbacks d). fb_interview_id f \<noteq> sf_interview_id c"
    "session_flush cx \<lparr>ss_db = d, ss_new = [Feedback_Row (feedback_row_of cx c r)]\<rparr> = Inr s'"
    "session_commit cx (session_add (Audit_Row (feedback_event cx c)) s') = Inr d'" "f = feedback_answer cx c"
    by (auto split: if_splits sum.splits)
  then show ?thesis using that [OF r] by (auto dest!: session_flushD session_commitD)
qed

section \<open>Properties\<close>

lemma schedule_rows_ok:
  assumes "db_ok d" "has_user d (si_actor_id c)"
    and "\<exists>r \<in> set (candidate_cases d). cr_id r = si_candidate_case_id c \<and> cr_tenant_id r = si_tenant_id c"
    and "\<exists>m \<in> set (memberships d). mb_tenant_id m = si_tenant_id c \<and> mb_user_id m = si_interviewer_id c \<and>
       mb_role m = ''interviewer''"
    and "\<not> has_interview d (cx_uuid cx 0)" "cx_uuid cx 1 \<notin> set (map ae_id (audit_events d))"
  shows "rows_ok d [Interview_Row (scheduled_row cx c), Audit_Row (scheduled_event cx c)]"
proof -
  have "has_tenant d (si_tenant_id c)" "has_user d (si_interviewer_id c)"
    using assms(4) db_ok_membership_refs [OF assms(1)] by metis+
  moreover have "has_candidate d (si_candidate_case_id c)" using assms(3) by force
  ultimately show ?thesis using assms(2,5,6) by (simp add: scheduled_row_def scheduled_event_def)
qed

text \<open>
  An interview is scheduled exactly when the case belongs to the
  caller's tenant and the interviewer has the role \<open>interviewer\<close> in that same tenant; then one
  interview and its audit event are committed, otherwise the handler answers
  \<open>InterviewSchedulingTargetNotFoundError\<close> and nothing changes.
\<close>

lemma schedule_interview_result:
  assumes "db_ok d" "has_user d (si_actor_id c)" "cx_db_up cx"
    and "\<not> has_interview d (cx_uuid cx 0)" "cx_uuid cx 1 \<notin> set (map ae_id (audit_events d))"
  shows "with_session (schedule_interview cx c) d =
    (if (\<exists>r \<in> set (candidate_cases d). cr_id r = si_candidate_case_id c \<and> cr_tenant_id r = si_tenant_id c) \<and>
        (\<exists>m \<in> set (memberships d). mb_tenant_id m = si_tenant_id c \<and> mb_user_id m = si_interviewer_id c \<and>
           mb_role m = ''interviewer'')
     then (Inr (interview_schedule (cx_uuid cx 0) (si_tenant_id c) (si_candidate_case_id c)
             (si_interviewer_id c) (si_scheduled_at c)),
           d\<lparr>interviews := interviews d @ [scheduled_row cx c],
             audit_events := audit_events d @ [scheduled_event cx c]\<rparr>)
     else (Inl InterviewSchedulingTargetNotFoundError, d))"
proof (cases "(\<exists>r \<in> set (candidate_cases d). cr_id r = si_candidate_case_id c \<and> cr_tenant_id r = si_tenant_id c) \<and>
        (\<exists>m \<in> set (memberships d). mb_tenant_id m = si_tenant_id c \<and> mb_user_id m = si_interviewer_id c \<and>
           mb_role m = ''interviewer'')")
  case True
  have "rows_ok d [Interview_Row (scheduled_row cx c), Audit_Row (scheduled_event cx c)]"
    using schedule_rows_ok assms True by blast
  then have com: "session_commit cx \<lparr>ss_db = d, ss_new = [Interview_Row (scheduled_row cx c), Audit_Row (scheduled_event cx c)]\<rparr> =
      Inr (d\<lparr>interviews := interviews d @ [scheduled_row cx c], audit_events := audit_events d @ [scheduled_event cx c]\<rparr>)"
    using assms(1,3) by (subst session_commit_rows) simp_all
  have "interview_to_domain (scheduled_row cx c) = interview_schedule (cx_uuid cx 0) (si_tenant_id c)
      (si_candidate_case_id c) (si_interviewer_id c) (si_scheduled_at c)"
    by (simp add: interview_to_domain_def scheduled_row_def interview_schedule_def)
  with True com show ?thesis by (simp add: with_session_def schedule_interview_eq)
next
  case False
  then show ?thesis by (simp only: with_session_def schedule_interview_eq if_False sum.case)
qed

definition sample_schedule :: "string \<Rightarrow> schedule_interview_command" where
  "sample_schedule who = \<lparr>si_tenant_id = ''t'', si_candidate_case_id = ''c2'', si_interviewer_id = who,
     si_scheduled_at = 9000, si_actor_id = ''r'', si_correlation_id = ''k''\<rparr>"

lemma schedule_interview_result_witness:
  "fst (with_session (schedule_interview sample_ctx (sample_schedule ''v'')) sample_db) =
     Inr (interview_schedule ''n0'' ''t'' ''c2'' ''v'' 9000) \<and>
   fst (with_session (schedule_interview sample_ctx (sample_schedule ''r'')) sample_db) =
     Inl InterviewSchedulingTargetNotFoundError"
proof -
  have m: "(\<exists>m \<in> set (memberships sample_db). mb_tenant_id m = ''t'' \<and> mb_user_id m = x \<and>
      mb_role m = ''interviewer'') \<longleftrightarrow> x = ''v''" for x
    by (auto simp: sample_db_def)
  show ?thesis
    using schedule_interview_result [of sample_db "sample_schedule ''v''" sample_ctx]
      schedule_interview_result [of sample_db "sample_schedule ''r''" sample_ctx]
    by (simp add: sample_schedule_def m)
qed

lemma feedback_rows_ok:
  assumes "db_ok d" "r \<in> set (interviews d)" "iv_id r = sf_interview_id c" "iv_tenant_id r = sf_tenant_id c"
    and "\<forall>f \<in> set (feedbacks d). fb_interview_id f \<noteq> sf_interview_id c"
    and "cx_uuid cx 0 \<notin> set (map fb_id (feedbacks d))" "cx_uuid cx 1 \<notin> set (map ae_id (audit_events d))"
  shows "db_ok (db_insert d (Feedback_Row (feedback_row_of cx c r)))"
    "db_ok (db_insert (db_insert d (Feedback_Row (feedback_row_of cx c r))) (Audit_Row (feedback_event cx c)))"
proof -
  have "has_tenant d (iv_tenant_id r)" "has_user d (iv_interviewer_id r)" "has_interview d (iv_id r)"
    using db_ok_interview_refs [OF assms(1,2)] assms(2) by auto
  then have ok: "row_ok d (Feedback_Row (feedback_row_of cx c r))" and t: "has_tenant d (sf_tenant_id c)"
    using assms(3-6) by (auto simp: feedback_row_of_def)
  show "db_ok (db_insert d (Feedback_Row (feedback_row_of cx c r)))" using ok assms(1) db_insert_ok by blast
  then show "db_ok (db_insert (db_insert d (Feedback_Row (feedback_row_of cx c r))) (Audit_Row (feedback_event cx c)))"
    using t assms(7) by (subst db_insert_ok) (simp_all add: feedback_event_def)
qed

text \<open>
  Claim C19 (functional, error): feedback is accepted exactly for an interview of the caller's tenant
  that is assigned to the caller and has no feedback yet; the three refusals are told apart in that
  order, and the accepted feedback is committed together with its audit event.
\<close>

theorem submit_feedback_result:
  assumes "db_ok d" "cx_db_up cx" "cx_uuid cx 0 \<notin> set (map fb_id (feedbacks d))"
    and "cx_uuid cx 1 \<notin> set (map ae_id (audit_events d))"
  shows "with_session (submit_feedback cx c) d =
    (case List.find (\<lambda>r. iv_id r = sf_interview_id c \<and> iv_tenant_id r = sf_tenant_id c) (interviews d) of
       None \<Rightarrow> (Inl (InterviewNotFoundError (sf_interview_id c)), d)
     | Some r \<Rightarrow>
         if iv_interviewer_id r \<noteq> sf_actor_id c then (Inl InterviewerNotAssignedError, d)
         else if \<exists>f \<in> set (feedbacks d). fb_interview_id f = sf_interview_id c
         then (Inl FeedbackAlreadySubmittedError, d)
         else (Inr (feedback_answer cx c),
           d\<lparr>feedbacks := feedbacks d @ [feedback_row_of cx c r],
             audit_events := audit_events d @ [feedback_event cx c]\<rparr>))"
proof (cases "List.find (\<lambda>r. iv_id r = sf_interview_id c \<and> iv_tenant_id r = sf_tenant_id c) (interviews d)")
  case None
  then show ?thesis by (simp add: with_session_def submit_feedback_def interview_get_def)
next
  case (Some r)
  then have r: "r \<in> set (interviews d)" "iv_id r = sf_interview_id c" "iv_tenant_id r = sf_tenant_id c"
    by (auto dest: find_SomeD)
  note rows = feedback_rows_ok [OF assms(1) r]
  show ?thesis
  proof (cases "\<exists>f \<in> set (feedbacks d). fb_interview_id f = sf_interview_id c")
    case True
    then show ?thesis using Some by (simp add: with_session_def submit_feedback_eq [OF assms(1) r])
  next
    case False
    with rows [of cx] assms(2-4) have
      "session_flush cx \<lparr>ss_db = d, ss_new = [Feedback_Row (feedback_row_of cx c r)]\<rparr> =
        Inr \<lparr>ss_db = db_insert d (Feedback_Row (feedback_row_of cx c r)), ss_new = []\<rparr>"
      "session_commit cx (session_add (Audit_Row (feedback_event cx c))
        \<lparr>ss_db = db_insert d (Feedback_Row (feedback_row_of cx c r)), ss_new = []\<rparr>) =
       Inr (d\<lparr>feedbacks := feedbacks d @ [feedback_row_of cx c r], audit_events := audit_events d @ [feedback_event cx c]\<rparr>)"
      by (auto simp: session_flush_def session_commit_eq Let_def)
    with False Some show ?thesis by (simp add: with_session_def submit_feedback_eq [OF assms(1) r])
  qed
qed

definition sample_feedback :: "string \<Rightarrow> submit_feedback_command" where
  "sample_feedback who = \<lparr>sf_interview_id = ''i'', sf_tenant_id = ''t'', sf_actor_id = who, sf_score = 4,
     sf_recommendation = ''hire'', sf_comments = '' ok '', sf_correlation_id = ''k''\<rparr>"

theorem submit_feedback_result_witness:
  "is_ok (fst (with_session (submit_feedback sample_ctx (sample_feedback ''v'')) sample_db)) \<and>
   fst (with_session (submit_feedback sample_ctx (sample_feedback ''r'')) sample_db) = Inl InterviewerNotAssignedError"
  using submit_feedback_result [of sample_db sample_ctx "sample_feedback ''v''"]
    submit_feedback_result [of sample_db sample_ctx "sample_feedback ''r''"]
  by (simp add: sample_feedback_def)

section \<open>Invariants\<close>

text \<open>Interviews join a case and an interviewer of the same tenant; feedback is the assigned interviewer's.\<close>

definition interviews_linked :: "db \<Rightarrow> bool" where
  "interviews_linked d = list_all (\<lambda>i.
     list_ex (\<lambda>q. cr_id q = iv_candidate_case_id i \<and> cr_tenant_id q = iv_tenant_id i) (candidate_cases d) \<and>
     list_ex (\<lambda>m. mb_tenant_id m = iv_tenant_id i \<and> mb_user_id m = iv_interviewer_id i \<and>
       mb_role m = ''interviewer'') (memberships d)) (interviews d)"

definition feedbacks_linked :: "db \<Rightarrow> bool" where
  "feedbacks_linked d = list_all (\<lambda>f. list_ex (\<lambda>i. iv_id i = fb_interview_id f \<and>
     iv_tenant_id i = fb_tenant_id f \<and> iv_interviewer_id i = fb_interviewer_id f) (interviews d)) (feedbacks d)"

lemma schedule_keeps_linked:
  assumes "interviews_linked d" "feedbacks_linked d" "schedule_interview cx c (open_session d) = Inr (i, d')"
  shows "interviews_linked d'" "feedbacks_linked d'"
  using assms(1,2) schedule_interview_Inr [OF assms(3)]
  by (auto simp: interviews_linked_def feedbacks_linked_def list_ex_iff scheduled_row_def elim: list_all_grow)

lemma submit_keeps_linked:
  assumes "interviews_linked d" "feedbacks_linked d" "db_ok d" "submit_feedback cx c (open_session d) = Inr (f, d')"
  shows "interviews_linked d'" "feedbacks_linked d'"
  by (rule submit_feedback_Inr [OF assms(3,4)],
      use assms(1,2) in \<open>auto simp: interviews_linked_def feedbacks_linked_def list_ex_iff feedback_row_of_def\<close>)+

end
