(* ===== verification/Organization.thy ===== *)
theory Organization
  imports Samples
begin

text \<open>
  The organization module: \<open>organization/application/commands.py\<close> and
  \<open>organization/infrastructure/sqlalchemy_repository.py\<close>. A new tenant is committed together with
  the membership of its administrator and an audit event; a requisition with its audit event.
\<close>

record tenant_view =
  tv_id :: string
  tv_name :: string
  tv_slug :: string

record requisition_view =
  rv_id :: string
  rv_title :: string
  rv_department :: string

record create_tenant_command =
  ct_name :: string
  ct_slug :: string
  ct_admin_id :: string

record create_requisition_command =
  cq_tenant_id :: string
  cq_title :: string
  cq_department :: string
  cq_actor_id :: string
  cq_correlation_id :: string

section \<open>The repository\<close>

definition slug_exists :: "string \<Rightarrow> session \<Rightarrow> bool" where
  "slug_exists slug s = (List.find (\<lambda>t. tn_slug t = slug) (tenants (ss_db s)) \<noteq> None)"

text \<open>The user is added only when the key is not there yet (\<open>session.get(User, admin_id) or User(...)\<close>).\<close>

definition org_create_tenant ::
  "ctx \<Rightarrow> string \<Rightarrow> string \<Rightarrow> string \<Rightarrow> string \<Rightarrow> session \<Rightarrow> exn + tenant_view \<times> session" where
  "org_create_tenant cx name slug admin_id correlation_id s =
    (let t = \<lparr>tn_id = cx_uuid cx 1, tn_name = name, tn_slug = slug, tn_created_at = cx_ts cx\<rparr>;
         s1 = session_add (Tenant_Row t) s;
         s2 = (case List.find (\<lambda>u. us_id u = admin_id) (users (ss_db s)) of
                 Some _ \<Rightarrow> s1
               | None \<Rightarrow> session_add (User_Row \<lparr>us_id = admin_id, us_email = None, us_created_at = cx_ts cx\<rparr>) s1)
     in case session_flush cx s2 of
          Inl e \<Rightarrow> Inl e
        | Inr s3 \<Rightarrow>
            let s4 = session_add (Membership_Row \<lparr>mb_id = cx_uuid cx 2, mb_tenant_id = tn_id t,
                       mb_user_id = admin_id, mb_role = ''tenant_admin'', mb_created_at = cx_ts cx\<rparr>) s3;
                s5 = session_add (Audit_Row \<lparr>ae_id = cx_uuid cx 3, ae_tenant_id = tn_id t,
                       ae_actor_id = admin_id, ae_action = ''tenant.created'', ae_aggregate_type = ''tenant'',
                       ae_aggregate_id = tn_id t, ae_correlation_id = correlation_id,
                       ae_metadata = [(''slug'', JStr (tn_slug t))], ae_created_at = cx_ts cx\<rparr>) s4
            in Inr (\<lparr>tv_id = tn_id t, tv_name = tn_name t, tv_slug = tn_slug t\<rparr>, s5))"

definition org_create_requisition ::
  "ctx \<Rightarrow> string \<Rightarrow> string \<Rightarrow> string \<Rightarrow> string \<Rightarrow> string \<Rightarrow> session \<Rightarrow> exn + requisition_view \<times> session" where
  "org_create_requisition cx tenant_id title department actor_id correlation_id s =
    (let r = \<lparr>rq_id = cx_uuid cx 0, rq_tenant_id = tenant_id, rq_title = title,
           rq_department = department, rq_created_by = actor_id, rq_created_at = cx_ts cx\<rparr>
     in case session_flush cx (session_add (Requisition_Row r) s) of
          Inl e \<Rightarrow> Inl e
        | Inr s1 \<Rightarrow>
            Inr (\<lparr>rv_id = rq_id r, rv_title = rq_title r, rv_department = rq_department r\<rparr>,
              session_add (Audit_Row \<lparr>ae_id = cx_uuid cx 1, ae_tenant_id = tenant_id,
                ae_actor_id = actor_id, ae_action = ''requisition.created'',
                ae_aggregate_type = ''requisition'', ae_aggregate_id = rq_id r,
                ae_correlation_id = correlation_id, ae_metadata = [(''title'', JStr (rq_title r))],
                ae_created_at = cx_ts cx\<rparr>) s1))"

section \<open>The service\<close>

definition create_tenant :: "ctx \<Rightarrow> create_tenant_command \<Rightarrow> session \<Rightarrow> exn + tenant_view \<times> db" where
  "create_tenant cx c s =
    (if slug_exists (ct_slug c) s then Inl TenantSlugAlreadyExistsError
     else (case org_create_tenant cx (ct_name c) (ct_slug c) (ct_admin_id c) (cx_uuid cx 0) s of
         Inl e \<Rightarrow> Inl e
       | Inr (t, s1) \<Rightarrow> (case session_commit cx s1 of Inl e \<Rightarrow> Inl e | Inr d \<Rightarrow> Inr (t, d))))"

definition create_requisition ::
  "ctx \<Rightarrow> create_requisition_command \<Rightarrow> session \<Rightarrow> exn + requisition_view \<times> db" where
  "create_requisition cx c s =
    (case org_create_requisition cx (cq_tenant_id c) (cq_title c) (cq_department c) (cq_actor_id c)
        (cq_correlation_id c) s of
       Inl e \<Rightarrow> Inl e
     | Inr (r, s1) \<Rightarrow> (case session_commit cx s1 of Inl e \<Rightarrow> Inl e | Inr d \<Rightarrow> Inr (r, d)))"

section \<open>What they write\<close>

definition tenant_rows :: "ctx \<Rightarrow> create_tenant_command \<Rightarrow> db \<Rightarrow> row list" where
  "tenant_rows cx c d =
    [Tenant_Row \<lparr>tn_id = cx_uuid cx 1, tn_name = ct_name c, tn_slug = ct_slug c, tn_created_at = cx_ts cx\<rparr>] @
    (if has_user d (ct_admin_id c) then []
     else [User_Row \<lparr>us_id = ct_admin_id c, us_email = None, us_created_at = cx_ts cx\<rparr>])"

definition admin_rows :: "ctx \<Rightarrow> create_tenant_command \<Rightarrow> row list" where
  "admin_rows cx c =
    [Membership_Row \<lparr>mb_id = cx_uuid cx 2, mb_tenant_id = cx_uuid cx 1, mb_user_id = ct_admin_id c,
       mb_role = ''tenant_admin'', mb_created_at = cx_ts cx\<rparr>,
     Audit_Row \<lparr>ae_id = cx_uuid cx 3, ae_tenant_id = cx_uuid cx 1, ae_actor_id = ct_admin_id c,
       ae_action = ''tenant.created'', ae_aggregate_type = ''tenant'', ae_aggregate_id = cx_uuid cx 1,
       ae_correlation_id = cx_uuid cx 0, ae_metadata = [(''slug'', JStr (ct_slug c))],
       ae_created_at = cx_ts cx\<rparr>]"

definition requisition_rows :: "ctx \<Rightarrow> create_requisition_command \<Rightarrow> row list" where
  "requisition_rows cx c =
    [Requisition_Row \<lparr>rq_id = cx_uuid cx 0, rq_tenant_id = cq_tenant_id c, rq_title = cq_title c,
       rq_department = cq_department c, rq_created_by = cq_actor_id c, rq_created_at = cx_ts cx\<rparr>,
     Audit_Row \<lparr>ae_id = cx_uuid cx 1, ae_tenant_id = cq_tenant_id c, ae_actor_id = cq_actor_id c,
       ae_action = ''requisition.created'', ae_aggregate_type = ''requisition'',
       ae_aggregate_id = cx_uuid cx 0, ae_correlation_id = cq_correlation_id c,
       ae_metadata = [(''title'', JStr (cq_title c))], ae_created_at = cx_ts cx\<rparr>]"

lemma slug_exists_iff: "slug_exists g s \<longleftrightarrow> g \<in> set (map tn_slug (tenants (ss_db s)))"
  by (auto simp: slug_exists_def find_None)

lemma find_user: "(case List.find (\<lambda>u. us_id u = i) us of Some _ \<Rightarrow> a | None \<Rightarrow> b) =
    (if i \<in> us_id ` set us then a else b)"
  by (induction us) (auto split: if_splits)

lemma create_tenant_eq:
  "create_tenant cx c (open_session d) =
    (if ct_slug c \<in> set (map tn_slug (tenants d)) then Inl TenantSlugAlreadyExistsError
     else if \<not> cx_db_up cx then Inl OperationalError
     else if db_ok (db_insert_all d (tenant_rows cx c d)) \<and>
        db_ok (db_insert_all d (tenant_rows cx c d @ admin_rows cx c))
     then Inr (\<lparr>tv_id = cx_uuid cx 1, tv_name = ct_name c, tv_slug = ct_slug c\<rparr>,
       db_insert_all d (tenant_rows cx c d @ admin_rows cx c))
     else Inl IntegrityError)"
  by (simp add: create_tenant_def org_create_tenant_def slug_exists_iff Let_def find_user tenant_rows_def
      admin_rows_def session_flush_def session_commit_eq)

lemma create_requisition_eq:
  "create_requisition cx c (open_session d) =
    (if \<not> cx_db_up cx then Inl OperationalError
     else if db_ok (db_insert_all d [hd (requisition_rows cx c)]) \<and> db_ok (db_insert_all d (requisition_rows cx c))
     then Inr (\<lparr>rv_id = cx_uuid cx 0, rv_title = cq_title c, rv_department = cq_department c\<rparr>,
       db_insert_all d (requisition_rows cx c))
     else Inl IntegrityError)"
  by (simp add: create_requisition_def org_create_requisition_def Let_def requisition_rows_def
      session_flush_def session_commit_eq)

lemma create_tenant_Inr:
  assumes "create_tenant cx c (open_session d) = Inr (t, d')"
  shows "d' = db_insert_all d (tenant_rows cx c d @ admin_rows cx c)" "db_ok d'"
    "ct_slug c \<notin> set (map tn_slug (tenants d))"
  using assms by (auto simp: create_tenant_eq split: if_splits)

lemma create_requisition_Inr:
  assumes "create_requisition cx c (open_session d) = Inr (r, d')"
  shows "d' = db_insert_all d (requisition_rows cx c)" "db_ok d'"
  using assms by (auto simp: create_requisition_eq split: if_splits)

section \<open>Properties\<close>

text \<open>
  A tenant is created exactly when its slug is free; it is committed
  with its administrator's membership, as \<open>tenant_admin\<close>, and one audit event, and the user is
  added only if there was none. A taken slug is refused and nothing changes.
\<close>

lemma create_tenant_result:
  assumes "db_ok d" "cx_db_up cx" "\<not> has_tenant d (cx_uuid cx 1)"
    and "cx_uuid cx 2 \<notin> set (map mb_id (memberships d))" "cx_uuid cx 3 \<notin> set (map ae_id (audit_events d))"
  shows "with_session (create_tenant cx c) d =
    (if ct_slug c \<in> set (map tn_slug (tenants d)) then (Inl TenantSlugAlreadyExistsError, d)
     else (Inr \<lparr>tv_id = cx_uuid cx 1, tv_name = ct_name c, tv_slug = ct_slug c\<rparr>,
       db_insert_all d (tenant_rows cx c d @ admin_rows cx c)))"
proof (cases "ct_slug c \<in> set (map tn_slug (tenants d))")
  case False
  have m: "(cx_uuid cx 1, ct_admin_id c) \<notin> set (map (\<lambda>m. (mb_tenant_id m, mb_user_id m)) (memberships d))"
    using db_ok_membership_refs [OF assms(1)] assms(3) by auto
  have "rows_ok d (tenant_rows cx c d)" "rows_ok d (tenant_rows cx c d @ admin_rows cx c)"
    using False m assms(3-5) by (auto simp: tenant_rows_def admin_rows_def)
  with False assms(1,2) show ?thesis
    by (simp add: with_session_def create_tenant_eq db_insert_all_ok del: db_insert_all_append)
qed (simp add: with_session_def create_tenant_eq)

definition sample_tenant :: "string \<Rightarrow> create_tenant_command" where
  "sample_tenant slug = \<lparr>ct_name = ''N'', ct_slug = slug, ct_admin_id = ''w''\<rparr>"

definition sample_ctx4 :: ctx where
  "sample_ctx4 = \<lparr>cx_uuid = (\<lambda>k. replicate (k + 9) (CHR ''n'')), cx_now = 1000, cx_ts = 1000, cx_db_up = True\<rparr>"

lemma create_tenant_result_witness:
  "is_ok (fst (with_session (create_tenant sample_ctx4 (sample_tenant ''new'')) sample_db)) \<and>
   fst (with_session (create_tenant sample_ctx4 (sample_tenant ''t'')) sample_db) = Inl TenantSlugAlreadyExistsError"
proof -
  have "cx_uuid sample_ctx4 2 \<notin> set (map mb_id (memberships sample_db))"
    by (simp add: sample_db_def sample_ctx4_def numeral_eq_Suc)
  moreover have "\<not> has_tenant sample_db (cx_uuid sample_ctx4 1)" "cx_db_up sample_ctx4"
    by (simp_all add: sample_ctx4_def numeral_eq_Suc)
  ultimately show ?thesis
    using create_tenant_result [of sample_db sample_ctx4 "sample_tenant ''new''"]
      create_tenant_result [of sample_db sample_ctx4 "sample_tenant ''t''"]
    by (simp add: sample_tenant_def)
qed

text \<open>
  A requisition commits together with its audit event.
\<close>

lemma create_requisition_result:
  assumes "db_ok d" "cx_db_up cx" "has_tenant d (cq_tenant_id c)" "has_user d (cq_actor_id c)"
    and "\<not> has_requisition d (cx_uuid cx 0)" "cx_uuid cx 1 \<notin> set (map ae_id (audit_events d))"
  shows "with_session (create_requisition cx c) d =
    (Inr \<lparr>rv_id = cx_uuid cx 0, rv_title = cq_title c, rv_department = cq_department c\<rparr>,
     db_insert_all d (requisition_rows cx c))"
proof -
  have "rows_ok d [hd (requisition_rows cx c)]" "rows_ok d (requisition_rows cx c)"
    using assms by (simp_all add: requisition_rows_def)
  with assms(1,2) show ?thesis
    by (simp add: with_session_def create_requisition_eq db_insert_all_ok del: db_insert_all_simps)
qed

end
