(* ===== verification/Identity.thy ===== *)
theory Identity
  imports Samples
begin

text \<open>
  The identity module: the role table and the \<open>require\<close> dependency of \<open>identity/security.py\<close>, and
  the JWT validation with its JWKS cache of \<open>identity/infrastructure/jwt_validator.py\<close>.

  PyJWT, the HTTP fetch of the key set and the monotonic clock are arguments: \<open>fetch k\<close> is what the
  \<open>k\<close>-th request for the key set answers, \<open>mono k\<close> the \<open>k\<close>-th reading of the clock (in seconds; the
  state counts both), \<open>unverified_kid\<close>, \<open>from_jwk\<close> and \<open>decode\<close> the library calls. \<open>decode\<close> is called
  with \<open>require=[exp, sub, tenant_id]\<close>, so its claims carry a subject.
\<close>

section \<open>Roles and permissions\<close>

definition recruiting_permissions :: "string list" where
  "recruiting_permissions =
    [''requisition:create'', ''candidate:create'', ''candidate:transition'', ''candidate:attachment'',
     ''calendar:manage'', ''interview:manage'', ''audit:read'', ''report:read'', ''tenant:read'',
     ''retention:manage'', ''retention:purge'']"

definition ROLE_PERMISSIONS :: "(string \<times> string list) list" where
  "ROLE_PERMISSIONS =
    [(''tenant_admin'', recruiting_permissions),
     (''recruiter'', recruiting_permissions),
     (''auditor'', [''audit:read'', ''tenant:read'']),
     (''hiring_manager'', [''tenant:read'']),
     (''interviewer'', [''feedback:submit''])]"

definition role_permissions :: "string \<Rightarrow> string list" where
  "role_permissions role = (case map_of ROLE_PERMISSIONS role of None \<Rightarrow> [] | Some ps \<Rightarrow> ps)"

record actor_context =
  ac_tenant_id :: string
  ac_actor_id :: string
  ac_role :: string

section \<open>The JWKS cache and the validator\<close>

datatype jwt_error =
    InvalidSignatureError
  | InvalidTokenError
  | JwtKeyError
  | JwtTypeError
  | JwtValueError
  | OSError

datatype auth_error = AuthenticationError string | Uncaught jwt_error

record principal =
  pr_subject :: string
  pr_tenant_id :: string

datatype claim = StrClaim string | OtherClaim

record claims =
  cl_sub :: string
  cl_tenant_id :: "claim option"

type_synonym 'k key_set = "(string option \<times> 'k) list"

record 'k jwks =
  jk_cached :: "'k key_set option"
  jk_expires_at :: int
  jk_fetches :: nat
  jk_reads :: nat

record ('k, 'p) jwt_env =
  je_ttl :: int
  je_mono :: "nat \<Rightarrow> int"
  je_fetch :: "nat \<Rightarrow> jwt_error + 'k key_set"
  je_unverified_kid :: "string \<Rightarrow> jwt_error + string option"
  je_from_jwk :: "'k \<Rightarrow> jwt_error + 'p"
  je_decode :: "string \<Rightarrow> 'p \<Rightarrow> jwt_error + claims"

definition jwks_get :: "('k, 'p) jwt_env \<Rightarrow> 'k jwks \<Rightarrow> (jwt_error + 'k key_set) \<times> 'k jwks" where
  "jwks_get E j =
    (let stale = (case jk_cached j of None \<Rightarrow> True | Some _ \<Rightarrow> je_mono E (jk_reads j) \<ge> jk_expires_at j);
         j1 = (case jk_cached j of None \<Rightarrow> j | Some _ \<Rightarrow> j\<lparr>jk_reads := jk_reads j + 1\<rparr>)
     in if stale
        then (case je_fetch E (jk_fetches j1) of
                Inl e \<Rightarrow> (Inl e, j1\<lparr>jk_fetches := jk_fetches j1 + 1\<rparr>)
              | Inr doc \<Rightarrow> (Inr doc, j1\<lparr>jk_cached := Some doc, jk_fetches := jk_fetches j1 + 1,
                  jk_expires_at := je_mono E (jk_reads j1) + je_ttl E, jk_reads := jk_reads j1 + 1\<rparr>))
        else (case jk_cached j1 of None \<Rightarrow> (Inl JwtTypeError, j1) | Some doc \<Rightarrow> (Inr doc, j1)))"

definition jwks_refresh :: "('k, 'p) jwt_env \<Rightarrow> 'k jwks \<Rightarrow> (jwt_error + 'k key_set) \<times> 'k jwks" where
  "jwks_refresh E j = jwks_get E (j\<lparr>jk_cached := None\<rparr>)"

definition find_key_id :: "string option \<Rightarrow> 'k key_set \<Rightarrow> 'k option" where
  "find_key_id key_id doc = map_option snd (List.find (\<lambda>e. fst e = key_id) doc)"

text \<open>\<open>_key_for\<close> with \<open>refresh\<close> set, and the first attempt that falls back to it.\<close>

definition key_for_refreshed ::
  "('k, 'p) jwt_env \<Rightarrow> string option \<Rightarrow> 'k jwks \<Rightarrow> (jwt_error + 'p) \<times> 'k jwks" where
  "key_for_refreshed E key_id j =
    (case jwks_refresh E j of
       (Inl e, j1) \<Rightarrow> (Inl e, j1)
     | (Inr doc, j1) \<Rightarrow>
         (case find_key_id key_id doc of
            Some jwk \<Rightarrow> (je_from_jwk E jwk, j1)
          | None \<Rightarrow> (Inl JwtKeyError, j1)))"

definition key_for ::
  "('k, 'p) jwt_env \<Rightarrow> string option \<Rightarrow> 'k jwks \<Rightarrow> (jwt_error + 'p) \<times> 'k jwks" where
  "key_for E key_id j =
    (case jwks_get E j of
       (Inl e, j1) \<Rightarrow> (Inl e, j1)
     | (Inr doc, j1) \<Rightarrow>
         (case find_key_id key_id doc of
            Some jwk \<Rightarrow> (je_from_jwk E jwk, j1)
          | None \<Rightarrow> key_for_refreshed E key_id j1))"

definition auth_error_of :: "jwt_error \<Rightarrow> auth_error" where
  "auth_error_of e =
    (if e \<in> {InvalidSignatureError, InvalidTokenError, JwtKeyError, JwtTypeError, JwtValueError}
     then AuthenticationError ''Invalid bearer token'' else Uncaught e)"

definition jwt_validate ::
  "('k, 'p) jwt_env \<Rightarrow> string \<Rightarrow> 'k jwks \<Rightarrow> (auth_error + principal) \<times> 'k jwks" where
  "jwt_validate E token j =
    (case je_unverified_kid E token of
       Inl e \<Rightarrow> (Inl (auth_error_of e), j)
     | Inr kid \<Rightarrow>
         (case key_for E kid j of
            (Inl e, j1) \<Rightarrow> (Inl (auth_error_of e), j1)
          | (Inr key, j1) \<Rightarrow>
              (case je_decode E token key of
                 Inl e \<Rightarrow> (Inl (auth_error_of e), j1)
               | Inr cl \<Rightarrow>
                   (case cl_tenant_id cl of
                      Some (StrClaim t) \<Rightarrow>
                        if t = [] then (Inl (AuthenticationError ''Invalid bearer token''), j1)
                        else (Inr \<lparr>pr_subject = cl_sub cl, pr_tenant_id = t\<rparr>, j1)
                    | _ \<Rightarrow> (Inl (AuthenticationError ''Invalid bearer token''), j1)))))"

section \<open>The \<open>require\<close> dependency\<close>

datatype http_error = HTTPException nat string | ServerError

definition forbidden :: "string \<Rightarrow> http_error" where
  "forbidden detail = HTTPException 403 detail"

record auth_headers =
  ah_authorization :: "string option"
  ah_tenant_id :: "string option"
  ah_actor_id :: "string option"

definition truthy :: "string option \<Rightarrow> bool" where
  "truthy v = (v \<noteq> None \<and> v \<noteq> Some [])"

definition bearer_prefix :: string where
  "bearer_prefix = ''Bearer ''"

text \<open>The identity of the caller: from the token in \<open>oidc_jwt\<close> mode, from the headers otherwise.\<close>

definition caller_identity ::
  "string \<Rightarrow> (string \<Rightarrow> auth_error + principal) option \<Rightarrow> auth_headers \<Rightarrow>
   http_error + string option \<times> string option" where
  "caller_identity auth_mode validator h =
    (if auth_mode = ''oidc_jwt'' then
       (case ah_authorization h of
          None \<Rightarrow> Inl (forbidden ''Bearer token is required'')
        | Some a \<Rightarrow>
            if \<not> py_startswith a bearer_prefix then Inl (forbidden ''Bearer token is required'')
            else (case validator of
                None \<Rightarrow> Inl (forbidden ''Bearer token validation is not configured'')
              | Some v \<Rightarrow>
                  (case v (drop (length bearer_prefix) a) of
                     Inl (AuthenticationError detail) \<Rightarrow> Inl (forbidden detail)
                   | Inl (Uncaught e) \<Rightarrow> Inl ServerError
                   | Inr p \<Rightarrow> Inr (Some (pr_tenant_id p), Some (pr_subject p)))))
     else Inr (ah_tenant_id h, ah_actor_id h))"

definition membership_of :: "string \<Rightarrow> string \<Rightarrow> db \<Rightarrow> membership option" where
  "membership_of tenant_id actor_id d =
    List.find (\<lambda>m. mb_tenant_id m = tenant_id \<and> mb_user_id m = actor_id) (memberships d)"

definition require ::
  "string \<Rightarrow> string \<Rightarrow> (string \<Rightarrow> auth_error + principal) option \<Rightarrow> auth_headers \<Rightarrow> db \<Rightarrow>
   http_error + actor_context" where
  "require permission auth_mode validator h d =
    (case caller_identity auth_mode validator h of
       Inl e \<Rightarrow> Inl e
     | Inr (tenant_id, actor_id) \<Rightarrow>
         if \<not> truthy tenant_id \<or> \<not> truthy actor_id
         then Inl (forbidden ''X-Tenant-Id and X-Actor-Id headers are required'')
         else (case membership_of (the tenant_id) (the actor_id) d of
             None \<Rightarrow> Inl (forbidden ''Actor is not a member of this tenant'')
           | Some m \<Rightarrow>
               if permission \<notin> set (role_permissions (mb_role m))
               then Inl (forbidden ''Actor does not have the required permission'')
               else Inr \<lparr>ac_tenant_id = the tenant_id, ac_actor_id = the actor_id, ac_role = mb_role m\<rparr>))"

section \<open>Properties of the access check\<close>

lemma membership_of_Some:
  "membership_of t u d = Some m \<Longrightarrow> m \<in> set (memberships d) \<and> mb_tenant_id m = t \<and> mb_user_id m = u"
  by (auto simp: membership_of_def dest: find_SomeD)

lemma membership_of_row:
  assumes "db_ok d" "m \<in> set (memberships d)"
  shows "membership_of (mb_tenant_id m) (mb_user_id m) d = Some m"
proof -
  have "distinct (map (\<lambda>m. (mb_tenant_id m, mb_user_id m)) (memberships d))"
    using assms(1) by (simp add: db_ok_def memberships_ok_def)
  from key_unique [OF this] assms(2) show ?thesis
    unfolding membership_of_def by (intro find_unique) auto
qed

lemma require_Inr:
  assumes "require p mode v h d = Inr a"
  shows "\<exists>m \<in> set (memberships d). mb_tenant_id m = ac_tenant_id a \<and> mb_user_id m = ac_actor_id a \<and>
      mb_role m = ac_role a \<and> p \<in> set (role_permissions (ac_role a))"
    "caller_identity mode v h = Inr (Some (ac_tenant_id a), Some (ac_actor_id a))"
    "ac_tenant_id a \<noteq> []" "ac_actor_id a \<noteq> []"
  using assms
  by (auto simp: require_def truthy_def split: sum.splits prod.splits option.splits if_splits
      dest!: membership_of_Some)

lemma require_member:
  assumes "db_ok d" "require p mode v h d = Inr a"
  shows "has_tenant d (ac_tenant_id a)" "has_user d (ac_actor_id a)"
  using require_Inr(1) [OF assms(2)] db_ok_membership_refs [OF assms(1)] by metis+

text \<open>
  A request is let through exactly when its caller has been identified and is a
  member of the tenant with a role that holds the permission; the context then carries that
  membership's role. Nothing a client sends can give it a role it does not have.
\<close>

lemma require_grants_iff:
  assumes "db_ok d"
  shows "require p mode v h d = Inr a \<longleftrightarrow>
    caller_identity mode v h = Inr (Some (ac_tenant_id a), Some (ac_actor_id a)) \<and>
    ac_tenant_id a \<noteq> [] \<and> ac_actor_id a \<noteq> [] \<and>
    (\<exists>m \<in> set (memberships d). mb_tenant_id m = ac_tenant_id a \<and> mb_user_id m = ac_actor_id a \<and>
      mb_role m = ac_role a) \<and> p \<in> set (role_permissions (ac_role a))"
proof
  assume R: "caller_identity mode v h = Inr (Some (ac_tenant_id a), Some (ac_actor_id a)) \<and>
    ac_tenant_id a \<noteq> [] \<and> ac_actor_id a \<noteq> [] \<and>
    (\<exists>m \<in> set (memberships d). mb_tenant_id m = ac_tenant_id a \<and> mb_user_id m = ac_actor_id a \<and>
      mb_role m = ac_role a) \<and> p \<in> set (role_permissions (ac_role a))"
  then obtain m where "m \<in> set (memberships d)" "mb_tenant_id m = ac_tenant_id a"
    "mb_user_id m = ac_actor_id a" "mb_role m = ac_role a" by blast
  with membership_of_row [OF assms this(1)] R show "require p mode v h d = Inr a"
    by (cases a) (simp add: require_def truthy_def)
next
  assume r: "require p mode v h d = Inr a"
  from require_Inr [OF r] show "caller_identity mode v h = Inr (Some (ac_tenant_id a), Some (ac_actor_id a)) \<and>
    ac_tenant_id a \<noteq> [] \<and> ac_actor_id a \<noteq> [] \<and>
    (\<exists>m \<in> set (memberships d). mb_tenant_id m = ac_tenant_id a \<and> mb_user_id m = ac_actor_id a \<and>
      mb_role m = ac_role a) \<and> p \<in> set (role_permissions (ac_role a))" by blast
qed

definition sample_headers :: "string \<Rightarrow> auth_headers" where
  "sample_headers who = \<lparr>ah_authorization = None, ah_tenant_id = Some ''t'', ah_actor_id = Some who\<rparr>"

lemma require_grants_iff_witness:
  "require ''candidate:create'' ''dev_headers'' None (sample_headers ''r'') sample_db =
     Inr \<lparr>ac_tenant_id = ''t'', ac_actor_id = ''r'', ac_role = ''recruiter''\<rparr> \<and>
   require ''candidate:create'' ''dev_headers'' None (sample_headers ''h'') sample_db \<noteq>
     Inr \<lparr>ac_tenant_id = ''t'', ac_actor_id = ''h'', ac_role = ''hiring_manager''\<rparr>"
  unfolding require_grants_iff [OF sample_db_ok]
  by (simp add: caller_identity_def sample_headers_def sample_db_def role_permissions_def
      ROLE_PERMISSIONS_def recruiting_permissions_def)

text \<open>
  In \<open>oidc_jwt\<close> mode the identity comes from a validated bearer token alone;
  the identity headers have no influence.
\<close>

lemma oidc_identity_from_token:
  assumes "require p ''oidc_jwt'' (Some v) h d = Inr a"
  shows "\<exists>token pr. ah_authorization h = Some (bearer_prefix @ token) \<and> v token = Inr pr \<and>
    pr_tenant_id pr = ac_tenant_id a \<and> pr_subject pr = ac_actor_id a \<and>
    (\<forall>x y. require p ''oidc_jwt'' (Some v) (h\<lparr>ah_tenant_id := x, ah_actor_id := y\<rparr>) d = Inr a)"
proof -
  obtain auth pr where 1: "ah_authorization h = Some auth" "py_startswith auth bearer_prefix"
    "v (drop (length bearer_prefix) auth) = Inr pr"
    "pr_tenant_id pr = ac_tenant_id a" "pr_subject pr = ac_actor_id a"
    using require_Inr(2) [OF assms]
    by (auto simp: caller_identity_def split: option.splits if_splits sum.splits auth_error.splits)
  have "auth = bearer_prefix @ drop (length bearer_prefix) auth"
    using 1(2) by (metis append_take_drop_id py_startswith_def)
  moreover have "require p ''oidc_jwt'' (Some v) (h\<lparr>ah_tenant_id := x, ah_actor_id := y\<rparr>) d = Inr a" for x y
    using assms by (simp add: require_def caller_identity_def)
  ultimately show ?thesis using 1 by metis
qed

lemma oidc_identity_from_token_witness:
  "\<forall>x y. require ''audit:read'' ''oidc_jwt'' (Some (\<lambda>t. Inr \<lparr>pr_subject = t, pr_tenant_id = ''t''\<rparr>))
      \<lparr>ah_authorization = Some (bearer_prefix @ ''r''), ah_tenant_id = x, ah_actor_id = y\<rparr> sample_db =
    Inr \<lparr>ac_tenant_id = ''t'', ac_actor_id = ''r'', ac_role = ''recruiter''\<rparr>"
proof -
  let ?v = "\<lambda>t. Inr \<lparr>pr_subject = t, pr_tenant_id = ''t''\<rparr> :: auth_error + principal"
  let ?h = "\<lparr>ah_authorization = Some (bearer_prefix @ ''r''), ah_tenant_id = None, ah_actor_id = Some ''h''\<rparr>"
  have "require ''audit:read'' ''oidc_jwt'' (Some ?v) ?h sample_db =
      Inr \<lparr>ac_tenant_id = ''t'', ac_actor_id = ''r'', ac_role = ''recruiter''\<rparr>"
    by (simp add: require_def caller_identity_def py_startswith_def truthy_def membership_of_def sample_db_def
        role_permissions_def ROLE_PERMISSIONS_def recruiting_permissions_def bearer_prefix_def)
  from oidc_identity_from_token [OF this] show ?thesis by simp
qed

text \<open>
  Who can do what: an administrator and a recruiter hold the same permissions, purging included; an
  interviewer can submit feedback and nothing else.
\<close>

lemma role_matrix:
  "role_permissions ''tenant_admin'' = role_permissions ''recruiter''"
  "''retention:purge'' \<in> set (role_permissions role) \<longleftrightarrow> role \<in> {''tenant_admin'', ''recruiter''}"
  "''feedback:submit'' \<in> set (role_permissions role) \<longleftrightarrow> role = ''interviewer''"
  "''candidate:transition'' \<in> set (role_permissions role) \<longleftrightarrow> role \<in> {''tenant_admin'', ''recruiter''}"
  by (auto simp: role_permissions_def ROLE_PERMISSIONS_def recruiting_permissions_def split: if_splits)

section \<open>Properties of the key cache\<close>

text \<open>The cached set is used only before its time to live has passed.\<close>

definition cache_fresh :: "('k, 'p) jwt_env \<Rightarrow> 'k jwks \<Rightarrow> bool" where
  "cache_fresh E j = (jk_cached j \<noteq> None \<and> je_mono E (jk_reads j) < jk_expires_at j)"

lemma jwks_get_fresh:
  "cache_fresh E j \<Longrightarrow> jwks_get E j = (Inr (the (jk_cached j)), j\<lparr>jk_reads := jk_reads j + 1\<rparr>)"
  by (auto simp: cache_fresh_def jwks_get_def Let_def)

lemma jwks_get_stale:
  "\<not> cache_fresh E j \<Longrightarrow> fst (jwks_get E j) = je_fetch E (jk_fetches j) \<and>
    jk_fetches (snd (jwks_get E j)) = jk_fetches j + 1"
  by (auto simp: cache_fresh_def jwks_get_def Let_def split: option.splits sum.splits)

lemma jwks_refresh_fetches:
  "fst (jwks_refresh E j) = je_fetch E (jk_fetches j)" "jk_fetches (snd (jwks_refresh E j)) = jk_fetches j + 1"
  using jwks_get_stale [of E "j\<lparr>jk_cached := None\<rparr>"] by (simp_all add: jwks_refresh_def cache_fresh_def)

lemma key_for_refreshed_eq:
  "fst (key_for_refreshed E kid j) =
    (case je_fetch E (jk_fetches j) of
       Inl e \<Rightarrow> Inl e
     | Inr doc \<Rightarrow> (case find_key_id kid doc of Some jwk \<Rightarrow> je_from_jwk E jwk | None \<Rightarrow> Inl JwtKeyError))"
  "jk_fetches (snd (key_for_refreshed E kid j)) = jk_fetches j + 1"
  using jwks_refresh_fetches [of E j]
  by (auto simp: key_for_refreshed_def split: prod.splits sum.splits option.splits)

text \<open>
  The key of a token is looked up in the cached key set while that
  is fresh, without any request; a key id the fresh set does not hold is looked up once more in a
  newly fetched set, so that a rotated key is found at once; and one lookup never makes more than
  two requests.
\<close>

lemma key_lookup:
  "(cache_fresh E j \<longrightarrow>
      (case find_key_id kid (the (jk_cached j)) of
         Some jwk \<Rightarrow> key_for E kid j = (je_from_jwk E jwk, j\<lparr>jk_reads := jk_reads j + 1\<rparr>)
       | None \<Rightarrow> fst (key_for E kid j) =
           (case je_fetch E (jk_fetches j) of
              Inl e \<Rightarrow> Inl e
            | Inr doc \<Rightarrow> (case find_key_id kid doc of Some jwk \<Rightarrow> je_from_jwk E jwk | None \<Rightarrow> Inl JwtKeyError)))) \<and>
   jk_fetches (snd (key_for E kid j)) \<le> jk_fetches j + 2"
proof (cases "cache_fresh E j")
  case True
  then show ?thesis
    using key_for_refreshed_eq [of E kid "j\<lparr>jk_reads := jk_reads j + 1\<rparr>"]
    by (auto simp: key_for_def jwks_get_fresh split: option.splits)
next
  case False
  then show ?thesis
    using jwks_get_stale [OF False] key_for_refreshed_eq(2) [of E kid "snd (jwks_get E j)"]
    by (auto simp: key_for_def split: prod.splits sum.splits option.splits)
qed

definition sample_jwt :: "(string, string) jwt_env" where
  "sample_jwt = \<lparr>je_ttl = 300, je_mono = int, je_fetch = (\<lambda>k. Inr [(Some ''k1'', ''new'')]),
     je_unverified_kid = (\<lambda>t. Inr (Some t)), je_from_jwk = Inr,
     je_decode = (\<lambda>t k. if k = ''new'' then Inr \<lparr>cl_sub = ''s'', cl_tenant_id = Some (StrClaim ''t'')\<rparr>
       else Inl InvalidSignatureError)\<rparr>"

lemma key_lookup_witness:
  "fst (key_for sample_jwt (Some ''k1'') \<lparr>jk_cached = Some [(Some ''k0'', ''old'')], jk_expires_at = 10,
     jk_fetches = 0, jk_reads = 0\<rparr>) = Inr ''new''"
  using key_lookup [of sample_jwt "\<lparr>jk_cached = Some [(Some ''k0'', ''old'')], jk_expires_at = 10,
     jk_fetches = 0, jk_reads = 0\<rparr>" "Some ''k1''"]
  by (simp add: cache_fresh_def sample_jwt_def find_key_id_def)



end
