(* ===== verification/Formatting.thy ===== *)
theory Formatting
  imports Prelude
begin

text \<open>
  Numbers and instants as text: Python's \<open>str\<close> of an integer, the proleptic Gregorian calendar, and
  the two formats of an instant the program writes, \<open>isoformat()\<close> and \<open>strftime\<close> with the pattern of
  the calendar feed. Each has a reader that takes the text back, which shows that no information is
  lost. The range of \<open>datetime\<close> (the years 1 to 9999) is not modelled.
\<close>

section \<open>Integers\<close>

function py_digits :: "nat \<Rightarrow> string" where
  "py_digits n = (if n < 10 then [char_of (48 + n)] else py_digits (n div 10) @ [char_of (48 + n mod 10)])"
  by pat_completeness auto
termination by (relation "measure id") auto

declare py_digits.simps [simp del]

definition py_str_int :: "int \<Rightarrow> string" where
  "py_str_int i = (if i < 0 then CHR ''-'' # py_digits (nat (- i)) else py_digits (nat i))"

definition read_nat :: "string \<Rightarrow> nat" where
  "read_nat s = foldl (\<lambda>n c. 10 * n + (of_char c - 48)) 0 s"

definition zero_pad :: "nat \<Rightarrow> nat \<Rightarrow> string" where
  "zero_pad w n = replicate (w - length (py_digits n)) (CHR ''0'') @ py_digits n"

lemma read_py_digits [simp]: "read_nat (py_digits n) = n"
proof (induction n rule: py_digits.induct)
  case (1 n)
  show ?case
    using 1 by (subst py_digits.simps) (auto simp: read_nat_def)
qed

lemma read_zeros: "read_nat (replicate k (CHR ''0'') @ s) = read_nat s"
proof -
  have "foldl (\<lambda>n c. 10 * n + (of_char c - 48)) 0 (replicate k (CHR ''0'')) = (0 :: nat)"
    by (induction k) auto
  then show ?thesis by (simp add: read_nat_def)
qed

lemma read_zero_pad [simp]: "read_nat (zero_pad w n) = n"
  by (simp add: zero_pad_def read_zeros)

lemma length_py_digits: "n < 10 ^ k \<Longrightarrow> 0 < k \<Longrightarrow> length (py_digits n) \<le> k"
proof (induction n arbitrary: k rule: py_digits.induct)
  case (1 n)
  show ?case
  proof (cases "n < 10")
    case True
    with 1(3) show ?thesis by (subst py_digits.simps) simp
  next
    case False
    then obtain j where j: "k = Suc j" "0 < j" using 1(2,3) by (cases k; cases "k - 1") auto
    then have "n div 10 < 10 ^ j" using 1(2) by (simp add: less_mult_imp_div_less mult.commute)
    with 1(1) [OF False] j False show ?thesis by (subst py_digits.simps) simp
  qed
qed

lemma length_zero_pad: "n < 10 ^ w \<Longrightarrow> 0 < w \<Longrightarrow> length (zero_pad w n) = w"
  using length_py_digits [of n w] by (simp add: zero_pad_def)

lemma py_digits_range: "set (py_digits n) \<subseteq> set ''0123456789''"
proof (induction n rule: py_digits.induct)
  case (1 n)
  have d: "char_of (48 + k) \<in> set ''0123456789''" if "k < 10" for k :: nat
  proof -
    have "k = 0 \<or> k = 1 \<or> k = 2 \<or> k = 3 \<or> k = 4 \<or> k = 5 \<or> k = 6 \<or> k = 7 \<or> k = 8 \<or> k = 9" using that by presburger
    then show ?thesis by (elim disjE) (simp_all add: char_of_def bit_0)
  qed
  show ?case
    using 1 d [of n] d [of "n mod 10"] by (subst py_digits.simps) auto
qed

lemma zero_pad_range: "set (zero_pad w n) \<subseteq> set ''0123456789''"
  using py_digits_range by (auto simp: zero_pad_def)

section \<open>The calendar\<close>

definition leap_year :: "int \<Rightarrow> bool" where
  "leap_year y = (y mod 4 = 0 \<and> (y mod 100 \<noteq> 0 \<or> y mod 400 = 0))"

definition year_days :: "int \<Rightarrow> int" where
  "year_days y = (if leap_year y then 366 else 365)"

definition month_days :: "int \<Rightarrow> int list" where
  "month_days y = [31, if leap_year y then 29 else 28, 31, 30, 31, 30, 31, 31, 30, 31, 30, 31]"

text \<open>The year of the day \<open>n\<close> days after the first of January of \<open>y\<close>, and the day's place in it.\<close>

function civil_year :: "int \<Rightarrow> int \<Rightarrow> int \<times> int" where
  "civil_year y n =
    (if n < 0 then civil_year (y - 1) (n + year_days (y - 1))
     else if n < year_days y then (y, n) else civil_year (y + 1) (n - year_days y))"
  by pat_completeness auto
termination
  by (relation "measure (\<lambda>(y, n). if n < 0 then nat (1 - n) else if n < year_days y then 0 else nat n)")
     (auto simp: year_days_def split: if_splits)

declare civil_year.simps [simp del]

fun civil_month :: "int list \<Rightarrow> nat \<Rightarrow> int \<Rightarrow> nat \<times> int" where
  "civil_month [] m n = (m, n)"
| "civil_month (l # ls) m n = (if n < l then (m, n) else civil_month ls (Suc m) (n - l))"

record civil =
  cv_year :: int
  cv_month :: nat
  cv_day :: int
  cv_hour :: int
  cv_minute :: int
  cv_second :: int
  cv_micro :: int

text \<open>An instant in UTC, broken down; the epoch is the first of January 1970.\<close>

definition civil_of :: "time \<Rightarrow> civil" where
  "civil_of t =
    (let secs = t div 1000000;
         (y, n) = civil_year 1970 (secs div 86400);
         (m, d) = civil_month (month_days y) 1 n;
         r = secs mod 86400
     in \<lparr>cv_year = y, cv_month = m, cv_day = d + 1, cv_hour = r div 3600, cv_minute = r div 60 mod 60,
         cv_second = r mod 60, cv_micro = t mod 1000000\<rparr>)"

definition days_before_year :: "int \<Rightarrow> int" where
  "days_before_year y = (let p = y - 1 in 365 * p + p div 4 - p div 100 + p div 400 - 719162)"

definition time_of :: "civil \<Rightarrow> time" where
  "time_of c =
    (((days_before_year (cv_year c) + sum_list (take (cv_month c - 1) (month_days (cv_year c))) + cv_day c - 1) * 24
       + cv_hour c) * 3600 + cv_minute c * 60 + cv_second c) * 1000000 + cv_micro c"

lemma div_step:
  assumes "0 < (k :: int)"
  shows "y div k = (y - 1) div k + (if y mod k = 0 then 1 else 0)"
proof (cases "y mod k = 0")
  case True
  have "y - 1 = k * (y div k - 1) + (k - 1)" using True mult_div_mod_eq [of k y] by (simp add: algebra_simps)
  then have "(y - 1) div k = y div k - 1" using assms by (intro int_div_pos_eq [of _ _ _ "k - 1"]) auto
  with True show ?thesis by simp
next
  case False
  have "0 \<le> y mod k" "y mod k < k" using assms by simp_all
  moreover have "y - 1 = k * (y div k) + (y mod k - 1)" using mult_div_mod_eq [of k y] by simp
  ultimately have "(y - 1) div k = y div k" using False by (intro int_div_pos_eq [of _ _ _ "y mod k - 1"]) auto
  with False show ?thesis by simp
qed

lemma leap_step:
  assumes "a' = a + (if P then 1 else 0)" "b' = b + (if Q then 1 else 0)" "c' = c + (if R then 1 else 0)"
    and "R \<longrightarrow> Q" "Q \<longrightarrow> P"
  shows "365 * (x + 1 :: int) + a' - b' + c' = 365 * x + a - b + c + (if P \<and> (\<not> Q \<or> R) then 366 else 365)"
  using assms(4,5) unfolding assms(1-3) by (cases P; cases Q; cases R) simp_all

lemma swap_last: "(a :: int) + w - z = a - z + w"
  by simp

lemma days_before_year_Suc: "days_before_year (y + 1) = days_before_year y + year_days y"
proof -
  have "100 dvd y" if "400 dvd y" by (rule dvd_trans [OF _ that]) simp
  then have i: "y mod 400 = 0 \<longrightarrow> y mod 100 = 0" unfolding mod_eq_0_iff_dvd by blast
  have "4 dvd y" if "100 dvd y" by (rule dvd_trans [OF _ that]) simp
  then have j: "y mod 100 = 0 \<longrightarrow> y mod 4 = 0" unfolding mod_eq_0_iff_dvd by blast
  have k: "(0 :: int) < 4" "(0 :: int) < 100" "(0 :: int) < 400" by simp_all
  note e = leap_step [OF div_step [OF k(1)] div_step [OF k(2)] div_step [OF k(3)] i j, of "y - 1"]
  have "days_before_year (y + 1) = 365 * (y - 1 + 1) + y div 4 - y div 100 + y div 400 - 719162"
    unfolding days_before_year_def Let_def by (simp only: add_diff_cancel_right' diff_add_cancel)
  also have "\<dots> = 365 * (y - 1) + (y - 1) div 4 - (y - 1) div 100 + (y - 1) div 400 + year_days y - 719162"
    unfolding e year_days_def leap_year_def ..
  also have "\<dots> = days_before_year y + year_days y"
    unfolding days_before_year_def Let_def by (rule swap_last)
  finally show ?thesis .
qed

lemma days_before_1970 [simp]: "days_before_year 1970 = 0"
  by (simp add: days_before_year_def)

lemma civil_year_range:
  "civil_year y n = (y', n') \<Longrightarrow> 0 \<le> n' \<and> n' < year_days y' \<and> days_before_year y + n = days_before_year y' + n'"
proof (induction y n rule: civil_year.induct)
  case (1 y n)
  show ?case
  proof (cases "n < 0")
    case True
    with 1(1) [OF True] 1(3) days_before_year_Suc [of "y - 1"] show ?thesis by (simp add: civil_year.simps [of y n])
  next
    case False
    with 1(2) [OF False] 1(3) days_before_year_Suc [of y] show ?thesis
      by (cases "n < year_days y") (auto simp: civil_year.simps [of y n])
  qed
qed

lemma civil_year_mono: "0 \<le> n \<Longrightarrow> civil_year y n = (y', n') \<Longrightarrow> y \<le> y'"
proof (induction y n rule: civil_year.induct)
  case (1 y n)
  then show ?case by (cases "n < year_days y") (auto simp: civil_year.simps [of y n])
qed

lemma civil_month_range:
  "civil_month ls m n = (m', d) \<Longrightarrow> 0 \<le> n \<Longrightarrow> n < sum_list ls \<Longrightarrow>
    m \<le> m' \<and> m' - m < length ls \<and> 0 \<le> d \<and> d < ls ! (m' - m) \<and> n = sum_list (take (m' - m) ls) + d"
proof (induction ls arbitrary: m n)
  case (Cons l ls)
  show ?case
  proof (cases "n < l")
    case True
    with Cons.prems show ?thesis by auto
  next
    case False
    then have "m' - m = Suc (m' - Suc m)" if "Suc m \<le> m'" using that by simp
    with False Cons.prems Cons.IH [of "Suc m" "n - l"] show ?thesis by auto
  qed
qed simp

lemma sum_month_days [simp]: "sum_list (month_days y) = year_days y"
  by (simp add: month_days_def year_days_def)

lemma length_month_days [simp]: "length (month_days y) = 12"
  by (simp add: month_days_def)

lemma hour_range: "0 \<le> r \<Longrightarrow> r < 86400 \<Longrightarrow> 0 \<le> r div 3600 \<and> r div 3600 < (24 :: int)"
  using zdiv_mono1 [of r 86399 3600] by (simp add: pos_imp_zdiv_nonneg_iff)

lemma second_parts:
  "86400 * (s div 86400) + 3600 * (s mod 86400 div 3600) + 60 * (s mod 86400 div 60 mod 60) + s mod 86400 mod 60 = (s :: int)"
proof -
  define r where "r = s mod 86400"
  have "r mod (60 * 60) = 60 * (r div 60 mod 60) + r mod 60" by (rule zmod_zmult2_eq) simp
  then have "60 * (r div 60 mod 60) + r mod 60 = r mod 3600" by simp
  moreover have "3600 * (r div 3600) + r mod 3600 = r" by (rule mult_div_mod_eq)
  moreover have "86400 * (s div 86400) + r = s" unfolding r_def by (rule mult_div_mod_eq)
  ultimately show ?thesis unfolding r_def [symmetric] by (simp only: add.assoc)
qed

text \<open>Breaking an instant down loses nothing, and its parts are in range.\<close>

lemma civil_of_ranges:
  "1 \<le> cv_month (civil_of t) \<and> cv_month (civil_of t) \<le> 12 \<and> 1 \<le> cv_day (civil_of t) \<and> cv_day (civil_of t) \<le> 31 \<and>
   0 \<le> cv_hour (civil_of t) \<and> cv_hour (civil_of t) < 24 \<and> 0 \<le> cv_minute (civil_of t) \<and> cv_minute (civil_of t) < 60 \<and>
   0 \<le> cv_second (civil_of t) \<and> cv_second (civil_of t) < 60 \<and> 0 \<le> cv_micro (civil_of t) \<and> cv_micro (civil_of t) < 1000000 \<and>
   time_of (civil_of t) = t \<and> (0 \<le> t \<longrightarrow> 1970 \<le> cv_year (civil_of t))"
proof -
  define secs where "secs = t div 1000000"
  obtain y n where y: "civil_year 1970 (secs div 86400) = (y, n)" by (rule prod.exhaust)
  obtain m d where m: "civil_month (month_days y) 1 n = (m, d)" by (rule prod.exhaust)
  have yr: "0 \<le> n" "n < year_days y" "secs div 86400 = days_before_year y + n" using civil_year_range [OF y] by simp_all
  have mr: "1 \<le> m" "m - 1 < 12" "0 \<le> d" "d < month_days y ! (m - 1)" "n = sum_list (take (m - 1) (month_days y)) + d"
    using civil_month_range [OF m yr(1)] yr(2) unfolding sum_month_days length_month_days by blast+
  have "\<forall>l \<in> set (month_days y). l \<le> 31" by (simp add: month_days_def)
  moreover have "month_days y ! (m - 1) \<in> set (month_days y)" using mr(2) by (intro nth_mem) (simp add: month_days_def)
  ultimately have "d + 1 \<le> 31" using mr(4) by fastforce
  moreover have c: "civil_of t = \<lparr>cv_year = y, cv_month = m, cv_day = d + 1, cv_hour = secs mod 86400 div 3600,
      cv_minute = secs mod 86400 div 60 mod 60, cv_second = secs mod 86400 mod 60, cv_micro = t mod 1000000\<rparr>"
    by (simp add: civil_of_def Let_def y m [unfolded One_nat_def] flip: secs_def)
  moreover have "time_of (civil_of t) = t"
  proof -
    have "time_of (civil_of t) = (((secs div 86400) * 24 + secs mod 86400 div 3600) * 3600 +
        (secs mod 86400 div 60 mod 60) * 60 + secs mod 86400 mod 60) * 1000000 + t mod 1000000"
      unfolding yr(3) by (simp add: time_of_def c mr(5))
    also have "\<dots> = (86400 * (secs div 86400) + 3600 * (secs mod 86400 div 3600) + 60 * (secs mod 86400 div 60 mod 60) +
        secs mod 86400 mod 60) * 1000000 + t mod 1000000" by simp
    also have "86400 * (secs div 86400) + 3600 * (secs mod 86400 div 3600) + 60 * (secs mod 86400 div 60 mod 60) +
        secs mod 86400 mod 60 = secs"
      by (rule second_parts)
    finally show ?thesis by (simp add: secs_def)
  qed
  moreover have "1970 \<le> y" if "0 \<le> t"
  proof -
    have "0 \<le> secs div 86400" using that by (simp add: secs_def)
    from civil_year_mono [OF this y] show ?thesis .
  qed
  moreover have "0 \<le> secs mod 86400 div 3600 \<and> secs mod 86400 div 3600 < 24"
    by (rule hour_range) simp_all
  moreover have "0 \<le> secs mod 86400 div 60 mod 60" "secs mod 86400 div 60 mod 60 < 60" "0 \<le> secs mod 86400 mod 60"
    "secs mod 86400 mod 60 < 60" "0 \<le> t mod 1000000" "t mod 1000000 < 1000000" by (rule pos_mod_sign pos_mod_bound, simp)+
  moreover have "1 \<le> m" "m \<le> 12" "1 \<le> d + 1" using mr(1-3) by simp_all
  moreover have "cv_year (civil_of t) = y" "cv_month (civil_of t) = m" "cv_day (civil_of t) = d + 1"
    "cv_hour (civil_of t) = secs mod 86400 div 3600" "cv_minute (civil_of t) = secs mod 86400 div 60 mod 60"
    "cv_second (civil_of t) = secs mod 86400 mod 60" "cv_micro (civil_of t) = t mod 1000000"
    unfolding c by (rule civil.simps)+
  ultimately show ?thesis by metis
qed

section \<open>Instants as text\<close>

text \<open>\<open>strftime("%Y%m%dT%H%M%SZ")\<close> and \<open>isoformat()\<close> of an instant in UTC.\<close>

definition stamp :: "time \<Rightarrow> string" where
  "stamp t = (let c = civil_of t in
     py_str_int (cv_year c) @ zero_pad 2 (cv_month c) @ zero_pad 2 (nat (cv_day c)) @ ''T'' @
     zero_pad 2 (nat (cv_hour c)) @ zero_pad 2 (nat (cv_minute c)) @ zero_pad 2 (nat (cv_second c)) @ ''Z'')"

definition isoformat :: "time \<Rightarrow> string" where
  "isoformat t = (let c = civil_of t in
     zero_pad 4 (nat (cv_year c)) @ ''-'' @ zero_pad 2 (cv_month c) @ ''-'' @ zero_pad 2 (nat (cv_day c)) @ ''T'' @
     zero_pad 2 (nat (cv_hour c)) @ '':'' @ zero_pad 2 (nat (cv_minute c)) @ '':'' @ zero_pad 2 (nat (cv_second c)) @
     (if cv_micro c = 0 then [] else ''.'' @ zero_pad 6 (nat (cv_micro c))) @ ''+00:00'')"

definition read_stamp :: "string \<Rightarrow> time" where
  "read_stamp s = (let n = length s - 12; at = (\<lambda>k. int (read_nat (take 2 (drop (n + k) s)))) in
     time_of \<lparr>cv_year = int (read_nat (take n s)), cv_month = nat (at 0), cv_day = at 2, cv_hour = at 5,
       cv_minute = at 7, cv_second = at 9, cv_micro = 0\<rparr>)"

lemma read_stamp_stamp:
  assumes "0 \<le> t"
  shows "read_stamp (stamp t) = t div 1000000 * 1000000"
proof -
  let ?c = "civil_of t"
  note r = civil_of_ranges [of t]
  define parts where "parts = (py_digits (nat (cv_year ?c)), zero_pad 2 (cv_month ?c), zero_pad 2 (nat (cv_day ?c)),
    zero_pad 2 (nat (cv_hour ?c)), zero_pad 2 (nat (cv_minute ?c)), zero_pad 2 (nat (cv_second ?c)))"
  obtain py pm pd ph pi ps where p: "parts = (py, pm, pd, ph, pi, ps)" by (cases parts)
  have len: "length pm = 2" "length pd = 2" "length ph = 2" "length pi = 2" "length ps = 2"
    using p r by (auto simp: parts_def intro!: length_zero_pad)
  have rd: "int (read_nat py) = cv_year ?c" "read_nat pm = cv_month ?c" "int (read_nat pd) = cv_day ?c"
    "int (read_nat ph) = cv_hour ?c" "int (read_nat pi) = cv_minute ?c" "int (read_nat ps) = cv_second ?c"
    using p r assms by (auto simp: parts_def)
  have "stamp t = py @ pm @ pd @ ''T'' @ ph @ pi @ ps @ ''Z''"
    using p r assms by (auto simp: stamp_def Let_def parts_def py_str_int_def)
  then have "read_stamp (stamp t) = time_of \<lparr>cv_year = cv_year ?c, cv_month = cv_month ?c, cv_day = cv_day ?c,
      cv_hour = cv_hour ?c, cv_minute = cv_minute ?c, cv_second = cv_second ?c, cv_micro = 0\<rparr>"
    by (simp add: read_stamp_def Let_def len rd)
  also have "\<dots> = time_of ?c - cv_micro ?c" by (simp add: time_of_def)
  also have "\<dots> = t - t mod 1000000" using r by (simp add: civil_of_def Let_def case_prod_unfold)
  finally show ?thesis by (simp add: minus_mod_eq_div_mult)
qed

lemma stamp_range:
  assumes "0 \<le> t"
  shows "set (stamp t) \<subseteq> set ''0123456789TZ''"
proof -
  have d: "set (py_str_int (cv_year (civil_of t))) \<subseteq> set ''0123456789''"
    using py_digits_range civil_of_ranges [of t] assms by (simp add: py_str_int_def)
  have "set ''0123456789'' \<subseteq> set ''0123456789TZ''" by simp
  with d zero_pad_range show ?thesis
    unfolding stamp_def Let_def set_append by (intro Un_least) (blast | simp)+
qed

end
