(* ===== verification/Outbox.thy ===== *)
theory Outbox
  imports Offer_Approval Formatting
begin

text \<open>
  The outbox publisher of \<open>notifications/application/outbox_publisher.py\<close>: it turns every pending
  outbox event into one delivery, once, in the order the events were written.
\<close>

section \<open>Python's \<open>str\<close> of a payload value\<close>

fun json_str :: "json \<Rightarrow> string" where
  "json_str (JStr s) = s"
| "json_str (JInt i) = py_str_int i"

section \<open>Publishing\<close>

definition new_delivery :: "ctx \<Rightarrow> nat \<Rightarrow> outbox_row \<Rightarrow> string \<Rightarrow> delivery_row" where
  "new_delivery cx k e recipient_id =
    \<lparr>nd_id = cx_uuid cx k, nd_outbox_event_id = ob_id e, nd_tenant_id = ob_tenant_id e,
     nd_recipient_id = recipient_id, nd_channel = ''in_app'', nd_status = ''pending'', nd_attempts = 0,
     nd_last_error = None, nd_payload = ob_payload e, nd_lease_owner = None,
     nd_lease_expires_at = None, nd_created_at = cx_ts cx\<rparr>"

definition set_published :: "string \<Rightarrow> session \<Rightarrow> session" where
  "set_published event_id s = s\<lparr>ss_db := (ss_db s)\<lparr>outbox_events :=
     update_where (\<lambda>e. ob_id e = event_id) (\<lambda>e. e\<lparr>ob_status := ''published''\<rparr>)
       (outbox_events (ss_db s))\<rparr>\<rparr>"

text \<open>One pass over the selected events; the number of deliveries added so far draws the next identifier.\<close>

fun publish_events :: "ctx \<Rightarrow> outbox_row list \<Rightarrow> nat \<Rightarrow> session \<Rightarrow> exn + nat \<times> session" where
  "publish_events cx [] published s = Inr (published, s)"
| "publish_events cx (e # es) published s =
    (case List.find (\<lambda>n. nd_outbox_event_id n = ob_id e) (deliveries (ss_db s)) of
       Some _ \<Rightarrow> publish_events cx es published (set_published (ob_id e) s)
     | None \<Rightarrow>
         (case map_of (ob_payload e) ''actor_id'' of
            None \<Rightarrow> Inl (KeyError ''actor_id'')
          | Some v \<Rightarrow>
              let s1 = session_add (Delivery_Row (new_delivery cx published e (json_str v))) s
              in publish_events cx es (published + 1) (set_published (ob_id e) s1)))"

definition pending_events :: "db \<Rightarrow> outbox_row list" where
  "pending_events d = sort_key ob_created_at (filter (\<lambda>e. ob_status e = ''pending'') (outbox_events d))"

definition publish_pending :: "ctx \<Rightarrow> session \<Rightarrow> exn + nat \<times> db" where
  "publish_pending cx s =
    (case publish_events cx (pending_events (ss_db s)) 0 s of
       Inl e \<Rightarrow> Inl e
     | Inr (published, s1) \<Rightarrow>
         (case session_commit cx s1 of Inl e \<Rightarrow> Inl e | Inr d \<Rightarrow> Inr (published, d)))"

section \<open>What a pass writes\<close>

definition has_delivery :: "db \<Rightarrow> string \<Rightarrow> bool" where
  "has_delivery d i = (i \<in> set (map nd_outbox_event_id (deliveries d)))"

definition recipient :: "outbox_row \<Rightarrow> string" where
  "recipient e = json_str (the (map_of (ob_payload e) ''actor_id''))"

definition mark_published :: "(outbox_row \<Rightarrow> bool) \<Rightarrow> outbox_row list \<Rightarrow> outbox_row list" where
  "mark_published P es = update_where P (\<lambda>e. e\<lparr>ob_status := ''published''\<rparr>) es"

definition deliveries_for :: "ctx \<Rightarrow> nat \<Rightarrow> outbox_row list \<Rightarrow> delivery_row list" where
  "deliveries_for cx n es = map2 (\<lambda>k e. new_delivery cx k e (recipient e)) [n..<n + length es] es"

definition undelivered :: "db \<Rightarrow> outbox_row list" where
  "undelivered d = filter (\<lambda>e. \<not> has_delivery d (ob_id e)) (pending_events d)"

definition published_db :: "ctx \<Rightarrow> db \<Rightarrow> db" where
  "published_db cx d = d\<lparr>
     outbox_events := mark_published (\<lambda>e. ob_status e = ''pending'') (outbox_events d),
     deliveries := deliveries d @ deliveries_for cx 0 (undelivered d)\<rparr>"

lemma find_delivery_None:
  "List.find (\<lambda>n. nd_outbox_event_id n = i) (deliveries d) = None \<longleftrightarrow> \<not> has_delivery d i"
  by (auto simp: find_None has_delivery_def)

lemma mark_published_twice:
  "mark_published (\<lambda>e. ob_id e \<in> A) (mark_published (\<lambda>e. ob_id e = i) es) =
    mark_published (\<lambda>e. ob_id e \<in> insert i A) es"
  by (auto simp: mark_published_def update_where_def)

lemma deliveries_for_Cons:
  "deliveries_for cx n (e # es) = new_delivery cx n e (recipient e) # deliveries_for cx (n + 1) es"
  by (simp add: deliveries_for_def upt_conv_Cons del: upt_Suc)

lemma set_published_eq:
  "set_published i s = s\<lparr>ss_db := (ss_db s)\<lparr>outbox_events :=
     mark_published (\<lambda>e. ob_id e = i) (outbox_events (ss_db s))\<rparr>\<rparr>"
  by (simp add: set_published_def mark_published_def)

lemma publish_events_run:
  assumes "\<And>e. e \<in> set es \<Longrightarrow> map_of (ob_payload e) ''actor_id'' \<noteq> None"
  shows "publish_events cx es n s =
    (let U = filter (\<lambda>e. \<not> has_delivery (ss_db s) (ob_id e)) es in
     Inr (n + length U, \<lparr>ss_db = (ss_db s)\<lparr>outbox_events :=
         mark_published (\<lambda>e. ob_id e \<in> set (map ob_id es)) (outbox_events (ss_db s))\<rparr>,
       ss_new = ss_new s @ map Delivery_Row (deliveries_for cx n U)\<rparr>))"
  using assms
proof (induction es arbitrary: n s)
  case Nil
  then show ?case by (simp add: mark_published_def update_where_def deliveries_for_def)
next
  case (Cons e es)
  have hd: "has_delivery (d\<lparr>outbox_events := x\<rparr>) = has_delivery d" for d x
    by (simp add: fun_eq_iff has_delivery_def)
  show ?case
  proof (cases "List.find (\<lambda>n. nd_outbox_event_id n = ob_id e) (deliveries (ss_db s))")
    case None
    obtain v where v: "map_of (ob_payload e) ''actor_id'' = Some v" using Cons.prems by auto
    have "\<not> has_delivery (ss_db s) (ob_id e)" using None find_delivery_None by blast
    with None v show ?thesis
      using Cons by (simp add: Let_def set_published_eq hd mark_published_twice
          deliveries_for_Cons recipient_def session_add_def)
  next
    case (Some q)
    then have "has_delivery (ss_db s) (ob_id e)" using find_delivery_None [of "ob_id e" "ss_db s"] by simp
    with Some show ?thesis
      using Cons by (simp add: Let_def set_published_eq hd mark_published_twice)
  qed
qed

lemma set_pending_events: "set (pending_events d) = {e \<in> set (outbox_events d). ob_status e = ''pending''}"
  by (auto simp: pending_events_def)

lemma mark_pending:
  assumes "distinct (map ob_id (outbox_events d))"
  shows "mark_published (\<lambda>e. ob_id e \<in> ob_id ` set (pending_events d)) (outbox_events d) =
    mark_published (\<lambda>e. ob_status e = ''pending'') (outbox_events d)"
  unfolding mark_published_def update_where_def
  by (rule map_cong) (auto simp: set_pending_events dest: key_unique [OF assms])

lemma insert_deliveries:
  "db_insert_all d (map Delivery_Row ns) = d\<lparr>deliveries := deliveries d @ ns\<rparr>"
  by (induction ns arbitrary: d) simp_all

lemma publish_pending_eq:
  assumes "db_ok d" "\<And>e. e \<in> set (pending_events d) \<Longrightarrow> map_of (ob_payload e) ''actor_id'' \<noteq> None"
  shows "publish_pending cx (open_session d) =
    (if \<not> cx_db_up cx then Inl OperationalError
     else if db_ok (published_db cx d) then Inr (length (undelivered d), published_db cx d)
     else Inl IntegrityError)"
  using publish_events_run [OF assms(2), of "pending_events d" cx 0 "open_session d"] db_ok_keys(4) [OF assms(1)]
  by (simp add: publish_pending_def Let_def session_commit_eq insert_deliveries mark_pending
      undelivered_def [symmetric] published_db_def)

text \<open>The payloads the offer handlers write name a known user.\<close>

definition payload_ok :: "db \<Rightarrow> outbox_row \<Rightarrow> bool" where
  "payload_ok d e = (\<exists>u. map_of (ob_payload e) ''actor_id'' = Some (JStr u) \<and> has_user d u)"

lemma lockstep_payloads:
  assumes "db_ok d" "outbox_lockstep d" "e \<in> set (outbox_events d)"
  shows "payload_ok d e"
proof -
  have "(ob_tenant_id e, ob_topic e, ob_payload e) \<in> set (map (\<lambda>e. (ob_tenant_id e, ob_topic e, ob_payload e)) (outbox_events d))"
    using assms(3) by auto
  then have "(ob_tenant_id e, ob_topic e, ob_payload e) \<in> set (map (\<lambda>a. (ad_tenant_id a,
      ''offer.approval_recorded.v1'', decision_payload a)) (approval_decisions d))"
    unfolding assms(2) [unfolded outbox_lockstep_def] .
  then obtain a where a: "a \<in> set (approval_decisions d)" "ob_payload e = decision_payload a" by auto
  have "has_user d (ad_actor_id a)"
    using assms(1) a(1) by (simp add: db_ok_def approval_decisions_ok_def list_all_iff)
  with a(2) show ?thesis by (simp add: payload_ok_def decision_payload_def)
qed

lemma distinct_sort_filter: "distinct (map k xs) \<Longrightarrow> distinct (map k (filter P (sort_key g (filter Q xs))))"
  by (simp add: distinct_map inj_on_def)

lemma deliveries_for_maps:
  "map nd_outbox_event_id (deliveries_for cx n es) = map ob_id es"
  "map nd_id (deliveries_for cx n es) = map (cx_uuid cx) [n..<n + length es]"
proof (induction es arbitrary: n)
  case (Cons e es)
  { case 1 show ?case by (simp add: deliveries_for_Cons new_delivery_def Cons)
  next
    case 2 show ?case by (simp add: deliveries_for_Cons new_delivery_def Cons upt_conv_Cons del: upt_Suc) }
qed (simp_all add: deliveries_for_def)

lemma deliveries_for_set:
  "x \<in> set (deliveries_for cx n es) \<Longrightarrow> \<exists>e \<in> set es. \<exists>k. x = new_delivery cx k e (recipient e)"
proof (induction es arbitrary: n)
  case (Cons e es)
  then show ?case by (auto simp: deliveries_for_Cons)
qed (simp add: deliveries_for_def)

lemma published_db_ok:
  assumes ok: "db_ok d" and pl: "\<And>e. e \<in> set (pending_events d) \<Longrightarrow> payload_ok d e"
    and fresh: "distinct (map nd_id (deliveries d) @ map (cx_uuid cx) [0..<length (undelivered d)])"
  shows "db_ok (published_db cx d)"
proof -
  let ?d = "d\<lparr>outbox_events := mark_published (\<lambda>e. ob_status e = ''pending'') (outbox_events d)\<rparr>"
  have d1: "db_ok ?d" unfolding mark_published_def by (rule db_ok_update_outbox [OF ok]) simp
  have U: "set (undelivered d) \<subseteq> {e \<in> set (outbox_events d). ob_status e = ''pending'' \<and> \<not> has_delivery d (ob_id e)}"
    by (auto simp: undelivered_def set_pending_events)
  have "distinct (map ob_id (undelivered d))"
    unfolding undelivered_def pending_events_def by (rule distinct_sort_filter) (rule db_ok_keys(4) [OF ok])
  moreover have "set (map ob_id (undelivered d)) \<inter> set (map nd_outbox_event_id (deliveries d)) = {}"
    using U by (auto simp: has_delivery_def)
  ultimately have ev: "distinct (map nd_outbox_event_id (deliveries d @ deliveries_for cx 0 (undelivered d)))"
    using db_ok_keys(9) [OF ok] by (auto simp: deliveries_for_maps)
  have ids: "distinct (map nd_id (deliveries d @ deliveries_for cx 0 (undelivered d)))"
    using fresh by (simp add: deliveries_for_maps)
  have refs: "has_event d (nd_outbox_event_id x) \<and> has_tenant d (nd_tenant_id x) \<and> has_user d (nd_recipient_id x)"
    if x: "x \<in> set (deliveries_for cx 0 (undelivered d))" for x
  proof -
    obtain e k where e: "e \<in> set (undelivered d)" "x = new_delivery cx k e (recipient e)"
      using deliveries_for_set [OF x] by auto
    have e': "e \<in> set (outbox_events d)" "e \<in> set (pending_events d)"
      using e(1) U by (auto simp: undelivered_def)
    have "has_user d (recipient e)" using pl [OF e'(2)] by (auto simp: payload_ok_def recipient_def)
    with e(2) e'(1) db_ok_outbox_refs [OF ok e'(1)] show ?thesis by (simp add: new_delivery_def)
  qed
  have "map ob_id (mark_published P es) = map ob_id es" for P es
    by (simp add: mark_published_def table_simps)
  then have "deliveries_ok (published_db cx d)"
    using ok ev ids refs
    by (auto simp: deliveries_ok_def published_db_def db_ok_def list_all_iff simp del: set_map)
  with d1 show ?thesis by (simp add: published_db_def db_ok_def table_ok_defs)
qed

text \<open>
  With the payloads the offer handlers write, publishing always succeeds:
  every pending event becomes published, and each one that has no delivery yet gets one pending
  delivery to the actor of its decision, in the order of the events' creation; nothing else changes.
\<close>

lemma publish_pending_result:
  assumes "db_ok d" "outbox_lockstep d" "cx_db_up cx"
    and "distinct (map nd_id (deliveries d) @ map (cx_uuid cx) [0..<length (undelivered d)])"
  shows "with_session (publish_pending cx) d = (Inr (length (undelivered d)), published_db cx d)"
proof -
  have pl: "payload_ok d e" if "e \<in> set (pending_events d)" for e
    using lockstep_payloads [OF assms(1,2)] that by (simp add: set_pending_events)
  then have "\<And>e. e \<in> set (pending_events d) \<Longrightarrow> map_of (ob_payload e) ''actor_id'' \<noteq> None"
    by (fastforce simp: payload_ok_def)
  from publish_pending_eq [OF assms(1) this] published_db_ok [OF assms(1) pl assms(4)] assms(3)
  show ?thesis by (simp add: with_session_def)
qed

definition sample_outbox :: db where
  "sample_outbox = db_insert_all sample_db
     [Decision_Row (decision_of sample_ctx (sample_decide ''h'' ''hiring_manager'' ''approved'' 1) sample_offer),
      Outbox_Row (decision_event sample_ctx (sample_decide ''h'' ''hiring_manager'' ''approved'' 1) sample_offer)]"

lemma sample_outbox_ok: "db_ok sample_outbox" "outbox_lockstep sample_outbox" "deliveries sample_outbox = []"
  "outbox_events sample_outbox = [decision_event sample_ctx (sample_decide ''h'' ''hiring_manager'' ''approved'' 1) sample_offer]"
proof -
  have "rows_ok sample_db
     [Decision_Row (decision_of sample_ctx (sample_decide ''h'' ''hiring_manager'' ''approved'' 1) sample_offer),
      Outbox_Row (decision_event sample_ctx (sample_decide ''h'' ''hiring_manager'' ''approved'' 1) sample_offer)]"
    by (simp add: decision_event_def)
  then show "db_ok sample_outbox" unfolding sample_outbox_def by (rule db_insert_all_ok [OF sample_db_ok])
qed (simp_all add: sample_outbox_def outbox_lockstep_def decision_event_def)

lemma sample_pending: "length (undelivered sample_outbox) = 1" "length (pending_events sample_outbox) = 1"
  by (simp_all add: undelivered_def pending_events_def has_delivery_def sample_outbox_ok decision_event_def)

lemma publish_pending_result_witness:
  "fst (with_session (publish_pending sample_ctx2) sample_outbox) = Inr 1"
  using publish_pending_result [OF sample_outbox_ok(1,2), of sample_ctx2]
  by (simp add: sample_outbox_ok(3) sample_pending)

lemma publish_pending_Inr:
  assumes "db_ok d" "outbox_lockstep d" "publish_pending cx (open_session d) = Inr (n, d')"
  shows "n = length (undelivered d)" "d' = published_db cx d" "db_ok d'"
proof -
  have "\<And>e. e \<in> set (pending_events d) \<Longrightarrow> map_of (ob_payload e) ''actor_id'' \<noteq> None"
    using lockstep_payloads [OF assms(1,2)] by (fastforce simp: set_pending_events payload_ok_def)
  from publish_pending_eq [OF assms(1) this] assms(3)
  show "n = length (undelivered d)" "d' = published_db cx d" "db_ok d'" by (auto split: if_splits)
qed

lemma published_none_pending: "pending_events (published_db cx d) = []"
proof -
  have "filter (\<lambda>e. ob_status e = ''pending'') (outbox_events (published_db cx d)) = []"
    by (auto simp: published_db_def mark_published_def update_where_def filter_empty_conv)
  then show ?thesis by (simp add: pending_events_def)
qed

text \<open>Publishing records no time: \<open>published_at\<close> stays as it was, null for every event.\<close>

lemma publish_sets_no_time: "map ob_published_at (outbox_events (published_db cx d)) = map ob_published_at (outbox_events d)"
proof -
  have "map ob_published_at (mark_published (\<lambda>e. ob_status e = ''pending'') (outbox_events d)) = map ob_published_at (outbox_events d)"
    unfolding mark_published_def by (rule map_update_where) simp
  then show ?thesis by (simp add: published_db_def)
qed

text \<open>
  Claim C21 (safety): publishing is idempotent and delivers each event exactly once. After a pass no
  event is pending, every event that was pending has exactly one delivery, and a second pass adds
  nothing and changes nothing.
\<close>

theorem publish_exactly_once:
  assumes "db_ok d" "outbox_lockstep d" "with_session (publish_pending cx) d = (Inr n, d')" "cx_db_up cx2"
  shows "pending_events d' = [] \<and>
    (\<forall>e \<in> set (pending_events d). length (filter (\<lambda>x. nd_outbox_event_id x = ob_id e) (deliveries d')) = 1) \<and>
    with_session (publish_pending cx2) d' = (Inr 0, d')"
proof -
  have d': "d' = published_db cx d" "db_ok d'"
    using publish_pending_Inr [OF assms(1,2)] assms(3) by (simp_all add: with_session_Inr)
  have one: "length (filter (\<lambda>x. nd_outbox_event_id x = i) (deliveries d')) = 1" if "has_delivery d' i" for i
  proof -
    obtain x where x: "x \<in> set (deliveries d')" "nd_outbox_event_id x = i" using \<open>has_delivery d' i\<close>
      by (auto simp: has_delivery_def)
    have "List.find (\<lambda>x. nd_outbox_event_id x = i \<and> True) (deliveries d') = Some x"
      by (rule find_key [OF db_ok_keys(9) [OF d'(2)] x(1,2) TrueI])
    then show ?thesis
      using rowcount_key [OF db_ok_keys(9) [OF d'(2)], of i "\<lambda>_. True"] by (simp add: rowcount_def)
  qed
  have "has_delivery d' (ob_id e)" if "e \<in> set (pending_events d)" for e
  proof (cases "has_delivery d (ob_id e)")
    case False
    with that have "ob_id e \<in> set (map nd_outbox_event_id (deliveries_for cx 0 (undelivered d)))"
      by (auto simp: deliveries_for_maps undelivered_def)
    then show ?thesis by (simp add: has_delivery_def d' published_db_def)
  qed (simp add: has_delivery_def d' published_db_def)
  moreover have "undelivered d' = []" "published_db cx2 d' = d'"
  proof -
    show u: "undelivered d' = []" by (simp add: undelivered_def d' published_none_pending)
    have "mark_published (\<lambda>e. ob_status e = ''pending'') (outbox_events d') = outbox_events d'"
      unfolding mark_published_def by (rule update_where_none)
        (auto simp: d' published_db_def mark_published_def update_where_def)
    then show "published_db cx2 d' = d'" by (simp add: published_db_def u deliveries_for_def)
  qed
  then have "with_session (publish_pending cx2) d' = (Inr 0, d')"
    using publish_pending_eq [OF d'(2), of cx2] d'(2) assms(4)
    by (simp add: d'(1) published_none_pending with_session_def)
  ultimately show ?thesis using one by (simp add: d'(1) published_none_pending)
qed

theorem publish_exactly_once_witness:
  "\<exists>d'. pending_events d' = [] \<and> with_session (publish_pending sample_ctx2) d' = (Inr 0, d')"
proof -
  have ok: "db_ok (published_db sample_ctx2 sample_outbox)"
  proof (rule published_db_ok [OF sample_outbox_ok(1)])
    show "payload_ok sample_outbox e" if "e \<in> set (pending_events sample_outbox)" for e
      using that lockstep_payloads [OF sample_outbox_ok(1,2)] by (simp add: set_pending_events)
  qed (simp add: sample_outbox_ok(3) sample_pending)
  have pl: "\<And>e. e \<in> set (pending_events sample_outbox) \<Longrightarrow> map_of (ob_payload e) ''actor_id'' \<noteq> None"
    using lockstep_payloads [OF sample_outbox_ok(1,2)] by (fastforce simp: set_pending_events payload_ok_def)
  have "with_session (publish_pending sample_ctx2) sample_outbox =
      (Inr (length (undelivered sample_outbox)), published_db sample_ctx2 sample_outbox)"
    using publish_pending_eq [OF sample_outbox_ok(1) pl] ok by (simp add: with_session_def)
  from publish_exactly_once [OF sample_outbox_ok(1,2) this, of sample_ctx2] show ?thesis by auto
qed

text \<open>
  One event without the key \<open>actor_id\<close> that has no delivery yet stops the whole
  pass: it raises \<open>KeyError\<close>, nothing is published, and the database stays as it was.
\<close>

lemma publish_events_poison:
  assumes "e \<in> set es" "\<not> has_delivery (ss_db s) (ob_id e)" "map_of (ob_payload e) ''actor_id'' = None"
  shows "publish_events cx es n s = Inl (KeyError ''actor_id'')"
  using assms
proof (induction es arbitrary: n s)
  case (Cons x es)
  have hd: "has_delivery (d\<lparr>outbox_events := y\<rparr>) = has_delivery d" for d y
    by (simp add: fun_eq_iff has_delivery_def)
  have step: "publish_events cx es m (set_published (ob_id x) (session_add r s)) = Inl (KeyError ''actor_id'') \<and>
      publish_events cx es m (set_published (ob_id x) s) = Inl (KeyError ''actor_id'')" if "e \<in> set es" for m r
    using Cons.IH [OF that] Cons.prems(2,3) by (simp add: set_published_def hd)
  show ?case
  proof (cases "x = e")
    case True
    then show ?thesis using Cons.prems find_delivery_None [of "ob_id e" "ss_db s"] by simp
  next
    case False
    with Cons.prems(1) have "e \<in> set es" by simp
    with step show ?thesis by (simp add: Let_def split: option.splits)
  qed
qed simp

end
