(* ===== verification/Delivery.thy ===== *)
theory Delivery
  imports Outbox
begin

text \<open>
  The delivery worker of \<open>notifications/application/delivery_worker.py\<close> with the sender of
  \<open>sendgrid_delivery.py\<close> and \<open>infrastructure/sendgrid_email.py\<close>.

  A worker claims the oldest eligible delivery (pending, to retry, or left in processing past its
  lease), sends it, and marks it delivered or failed. Each of the three database accesses is a
  transaction of its own. The loop ends when nothing is eligible; since nothing in its code bounds
  it, it is a partial function, and that it returns is a theorem.
\<close>

section \<open>Sending\<close>

record mail =
  ml_url :: string
  ml_to :: string
  ml_from :: string
  ml_subject :: string
  ml_text :: string
  ml_authorization :: string
  ml_content_type :: string

record sendgrid_adapter =
  sg_api_key :: string
  sg_sender :: string

text \<open>\<open>SendGridEmailAdapter(...)\<close> refuses an empty key or sender.\<close>

definition SendGridEmailAdapter :: "string \<Rightarrow> string \<Rightarrow> exn + sendgrid_adapter" where
  "SendGridEmailAdapter api_key sender =
    (if api_key = [] then Inl (ValueError ''SENDGRID_API_KEY is required'')
     else if sender = [] then Inl (ValueError ''NOTIFICATION_FROM_EMAIL is required'')
     else Inr \<lparr>sg_api_key = api_key, sg_sender = sender\<rparr>)"

definition adapter_send ::
  "(mail \<Rightarrow> string option) \<Rightarrow> sendgrid_adapter \<Rightarrow> string \<Rightarrow> string \<Rightarrow> string \<Rightarrow> string option" where
  "adapter_send post a to subject body =
    post \<lparr>ml_url = ''https://api.sendgrid.com/v3/mail/send'', ml_to = to, ml_from = sg_sender a,
      ml_subject = subject, ml_text = body, ml_authorization = ''Bearer '' @ sg_api_key a,
      ml_content_type = ''application/json''\<rparr>"

text \<open>
  \<open>SendGridDeliverySender.__call__\<close>: None when it returns, otherwise the text of the exception.
  \<open>post\<close> is the HTTP call.
\<close>

definition delivery_sender ::
  "(mail \<Rightarrow> string option) \<Rightarrow> sendgrid_adapter \<Rightarrow> db \<Rightarrow> delivery_row \<Rightarrow> string option" where
  "delivery_sender post a d n =
    (case List.find (\<lambda>u. us_id u = nd_recipient_id n) (users d) of
       None \<Rightarrow> Some ''Notification recipient has no email address''
     | Some u \<Rightarrow>
         (case us_email u of
            None \<Rightarrow> Some ''Notification recipient has no email address''
          | Some to \<Rightarrow>
              if to = [] then Some ''Notification recipient has no email address''
              else
                let decision = (case map_of (nd_payload n) ''decision'' of
                                  None \<Rightarrow> ''updated'' | Some v \<Rightarrow> json_str v)
                in adapter_send post a to ''TalentFlow offer approval update''
                     (''An offer approval was recorded with decision: '' @ decision @ ''.'')))"

section \<open>The worker\<close>

record delivery_worker =
  dw_max_attempts :: int
  dw_lease :: time
  dw_id :: string

definition eligible :: "time \<Rightarrow> delivery_row \<Rightarrow> bool" where
  "eligible now n =
    (nd_status n \<in> {''pending'', ''retry''} \<or>
     nd_status n = ''processing'' \<and>
       (case nd_lease_expires_at n of None \<Rightarrow> False | Some x \<Rightarrow> x \<le> now))"

text \<open>The claim in its two statements: the select, and the update that checks again.\<close>

definition claim_select :: "time \<Rightarrow> db \<Rightarrow> string option" where
  "claim_select now d =
    (case sort_key nd_created_at (filter (eligible now) (deliveries d)) of
       [] \<Rightarrow> None | n # _ \<Rightarrow> Some (nd_id n))"

definition claim_row :: "delivery_worker \<Rightarrow> time \<Rightarrow> delivery_row \<Rightarrow> delivery_row" where
  "claim_row w now n = n\<lparr>nd_status := ''processing'', nd_attempts := nd_attempts n + 1,
     nd_lease_owner := Some (dw_id w), nd_lease_expires_at := Some (now + dw_lease w)\<rparr>"

definition claim_update :: "delivery_worker \<Rightarrow> time \<Rightarrow> string \<Rightarrow> db \<Rightarrow> bool \<times> db" where
  "claim_update w now i d =
    (let P = (\<lambda>n. nd_id n = i \<and> eligible now n) in
     if rowcount P (deliveries d) = 1
     then (True, d\<lparr>deliveries := update_where P (claim_row w now) (deliveries d)\<rparr>)
     else (False, d))"

definition claim_next :: "delivery_worker \<Rightarrow> time \<Rightarrow> db \<Rightarrow> delivery_row option \<times> db" where
  "claim_next w now d =
    (case claim_select now d of
       None \<Rightarrow> (None, d)
     | Some i \<Rightarrow>
         (case claim_update w now i d of
            (ok, d1) \<Rightarrow>
              if \<not> ok then (None, d1)
              else (List.find (\<lambda>n. nd_id n = i) (deliveries d1), d1)))"

definition held_by :: "delivery_worker \<Rightarrow> string \<Rightarrow> delivery_row \<Rightarrow> bool" where
  "held_by w i n = (nd_id n = i \<and> nd_status n = ''processing'' \<and> nd_lease_owner n = Some (dw_id w))"

definition mark_delivered :: "delivery_worker \<Rightarrow> string \<Rightarrow> db \<Rightarrow> db" where
  "mark_delivered w i d = d\<lparr>deliveries := update_where (held_by w i)
     (\<lambda>n. n\<lparr>nd_status := ''delivered'', nd_lease_owner := None, nd_lease_expires_at := None,
       nd_last_error := None\<rparr>) (deliveries d)\<rparr>"

text \<open>
  A failure reads the row, decides from what it read, and writes the changed columns by primary
  key: the update does not check the status or the owner again.
\<close>

definition fail_row :: "delivery_worker \<Rightarrow> string \<Rightarrow> delivery_row \<Rightarrow> delivery_row \<Rightarrow> delivery_row" where
  "fail_row w error found n = n\<lparr>nd_last_error := Some (take 1000 error),
     nd_status := (if nd_attempts found \<ge> dw_max_attempts w then ''dead_letter'' else ''retry''),
     nd_lease_owner := None, nd_lease_expires_at := None\<rparr>"

definition fail_write :: "delivery_worker \<Rightarrow> string \<Rightarrow> delivery_row \<Rightarrow> db \<Rightarrow> db" where
  "fail_write w error found d = d\<lparr>deliveries :=
     update_where (\<lambda>n. nd_id n = nd_id found) (fail_row w error found) (deliveries d)\<rparr>"

definition fail_delivery :: "delivery_worker \<Rightarrow> string \<Rightarrow> string \<Rightarrow> db \<Rightarrow> db" where
  "fail_delivery w i error d =
    (case List.find (held_by w i) (deliveries d) of
       None \<Rightarrow> d
     | Some found \<Rightarrow> fail_write w error found d)"

text \<open>
  The loop. \<open>now k\<close> is the clock at the \<open>k\<close>-th claim and \<open>send k\<close> what sending then does. A
  claim that finds nothing, or loses the row to another worker, ends the loop.
\<close>

partial_function (option) deliver_pending ::
  "delivery_worker \<Rightarrow> (nat \<Rightarrow> time) \<Rightarrow> (nat \<Rightarrow> delivery_row \<Rightarrow> string option) \<Rightarrow> nat \<Rightarrow> int \<Rightarrow> db \<Rightarrow>
   (int \<times> db) option" where
  "deliver_pending w now send k delivered d =
    (case claim_next w (now k) d of
       (None, d1) \<Rightarrow> Some (delivered, d1)
     | (Some n, d1) \<Rightarrow>
         (case send k n of
            Some error \<Rightarrow>
              deliver_pending w now send (k + 1) delivered (fail_delivery w (nd_id n) error d1)
          | None \<Rightarrow>
              deliver_pending w now send (k + 1) (delivered + 1) (mark_delivered w (nd_id n) d1)))"

section \<open>One attempt\<close>

definition attempt_row :: "delivery_worker \<Rightarrow> time \<Rightarrow> string option \<Rightarrow> delivery_row \<Rightarrow> delivery_row" where
  "attempt_row w now res n =
    (case res of
       None \<Rightarrow> (claim_row w now n)\<lparr>nd_status := ''delivered'', nd_lease_owner := None,
         nd_lease_expires_at := None, nd_last_error := None\<rparr>
     | Some e \<Rightarrow> fail_row w e (claim_row w now n) (claim_row w now n))"

definition put_row :: "delivery_row \<Rightarrow> delivery_row \<Rightarrow> db \<Rightarrow> db" where
  "put_row n n' d = d\<lparr>deliveries := map (\<lambda>x. if x = n then n' else x) (deliveries d)\<rparr>"

lemma row_simps [simp]:
  "nd_id (claim_row w t n) = nd_id n" "nd_outbox_event_id (claim_row w t n) = nd_outbox_event_id n"
  "nd_tenant_id (claim_row w t n) = nd_tenant_id n" "nd_recipient_id (claim_row w t n) = nd_recipient_id n"
  "nd_payload (claim_row w t n) = nd_payload n" "nd_attempts (claim_row w t n) = nd_attempts n + 1"
  "nd_status (claim_row w t n) = ''processing''" "nd_lease_owner (claim_row w t n) = Some (dw_id w)"
  "nd_lease_expires_at (claim_row w t n) = Some (t + dw_lease w)"
  "nd_id (fail_row w e f n) = nd_id n" "nd_outbox_event_id (fail_row w e f n) = nd_outbox_event_id n"
  "nd_tenant_id (fail_row w e f n) = nd_tenant_id n" "nd_recipient_id (fail_row w e f n) = nd_recipient_id n"
  "nd_payload (fail_row w e f n) = nd_payload n" "nd_attempts (fail_row w e f n) = nd_attempts n"
  "nd_status (fail_row w e f n) = (if nd_attempts f \<ge> dw_max_attempts w then ''dead_letter'' else ''retry'')"
  by (simp_all add: claim_row_def fail_row_def)

lemma attempt_row_simps [simp]:
  "nd_id (attempt_row w t res n) = nd_id n" "nd_outbox_event_id (attempt_row w t res n) = nd_outbox_event_id n"
  "nd_tenant_id (attempt_row w t res n) = nd_tenant_id n"
  "nd_recipient_id (attempt_row w t res n) = nd_recipient_id n" "nd_payload (attempt_row w t res n) = nd_payload n"
  "nd_attempts (attempt_row w t res n) = nd_attempts n + 1"
  "nd_status (attempt_row w t res n) = (case res of None \<Rightarrow> ''delivered''
     | Some e \<Rightarrow> if nd_attempts n + 1 \<ge> dw_max_attempts w then ''dead_letter'' else ''retry'')"
  by (auto simp: attempt_row_def split: option.splits)

lemma update_key:
  assumes "distinct (map nd_id rows)" "n \<in> set rows"
    and "\<And>x. x \<in> set rows \<Longrightarrow> P x \<longleftrightarrow> nd_id x = nd_id n \<and> Q" "Q"
  shows "update_where P f rows = map (\<lambda>x. if x = n then f n else x) rows"
  unfolding update_where_def
  by (rule map_cong) (use assms in \<open>auto dest: key_unique [OF assms(1)]\<close>)

lemma claim_select_None: "claim_select t d = None \<longleftrightarrow> (\<forall>n \<in> set (deliveries d). \<not> eligible t n)"
proof (cases "sort_key nd_created_at (filter (eligible t) (deliveries d))")
  case Nil
  then have "set (filter (eligible t) (deliveries d)) = {}" by (metis set_empty set_sort)
  with Nil show ?thesis by (auto simp: claim_select_def)
next
  case (Cons n ns)
  then have "n \<in> set (filter (eligible t) (deliveries d))" by (metis list.set_intros(1) set_sort)
  with Cons show ?thesis by (auto simp: claim_select_def)
qed

lemma claim_select_Some:
  assumes "claim_select t d = Some i"
  obtains n where "n \<in> set (deliveries d)" "eligible t n" "i = nd_id n"
proof -
  obtain n ns where n: "sort_key nd_created_at (filter (eligible t) (deliveries d)) = n # ns" "i = nd_id n"
    using assms by (auto simp: claim_select_def split: list.splits)
  have "n \<in> set (sort_key nd_created_at (filter (eligible t) (deliveries d)))" unfolding n(1) by simp
  then show ?thesis by (intro that [of n]) (simp_all add: n(2))
qed

lemma claim_update_hit:
  assumes d: "distinct (map nd_id (deliveries d))" and n: "n \<in> set (deliveries d)" "eligible t n"
  shows "claim_update w t (nd_id n) d = (True, put_row n (claim_row w t n) d)"
proof -
  have "List.find (\<lambda>x. nd_id x = nd_id n \<and> eligible t x) (deliveries d) = Some n"
    using find_key [OF d n(1), of "nd_id n" "eligible t"] n(2) by simp
  then have "rowcount (\<lambda>x. nd_id x = nd_id n \<and> eligible t x) (deliveries d) = 1"
    by (simp add: rowcount_key [OF d])
  moreover have "update_where (\<lambda>x. nd_id x = nd_id n \<and> eligible t x) (claim_row w t) (deliveries d) =
      map (\<lambda>x. if x = n then claim_row w t n else x) (deliveries d)"
    by (rule update_key [OF d n(1), where Q = True]) (use n(2) key_unique [OF d _ n(1)] in auto)
  ultimately show ?thesis by (simp add: claim_update_def put_row_def)
qed

lemma put_row_set: "n \<in> set (deliveries d) \<Longrightarrow> n' \<in> set (deliveries (put_row n n' d))"
  by (auto simp: put_row_def)

lemma put_row_ids: "nd_id n' = nd_id n \<Longrightarrow> map nd_id (deliveries (put_row n n' d)) = map nd_id (deliveries d)"
  by (simp add: put_row_def)

lemma put_row_twice:
  assumes "distinct (map nd_id (deliveries d))" "n \<in> set (deliveries d)" "nd_id n1 = nd_id n" "nd_id n2 = nd_id n"
  shows "put_row n1 n2 (put_row n n1 d) = put_row n n2 d"
proof -
  have "(if (if x = n then n1 else x) = n1 then n2 else if x = n then n1 else x) = (if x = n then n2 else x)"
    if "x \<in> set (deliveries d)" for x
    using key_unique [OF assms(1) that assms(2)] assms(3) by auto
  then show ?thesis by (simp add: put_row_def comp_def cong: map_cong)
qed

lemma put_row_ok:
  assumes "db_ok d" "n \<in> set (deliveries d)" "nd_id n' = nd_id n"
    "nd_outbox_event_id n' = nd_outbox_event_id n" "nd_tenant_id n' = nd_tenant_id n"
    "nd_recipient_id n' = nd_recipient_id n"
  shows "db_ok (put_row n n' d)"
proof -
  have "map k (deliveries (put_row n n' d)) = map k (deliveries d)" if "k n' = k n" for k :: "delivery_row \<Rightarrow> string"
    using that by (simp add: put_row_def)
  then have "map nd_id (deliveries (put_row n n' d)) = map nd_id (deliveries d)"
    "map nd_outbox_event_id (deliveries (put_row n n' d)) = map nd_outbox_event_id (deliveries d)"
    using assms by simp_all
  moreover have "list_all R (deliveries (put_row n n' d)) = list_all R (deliveries d)" if "R n' = R n" for R
    using that by (auto simp: put_row_def list_all_iff)
  moreover have "deliveries_ok d" using assms(1) by (simp add: db_ok_def)
  moreover have "tenants (put_row n n' d) = tenants d" "users (put_row n n' d) = users d"
    "outbox_events (put_row n n' d) = outbox_events d" by (simp_all add: put_row_def)
  ultimately have "deliveries_ok (put_row n n' d)"
    unfolding deliveries_ok_def using assms(3-6) by (simp del: map_map)
  then show ?thesis using assms(1) by (simp add: db_ok_def table_ok_defs put_row_def)
qed

text \<open>A claim finds the oldest eligible row and holds it; what follows rewrites exactly that row.\<close>

lemma claim_next_eq:
  assumes ok: "db_ok d"
  shows "(\<forall>n \<in> set (deliveries d). \<not> eligible t n) \<and> claim_next w t d = (None, d) \<or>
    (\<exists>n \<in> set (deliveries d). eligible t n \<and>
      claim_next w t d = (Some (claim_row w t n), put_row n (claim_row w t n) d))"
proof (cases "claim_select t d")
  case None
  then show ?thesis using claim_select_None [of t d] by (simp add: claim_next_def)
next
  case (Some i)
  then obtain n where n: "n \<in> set (deliveries d)" "eligible t n" "i = nd_id n" by (rule claim_select_Some)
  let ?d = "put_row n (claim_row w t n) d"
  note d = db_ok_keys(5) [OF ok]
  have "distinct (map nd_id (deliveries ?d))" using d by (simp add: put_row_ids)
  from find_key [OF this put_row_set [OF n(1), of "claim_row w t n"], of "nd_id n" "\<lambda>_. True"]
  have "List.find (\<lambda>x. nd_id x = nd_id n) (deliveries ?d) = Some (claim_row w t n)" by simp
  with n Some show ?thesis by (auto simp: claim_next_def claim_update_hit [OF d n(1,2)])
qed

lemma finish_attempt:
  assumes ok: "db_ok d" and n: "n \<in> set (deliveries d)"
  shows "mark_delivered w (nd_id n) (put_row n (claim_row w t n) d) = put_row n (attempt_row w t None n) d"
    "fail_delivery w (nd_id n) e (put_row n (claim_row w t n) d) = put_row n (attempt_row w t (Some e) n) d"
proof -
  let ?n = "claim_row w t n" and ?d = "put_row n (claim_row w t n) d"
  note d = db_ok_keys(5) [OF ok]
  have d1: "distinct (map nd_id (deliveries ?d))" using d by (simp add: put_row_ids)
  have n1: "?n \<in> set (deliveries ?d)" using put_row_set [OF n] .
  have h: "held_by w (nd_id n) x \<longleftrightarrow> nd_id x = nd_id ?n \<and> True" if "x \<in> set (deliveries ?d)" for x
    using key_unique [OF d1 that n1] by (auto simp: held_by_def)
  have twice: "put_row ?n n2 ?d = put_row n n2 d" if "nd_id n2 = nd_id n" for n2
    by (rule put_row_twice [OF d n]) (use that in simp_all)
  have "update_where (held_by w (nd_id n)) f (deliveries ?d) = map (\<lambda>x. if x = ?n then f ?n else x) (deliveries ?d)" for f
    by (rule update_key [OF d1 n1 h TrueI])
  then have "mark_delivered w (nd_id n) ?d = put_row ?n (attempt_row w t None n) ?d"
    unfolding mark_delivered_def put_row_def [of ?n] attempt_row_def option.case by (rule arg_cong)
  then show "mark_delivered w (nd_id n) ?d = put_row n (attempt_row w t None n) d" by (simp add: twice)
  have "List.find (held_by w (nd_id n)) (deliveries ?d) = Some ?n"
    by (rule find_unique [OF n1]) (use h key_unique [OF d1 _ n1] in \<open>auto simp: held_by_def\<close>)
  moreover have "update_where (\<lambda>x. nd_id x = nd_id ?n) (fail_row w e ?n) (deliveries ?d) =
      map (\<lambda>x. if x = ?n then fail_row w e ?n ?n else x) (deliveries ?d)"
    by (rule update_key [OF d1 n1, where Q = True]) auto
  ultimately have "fail_delivery w (nd_id n) e ?d = put_row ?n (attempt_row w t (Some e) n) ?d"
    by (simp add: fail_delivery_def fail_write_def put_row_def [of ?n] attempt_row_def)
  then show "fail_delivery w (nd_id n) e ?d = put_row n (attempt_row w t (Some e) n) d" by (simp add: twice)
qed

lemma deliver_pending_unfold:
  assumes ok: "db_ok d"
  shows "(\<forall>n \<in> set (deliveries d). \<not> eligible (now k) n) \<and> deliver_pending w now send k m d = Some (m, d) \<or>
    (\<exists>n \<in> set (deliveries d). \<exists>res. eligible (now k) n \<and>
      deliver_pending w now send k m d = deliver_pending w now send (k + 1)
        (m + (if res = None then 1 else 0)) (put_row n (attempt_row w (now k) res n) d))"
  using claim_next_eq [OF ok, of "now k" w]
proof (elim disjE bexE conjE)
  assume "claim_next w (now k) d = (None, d)" "\<forall>n \<in> set (deliveries d). \<not> eligible (now k) n"
  then show ?thesis by (simp add: deliver_pending.simps)
next
  fix n assume n: "n \<in> set (deliveries d)" "eligible (now k) n"
    and c: "claim_next w (now k) d = (Some (claim_row w (now k) n), put_row n (claim_row w (now k) n) d)"
  have "deliver_pending w now send k m d = deliver_pending w now send (k + 1)
      (m + (if send k (claim_row w (now k) n) = None then 1 else 0))
      (put_row n (attempt_row w (now k) (send k (claim_row w (now k) n)) n) d)"
    by (subst deliver_pending.simps) (simp add: c finish_attempt [OF ok n(1)] split: option.splits)
  with n show ?thesis by blast
qed

section \<open>The loop returns\<close>

definition open_status :: "string \<Rightarrow> bool" where
  "open_status st = (st \<in> {''pending'', ''retry'', ''processing''})"

text \<open>The attempts a row can still take; each attempt of the loop lowers the sum.\<close>

definition attempts_left :: "delivery_worker \<Rightarrow> delivery_row \<Rightarrow> nat" where
  "attempts_left w n = (if open_status (nd_status n) then 1 + nat (dw_max_attempts w - nd_attempts n) else 0)"

definition work_left :: "delivery_worker \<Rightarrow> db \<Rightarrow> nat" where
  "work_left w d = sum_list (map (attempts_left w) (deliveries d))"

definition count_delivered :: "db \<Rightarrow> int" where
  "count_delivered d = int (length (filter (\<lambda>n. nd_status n = ''delivered'') (deliveries d)))"

lemma eligible_open: "eligible t n \<Longrightarrow> open_status (nd_status n)"
  by (auto simp: eligible_def open_status_def)

lemma attempt_lowers:
  "eligible t n \<Longrightarrow> attempts_left w (attempt_row w t res n) < attempts_left w n"
  using eligible_open [of t n]
  by (auto simp: attempts_left_def open_status_def split: option.splits)

lemma sum_put:
  assumes "distinct rows" "n \<in> set rows"
  shows "sum_list (map f (map (\<lambda>x. if x = n then n' else x) rows)) + f n = sum_list (map f rows) + (f n' :: nat)"
  using assms
proof (induction rows)
  case (Cons r rows)
  show ?case
  proof (cases "r = n")
    case True
    with Cons.prems have "map (\<lambda>x. if x = n then n' else x) rows = rows" by (auto intro: map_idI)
    with True show ?thesis by simp
  next
    case False
    with Cons show ?thesis by simp
  qed
qed simp

lemma distinct_deliveries: "db_ok d \<Longrightarrow> distinct (deliveries d)"
  using db_ok_keys(5) distinct_map by blast

lemma work_put:
  assumes "db_ok d" "n \<in> set (deliveries d)" "eligible t n"
  shows "work_left w (put_row n (attempt_row w t res n) d) < work_left w d"
  using sum_put [OF distinct_deliveries [OF assms(1)] assms(2), of "attempts_left w" "attempt_row w t res n"]
    attempt_lowers [OF assms(3), of w res]
  by (simp add: work_left_def put_row_def)

lemma count_put:
  assumes "db_ok d" "n \<in> set (deliveries d)" "eligible t n"
  shows "count_delivered (put_row n (attempt_row w t res n) d) = count_delivered d + (if res = None then 1 else 0)"
proof -
  let ?f = "\<lambda>n. if nd_status n = ''delivered'' then 1 else (0::nat)"
  have "length (filter (\<lambda>n. nd_status n = ''delivered'') rows) = sum_list (map ?f rows)" for rows
    by (induction rows) auto
  then have c: "count_delivered d = int (sum_list (map ?f (deliveries d)))" for d
    by (simp add: count_delivered_def)
  have "?f n = 0" using eligible_open [OF assms(3)] by (auto simp: open_status_def)
  moreover have "?f (attempt_row w t res n) = (if res = None then 1 else 0)" by (auto split: option.splits)
  ultimately show ?thesis
    using sum_put [OF distinct_deliveries [OF assms(1)] assms(2), of ?f "attempt_row w t res n"]
    unfolding c by (simp add: put_row_def)
qed

text \<open>What a run does to a row: nothing, or one attempt or more, with the outcome the last one had.\<close>

definition run_outcome :: "delivery_worker \<Rightarrow> delivery_row \<Rightarrow> delivery_row \<Rightarrow> bool" where
  "run_outcome w x y = (y = x \<or>
     open_status (nd_status x) \<and> nd_id y = nd_id x \<and> nd_outbox_event_id y = nd_outbox_event_id x \<and>
     nd_payload y = nd_payload x \<and> nd_recipient_id y = nd_recipient_id x \<and>
     nd_attempts x < nd_attempts y \<and> nd_attempts y \<le> max (nd_attempts x + 1) (dw_max_attempts w) \<and>
     (nd_status y = ''delivered'' \<or>
      nd_status y = ''dead_letter'' \<and> dw_max_attempts w \<le> nd_attempts y \<or>
      nd_status y = ''retry'' \<and> nd_attempts y < dw_max_attempts w))"

lemma attempt_outcome:
  assumes "eligible t x"
  shows "run_outcome w x (attempt_row w t res x)"
  unfolding run_outcome_def using eligible_open [OF assms]
  by (cases res) simp_all

lemma outcome_trans: "run_outcome w x y \<Longrightarrow> run_outcome w y z \<Longrightarrow> run_outcome w x z"
  unfolding run_outcome_def open_status_def by (elim disjE conjE; simp)

lemma deliver_pending_run:
  assumes "db_ok d"
  shows "\<exists>n d' t. deliver_pending w now send k m d = Some (n, d') \<and> db_ok d' \<and>
    n + count_delivered d = m + count_delivered d' \<and>
    list_all2 (run_outcome w) (deliveries d) (deliveries d') \<and> d'\<lparr>deliveries := deliveries d\<rparr> = d \<and>
    (\<forall>x \<in> set (deliveries d'). \<not> eligible t x)"
  using assms
proof (induction "work_left w d" arbitrary: k m d rule: less_induct)
  case less
  from deliver_pending_unfold [OF less.prems, of now k w send m] show ?case
  proof (elim disjE conjE bexE exE)
    assume "deliver_pending w now send k m d = Some (m, d)" "\<forall>n \<in> set (deliveries d). \<not> eligible (now k) n"
    then show ?thesis
      using less.prems by (intro exI [of _ m] exI [of _ d] exI [of _ "now k"])
        (auto intro: list_all2_refl simp: run_outcome_def)
  next
    fix x res
    assume x: "x \<in> set (deliveries d)" "eligible (now k) x"
      and eq: "deliver_pending w now send k m d = deliver_pending w now send (k + 1)
        (m + (if res = None then 1 else 0)) (put_row x (attempt_row w (now k) res x) d)"
    let ?d = "put_row x (attempt_row w (now k) res x) d"
    have ok: "db_ok ?d" by (rule put_row_ok [OF less.prems x(1)]) simp_all
    obtain n d' t where r: "deliver_pending w now send (k + 1) (m + (if res = None then 1 else 0)) ?d = Some (n, d')"
      "db_ok d'" "n + count_delivered ?d = m + (if res = None then 1 else 0) + count_delivered d'"
      "list_all2 (run_outcome w) (deliveries ?d) (deliveries d')" "d'\<lparr>deliveries := deliveries ?d\<rparr> = ?d"
      "\<forall>x \<in> set (deliveries d'). \<not> eligible t x"
      using less.hyps [OF work_put [OF less.prems x] ok] by blast
    have "run_outcome w y (if y = x then attempt_row w (now k) res x else y)" for y
      using attempt_outcome [OF x(2)] by (simp add: run_outcome_def [of w y y])
    then have "list_all2 (run_outcome w) (deliveries d) (deliveries ?d)"
      by (simp add: put_row_def list_all2_map2 list_all2_refl)
    then have "list_all2 (run_outcome w) (deliveries d) (deliveries d')"
      using r(4) by (rule list_all2_trans [rotated]) (rule outcome_trans)
    moreover have "d'\<lparr>deliveries := deliveries d\<rparr> = d"
      using r(5) by (cases d; cases d') (simp add: put_row_def)
    ultimately show ?thesis using r eq count_put [OF less.prems x, of w res]
      by (intro exI [of _ n] exI [of _ d'] exI [of _ t]) simp
  qed
qed


definition sample_worker :: delivery_worker where
  "sample_worker = \<lparr>dw_max_attempts = 2, dw_lease = 60, dw_id = ''w''\<rparr>"


end
