(* ===== verification/Delivery_Concurrency.thy ===== *)
theory Delivery_Concurrency
  imports Delivery
begin

text \<open>
  Several delivery workers on one table. Every statement of the worker is a step of its own: the
  select, the guarded claim, the guarded mark, and for a failure the read and the write by primary
  key. A worker may stop between any two of them, and time passes. \<open>timely\<close> says that no failure is
  written after the writer's lease has run out; without it the write can overwrite another
  worker's row.
\<close>

datatype phase =
    Idle
  | Selected time string
  | Sending string time
  | Failing string delivery_row time

record fleet =
  fl_clock :: time
  fl_db :: db
  fl_worker :: "nat \<Rightarrow> phase"

definition fleet_init :: "db \<Rightarrow> fleet \<Rightarrow> bool" where
  "fleet_init d s = (fl_db s = d \<and> (\<forall>k. fl_worker s k = Idle))"

definition set_phase :: "nat \<Rightarrow> phase \<Rightarrow> fleet \<Rightarrow> fleet" where
  "set_phase k p s = s\<lparr>fl_worker := (fl_worker s)(k := p)\<rparr>"

inductive fleet_step :: "(nat \<Rightarrow> delivery_worker) \<Rightarrow> bool \<Rightarrow> fleet \<Rightarrow> fleet \<Rightarrow> bool"
  for W :: "nat \<Rightarrow> delivery_worker" and timely :: bool where
  tick: "fleet_step W timely s (s\<lparr>fl_clock := t\<rparr>)" if "fl_clock s \<le> t"
| selects: "fleet_step W timely s (set_phase k (Selected (fl_clock s) i) s)"
    if "fl_worker s k = Idle" and "claim_select (fl_clock s) (fl_db s) = Some i"
| claims: "fleet_step W timely s (set_phase k (Sending i (t + dw_lease (W k))) (s\<lparr>fl_db := d'\<rparr>))"
    if "fl_worker s k = Selected t i" and "claim_update (W k) t i (fl_db s) = (True, d')"
| loses: "fleet_step W timely s (set_phase k Idle s)"
    if "fl_worker s k = Selected t i" and "claim_update (W k) t i (fl_db s) = (False, d')"
| marks: "fleet_step W timely s (set_phase k Idle (s\<lparr>fl_db := mark_delivered (W k) i (fl_db s)\<rparr>))"
    if "fl_worker s k = Sending i x"
| fail_reads: "fleet_step W timely s (set_phase k (Failing e found x) s)"
    if "fl_worker s k = Sending i x" and "List.find (held_by (W k) i) (deliveries (fl_db s)) = Some found"
| fail_misses: "fleet_step W timely s (set_phase k Idle s)"
    if "fl_worker s k = Sending i x" and "List.find (held_by (W k) i) (deliveries (fl_db s)) = None"
| fail_writes: "fleet_step W timely s (set_phase k Idle (s\<lparr>fl_db := fail_write (W k) e found (fl_db s)\<rparr>))"
    if "fl_worker s k = Failing e found x" and "timely \<longrightarrow> fl_clock s < x"
| crashes: "fleet_step W timely s (set_phase k Idle s)"

section \<open>Leases exclude\<close>

text \<open>The delivery a worker has claimed and the end of its lease.\<close>

fun lease_of :: "phase \<Rightarrow> (string \<times> time) option" where
  "lease_of (Sending i x) = Some (i, x)"
| "lease_of (Failing e found x) = Some (nd_id found, x)"
| "lease_of _ = None"

definition leased_row :: "delivery_worker \<Rightarrow> string \<Rightarrow> time \<Rightarrow> delivery_row \<Rightarrow> bool" where
  "leased_row w i x n = (nd_id n = i \<and> nd_status n = ''processing'' \<and> nd_lease_owner n = Some (dw_id w) \<and>
     nd_lease_expires_at n = Some x)"

definition fleet_inv :: "(nat \<Rightarrow> delivery_worker) \<Rightarrow> fleet \<Rightarrow> bool" where
  "fleet_inv W s =
    (distinct (map nd_id (deliveries (fl_db s))) \<and>
     (\<forall>k i x. lease_of (fl_worker s k) = Some (i, x) \<longrightarrow> fl_clock s < x \<longrightarrow>
        (\<exists>n \<in> set (deliveries (fl_db s)). leased_row (W k) i x n)) \<and>
     (\<forall>k t i. fl_worker s k = Selected t i \<longrightarrow> t \<le> fl_clock s))"

lemma set_phase_simps [simp]:
  "fl_clock (set_phase k p s) = fl_clock s" "fl_db (set_phase k p s) = fl_db s"
  "fl_worker (set_phase k p s) = (fl_worker s)(k := p)"
  by (simp_all add: set_phase_def)

lemma fleet_invD:
  assumes "fleet_inv W s"
  shows "distinct (map nd_id (deliveries (fl_db s)))"
    "lease_of (fl_worker s k) = Some (i, x) \<Longrightarrow> fl_clock s < x \<Longrightarrow>
      \<exists>n \<in> set (deliveries (fl_db s)). leased_row (W k) i x n"
    "fl_worker s k = Selected t i \<Longrightarrow> t \<le> fl_clock s"
  using assms unfolding fleet_inv_def by blast+

text \<open>A step that keeps the rows under an unexpired lease of the others, and gives its own worker one at most.\<close>

lemma fleet_inv_update:
  assumes inv: "fleet_inv W s" and ids: "map nd_id (deliveries d') = map nd_id (deliveries (fl_db s))"
    and keep: "\<And>j i x n. j \<noteq> k \<Longrightarrow> lease_of (fl_worker s j) = Some (i, x) \<Longrightarrow> fl_clock s < x \<Longrightarrow>
      n \<in> set (deliveries (fl_db s)) \<Longrightarrow> leased_row (W j) i x n \<Longrightarrow> n \<in> set (deliveries d')"
    and own: "\<And>i x. lease_of p = Some (i, x) \<Longrightarrow> fl_clock s < x \<Longrightarrow> \<exists>n \<in> set (deliveries d'). leased_row (W k) i x n"
    and sel: "\<And>t i. p = Selected t i \<Longrightarrow> t \<le> fl_clock s"
  shows "fleet_inv W (set_phase k p (s\<lparr>fl_db := d'\<rparr>))"
  unfolding fleet_inv_def
proof (intro conjI allI impI, goal_cases)
  case 1
  then show ?case using fleet_invD(1) [OF inv] ids by simp
next
  case (2 j i x)
  show ?case
  proof (cases "j = k")
    case False
    with 2 have l: "lease_of (fl_worker s j) = Some (i, x)" "fl_clock s < x" by simp_all
    from fleet_invD(2) [OF inv this] obtain n where "n \<in> set (deliveries (fl_db s))" "leased_row (W j) i x n" ..
    with keep [OF False l] show ?thesis by auto
  qed (use 2 own in simp)
next
  case (3 j t i)
  then show ?case using sel fleet_invD(3) [OF inv] by (auto split: if_splits)
qed

lemma claim_update_True:
  assumes "claim_update w t i d = (True, d')" "distinct (map nd_id (deliveries d))"
  obtains n where "n \<in> set (deliveries d)" "eligible t n" "i = nd_id n" "d' = put_row n (claim_row w t n) d"
proof -
  have "rowcount (\<lambda>n. nd_id n = i \<and> eligible t n) (deliveries d) \<noteq> 0"
    using assms(1) by (auto simp: claim_update_def Let_def split: if_splits)
  then obtain n where n: "n \<in> set (deliveries d)" "eligible t n" "i = nd_id n" by (auto simp: rowcount_0)
  have "d' = put_row n (claim_row w t n) d"
    using claim_update_hit [OF assms(2) n(1,2), of w] assms(1) n(3) by simp
  with n show ?thesis by (rule that)
qed

lemma leased_not_eligible: "leased_row w i x n \<Longrightarrow> t \<le> c \<Longrightarrow> c < x \<Longrightarrow> \<not> eligible t n"
  by (auto simp: leased_row_def eligible_def)

lemma fleet_inv_claim:
  assumes inv: "fleet_inv W s" and k: "fl_worker s k = Selected t i"
    and c: "claim_update (W k) t i (fl_db s) = (True, d')"
  shows "fleet_inv W (set_phase k (Sending i (t + dw_lease (W k))) (s\<lparr>fl_db := d'\<rparr>))"
proof -
  obtain n where n: "n \<in> set (deliveries (fl_db s))" "eligible t n" "i = nd_id n"
    "d' = put_row n (claim_row (W k) t n) (fl_db s)" by (rule claim_update_True [OF c fleet_invD(1) [OF inv]])
  show ?thesis
  proof (rule fleet_inv_update [OF inv])
    show "map nd_id (deliveries d') = map nd_id (deliveries (fl_db s))" by (simp add: n(4) put_row_ids)
  next
    fix j i' x m
    assume m: "fl_clock s < x" "m \<in> set (deliveries (fl_db s))" "leased_row (W j) i' x m"
    have "m \<noteq> n" using leased_not_eligible [OF m(3) fleet_invD(3) [OF inv k] m(1)] n(2) by blast
    then show "m \<in> set (deliveries d')" using m(2) by (force simp: n(4) put_row_def)
  next
    fix i' x
    assume "lease_of (Sending i (t + dw_lease (W k))) = Some (i', x)"
    then have "leased_row (W k) i' x (claim_row (W k) t n)" by (auto simp: leased_row_def n(3))
    with put_row_set [OF n(1)] show "\<exists>n \<in> set (deliveries d'). leased_row (W k) i' x n" by (auto simp: n(4))
  qed simp
qed

lemma fleet_inv_mark:
  assumes inv: "fleet_inv W s" and inj: "inj (\<lambda>k. dw_id (W k))"
  shows "fleet_inv W (set_phase k Idle (s\<lparr>fl_db := mark_delivered (W k) i (fl_db s)\<rparr>))"
proof (rule fleet_inv_update [OF inv])
  show "map nd_id (deliveries (mark_delivered (W k) i (fl_db s))) = map nd_id (deliveries (fl_db s))"
    by (simp add: mark_delivered_def table_simps)
next
  fix j i' x m
  assume m: "j \<noteq> k" "m \<in> set (deliveries (fl_db s))" "leased_row (W j) i' x m"
  have "\<not> held_by (W k) i m" using m(1,3) injD [OF inj, of j k] by (auto simp: held_by_def leased_row_def)
  then show "m \<in> set (deliveries (mark_delivered (W k) i (fl_db s)))"
    using m(2) by (force simp: mark_delivered_def set_update_where)
qed simp_all

lemma fleet_inv_fail:
  assumes inv: "fleet_inv W s" and inj: "inj (\<lambda>k. dw_id (W k))"
    and k: "fl_worker s k = Failing e found x" "fl_clock s < x"
  shows "fleet_inv W (set_phase k Idle (s\<lparr>fl_db := fail_write (W k) e found (fl_db s)\<rparr>))"
proof (rule fleet_inv_update [OF inv])
  show "map nd_id (deliveries (fail_write (W k) e found (fl_db s))) = map nd_id (deliveries (fl_db s))"
    by (simp add: fail_write_def table_simps)
next
  fix j i' y m
  assume m: "j \<noteq> k" "m \<in> set (deliveries (fl_db s))" "leased_row (W j) i' y m"
  obtain n where n: "n \<in> set (deliveries (fl_db s))" "leased_row (W k) (nd_id found) x n"
    using fleet_invD(2) [OF inv, of k] k by auto
  have "nd_id m \<noteq> nd_id found"
  proof
    assume "nd_id m = nd_id found"
    with n(2) have "m = n" using key_unique [OF fleet_invD(1) [OF inv] m(2) n(1)] by (simp add: leased_row_def)
    with m(1,3) n(2) injD [OF inj, of j k] show False by (auto simp: leased_row_def)
  qed
  then show "m \<in> set (deliveries (fail_write (W k) e found (fl_db s)))"
    using m(2) by (force simp: fail_write_def set_update_where)
qed simp_all

lemma fleet_inv_phase:
  assumes "fleet_inv W s" "\<And>i x. lease_of p = Some (i, x) \<Longrightarrow> lease_of (fl_worker s k) = Some (i, x)"
    "\<And>t i. p = Selected t i \<Longrightarrow> t \<le> fl_clock s"
  shows "fleet_inv W (set_phase k p s)"
  using fleet_inv_update [OF assms(1), of "fl_db s" k p] assms fleet_invD(2) [OF assms(1)] by simp

lemma fleet_inv_step:
  assumes "fleet_inv W s" "inj (\<lambda>k. dw_id (W k))" "fleet_step W True s s'"
  shows "fleet_inv W s'"
proof -
  have idle: "fleet_inv W (set_phase k Idle s)" for k by (rule fleet_inv_phase [OF assms(1)]) simp_all
  from assms(3) show ?thesis
  proof cases
    case (tick t)
    then show ?thesis using assms(1) unfolding fleet_inv_def by fastforce
  next
    case (selects k i)
    have "fleet_inv W (set_phase k (Selected (fl_clock s) i) s)" by (rule fleet_inv_phase [OF assms(1)]) simp_all
    with selects show ?thesis by simp
  next
    case (claims k t i d')
    then show ?thesis using fleet_inv_claim [OF assms(1)] by simp
  next
    case (loses k t i d')
    then show ?thesis using idle by simp
  next
    case (marks k i x)
    then show ?thesis using fleet_inv_mark [OF assms(1,2)] by simp
  next
    case (fail_reads k i x found e)
    then have "nd_id found = i" by (auto dest!: find_SomeD simp: held_by_def)
    then have "fleet_inv W (set_phase k (Failing e found x) s)"
      by (intro fleet_inv_phase [OF assms(1)]) (use fail_reads in simp_all)
    with fail_reads show ?thesis by simp
  next
    case (fail_misses k i x)
    then show ?thesis using idle by simp
  next
    case (fail_writes k e found x)
    then show ?thesis using fleet_inv_fail [OF assms(1,2)] by simp
  next
    case (crashes k)
    then show ?thesis using idle by simp
    qed
qed

interpretation fleet: invariant_of
  "\<lambda>s. fleet_init d s \<and> distinct (map nd_id (deliveries d)) \<and> inj (\<lambda>k. dw_id (W k))"
  "fleet_step W True" "\<lambda>s. fleet_inv W s \<and> inj (\<lambda>k. dw_id (W k))" for d W
proof
  show "fleet_inv W s \<and> inj (\<lambda>k. dw_id (W k))"
    if "fleet_init d s \<and> distinct (map nd_id (deliveries d)) \<and> inj (\<lambda>k. dw_id (W k))" for s
    using that by (auto simp: fleet_init_def fleet_inv_def)
  show "fleet_inv W t \<and> inj (\<lambda>k. dw_id (W k))"
    if "fleet_inv W s \<and> inj (\<lambda>k. dw_id (W k))" "fleet_step W True s t" for s t
    using fleet_inv_step that by blast
qed


text \<open>
  Under the same proviso a delivery that has been delivered or dead-lettered is
  never touched again, so a notification marked as delivered is not sent a second time.
\<close>

lemma terminal_rows_stay:
  assumes "reachable (\<lambda>s. fleet_init d s \<and> distinct (map nd_id (deliveries d)) \<and> inj (\<lambda>k. dw_id (W k)))
      (fleet_step W True) s"
    and "fleet_step W True s s'" "n \<in> set (deliveries (fl_db s))"
    and "nd_status n = ''delivered'' \<or> nd_status n = ''dead_letter''"
  shows "n \<in> set (deliveries (fl_db s'))"
proof -
  have inv: "fleet_inv W s" using fleet.inv_reachable [OF assms(1)] by auto
  have el: "\<not> eligible t n" for t using assms(4) by (auto simp: eligible_def)
  from assms(2) show ?thesis
  proof cases
    case (claims k t i d')
    then obtain m where "eligible t m" "d' = put_row m (claim_row (W k) t m) (fl_db s)"
      using claim_update_True [OF _ fleet_invD(1) [OF inv]] by metis
    with el [of t] claims assms(3) show ?thesis by (force simp: put_row_def)
  next
    case (marks k i x)
    have "\<not> held_by (W k) i n" using assms(4) by (auto simp: held_by_def)
    with marks assms(3) show ?thesis by (force simp: mark_delivered_def set_update_where)
  next
    case (fail_writes k e found x)
    then obtain m where m: "m \<in> set (deliveries (fl_db s))" "leased_row (W k) (nd_id found) x m"
      using fleet_invD(2) [OF inv, of k] by auto
    have "nd_id n \<noteq> nd_id found"
      using key_unique [OF fleet_invD(1) [OF inv] assms(3) m(1)] m(2) assms(4) by (auto simp: leased_row_def)
    with fail_writes assms(3) show ?thesis by (force simp: fail_write_def set_update_where)
  qed (use assms(3) in simp_all)
qed

section \<open>A late failure\<close>

definition sample_fleet :: "nat \<Rightarrow> delivery_worker" where
  "sample_fleet k = \<lparr>dw_max_attempts = 2, dw_lease = 60, dw_id = replicate (Suc k) (CHR ''w'')\<rparr>"

definition sample_delivery :: delivery_row where
  "sample_delivery = \<lparr>nd_id = ''n'', nd_outbox_event_id = ''e'', nd_tenant_id = ''t'', nd_recipient_id = ''h'',
     nd_channel = ''in_app'', nd_status = ''pending'', nd_attempts = 0, nd_last_error = None, nd_payload = [],
     nd_lease_owner = None, nd_lease_expires_at = None, nd_created_at = 0\<rparr>"

definition with_row :: "delivery_row \<Rightarrow> db" where
  "with_row n = empty_db\<lparr>deliveries := [n]\<rparr>"

definition late_trace :: "nat \<Rightarrow> fleet" where
  "late_trace m =
    (let r0 = sample_delivery; r1 = claim_row (sample_fleet 0) 0 r0; r2 = claim_row (sample_fleet 1) 100 r1;
         r3 = r2\<lparr>nd_status := ''delivered'', nd_lease_owner := None, nd_lease_expires_at := None, nd_last_error := None\<rparr>;
         s0 = \<lparr>fl_clock = 0, fl_db = with_row r0, fl_worker = \<lambda>_. Idle\<rparr>;
         s1 = set_phase 0 (Selected 0 ''n'') s0;
         s2 = set_phase 0 (Sending ''n'' 60) (s1\<lparr>fl_db := with_row r1\<rparr>);
         s3 = s2\<lparr>fl_clock := 100\<rparr>;
         s4 = set_phase 0 (Failing ''x'' r1 60) s3;
         s5 = set_phase 1 (Selected 100 ''n'') s4;
         s6 = set_phase 1 (Sending ''n'' 160) (s5\<lparr>fl_db := with_row r2\<rparr>);
         s7 = set_phase 1 Idle (s6\<lparr>fl_db := with_row r3\<rparr>);
         s8 = set_phase 0 Idle (s7\<lparr>fl_db := with_row (fail_row (sample_fleet 0) ''x'' r1 r3)\<rparr>)
     in [s0, s1, s2, s3, s4, s5, s6, s7, s8] ! m)"

lemma with_row_simps [simp]: "deliveries (with_row n) = [n]"
  by (simp add: with_row_def)

lemma with_row_updates:
  "put_row n n' (with_row n) = with_row n'"
  "mark_delivered w i (with_row n) = with_row (if held_by w i n then n\<lparr>nd_status := ''delivered'',
     nd_lease_owner := None, nd_lease_expires_at := None, nd_last_error := None\<rparr> else n)"
  "fail_write w e f (with_row n) = with_row (if nd_id n = nd_id f then fail_row w e f n else n)"
  by (simp_all add: with_row_def put_row_def mark_delivered_def fail_write_def update_where_def)

lemma with_row_claim:
  "eligible t n \<Longrightarrow> claim_update w t (nd_id n) (with_row n) = (True, with_row (claim_row w t n))"
  using claim_update_hit [of "with_row n" n t w] by (simp add: with_row_updates)

lemma with_row_select: "eligible t n \<Longrightarrow> claim_select t (with_row n) = Some (nd_id n)"
  by (simp add: claim_select_def)

lemma late_steps:
  "m < 8 \<Longrightarrow> fleet_step sample_fleet False (late_trace m) (late_trace (Suc m))"
proof -
  let ?r1 = "claim_row (sample_fleet 0) 0 sample_delivery" and ?r2 = "claim_row (sample_fleet 1) 100
    (claim_row (sample_fleet 0) 0 sample_delivery)"
  have i: "nd_id sample_delivery = ''n''" by (simp add: sample_delivery_def)
  have l: "dw_lease (sample_fleet k) = 60" for k by (simp add: sample_fleet_def)
  have e0: "eligible 0 sample_delivery" by (simp add: eligible_def sample_delivery_def)
  have e1: "eligible 100 ?r1" by (simp add: eligible_def l)
  have h0: "held_by (sample_fleet 0) ''n'' ?r1" by (simp add: held_by_def i)
  have h1: "held_by (sample_fleet (Suc 0)) ''n'' (claim_row (sample_fleet (Suc 0)) 100 ?r1)" by (simp add: held_by_def i)
  assume "m < 8"
  then consider "m = 0" | "m = 1" | "m = 2" | "m = 3" | "m = 4" | "m = 5" | "m = 6" | "m = 7" by linarith
  then show ?thesis
  proof cases
    case 1
    with selects [where W = sample_fleet and timely = False and s = "late_trace 0" and k = 0 and i = "''n''"]
    show ?thesis by (simp add: late_trace_def Let_def with_row_select [OF e0] i)
  next
    case 2
    with claims [where W = sample_fleet and timely = False and s = "late_trace 1" and k = 0 and t = 0 and i = "''n''"
        and d' = "with_row ?r1"] with_row_claim [OF e0, of "sample_fleet 0"]
    show ?thesis by (simp add: late_trace_def Let_def i l numeral_eq_Suc)
  next
    case 3
    with tick [where W = sample_fleet and timely = False and s = "late_trace 2" and t = 100]
    show ?thesis by (simp add: late_trace_def Let_def numeral_eq_Suc)
  next
    case 4
    with fail_reads [where W = sample_fleet and timely = False and s = "late_trace 3" and k = 0 and i = "''n''"
        and x = 60 and found = ?r1 and e = "''x''"] h0
    show ?thesis by (simp add: late_trace_def Let_def numeral_eq_Suc)
  next
    case 5
    with selects [where W = sample_fleet and timely = False and s = "late_trace 4" and k = 1 and i = "''n''"]
    show ?thesis by (simp add: late_trace_def Let_def with_row_select [OF e1] i numeral_eq_Suc)
  next
    case 6
    with claims [where W = sample_fleet and timely = False and s = "late_trace 5" and k = 1 and t = 100 and i = "''n''"
        and d' = "with_row ?r2"] with_row_claim [OF e1, of "sample_fleet 1"]
    show ?thesis by (simp add: late_trace_def Let_def i l numeral_eq_Suc)
  next
    case 7
    with marks [where W = sample_fleet and timely = False and s = "late_trace 6" and k = 1 and i = "''n''" and x = 160] h1
    show ?thesis by (simp add: late_trace_def Let_def numeral_eq_Suc with_row_updates)
  next
    case 8
    with fail_writes [where W = sample_fleet and timely = False and s = "late_trace 7" and k = 0 and e = "''x''"
        and found = ?r1 and x = 60]
    show ?thesis by (simp add: late_trace_def Let_def numeral_eq_Suc with_row_updates)
  qed
qed

lemma late_reachable:
  "m \<le> 8 \<Longrightarrow> reachable (\<lambda>s. fleet_init (with_row sample_delivery) s)
    (fleet_step sample_fleet False) (late_trace m)"
proof (induction m)
  case 0
  show ?case by (rule reach_init) (simp add: late_trace_def fleet_init_def)
next
  case (Suc m)
  then show ?case using late_steps by (auto intro: reach_step)
qed

text \<open>
  Claim C25 (safety): the proviso is needed, and the code does not ensure it. A worker whose
  lease has run out between reading and writing a failure puts a delivery that another worker has
  meanwhile delivered back to \<open>retry\<close>, so that it is sent again.
\<close>

theorem late_failure_reopens_delivered:
  "\<exists>s s' n n'. reachable (\<lambda>s. fleet_init (with_row sample_delivery) s) (fleet_step sample_fleet False) s \<and>
     fleet_step sample_fleet False s s' \<and> deliveries (fl_db s) = [n] \<and> nd_status n = ''delivered'' \<and>
     deliveries (fl_db s') = [n'] \<and> nd_id n' = nd_id n \<and> nd_status n' = ''retry''"
proof -
  have "reachable (\<lambda>s. fleet_init (with_row sample_delivery) s) (fleet_step sample_fleet False) (late_trace 7)"
    by (rule late_reachable) simp
  moreover have "fleet_step sample_fleet False (late_trace 7) (late_trace 8)" using late_steps [of 7] by simp
  moreover have "\<exists>n. deliveries (fl_db (late_trace 7)) = [n] \<and> nd_status n = ''delivered'' \<and> nd_id n = ''n''"
    by (simp add: late_trace_def Let_def numeral_eq_Suc sample_delivery_def)
  moreover have "\<exists>n. deliveries (fl_db (late_trace 8)) = [n] \<and> nd_status n = ''retry'' \<and> nd_id n = ''n''"
    by (simp add: late_trace_def Let_def numeral_eq_Suc sample_delivery_def sample_fleet_def)
  ultimately show ?thesis by metis
qed

text \<open>The prefix of the trace in which nobody is late is a run of the timely fleet.\<close>

lemma timely_prefix:
  "reachable (\<lambda>s. fleet_init (with_row sample_delivery) s \<and> distinct (map nd_id (deliveries (with_row sample_delivery))) \<and>
     inj (\<lambda>k. dw_id (sample_fleet k))) (fleet_step sample_fleet True) (late_trace 2)"
proof -
  have inj: "inj (\<lambda>k. dw_id (sample_fleet k))"
    by (rule injI) (auto simp: sample_fleet_def dest: arg_cong [where f = length])
  have timely: "fleet_step sample_fleet True (late_trace m) (late_trace (Suc m))" if "m < 2" for m
  proof -
    have "fleet_step sample_fleet False (late_trace m) (late_trace (Suc m))" using late_steps that by simp
    then show ?thesis
    proof cases
    case (fail_writes k e found x)
    with that show ?thesis by (auto simp: late_trace_def Let_def numeral_eq_Suc less_Suc_eq split: if_splits)
    qed (auto intro: fleet_step.intros)
  qed
  have "reachable (\<lambda>s. fleet_init (with_row sample_delivery) s \<and> distinct (map nd_id (deliveries (with_row sample_delivery))) \<and>
     inj (\<lambda>k. dw_id (sample_fleet k))) (fleet_step sample_fleet True) (late_trace 0)"
    by (rule reach_init) (simp add: late_trace_def fleet_init_def inj)
  from reach_step [OF reach_step [OF this timely [of 0]] timely [of "Suc 0"]] show ?thesis by (simp add: numeral_2_eq_2)
qed


lemma terminal_rows_stay_witness:
  "sample_delivery\<lparr>nd_status := ''delivered''\<rparr> \<in> set (deliveries (fl_db
     (\<lparr>fl_clock = 0, fl_db = with_row (sample_delivery\<lparr>nd_status := ''delivered''\<rparr>),
       fl_worker = \<lambda>_. Idle\<rparr>\<lparr>fl_clock := 5\<rparr>)))"
proof -
  let ?n = "sample_delivery\<lparr>nd_status := ''delivered''\<rparr>"
  let ?s = "\<lparr>fl_clock = 0, fl_db = with_row ?n, fl_worker = \<lambda>_. Idle\<rparr>"
  have inj: "inj (\<lambda>k. dw_id (sample_fleet k))"
    by (rule injI) (auto simp: sample_fleet_def dest: arg_cong [where f = length])
  have "reachable (\<lambda>s. fleet_init (with_row ?n) s \<and> distinct (map nd_id (deliveries (with_row ?n))) \<and>
     inj (\<lambda>k. dw_id (sample_fleet k))) (fleet_step sample_fleet True) ?s"
    by (rule reach_init) (simp add: fleet_init_def inj)
  from terminal_rows_stay [OF this tick [where t = 5], of ?n] show ?thesis by simp
qed

end
