(* ===== verification/Attachments.thy ===== *)
theory Attachments
  imports Samples
begin

text \<open>
  The attachments module: \<open>attachments/application/attachment_service.py\<close> with its validation, the
  file store and the scanners of \<open>infrastructure/filesystem_storage.py\<close>, and the repository of
  \<open>infrastructure/sqlalchemy_repository.py\<close>.

  The file store is a map from the file names under its root to their contents; the root holds no
  symbolic links, so a valid key never leaves it. A byte is a character. SHA-256, the result of the
  scanner process and the hexadecimal UUID drawn as storage key are arguments.
\<close>

type_synonym bytes = string
type_synonym fs = "string \<Rightarrow> bytes option"

section \<open>The file store\<close>

definition hex_digits :: string where
  "hex_digits = ''0123456789abcdef''"

definition storage_path :: "string \<Rightarrow> exn + string" where
  "storage_path key =
    (if length key \<noteq> 32 \<or> list_ex (\<lambda>c. c \<notin> set hex_digits) key
     then Inl (ValueError ''Invalid attachment storage key'')
     else Inr key)"

text \<open>\<open>save\<close>: write a new temporary file, then move it over the target.\<close>

definition tmp_name :: "string \<Rightarrow> string" where
  "tmp_name key = key @ ''.tmp''"

definition storage_save :: "string \<Rightarrow> bytes \<Rightarrow> fs \<Rightarrow> (exn + unit) \<times> fs" where
  "storage_save key content files =
    (case storage_path key of
       Inl e \<Rightarrow> (Inl e, files)
     | Inr target \<Rightarrow>
         (case files (tmp_name target) of
            Some _ \<Rightarrow> (Inl FileExistsError, files)
          | None \<Rightarrow>
              let written = files(tmp_name target := Some content)
              in (Inr (), written(target := written (tmp_name target), tmp_name target := None))))"

definition storage_open :: "string \<Rightarrow> fs \<Rightarrow> exn + string" where
  "storage_open key files =
    (case storage_path key of
       Inl e \<Rightarrow> Inl e
     | Inr target \<Rightarrow> (case files target of None \<Rightarrow> Inl (FileNotFoundError key) | Some _ \<Rightarrow> Inr target))"

definition storage_delete :: "string \<Rightarrow> fs \<Rightarrow> (exn + unit) \<times> fs" where
  "storage_delete key files =
    (case storage_path key of
       Inl e \<Rightarrow> (Inl e, files)
     | Inr target \<Rightarrow> (Inr (), files(target := None)))"

section \<open>Scanners\<close>

datatype clam_result = Clam_Missing | Clam_Timeout | Clam_Exit int

definition clamav_scan :: "(bytes \<Rightarrow> clam_result) \<Rightarrow> bytes \<Rightarrow> exn + unit" where
  "clamav_scan run content =
    (case run content of
       Clam_Missing \<Rightarrow> Inl MalwareScannerUnavailableError
     | Clam_Timeout \<Rightarrow> Inl MalwareScannerUnavailableError
     | Clam_Exit code \<Rightarrow>
         if code = 1 then Inl MalwareScanRejectedError
         else if code \<noteq> 0 then Inl MalwareScannerUnavailableError
         else Inr ())"

definition noop_scan :: "bytes \<Rightarrow> exn + unit" where
  "noop_scan content = Inr ()"

definition build_scanner :: "string \<Rightarrow> (bytes \<Rightarrow> clam_result) \<Rightarrow> bytes \<Rightarrow> exn + unit" where
  "build_scanner mode run = (if mode = ''clamav'' then clamav_scan run else noop_scan)"

section \<open>Validation\<close>

definition ALLOWED_DOCUMENT_TYPES :: "string set" where
  "ALLOWED_DOCUMENT_TYPES = {''resume'', ''cover_letter'', ''portfolio'', ''other''}"

definition pdf_type :: string where "pdf_type = ''application/pdf''"

definition docx_type :: string where
  "docx_type = ''application/vnd.openxmlformats-officedocument.wordprocessingml.document''"

definition ALLOWED_CONTENT_TYPES :: "string set" where
  "ALLOWED_CONTENT_TYPES = {pdf_type, docx_type}"

text \<open>\<open>PurePath(s).name\<close>: the last part of the path that is neither empty nor a single dot.\<close>

definition path_name :: "string \<Rightarrow> string" where
  "path_name s =
    (case filter (\<lambda>w. w \<noteq> [] \<and> w \<noteq> ''.'') (py_split (CHR ''/'') s) of [] \<Rightarrow> [] | ws \<Rightarrow> last ws)"

record upload_command =
  uc_tenant_id :: string
  uc_candidate_case_id :: string
  uc_document_type :: string
  uc_filename :: string
  uc_content_type :: string
  uc_content :: bytes
  uc_actor_id :: string
  uc_correlation_id :: string

definition zip_magic :: bytes where
  "zip_magic = [CHR ''P'', CHR ''K'', char_of (3::nat), char_of (4::nat)]"

definition validate_upload :: "upload_command \<Rightarrow> int \<Rightarrow> exn + string" where
  "validate_upload c max_bytes =
    (let filename = py_strip (path_name (uc_filename c)) in
     if filename = [] \<or> filename \<noteq> uc_filename c \<or> length filename > 255 \<or>
        list_ex (\<lambda>ch. (of_char ch :: nat) < 32) filename
     then Inl (InvalidAttachmentError ''Attachment filename is invalid'')
     else if uc_document_type c \<notin> ALLOWED_DOCUMENT_TYPES
     then Inl (InvalidAttachmentError ''Attachment document type is invalid'')
     else if uc_content c = [] \<or> int (length (uc_content c)) > max_bytes
     then Inl (AttachmentTooLargeError max_bytes)
     else if uc_content_type c \<notin> ALLOWED_CONTENT_TYPES
     then Inl (InvalidAttachmentError ''Attachment content type is not allowed'')
     else if uc_content_type c = pdf_type
     then (if \<not> py_endswith (py_lower filename) ''.pdf'' \<or> \<not> py_startswith (uc_content c) ''%PDF-''
           then Inl (InvalidAttachmentError ''Attachment content does not match PDF type'')
           else Inr filename)
     else if \<not> py_endswith (py_lower filename) ''.docx'' \<or> \<not> py_startswith (uc_content c) zip_magic
     then Inl (InvalidAttachmentError ''Attachment content does not match DOCX type'')
     else Inr filename)"

section \<open>The repository\<close>

record attachment =
  am_id :: string
  am_tenant_id :: string
  am_candidate_case_id :: string
  am_document_type :: string
  am_filename :: string
  am_content_type :: string
  am_size_bytes :: int
  am_sha256 :: string
  am_storage_key :: string
  am_created_by :: string
  am_created_at :: time

definition attachment_candidate_exists :: "string \<Rightarrow> string \<Rightarrow> session \<Rightarrow> bool" where
  "attachment_candidate_exists candidate_case_id tenant_id s =
    (List.find (\<lambda>r. cr_id r = candidate_case_id \<and> cr_tenant_id r = tenant_id)
       (candidate_cases (ss_db s)) \<noteq> None)"

definition attachment_row_of :: "attachment \<Rightarrow> attachment_row" where
  "attachment_row_of a =
    \<lparr>at_id = am_id a, at_tenant_id = am_tenant_id a, at_candidate_case_id = am_candidate_case_id a,
     at_document_type = am_document_type a, at_original_filename = am_filename a,
     at_content_type = am_content_type a, at_size_bytes = am_size_bytes a, at_sha256 = am_sha256 a,
     at_storage_key = am_storage_key a, at_created_by = am_created_by a, at_created_at = am_created_at a\<rparr>"

definition attachment_add :: "attachment \<Rightarrow> session \<Rightarrow> session" where
  "attachment_add a s = session_add (Attachment_Row (attachment_row_of a)) s"

definition attachment_to_entity :: "attachment_row \<Rightarrow> attachment" where
  "attachment_to_entity r =
    \<lparr>am_id = at_id r, am_tenant_id = at_tenant_id r, am_candidate_case_id = at_candidate_case_id r,
     am_document_type = at_document_type r, am_filename = at_original_filename r,
     am_content_type = at_content_type r, am_size_bytes = at_size_bytes r, am_sha256 = at_sha256 r,
     am_storage_key = at_storage_key r, am_created_by = at_created_by r, am_created_at = at_created_at r\<rparr>"

definition attachment_list_for_candidate :: "string \<Rightarrow> string \<Rightarrow> session \<Rightarrow> attachment list" where
  "attachment_list_for_candidate candidate_case_id tenant_id s =
    map attachment_to_entity (sort_key (\<lambda>a. - at_created_at a) (rev (sort_key at_id
      (filter (\<lambda>a. at_candidate_case_id a = candidate_case_id \<and> at_tenant_id a = tenant_id)
        (attachments (ss_db s))))))"

definition attachment_get :: "string \<Rightarrow> string \<Rightarrow> string \<Rightarrow> session \<Rightarrow> attachment option" where
  "attachment_get attachment_id candidate_case_id tenant_id s =
    map_option attachment_to_entity (List.find (\<lambda>a. at_id a = attachment_id \<and>
      at_candidate_case_id a = candidate_case_id \<and> at_tenant_id a = tenant_id) (attachments (ss_db s)))"

definition attachment_record_audit ::
  "ctx \<Rightarrow> string \<Rightarrow> string \<Rightarrow> string \<Rightarrow> string \<Rightarrow> string \<Rightarrow> string \<Rightarrow> string \<Rightarrow> json_object \<Rightarrow> session \<Rightarrow> session" where
  "attachment_record_audit cx new_id tenant_id actor_id action aggregate_type aggregate_id
      correlation_id metadata s =
    session_add (Audit_Row
      \<lparr>ae_id = new_id, ae_tenant_id = tenant_id, ae_actor_id = actor_id, ae_action = action,
       ae_aggregate_type = aggregate_type, ae_aggregate_id = aggregate_id,
       ae_correlation_id = correlation_id, ae_metadata = metadata, ae_created_at = cx_ts cx\<rparr>) s"

section \<open>The service\<close>

record attachment_env =
  av_max_bytes :: int
  av_scan :: "bytes \<Rightarrow> exn + unit"
  av_sha256 :: "bytes \<Rightarrow> string"
  av_hex :: string

definition upload_attachment ::
  "ctx \<Rightarrow> attachment_env \<Rightarrow> upload_command \<Rightarrow> session \<Rightarrow> fs \<Rightarrow> (exn + attachment \<times> db) \<times> fs" where
  "upload_attachment cx v c s files =
    (if \<not> attachment_candidate_exists (uc_candidate_case_id c) (uc_tenant_id c) s
     then (Inl (CandidateNotFoundError (uc_candidate_case_id c)), files)
     else (case validate_upload c (av_max_bytes v) of
         Inl e \<Rightarrow> (Inl e, files)
       | Inr filename \<Rightarrow>
           (case av_scan v (uc_content c) of
              Inl e \<Rightarrow> (Inl e, files)
            | Inr _ \<Rightarrow>
                let a = \<lparr>am_id = cx_uuid cx 0, am_tenant_id = uc_tenant_id c,
                      am_candidate_case_id = uc_candidate_case_id c,
                      am_document_type = uc_document_type c, am_filename = filename,
                      am_content_type = uc_content_type c, am_size_bytes = int (length (uc_content c)),
                      am_sha256 = av_sha256 v (uc_content c), am_storage_key = av_hex v,
                      am_created_by = uc_actor_id c, am_created_at = cx_now cx\<rparr>
                in (case storage_save (am_storage_key a) (uc_content c) files of
                      (Inl e, files1) \<Rightarrow> (Inl e, files1)
                    | (Inr _, files1) \<Rightarrow>
                        let s1 = attachment_add a s;
                            s2 = attachment_record_audit cx (cx_uuid cx 1) (uc_tenant_id c) (uc_actor_id c)
                                   ''candidate_attachment.uploaded'' ''candidate_attachment'' (am_id a)
                                   (uc_correlation_id c)
                                   [(''candidate_case_id'', JStr (uc_candidate_case_id c)),
                                    (''document_type'', JStr (am_document_type a)),
                                    (''content_type'', JStr (am_content_type a)),
                                    (''size_bytes'', JInt (am_size_bytes a)),
                                    (''sha256'', JStr (am_sha256 a))] s1
                        in (case session_commit cx s2 of
                              Inr d \<Rightarrow> (Inr (a, d), files1)
                            | Inl e \<Rightarrow>
                                (case storage_delete (am_storage_key a) files1 of
                                   (Inl e2, files2) \<Rightarrow> (Inl e2, files2)
                                 | (Inr _, files2) \<Rightarrow> (Inl e, files2)))))))"

definition list_attachments :: "string \<Rightarrow> string \<Rightarrow> session \<Rightarrow> exn + attachment list" where
  "list_attachments candidate_case_id tenant_id s =
    (if \<not> attachment_candidate_exists candidate_case_id tenant_id s
     then Inl (CandidateNotFoundError candidate_case_id)
     else Inr (attachment_list_for_candidate candidate_case_id tenant_id s))"

record download_command =
  dc_attachment_id :: string
  dc_candidate_case_id :: string
  dc_tenant_id :: string
  dc_actor_id :: string
  dc_correlation_id :: string

definition download_attachment ::
  "ctx \<Rightarrow> download_command \<Rightarrow> session \<Rightarrow> fs \<Rightarrow> exn + (attachment \<times> string) \<times> db" where
  "download_attachment cx c s files =
    (case attachment_get (dc_attachment_id c) (dc_candidate_case_id c) (dc_tenant_id c) s of
       None \<Rightarrow> Inl (AttachmentNotFoundError (dc_attachment_id c))
     | Some a \<Rightarrow>
         (case storage_open (am_storage_key a) files of
            Inl e \<Rightarrow> Inl e
          | Inr path \<Rightarrow>
              let s1 = attachment_record_audit cx (cx_uuid cx 0) (dc_tenant_id c) (dc_actor_id c)
                         ''candidate_attachment.downloaded'' ''candidate_attachment'' (am_id a)
                         (dc_correlation_id c)
                         [(''candidate_case_id'', JStr (dc_candidate_case_id c)),
                          (''sha256'', JStr (am_sha256 a))] s
              in (case session_commit cx s1 of Inl e \<Rightarrow> Inl e | Inr d \<Rightarrow> Inr ((a, path), d))))"

section \<open>What validation accepts\<close>

lemma py_split_single: "sep \<notin> set s \<Longrightarrow> py_split sep s = [s]"
  by (induction sep s rule: py_split.induct) auto

lemma set_py_strip: "set (py_strip s) \<subseteq> set s"
  unfolding py_strip_def py_lstrip_def by (auto dest!: set_dropWhileD)

lemma path_name_plain:
  assumes "CHR ''/'' \<notin> set s" "s \<noteq> ''.''"
  shows "path_name s = s"
  using assms by (simp add: path_name_def py_split_single)

lemma path_name_no_slash: "CHR ''/'' \<notin> set (path_name s)"
proof (cases "filter (\<lambda>w. w \<noteq> [] \<and> w \<noteq> ''.'') (py_split (CHR ''/'') s)")
  case (Cons w ws)
  then have "last (w # ws) \<in> set (py_split (CHR ''/'') s)"
    by (metis filter_is_subset last_in_set list.distinct(1) subsetD)
  with Cons show ?thesis using py_split_no_sep by (auto simp: path_name_def)
qed (simp add: path_name_def)

lemma clean_name_iff:
  assumes "s \<noteq> ''.''"
  shows "py_strip (path_name s) = s \<longleftrightarrow> CHR ''/'' \<notin> set s \<and> py_strip s = s"
proof
  assume e: "py_strip (path_name s) = s"
  then have "CHR ''/'' \<notin> set s" using set_py_strip [of "path_name s"] path_name_no_slash [of s] by auto
  with e show "CHR ''/'' \<notin> set s \<and> py_strip s = s" using path_name_plain [OF _ assms] by simp
qed (simp add: path_name_plain [OF _ assms])

definition matches_type :: "upload_command \<Rightarrow> bool" where
  "matches_type c =
    (uc_content_type c = pdf_type \<and> py_endswith (py_lower (uc_filename c)) ''.pdf'' \<and>
       py_startswith (uc_content c) ''%PDF-'' \<or>
     uc_content_type c = docx_type \<and> py_endswith (py_lower (uc_filename c)) ''.docx'' \<and>
       py_startswith (uc_content c) zip_magic)"

lemma matches_type_name: "matches_type c \<Longrightarrow> uc_filename c \<noteq> [] \<and> uc_filename c \<noteq> ''.''"
proof -
  have "\<not> py_endswith (py_lower x) ''.pdf'' \<and> \<not> py_endswith (py_lower x) ''.docx''" if "x = [] \<or> x = ''.''" for x
    using that by (auto simp: py_endswith_def py_startswith_def py_lower_def)
  then show "matches_type c \<Longrightarrow> uc_filename c \<noteq> [] \<and> uc_filename c \<noteq> ''.''"
    unfolding matches_type_def by metis
qed

lemma validate_upload_eq:
  assumes "uc_filename c \<noteq> ''.''"
  shows "validate_upload c m = Inr f \<longleftrightarrow>
    f = uc_filename c \<and> f \<noteq> [] \<and> py_strip (path_name f) = f \<and> length f \<le> 255 \<and>
    (\<forall>ch \<in> set f. 32 \<le> (of_char ch :: nat)) \<and> uc_document_type c \<in> ALLOWED_DOCUMENT_TYPES \<and>
    uc_content c \<noteq> [] \<and> int (length (uc_content c)) \<le> m \<and> matches_type c"
proof -
  have t: "pdf_type \<noteq> docx_type" by (simp add: pdf_type_def docx_type_def)
  have l: "list_ex (\<lambda>ch. (of_char ch :: nat) < 32) f \<longleftrightarrow> \<not> (\<forall>ch \<in> set f. 32 \<le> (of_char ch :: nat))" for f
    by (auto simp: list_ex_iff not_le)
  show ?thesis
    unfolding validate_upload_def Let_def l matches_type_def ALLOWED_CONTENT_TYPES_def
    using t by (auto split: if_splits)
qed

lemma validate_upload_accepts:
  "validate_upload c m = Inr f \<longleftrightarrow>
    f = uc_filename c \<and> CHR ''/'' \<notin> set f \<and> py_strip f = f \<and> length f \<le> 255 \<and>
    (\<forall>ch \<in> set f. 32 \<le> (of_char ch :: nat)) \<and> uc_document_type c \<in> ALLOWED_DOCUMENT_TYPES \<and>
    1 \<le> length (uc_content c) \<and> int (length (uc_content c)) \<le> m \<and> matches_type c"
proof (cases "uc_filename c = ''.''")
  case True
  then have "validate_upload c m \<noteq> Inr f" "\<not> matches_type c"
    using matches_type_name [of c]
    by (auto simp: validate_upload_def Let_def path_name_def py_strip_def py_lstrip_def)
  then show ?thesis by simp
next
  case False
  show ?thesis
    unfolding validate_upload_eq [OF False]
    using clean_name_iff [OF False] matches_type_name [of c] by (cases "uc_content c") auto
qed

text \<open>
  An upload passes validation exactly when its name is a plain file name
  (no separator, no surrounding blanks, no control characters, at most 255 long), its document
  type is allowed, its size is between one byte and the limit, and its content type, extension and
  leading bytes agree on PDF or DOCX.
\<close>

lemma validate_upload_iff:
  "validate_upload c m = Inr f \<longleftrightarrow>
    f = uc_filename c \<and> CHR ''/'' \<notin> set f \<and> py_strip f = f \<and> length f \<le> 255 \<and>
    (\<forall>ch \<in> set f. 32 \<le> (of_char ch :: nat)) \<and> uc_document_type c \<in> ALLOWED_DOCUMENT_TYPES \<and>
    1 \<le> length (uc_content c) \<and> int (length (uc_content c)) \<le> m \<and> matches_type c"
  by (rule validate_upload_accepts)

definition sample_upload :: "string \<Rightarrow> upload_command" where
  "sample_upload name = \<lparr>uc_tenant_id = ''t'', uc_candidate_case_id = ''c1'', uc_document_type = ''resume'',
     uc_filename = name, uc_content_type = ''application/pdf'', uc_content = ''%PDF-1'',
     uc_actor_id = ''r'', uc_correlation_id = ''k''\<rparr>"

lemma validate_upload_iff_witness:
  "validate_upload (sample_upload ''cv.pdf'') 100 = Inr ''cv.pdf'' \<and>
   validate_upload (sample_upload ''../cv.pdf'') 100 \<noteq> Inr ''../cv.pdf''"
  unfolding validate_upload_iff
  by (simp add: sample_upload_def matches_type_def pdf_type_def py_endswith_def py_startswith_def py_lower_def
      py_strip_def py_lstrip_def py_lower_char_def py_isspace_def ALLOWED_DOCUMENT_TYPES_def Let_def)

section \<open>Files and rows agree\<close>

definition valid_key :: "string \<Rightarrow> bool" where
  "valid_key key = (length key = 32 \<and> set key \<subseteq> set hex_digits)"

text \<open>Every row has its file, with the content the row describes.\<close>

definition files_match :: "(bytes \<Rightarrow> string) \<Rightarrow> db \<Rightarrow> fs \<Rightarrow> bool" where
  "files_match sha d files = (\<forall>a \<in> set (attachments d). valid_key (at_storage_key a) \<and>
     (\<exists>content. files (at_storage_key a) = Some content \<and> sha content = at_sha256 a \<and>
        int (length content) = at_size_bytes a))"

lemma storage_path_valid: "storage_path key = Inr p \<longleftrightarrow> valid_key key \<and> p = key"
  by (auto simp: storage_path_def valid_key_def list_ex_iff)

lemma storage_path_ok: "valid_key key \<Longrightarrow> storage_path key = Inr key"
  by (simp add: storage_path_valid)

lemma tmp_name_fresh: "tmp_name key \<noteq> key" "valid_key key \<Longrightarrow> \<not> valid_key (tmp_name k)"
  by (auto simp: tmp_name_def valid_key_def hex_digits_def)

lemma storage_save_ok:
  "valid_key key \<Longrightarrow> storage_save key content files =
    (if files (tmp_name key) \<noteq> None then (Inl FileExistsError, files)
     else (Inr (), files(key := Some content)))"
  using tmp_name_fresh(1) [of key]
  by (auto simp: storage_save_def storage_path_ok Let_def fun_eq_iff split: option.splits)

text \<open>
  The port \<open>AttachmentStorage\<close>, on which the attachment service and the purge rely: what it holds for a
  key of the required form after each operation. \<open>save\<close> may refuse, and then has not changed anything.
\<close>

fun delete_all :: "('k \<Rightarrow> 's \<Rightarrow> (exn + unit) \<times> 's) \<Rightarrow> 'k list \<Rightarrow> 's \<Rightarrow> (exn + unit) \<times> 's" where
  "delete_all delete [] s = (Inr (), s)"
| "delete_all delete (k # ks) s =
    (case delete k s of (Inl e, s') \<Rightarrow> (Inl e, s') | (Inr _, s') \<Rightarrow> delete_all delete ks s')"

locale attachment_storage =
  fixes key_ok :: "'k \<Rightarrow> bool"
    and content :: "'s \<Rightarrow> 'k \<Rightarrow> bytes option"
    and save :: "'k \<Rightarrow> bytes \<Rightarrow> 's \<Rightarrow> (exn + unit) \<times> 's"
    and open_path :: "'k \<Rightarrow> 's \<Rightarrow> exn + 'k"
    and delete :: "'k \<Rightarrow> 's \<Rightarrow> (exn + unit) \<times> 's"
  assumes save_stores: "key_ok k \<Longrightarrow> save k b s = (Inr (), s') \<Longrightarrow> content s' = (content s)(k := Some b)"
    and save_refuses: "key_ok k \<Longrightarrow> save k b s = (Inl e, s') \<Longrightarrow> content s' = content s"
    and open_finds: "key_ok k \<Longrightarrow> open_path k s = Inr p \<longleftrightarrow> content s k \<noteq> None \<and> p = k"
    and delete_drops: "key_ok k \<Longrightarrow> \<exists>s'. delete k s = (Inr (), s') \<and> content s' = (content s)(k := None)"
begin

text \<open>A file saved under a new key and deleted again leaves the store as it was: the compensation of a failed upload.\<close>

lemma save_undone:
  assumes "key_ok k" "content s k = None" "save k b s = (Inr (), s1)"
  shows "\<exists>s2. delete k s1 = (Inr (), s2) \<and> content s2 = content s"
proof -
  obtain s2 where "delete k s1 = (Inr (), s2)" "content s2 = (content s1)(k := None)" using delete_drops [OF assms(1)] by blast
  moreover have "(content s)(k := None) = content s" using assms(2) by (simp add: fun_eq_iff)
  ultimately show ?thesis using save_stores [OF assms(1,3)] by simp
qed

lemma saved_opens:
  assumes "key_ok k" "save k b s = (Inr (), s')"
  shows "open_path k s' = Inr k \<and> content s' k = Some b"
  using save_stores [OF assms] open_finds [OF assms(1)] by simp

text \<open>Deleting the keys of a list, as a purge does, drops exactly their files.\<close>

lemma delete_all_drops:
  "\<forall>k \<in> set ks. key_ok k \<Longrightarrow>
    \<exists>s'. delete_all delete ks s = (Inr (), s') \<and> content s' = (\<lambda>k. if k \<in> set ks then None else content s k)"
proof (induction ks arbitrary: s)
  case (Cons k ks)
  obtain s1 where s1: "delete k s = (Inr (), s1)" "content s1 = (content s)(k := None)"
    using delete_drops [of k] Cons.prems by auto
  obtain s' where "delete_all delete ks s1 = (Inr (), s')" "content s' = (\<lambda>k. if k \<in> set ks then None else content s1 k)"
    using Cons.IH [of s1] Cons.prems by auto
  with s1 show ?case by (auto simp: fun_eq_iff)
qed simp

end

interpretation storage: attachment_storage valid_key "\<lambda>files :: fs. files" storage_save storage_open storage_delete
  by unfold_locales
    (auto simp: storage_save_ok storage_open_def storage_delete_def storage_path_ok split: if_splits option.splits)

definition uploaded :: "ctx \<Rightarrow> attachment_env \<Rightarrow> upload_command \<Rightarrow> attachment" where
  "uploaded cx v c = \<lparr>am_id = cx_uuid cx 0, am_tenant_id = uc_tenant_id c,
     am_candidate_case_id = uc_candidate_case_id c, am_document_type = uc_document_type c,
     am_filename = uc_filename c, am_content_type = uc_content_type c,
     am_size_bytes = int (length (uc_content c)), am_sha256 = av_sha256 v (uc_content c),
     am_storage_key = av_hex v, am_created_by = uc_actor_id c, am_created_at = cx_now cx\<rparr>"

definition uploaded_event :: "ctx \<Rightarrow> attachment_env \<Rightarrow> upload_command \<Rightarrow> audit_row" where
  "uploaded_event cx v c = \<lparr>ae_id = cx_uuid cx 1, ae_tenant_id = uc_tenant_id c, ae_actor_id = uc_actor_id c,
     ae_action = ''candidate_attachment.uploaded'', ae_aggregate_type = ''candidate_attachment'',
     ae_aggregate_id = cx_uuid cx 0, ae_correlation_id = uc_correlation_id c,
     ae_metadata = [(''candidate_case_id'', JStr (uc_candidate_case_id c)),
       (''document_type'', JStr (uc_document_type c)), (''content_type'', JStr (uc_content_type c)),
       (''size_bytes'', JInt (int (length (uc_content c)))), (''sha256'', JStr (av_sha256 v (uc_content c)))],
     ae_created_at = cx_ts cx\<rparr>"

lemma upload_attachment_eq:
  assumes "valid_key (av_hex v)"
  shows "upload_attachment cx v c (open_session d) files =
    (if \<not> (\<exists>r \<in> set (candidate_cases d). cr_id r = uc_candidate_case_id c \<and> cr_tenant_id r = uc_tenant_id c)
     then (Inl (CandidateNotFoundError (uc_candidate_case_id c)), files)
     else case validate_upload c (av_max_bytes v) of Inl e \<Rightarrow> (Inl e, files)
     | Inr _ \<Rightarrow> (case av_scan v (uc_content c) of Inl e \<Rightarrow> (Inl e, files)
     | Inr _ \<Rightarrow>
         if files (tmp_name (av_hex v)) \<noteq> None then (Inl FileExistsError, files)
         else (case session_commit cx \<lparr>ss_db = d, ss_new = [Attachment_Row (attachment_row_of (uploaded cx v c)),
               Audit_Row (uploaded_event cx v c)]\<rparr> of
            Inr d' \<Rightarrow> (Inr (uploaded cx v c, d'), files(av_hex v := Some (uc_content c)))
          | Inl e \<Rightarrow> (Inl e, files(av_hex v := None)))))"
proof -
  have x: "attachment_candidate_exists (uc_candidate_case_id c) (uc_tenant_id c) (open_session d) \<longleftrightarrow>
      (\<exists>r \<in> set (candidate_cases d). cr_id r = uc_candidate_case_id c \<and> cr_tenant_id r = uc_tenant_id c)"
    by (simp add: attachment_candidate_exists_def find_None)
  show ?thesis
  proof (cases "validate_upload c (av_max_bytes v)")
    case (Inr f)
    then have f: "f = uc_filename c" by (simp add: validate_upload_accepts)
    have del: "storage_delete (av_hex v) g = (Inr (), g(av_hex v := None))" for g
      using storage.delete_drops [OF assms] by auto
    define S where "S = \<lparr>ss_db = d, ss_new = [Attachment_Row (attachment_row_of (uploaded cx v c)),
      Audit_Row (uploaded_event cx v c)]\<rparr>"
    have sess: "attachment_record_audit cx (cx_uuid cx 1) (uc_tenant_id c) (uc_actor_id c)
        ''candidate_attachment.uploaded'' ''candidate_attachment'' (cx_uuid cx 0) (uc_correlation_id c)
        [(''candidate_case_id'', JStr (uc_candidate_case_id c)), (''document_type'', JStr (uc_document_type c)),
         (''content_type'', JStr (uc_content_type c)), (''size_bytes'', JInt (int (length (uc_content c)))),
         (''sha256'', JStr (av_sha256 v (uc_content c)))]
        (attachment_add \<lparr>am_id = cx_uuid cx 0, am_tenant_id = uc_tenant_id c,
           am_candidate_case_id = uc_candidate_case_id c, am_document_type = uc_document_type c,
           am_filename = uc_filename c, am_content_type = uc_content_type c,
           am_size_bytes = int (length (uc_content c)), am_sha256 = av_sha256 v (uc_content c),
           am_storage_key = av_hex v, am_created_by = uc_actor_id c, am_created_at = cx_now cx\<rparr>
         (open_session d)) = S"
      by (simp add: S_def attachment_add_def attachment_record_audit_def session_add_def open_session_def
          uploaded_def uploaded_event_def)
    show ?thesis
      unfolding S_def [symmetric]
      by (auto simp: upload_attachment_def x Inr f Let_def uploaded_def storage_save_ok [OF assms] del
          sess [unfolded One_nat_def] split: sum.splits)
  qed (auto simp: upload_attachment_def x)
qed

lemma upload_attachment_Inr:
  assumes "valid_key (av_hex v)" "upload_attachment cx v c (open_session d) files = (Inr (a, d'), files')"
  shows "\<exists>r \<in> set (candidate_cases d). cr_id r = uc_candidate_case_id c \<and> cr_tenant_id r = uc_tenant_id c"
    "validate_upload c (av_max_bytes v) = Inr (uc_filename c)" "av_scan v (uc_content c) = Inr ()"
    "a = uploaded cx v c" "files' = files(av_hex v := Some (uc_content c))"
    "d' = d\<lparr>attachments := attachments d @ [attachment_row_of (uploaded cx v c)],
       audit_events := audit_events d @ [uploaded_event cx v c]\<rparr>" "db_ok d'"
  using assms(2) [unfolded upload_attachment_eq [OF assms(1)]]
  by (auto split: if_splits sum.splits simp: validate_upload_accepts dest: session_commitD)

text \<open>
  Claim C26 (safety): an upload leaves the file store and the database in step. It succeeds only
  for a case of the caller's tenant, a valid file and a clean scan, and then both hold the
  attachment, with the recorded size and digest of the stored content; whenever it fails, for any
  reason, a commit that is refused included, neither has changed.
\<close>

theorem upload_all_or_nothing:
  assumes "valid_key (av_hex v)" "files (av_hex v) = None" "files_match (av_sha256 v) d files"
    and "upload_attachment cx v c (open_session d) files = (res, files')"
  shows "case res of
      Inl e \<Rightarrow> files' = files
    | Inr (a, d') \<Rightarrow> av_scan v (uc_content c) = Inr () \<and> validate_upload c (av_max_bytes v) = Inr (uc_filename c) \<and>
        (\<exists>r \<in> set (candidate_cases d). cr_id r = uc_candidate_case_id c \<and> cr_tenant_id r = uc_tenant_id c) \<and>
        files' (am_storage_key a) = Some (uc_content c) \<and>
        attachments d' = attachments d @ [attachment_row_of a] \<and> files_match (av_sha256 v) d' files'"
proof (cases res)
  case (Inl e)
  have "files(av_hex v := None) = files" using assms(2) by (simp add: fun_eq_iff)
  then have "files' = files"
    using assms(4) Inl unfolding upload_attachment_eq [OF assms(1)] by (auto split: if_splits sum.splits)
  with Inl show ?thesis by simp
next
  case (Inr ad)
  obtain a d' where ad: "ad = (a, d')" by (cases ad)
  note r = upload_attachment_Inr [OF assms(1) assms(4) [unfolded Inr ad]]
  have "at_storage_key b \<noteq> av_hex v" if "b \<in> set (attachments d)" for b
    using assms(2,3) that by (auto simp: files_match_def)
  then have "files_match (av_sha256 v) d' files'"
    using assms(1,3) unfolding r(5,6)
    by (auto simp: files_match_def attachment_row_of_def uploaded_def)
  then show ?thesis using r by (auto simp: Inr ad uploaded_def)
qed

definition sample_key :: string where "sample_key = replicate 32 (CHR ''a'')"

definition sample_env :: attachment_env where
  "sample_env = \<lparr>av_max_bytes = 100, av_scan = noop_scan, av_sha256 = id, av_hex = sample_key\<rparr>"

lemma sample_key_valid: "valid_key (av_hex sample_env)"
  by (simp add: sample_env_def sample_key_def valid_key_def hex_digits_def)

lemma sample_upload_valid: "validate_upload (sample_upload ''cv.pdf'') 100 = Inr ''cv.pdf''"
  by (simp add: validate_upload_def path_name_def sample_upload_def pdf_type_def py_endswith_def py_startswith_def
      py_lower_def py_strip_def py_lstrip_def py_lower_char_def py_isspace_def ALLOWED_DOCUMENT_TYPES_def
      ALLOWED_CONTENT_TYPES_def Let_def)

lemma sample_upload_run:
  "\<exists>a d' f'. upload_attachment sample_ctx sample_env (sample_upload ''cv.pdf'') (open_session sample_db) Map.empty =
    (Inr (a, d'), f')"
proof -
  let ?rows = "[Attachment_Row (attachment_row_of (uploaded sample_ctx sample_env (sample_upload ''cv.pdf''))),
    Audit_Row (uploaded_event sample_ctx sample_env (sample_upload ''cv.pdf''))]"
  have "rows_ok sample_db ?rows"
    by (simp add: attachment_row_of_def uploaded_def uploaded_event_def sample_upload_def)
  then have "session_commit sample_ctx \<lparr>ss_db = sample_db, ss_new = ?rows\<rparr> = Inr (db_insert_all sample_db ?rows)"
    using session_commit_rows [of "\<lparr>ss_db = sample_db, ss_new = ?rows\<rparr>" sample_ctx]
    by (simp del: db_insert_all_simps rows_ok.simps)
  moreover have "validate_upload (sample_upload ''cv.pdf'') (av_max_bytes sample_env) = Inr ''cv.pdf''"
    using sample_upload_valid by (simp add: sample_env_def)
  moreover have "uc_candidate_case_id (sample_upload n) = ''c1''" "uc_tenant_id (sample_upload n) = ''t''" for n
    by (simp_all add: sample_upload_def)
  moreover have "av_scan sample_env x = Inr ()" for x by (simp add: sample_env_def noop_scan_def)
  ultimately show ?thesis by (simp add: upload_attachment_eq [OF sample_key_valid])
qed

theorem upload_all_or_nothing_witness:
  "\<exists>a (d' :: db) (f' :: fs). f' (am_storage_key a) = Some ''%PDF-1'' \<and> attachments d' = [attachment_row_of a]"
proof -
  obtain a d' f' where u: "upload_attachment sample_ctx sample_env (sample_upload ''cv.pdf'')
      (open_session sample_db) Map.empty = (Inr (a, d'), f')" using sample_upload_run by blast
  have m: "files_match (av_sha256 sample_env) sample_db Map.empty" by (simp add: files_match_def)
  have c: "uc_content (sample_upload ''cv.pdf'') = ''%PDF-1''" by (simp add: sample_upload_def)
  from upload_all_or_nothing [OF sample_key_valid _ m u]
  have "f' (am_storage_key a) = Some ''%PDF-1'' \<and> attachments d' = [attachment_row_of a]"
    by (simp add: c)
  then show ?thesis by blast
qed

text \<open>Downloads: the file is opened before the audit event is written, and it is the recorded one.\<close>

definition downloaded_event :: "ctx \<Rightarrow> download_command \<Rightarrow> attachment_row \<Rightarrow> audit_row" where
  "downloaded_event cx c a = \<lparr>ae_id = cx_uuid cx 0, ae_tenant_id = dc_tenant_id c, ae_actor_id = dc_actor_id c,
     ae_action = ''candidate_attachment.downloaded'', ae_aggregate_type = ''candidate_attachment'',
     ae_aggregate_id = at_id a, ae_correlation_id = dc_correlation_id c,
     ae_metadata = [(''candidate_case_id'', JStr (dc_candidate_case_id c)), (''sha256'', JStr (at_sha256 a))],
     ae_created_at = cx_ts cx\<rparr>"

lemma download_attachment_Inr:
  assumes "download_attachment cx c (open_session d) files = Inr ((a, path), d')"
  shows "\<exists>r \<in> set (attachments d). at_id r = dc_attachment_id c \<and> at_candidate_case_id r = dc_candidate_case_id c \<and>
      at_tenant_id r = dc_tenant_id c \<and> a = attachment_to_entity r \<and> path = at_storage_key r \<and>
      files path \<noteq> None \<and> d' = d\<lparr>audit_events := audit_events d @ [downloaded_event cx c r]\<rparr> \<and> db_ok d'"
proof -
  obtain r where r: "List.find (\<lambda>a. at_id a = dc_attachment_id c \<and> at_candidate_case_id a = dc_candidate_case_id c \<and>
      at_tenant_id a = dc_tenant_id c) (attachments d) = Some r" "a = attachment_to_entity r"
    and o: "storage_open (at_storage_key r) files = Inr path"
    and com: "session_commit cx (attachment_record_audit cx (cx_uuid cx 0) (dc_tenant_id c) (dc_actor_id c)
         ''candidate_attachment.downloaded'' ''candidate_attachment'' (at_id r) (dc_correlation_id c)
         [(''candidate_case_id'', JStr (dc_candidate_case_id c)), (''sha256'', JStr (at_sha256 r))]
         (open_session d)) = Inr d'"
    using assms by (auto simp: download_attachment_def attachment_get_def attachment_to_entity_def
        split: option.splits sum.splits)
  have "path = at_storage_key r" "files path \<noteq> None"
    using o by (auto simp: storage_open_def storage_path_valid split: sum.splits option.splits)
  moreover have "d' = d\<lparr>audit_events := audit_events d @ [downloaded_event cx c r]\<rparr>" "db_ok d'"
    using session_commitD [OF com] by (auto simp: attachment_record_audit_def downloaded_event_def)
  ultimately show ?thesis using r find_SomeD [OF r(1)] by auto
qed

text \<open>
  Claim C27 (safety): a download answers only an attachment of the caller's tenant and of the named
  case, with a file whose digest and size are the recorded ones, and never without writing its
  audit event.
\<close>

theorem download_faithful:
  assumes "files_match sha d files" "download_attachment cx c (open_session d) files = Inr ((a, path), d')"
  shows "am_tenant_id a = dc_tenant_id c \<and> am_candidate_case_id a = dc_candidate_case_id c \<and>
    am_id a = dc_attachment_id c \<and>
    (\<exists>content. files path = Some content \<and> sha content = am_sha256 a \<and> int (length content) = am_size_bytes a) \<and>
    length (audit_events d') = length (audit_events d) + 1 \<and> attachments d' = attachments d"
  using download_attachment_Inr [OF assms(2)] assms(1)
  by (auto simp: files_match_def attachment_to_entity_def)

definition sample_download :: download_command where
  "sample_download = \<lparr>dc_attachment_id = ''n0'', dc_candidate_case_id = ''c1'', dc_tenant_id = ''t'',
     dc_actor_id = ''r'', dc_correlation_id = ''k''\<rparr>"

lemma sample_download_run:
  "\<exists>d f a path d'. attachments d = [attachment_row_of (uploaded sample_ctx sample_env (sample_upload ''cv.pdf''))] \<and>
     files_match id d f \<and> download_attachment sample_ctx2 sample_download (open_session d) f = Inr ((a, path), d')"
proof -
  obtain a d1 f where u: "upload_attachment sample_ctx sample_env (sample_upload ''cv.pdf'')
      (open_session sample_db) Map.empty = (Inr (a, d1), f)" using sample_upload_run by blast
  note r = upload_attachment_Inr [OF sample_key_valid u]
  define row where "row = attachment_row_of (uploaded sample_ctx sample_env (sample_upload ''cv.pdf''))"
  have row: "at_id row = ''n0''" "at_candidate_case_id row = ''c1''" "at_tenant_id row = ''t''"
    "at_storage_key row = sample_key" "at_sha256 row = ''%PDF-1''" "at_size_bytes row = 6"
    by (simp_all add: row_def attachment_row_of_def uploaded_def sample_upload_def sample_env_def)
  have atts: "attachments d1 = [row]" unfolding r(6) by (simp add: row_def)
  have f: "f sample_key = Some ''%PDF-1''" unfolding r(5) by (simp add: sample_env_def sample_upload_def)
  have k: "valid_key sample_key" using sample_key_valid by (simp add: sample_env_def)
  have g: "attachment_get ''n0'' ''c1'' ''t'' (open_session d1) = Some (attachment_to_entity row)"
    by (simp add: attachment_get_def row atts)
  have o: "storage_open sample_key f = Inr sample_key" using storage.open_finds [OF k] f by simp
  have com: "session_commit sample_ctx2 \<lparr>ss_db = d1, ss_new = [Audit_Row (downloaded_event sample_ctx2 sample_download row)]\<rparr>
      = Inr (d1\<lparr>audit_events := audit_events d1 @ [downloaded_event sample_ctx2 sample_download row]\<rparr>)"
    using session_commit_rows [of "\<lparr>ss_db = d1, ss_new = [Audit_Row (downloaded_event sample_ctx2 sample_download row)]\<rparr>" sample_ctx2]
      r(7) by (simp add: r(6) downloaded_event_def uploaded_event_def sample_download_def)
  have ses: "attachment_record_audit sample_ctx2 ''m0'' ''t'' ''r'' ''candidate_attachment.downloaded''
      ''candidate_attachment'' (am_id (attachment_to_entity row)) ''k''
      [(''candidate_case_id'', JStr ''c1''), (''sha256'', JStr (am_sha256 (attachment_to_entity row)))] (open_session d1)
    = \<lparr>ss_db = d1, ss_new = [Audit_Row (downloaded_event sample_ctx2 sample_download row)]\<rparr>"
    by (simp add: attachment_record_audit_def downloaded_event_def sample_download_def session_add_def
        open_session_def attachment_to_entity_def)
  have fields: "dc_attachment_id sample_download = ''n0''" "dc_candidate_case_id sample_download = ''c1''"
    "dc_tenant_id sample_download = ''t''" "dc_actor_id sample_download = ''r''"
    "dc_correlation_id sample_download = ''k''" by (simp_all add: sample_download_def)
  have "am_storage_key (attachment_to_entity row) = sample_key" by (simp add: attachment_to_entity_def row)
  then have "\<exists>a path d'. download_attachment sample_ctx2 sample_download (open_session d1) f = Inr ((a, path), d')"
    by (simp add: download_attachment_def fields g o ses com)
  moreover have "files_match id d1 f" by (simp add: files_match_def atts row k f)
  ultimately show ?thesis using atts [unfolded row_def] by blast
qed

theorem download_faithful_witness:
  "\<exists>(a :: attachment) (d' :: db). am_id a = ''n0'' \<and> am_tenant_id a = ''t'' \<and> length (attachments d') = 1"
proof -
  obtain d f a path d' where x: "attachments d = [attachment_row_of (uploaded sample_ctx sample_env (sample_upload ''cv.pdf''))]"
    "files_match id d f" "download_attachment sample_ctx2 sample_download (open_session d) f = Inr ((a, path), d')"
    using sample_download_run by blast
  from download_faithful [OF x(2,3)] x(1) have "am_id a = ''n0'' \<and> am_tenant_id a = ''t'' \<and> length (attachments d') = 1"
    by (simp add: sample_download_def)
  then show ?thesis by blast
qed

end
