(* ===== verification/Retention.thy ===== *)
theory Retention
  imports Attachments
begin

text \<open>
  The retention module: the service of \<open>retention/application/retention.py\<close>, its repository
  \<open>infrastructure/sqlalchemy_repository.py\<close> and the batch run of
  \<open>application/run_retention_worker.py\<close>.

  The unit of work sends the changed cases to the database one statement per row, in the order of
  their primary keys, and a unique constraint is checked at each; the attachment files are removed
  while the records are collected, before anything is committed.
\<close>

section \<open>The repository\<close>

definition TERMINAL_STAGES :: "string set" where
  "TERMINAL_STAGES = {''rejected'', ''withdrawn''}"

definition microseconds_per_day :: int where
  "microseconds_per_day = 24 * 60 * 60 * 1000000"

definition retention_set_policy :: "ctx \<Rightarrow> string \<Rightarrow> int \<Rightarrow> session \<Rightarrow> session" where
  "retention_set_policy cx tenant_id retention_days s =
    (case List.find (\<lambda>p. rp_tenant_id p = tenant_id) (retention_policies (ss_db s)) of
       None \<Rightarrow> session_add (Policy_Row \<lparr>rp_tenant_id = tenant_id, rp_retention_days = retention_days,
                 rp_updated_at = cx_ts cx\<rparr>) s
     | Some p \<Rightarrow> s\<lparr>ss_db := (ss_db s)\<lparr>retention_policies :=
         update_where (\<lambda>p. rp_tenant_id p = tenant_id)
           (\<lambda>p. if rp_retention_days p = retention_days then p
                else p\<lparr>rp_retention_days := retention_days, rp_updated_at := cx_ts cx\<rparr>)
           (retention_policies (ss_db s))\<rparr>\<rparr>)"

definition retention_candidate_exists :: "string \<Rightarrow> string \<Rightarrow> session \<Rightarrow> bool" where
  "retention_candidate_exists tenant_id candidate_case_id s =
    (List.find (\<lambda>r. cr_id r = candidate_case_id \<and> cr_tenant_id r = tenant_id)
       (candidate_cases (ss_db s)) \<noteq> None)"

definition retention_set_legal_hold ::
  "ctx \<Rightarrow> string \<Rightarrow> string \<Rightarrow> bool \<Rightarrow> string option \<Rightarrow> string \<Rightarrow> session \<Rightarrow> session" where
  "retention_set_legal_hold cx tenant_id candidate_case_id held reason actor_id s =
    (let record = List.find (\<lambda>h. lh_candidate_case_id h = candidate_case_id) (legal_holds (ss_db s))
     in if held then
          (case record of
             None \<Rightarrow> session_add (Hold_Row \<lparr>lh_candidate_case_id = candidate_case_id, lh_tenant_id = tenant_id,
                 lh_reason = py_or reason ''Legal hold'', lh_created_by = actor_id,
                 lh_created_at = cx_ts cx\<rparr>) s
           | Some _ \<Rightarrow> s\<lparr>ss_db := (ss_db s)\<lparr>legal_holds :=
               update_where (\<lambda>h. lh_candidate_case_id h = candidate_case_id)
                 (\<lambda>h. h\<lparr>lh_reason := py_or reason (lh_reason h)\<rparr>) (legal_holds (ss_db s))\<rparr>\<rparr>)
        else
          (case record of
             None \<Rightarrow> s
           | Some h \<Rightarrow>
               if lh_tenant_id h = tenant_id
               then s\<lparr>ss_db := (ss_db s)\<lparr>legal_holds :=
                      filter (\<lambda>h. lh_candidate_case_id h \<noteq> candidate_case_id) (legal_holds (ss_db s))\<rparr>\<rparr>
               else s))"

definition policy_tenant_ids :: "int \<Rightarrow> db \<Rightarrow> string list" where
  "policy_tenant_ids limit d = take (nat limit) (sort (map rp_tenant_id (retention_policies d)))"

text \<open>
  The cases \<open>purge_due\<close> selects: terminal, not yet anonymised, terminal for longer than the policy
  keeps them (a case whose \<open>terminal_at\<close> is null never is), and without a hold of the tenant.
\<close>

definition retention_due :: "string \<Rightarrow> time \<Rightarrow> int \<Rightarrow> db \<Rightarrow> candidate_row \<Rightarrow> bool" where
  "retention_due tenant_id now days d r =
    (cr_tenant_id r = tenant_id \<and> cr_stage r \<in> TERMINAL_STAGES \<and> cr_anonymized_at r = None \<and>
     (case cr_terminal_at r of None \<Rightarrow> False | Some t \<Rightarrow> t \<le> now - days * microseconds_per_day) \<and>
     \<not> list_ex (\<lambda>h. lh_candidate_case_id h = cr_id r \<and> lh_tenant_id h = tenant_id) (legal_holds d))"

definition redacted_email :: "string \<Rightarrow> string" where
  "redacted_email candidate_id = ''purged+'' @ candidate_id @ ''@redacted.invalid''"

definition anonymize :: "time \<Rightarrow> candidate_row \<Rightarrow> candidate_row" where
  "anonymize now r = r\<lparr>cr_first_name := ''Redacted'', cr_last_name := ''Candidate'',
     cr_email := redacted_email (cr_id r), cr_anonymized_at := Some now\<rparr>"

text \<open>The files of a record's attachments are deleted one by one; a bad key raises in between.\<close>

fun delete_files :: "string list \<Rightarrow> fs \<Rightarrow> (exn + unit) \<times> fs" where
  "delete_files [] files = (Inr (), files)"
| "delete_files (key # keys) files =
    (case storage_delete key files of
       (Inl e, files') \<Rightarrow> (Inl e, files')
     | (Inr _, files') \<Rightarrow> delete_files keys files')"

definition attachments_of :: "string \<Rightarrow> string \<Rightarrow> db \<Rightarrow> attachment_row list" where
  "attachments_of tenant_id candidate_id d =
    filter (\<lambda>a. at_candidate_case_id a = candidate_id \<and> at_tenant_id a = tenant_id) (attachments d)"

text \<open>What the loop leaves in the session: the attachments to delete and the cases to rewrite.\<close>

record purge_changes =
  pc_deleted :: "string list"
  pc_cases :: "string list"

fun purge_records ::
  "string \<Rightarrow> candidate_row list \<Rightarrow> db \<Rightarrow> fs \<Rightarrow> purge_changes \<Rightarrow> (exn + purge_changes) \<times> fs" where
  "purge_records tenant_id [] d files p = (Inr p, files)"
| "purge_records tenant_id (r # rs) d files p =
    (let atts = attachments_of tenant_id (cr_id r) d
     in case delete_files (map at_storage_key atts) files of
          (Inl e, files') \<Rightarrow> (Inl e, files')
        | (Inr _, files') \<Rightarrow>
            purge_records tenant_id rs d files'
              \<lparr>pc_deleted = pc_deleted p @ map at_id atts, pc_cases = pc_cases p @ [cr_id r]\<rparr>)"

definition retention_purge_due ::
  "string \<Rightarrow> time \<Rightarrow> session \<Rightarrow> fs \<Rightarrow> (exn + purge_changes) \<times> fs" where
  "retention_purge_due tenant_id now s files =
    (case List.find (\<lambda>p. rp_tenant_id p = tenant_id) (retention_policies (ss_db s)) of
       None \<Rightarrow> (Inr \<lparr>pc_deleted = [], pc_cases = []\<rparr>, files)
     | Some p \<Rightarrow>
         purge_records tenant_id
           (filter (retention_due tenant_id now (rp_retention_days p) (ss_db s)) (candidate_cases (ss_db s)))
           (ss_db s) files \<lparr>pc_deleted = [], pc_cases = []\<rparr>)"

text \<open>The flush of the rewritten cases, row by row, and of the deletions.\<close>

fun flush_cases :: "time \<Rightarrow> string list \<Rightarrow> db \<Rightarrow> exn + db" where
  "flush_cases now [] d = Inr d"
| "flush_cases now (i # is) d =
    (let d' = d\<lparr>candidate_cases := update_where (\<lambda>r. cr_id r = i) (anonymize now) (candidate_cases d)\<rparr>
     in if db_ok d' then flush_cases now is d' else Inl IntegrityError)"

definition purge_flush :: "ctx \<Rightarrow> time \<Rightarrow> purge_changes \<Rightarrow> session \<Rightarrow> exn + session" where
  "purge_flush cx now p s =
    (if \<not> cx_db_up cx then Inl OperationalError
     else case flush_cases now (sort (pc_cases p)) (ss_db s) of
            Inl e \<Rightarrow> Inl e
          | Inr d \<Rightarrow> Inr (s\<lparr>ss_db := d\<lparr>attachments :=
              filter (\<lambda>a. at_id a \<notin> set (pc_deleted p)) (attachments d)\<rparr>\<rparr>))"

section \<open>The service\<close>

definition retention_record ::
  "ctx \<Rightarrow> string \<Rightarrow> string \<Rightarrow> string \<Rightarrow> string \<Rightarrow> string \<Rightarrow> string \<Rightarrow> string \<Rightarrow> json_object \<Rightarrow> session \<Rightarrow> session" where
  "retention_record cx new_id tenant_id actor_id action aggregate_type aggregate_id correlation_id
      metadata s =
    session_add (Audit_Row
      \<lparr>ae_id = new_id, ae_tenant_id = tenant_id, ae_actor_id = actor_id, ae_action = action,
       ae_aggregate_type = aggregate_type, ae_aggregate_id = aggregate_id,
       ae_correlation_id = correlation_id, ae_metadata = metadata, ae_created_at = cx_ts cx\<rparr>) s"

definition set_policy ::
  "ctx \<Rightarrow> string \<Rightarrow> int \<Rightarrow> string \<Rightarrow> string \<Rightarrow> session \<Rightarrow> exn + (string \<times> int) \<times> db" where
  "set_policy cx tenant_id retention_days actor_id correlation_id s =
    (let s1 = retention_set_policy cx tenant_id retention_days s;
         s2 = retention_record cx (cx_uuid cx 0) tenant_id actor_id ''retention_policy.updated''
                ''retention_policy'' tenant_id correlation_id [(''retention_days'', JInt retention_days)] s1
     in case session_commit cx s2 of Inl e \<Rightarrow> Inl e | Inr d \<Rightarrow> Inr ((tenant_id, retention_days), d))"

definition set_legal_hold ::
  "ctx \<Rightarrow> string \<Rightarrow> string \<Rightarrow> bool \<Rightarrow> string option \<Rightarrow> string \<Rightarrow> string \<Rightarrow> session \<Rightarrow> exn + unit \<times> db" where
  "set_legal_hold cx tenant_id candidate_case_id held reason actor_id correlation_id s =
    (if \<not> retention_candidate_exists tenant_id candidate_case_id s
     then Inl (CandidateNotFoundError candidate_case_id)
     else
       let s1 = retention_set_legal_hold cx tenant_id candidate_case_id held reason actor_id s;
           s2 = retention_record cx (cx_uuid cx 0) tenant_id actor_id
                  (if held then ''candidate_case.legal_hold_set'' else ''candidate_case.legal_hold_released'')
                  ''candidate_case'' candidate_case_id correlation_id [] s1
       in case session_commit cx s2 of Inl e \<Rightarrow> Inl e | Inr d \<Rightarrow> Inr ((), d))"

definition purged_events :: "ctx \<Rightarrow> string \<Rightarrow> string \<Rightarrow> string \<Rightarrow> string list \<Rightarrow> row list" where
  "purged_events cx tenant_id actor_id correlation_id candidate_ids =
    map (\<lambda>(k, i). Audit_Row
      \<lparr>ae_id = cx_uuid cx k, ae_tenant_id = tenant_id, ae_actor_id = actor_id,
       ae_action = ''candidate_case.retention_purged'', ae_aggregate_type = ''candidate_case'',
       ae_aggregate_id = i, ae_correlation_id = correlation_id,
       ae_metadata = [(''pii'', JStr ''anonymized'')], ae_created_at = cx_ts cx\<rparr>)
      (List.enumerate 0 candidate_ids)"

definition purge_due ::
  "ctx \<Rightarrow> string \<Rightarrow> string \<Rightarrow> string \<Rightarrow> session \<Rightarrow> fs \<Rightarrow> (exn + nat \<times> db) \<times> fs" where
  "purge_due cx tenant_id actor_id correlation_id s files =
    (case retention_purge_due tenant_id (cx_now cx) s files of
       (Inl e, files') \<Rightarrow> (Inl e, files')
     | (Inr p, files') \<Rightarrow>
         (case purge_flush cx (cx_now cx) p s of
            Inl e \<Rightarrow> (Inl e, files')
          | Inr s1 \<Rightarrow>
              (case session_commit cx (s1\<lparr>ss_new := ss_new s1 @
                  purged_events cx tenant_id actor_id correlation_id (pc_cases p)\<rparr>) of
                 Inl e \<Rightarrow> (Inl e, files')
               | Inr d \<Rightarrow> (Inr (length (pc_cases p), d), files'))))"

section \<open>The worker\<close>

text \<open>
  \<open>main\<close>: the tenants of one batch, one transaction each; an exception ends the run, and what
  earlier tenants committed stays. \<open>cxs\<close> is the environment of each tenant's turn.
\<close>

fun purge_tenants ::
  "(nat \<Rightarrow> ctx) \<Rightarrow> (nat \<Rightarrow> string) \<Rightarrow> nat \<Rightarrow> string list \<Rightarrow> db \<Rightarrow> fs \<Rightarrow> nat \<Rightarrow> (exn + nat) \<times> db \<times> fs" where
  "purge_tenants cxs corr k [] d files purged = (Inr purged, d, files)"
| "purge_tenants cxs corr k (t # ts) d files purged =
    (case purge_due (cxs k) t ''system:retention'' (corr k) (open_session d) files of
       (Inl e, files') \<Rightarrow> (Inl e, d, files')
     | (Inr (n, d'), files') \<Rightarrow> purge_tenants cxs corr (Suc k) ts d' files' (purged + n))"

definition run_retention_worker ::
  "(nat \<Rightarrow> ctx) \<Rightarrow> (nat \<Rightarrow> string) \<Rightarrow> int \<Rightarrow> db \<Rightarrow> fs \<Rightarrow> (exn + nat) \<times> db \<times> fs" where
  "run_retention_worker cxs corr batch_size d files =
    purge_tenants cxs corr 0 (policy_tenant_ids batch_size d) d files 0"

section \<open>What a purge does\<close>

definition due_cases :: "string \<Rightarrow> time \<Rightarrow> db \<Rightarrow> candidate_row list" where
  "due_cases tenant_id now d =
    (case List.find (\<lambda>p. rp_tenant_id p = tenant_id) (retention_policies d) of
       None \<Rightarrow> []
     | Some p \<Rightarrow> filter (retention_due tenant_id now (rp_retention_days p) d) (candidate_cases d))"

definition keys_valid :: "db \<Rightarrow> bool" where
  "keys_valid d = (\<forall>a \<in> set (attachments d). valid_key (at_storage_key a))"

lemma files_match_keys: "files_match sha d files \<Longrightarrow> keys_valid d"
  by (simp add: files_match_def keys_valid_def)

text \<open>The attachments that go with the due cases, and the file store without their files.\<close>

definition purged_attachment :: "string \<Rightarrow> time \<Rightarrow> db \<Rightarrow> attachment_row \<Rightarrow> bool" where
  "purged_attachment tenant_id now d a =
    (at_tenant_id a = tenant_id \<and> at_candidate_case_id a \<in> set (map cr_id (due_cases tenant_id now d)))"

definition without_files :: "attachment_row set \<Rightarrow> fs \<Rightarrow> fs" where
  "without_files A files = (\<lambda>k. if k \<in> at_storage_key ` A then None else files k)"

definition purged_db :: "ctx \<Rightarrow> string \<Rightarrow> string \<Rightarrow> string \<Rightarrow> db \<Rightarrow> db" where
  "purged_db cx tenant_id actor_id corr d =
    (let due = due_cases tenant_id (cx_now cx) d
     in db_insert_all
         (d\<lparr>candidate_cases := update_where (\<lambda>r. cr_id r \<in> set (map cr_id due)) (anonymize (cx_now cx)) (candidate_cases d),
            attachments := filter (\<lambda>a. \<not> purged_attachment tenant_id (cx_now cx) d a) (attachments d)\<rparr>)
         (purged_events cx tenant_id actor_id corr (map cr_id due)))"

lemma anonymize_simps [simp]:
  "cr_id (anonymize now r) = cr_id r" "cr_tenant_id (anonymize now r) = cr_tenant_id r"
  "cr_stage (anonymize now r) = cr_stage r" "cr_version (anonymize now r) = cr_version r"
  "cr_requisition_id (anonymize now r) = cr_requisition_id r" "cr_created_by (anonymize now r) = cr_created_by r"
  "cr_email (anonymize now r) = redacted_email (cr_id r)" "cr_anonymized_at (anonymize now r) = Some now"
  "anonymize now (anonymize now r) = anonymize now r"
  by (simp_all add: anonymize_def)

lemma redacted_email_inj [simp]: "redacted_email i = redacted_email j \<longleftrightarrow> i = j"
  by (simp add: redacted_email_def)

lemma delete_files_storage: "delete_files keys files = delete_all storage_delete keys files"
  by (induction keys arbitrary: files) (auto split: prod.splits sum.splits)

lemma delete_files_ok:
  "(\<forall>k \<in> set keys. valid_key k) \<Longrightarrow>
    delete_files keys files = (Inr (), \<lambda>k. if k \<in> set keys then None else files k)"
  using storage.delete_all_drops [of keys files] by (auto simp: delete_files_storage)

lemma purge_records_ok:
  assumes "keys_valid d"
  shows "purge_records t rs d files p =
    (Inr \<lparr>pc_deleted = pc_deleted p @ concat (map (\<lambda>r. map at_id (attachments_of t (cr_id r) d)) rs),
          pc_cases = pc_cases p @ map cr_id rs\<rparr>,
     without_files (\<Union>r \<in> set rs. set (attachments_of t (cr_id r) d)) files)"
proof (induction rs arbitrary: files p)
  case Nil
  then show ?case by (simp add: without_files_def)
next
  case (Cons r rs)
  have "\<forall>k \<in> set (map at_storage_key (attachments_of t (cr_id r) d)). valid_key k"
    using assms by (simp add: keys_valid_def attachments_of_def)
  from delete_files_ok [OF this]
  show ?case by (auto simp: Cons.IH Let_def without_files_def fun_eq_iff)
qed

lemma retention_purge_due_eq:
  assumes "keys_valid d"
  shows "\<exists>ids. retention_purge_due t now (open_session d) files =
      (Inr \<lparr>pc_deleted = ids, pc_cases = map cr_id (due_cases t now d)\<rparr>,
       without_files {a \<in> set (attachments d). purged_attachment t now d a} files) \<and>
    set ids = at_id ` {a \<in> set (attachments d). purged_attachment t now d a}"
proof -
  have "(\<Union>r \<in> set (due_cases t now d). set (attachments_of t (cr_id r) d)) =
      {a \<in> set (attachments d). purged_attachment t now d a}"
    by (auto simp: attachments_of_def purged_attachment_def)
  then show ?thesis
    by (cases "List.find (\<lambda>p. rp_tenant_id p = t) (retention_policies d)")
       (auto simp: retention_purge_due_def purge_records_ok [OF assms] due_cases_def purged_attachment_def
          attachments_of_def without_files_def)
qed

lemma flush_cases_Inr:
  "flush_cases now is d = Inr d' \<Longrightarrow>
    d' = d\<lparr>candidate_cases := update_where (\<lambda>r. cr_id r \<in> set is) (anonymize now) (candidate_cases d)\<rparr> \<and>
    (db_ok d \<longrightarrow> db_ok d')"
proof (induction "is" arbitrary: d)
  case Nil
  then show ?case by (simp add: update_where_def)
next
  case (Cons i js)
  let ?d = "d\<lparr>candidate_cases := update_where (\<lambda>r. cr_id r = i) (anonymize now) (candidate_cases d)\<rparr>"
  have "db_ok ?d" "flush_cases now js ?d = Inr d'" using Cons.prems by (auto simp: Let_def split: if_splits)
  with Cons.IH [of ?d] show ?case by (auto simp: update_where_def comp_def)
qed

lemma flush_cases_Inl: "flush_cases now is d = Inl e \<Longrightarrow> e = IntegrityError"
  by (induction "is" arbitrary: d) (auto simp: Let_def split: if_splits)

text \<open>A redacted address that only its own case bears does not clash.\<close>

definition redaction_free :: "string set \<Rightarrow> db \<Rightarrow> bool" where
  "redaction_free ids d =
    (\<forall>q \<in> set (candidate_cases d). \<forall>i \<in> ids. cr_email q = redacted_email i \<longrightarrow> cr_id q = i)"

lemma redaction_keeps_ok:
  assumes "db_ok d" "redaction_free {i} d"
  shows "db_ok (d\<lparr>candidate_cases := update_where (\<lambda>r. cr_id r = i) (anonymize now) (candidate_cases d)\<rparr>)"
proof -
  define f where "f r = (if cr_id r = i then anonymize now r else r)" for r
  define key where "key = (\<lambda>c :: candidate_row. (cr_tenant_id c, cr_email c))"
  have k: "distinct (map cr_id (candidate_cases d))" "distinct (map key (candidate_cases d))"
    using assms(1) by (simp_all add: db_ok_def candidate_cases_ok_def key_def)
  have "p = q" if pq: "p \<in> set (candidate_cases d)" "q \<in> set (candidate_cases d)" and e: "key (f p) = key (f q)" for p q
  proof (cases "cr_id p = cr_id q")
    case True
    show ?thesis using key_unique [OF k(1) pq True] .
  next
    case False
    have "key p = key q"
      using e assms(2) pq False unfolding redaction_free_def
      by (cases "cr_id p = i"; cases "cr_id q = i") (auto simp: f_def key_def)
    then show ?thesis using key_unique [OF k(2) pq] by blast
  qed
  moreover have "distinct (candidate_cases d)" using k(1) by (simp add: distinct_map)
  ultimately have "distinct (map key (update_where (\<lambda>r. cr_id r = i) (anonymize now) (candidate_cases d)))"
    by (simp add: update_where_def distinct_map f_def [symmetric] inj_on_def comp_def)
  then show ?thesis
    using assms(1) by (simp add: db_ok_def table_ok_defs table_simps key_def)
qed

lemma flush_cases_ok:
  assumes "db_ok d" "redaction_free (set is) d"
  shows "\<exists>d'. flush_cases now is d = Inr d'"
  using assms
proof (induction "is" arbitrary: d)
  case (Cons i js)
  let ?d = "d\<lparr>candidate_cases := update_where (\<lambda>r. cr_id r = i) (anonymize now) (candidate_cases d)\<rparr>"
  have "db_ok ?d" using Cons.prems by (intro redaction_keeps_ok) (auto simp: redaction_free_def)
  moreover have "redaction_free (set js) ?d"
    using Cons.prems(2) by (auto simp: redaction_free_def update_where_def)
  ultimately show ?case using Cons.IH [of ?d] by (simp add: Let_def)
qed simp

lemma due_cases_sub: "r \<in> set (due_cases t now d) \<Longrightarrow> r \<in> set (candidate_cases d)"
  by (auto simp: due_cases_def split: option.splits)

lemma due_casesD:
  assumes "r \<in> set (due_cases t now d)"
  shows "r \<in> set (candidate_cases d)" "cr_tenant_id r = t" "cr_stage r \<in> TERMINAL_STAGES"
    "cr_anonymized_at r = None"
    "\<not> (\<exists>h \<in> set (legal_holds d). lh_candidate_case_id h = cr_id r \<and> lh_tenant_id h = t)"
    "\<exists>p \<in> set (retention_policies d). rp_tenant_id p = t \<and>
      (\<exists>at. cr_terminal_at r = Some at \<and> at + rp_retention_days p * microseconds_per_day \<le> now)"
proof -
  obtain p where p: "List.find (\<lambda>p. rp_tenant_id p = t) (retention_policies d) = Some p"
    and r: "r \<in> set (candidate_cases d)" "retention_due t now (rp_retention_days p) d r"
    using assms by (cases "List.find (\<lambda>p. rp_tenant_id p = t) (retention_policies d)") (auto simp: due_cases_def)
  show "r \<in> set (candidate_cases d)" "cr_tenant_id r = t" "cr_stage r \<in> TERMINAL_STAGES"
    "cr_anonymized_at r = None"
    "\<not> (\<exists>h \<in> set (legal_holds d). lh_candidate_case_id h = cr_id r \<and> lh_tenant_id h = t)"
    using r by (auto simp: retention_due_def list_ex_iff)
  obtain at where "cr_terminal_at r = Some at" "at + rp_retention_days p * microseconds_per_day \<le> now"
    using r(2) by (auto simp: retention_due_def split: option.splits)
  then show "\<exists>p \<in> set (retention_policies d). rp_tenant_id p = t \<and>
      (\<exists>at. cr_terminal_at r = Some at \<and> at + rp_retention_days p * microseconds_per_day \<le> now)"
    using find_SomeD [OF p] by blast
qed

lemma purge_due_eq:
  assumes "keys_valid d" "db_ok d"
  shows "purge_due cx t actor corr (open_session d) files =
    (if \<not> cx_db_up cx then Inl OperationalError
     else case flush_cases (cx_now cx) (sort (map cr_id (due_cases t (cx_now cx) d))) d of
         Inl e \<Rightarrow> Inl e
       | Inr _ \<Rightarrow> if db_ok (purged_db cx t actor corr d)
           then Inr (length (due_cases t (cx_now cx) d), purged_db cx t actor corr d)
           else Inl IntegrityError,
     without_files {a \<in> set (attachments d). purged_attachment t (cx_now cx) d a} files)"
proof -
  obtain ids where i: "retention_purge_due t (cx_now cx) (open_session d) files =
      (Inr \<lparr>pc_deleted = ids, pc_cases = map cr_id (due_cases t (cx_now cx) d)\<rparr>,
       without_files {a \<in> set (attachments d). purged_attachment t (cx_now cx) d a} files)"
    "set ids = at_id ` {a \<in> set (attachments d). purged_attachment t (cx_now cx) d a}"
    using retention_purge_due_eq [OF assms(1)] by blast
  have "distinct (map at_id (attachments d))" using db_ok_keys [OF assms(2)] by blast
  then have f: "filter (\<lambda>a. at_id a \<notin> set ids) (attachments d) =
      filter (\<lambda>a. \<not> purged_attachment t (cx_now cx) d a) (attachments d)"
    by (intro filter_cong) (auto simp: i(2) dest: key_unique)
  show ?thesis
    by (auto simp: purge_due_def i(1) purge_flush_def session_commit_eq Let_def purged_db_def f
        split: sum.splits dest!: flush_cases_Inr)
qed

definition purged_event :: "ctx \<Rightarrow> string \<Rightarrow> string \<Rightarrow> string \<Rightarrow> nat \<times> string \<Rightarrow> audit_row" where
  "purged_event cx t actor corr = (\<lambda>(k, i). \<lparr>ae_id = cx_uuid cx k, ae_tenant_id = t, ae_actor_id = actor,
     ae_action = ''candidate_case.retention_purged'', ae_aggregate_type = ''candidate_case'',
     ae_aggregate_id = i, ae_correlation_id = corr, ae_metadata = [(''pii'', JStr ''anonymized'')],
     ae_created_at = cx_ts cx\<rparr>)"

lemma insert_audits:
  "db_insert_all d (map (\<lambda>x. Audit_Row (g x)) xs) = d\<lparr>audit_events := audit_events d @ map g xs\<rparr>"
  by (induction xs arbitrary: d) auto

lemma purged_db_eq:
  "purged_db cx t actor corr d =
    d\<lparr>candidate_cases := update_where (\<lambda>r. cr_id r \<in> set (map cr_id (due_cases t (cx_now cx) d)))
         (anonymize (cx_now cx)) (candidate_cases d),
      attachments := filter (\<lambda>a. \<not> purged_attachment t (cx_now cx) d a) (attachments d),
      audit_events := audit_events d @ map (purged_event cx t actor corr)
         (List.enumerate 0 (map cr_id (due_cases t (cx_now cx) d)))\<rparr>"
proof -
  have "purged_events cx t actor corr ids = map (\<lambda>x. Audit_Row (purged_event cx t actor corr x)) (List.enumerate 0 ids)"
    for ids by (auto simp: purged_events_def purged_event_def)
  then show ?thesis by (simp add: purged_db_def Let_def insert_audits)
qed

lemma anonymized_cases:
  assumes "db_ok d"
  shows "update_where (\<lambda>r. cr_id r \<in> set (map cr_id (due_cases t now d))) (anonymize now) (candidate_cases d) =
    map (\<lambda>r. if r \<in> set (due_cases t now d) then anonymize now r else r) (candidate_cases d)"
proof -
  have "cr_id r \<in> set (map cr_id (due_cases t now d)) \<longleftrightarrow> r \<in> set (due_cases t now d)" if "r \<in> set (candidate_cases d)" for r
    using key_unique [OF db_ok_keys(1) [OF assms] that] by (auto dest: due_cases_sub)
  then show ?thesis by (simp add: update_where_def)
qed

lemma purged_db_cases:
  assumes "db_ok d"
  shows "candidate_cases (purged_db cx t actor corr d) =
    map (\<lambda>r. if r \<in> set (due_cases t (cx_now cx) d) then anonymize (cx_now cx) r else r) (candidate_cases d)"
  unfolding anonymized_cases [OF assms, symmetric] by (simp add: purged_db_eq)

lemma purge_due_Inr:
  assumes "keys_valid d" "db_ok d" "purge_due cx t actor corr (open_session d) files = (Inr (n, d'), files')"
  shows "n = length (due_cases t (cx_now cx) d)" "d' = purged_db cx t actor corr d" "db_ok d'" "cx_db_up cx"
    "files' = without_files {a \<in> set (attachments d). purged_attachment t (cx_now cx) d a} files"
  using assms(3) unfolding purge_due_eq [OF assms(1,2)] by (auto split: if_splits sum.splits)

text \<open>
  Claim C29 (functional, safety): a purge anonymises exactly the due cases of the tenant (terminal
  stage, not anonymised before, terminal for at least the policy's days, no legal hold), deletes
  exactly their attachments, rows and files, writes one audit event per case, and changes nothing
  else; it answers how many cases there were.
\<close>

theorem purge_result:
  assumes "keys_valid d" "db_ok d" "purge_due cx t actor corr (open_session d) files = (Inr (n, d'), files')"
  shows "let due = due_cases t (cx_now cx) d in
    n = length due \<and>
    d' = d\<lparr>candidate_cases := map (\<lambda>r. if r \<in> set due then anonymize (cx_now cx) r else r) (candidate_cases d),
      attachments := filter (\<lambda>a. \<not> purged_attachment t (cx_now cx) d a) (attachments d),
      audit_events := audit_events d @ map (purged_event cx t actor corr) (List.enumerate 0 (map cr_id due))\<rparr> \<and>
    files' = without_files {a \<in> set (attachments d). purged_attachment t (cx_now cx) d a} files \<and>
    (\<forall>r \<in> set due. cr_tenant_id r = t \<and> cr_stage r \<in> TERMINAL_STAGES \<and> cr_anonymized_at r = None \<and>
       \<not> (\<exists>h \<in> set (legal_holds d). lh_candidate_case_id h = cr_id r \<and> lh_tenant_id h = t) \<and>
       (\<exists>p \<in> set (retention_policies d). rp_tenant_id p = t \<and>
         (\<exists>at. cr_terminal_at r = Some at \<and> at + rp_retention_days p * microseconds_per_day \<le> cx_now cx)))"
proof -
  note r = purge_due_Inr [OF assms]
  have "\<forall>r \<in> set (due_cases t (cx_now cx) d). cr_tenant_id r = t \<and> cr_stage r \<in> TERMINAL_STAGES \<and>
      cr_anonymized_at r = None \<and>
      \<not> (\<exists>h \<in> set (legal_holds d). lh_candidate_case_id h = cr_id r \<and> lh_tenant_id h = t) \<and>
      (\<exists>p \<in> set (retention_policies d). rp_tenant_id p = t \<and>
        (\<exists>at. cr_terminal_at r = Some at \<and> at + rp_retention_days p * microseconds_per_day \<le> cx_now cx))"
    by (intro ballI conjI due_casesD)
  with r(1,5) r(2) [unfolded purged_db_eq anonymized_cases [OF assms(2)]] show ?thesis
    unfolding Let_def by simp
qed

text \<open>Running it again at the same instant finds nothing due and changes nothing.\<close>

lemma due_after_purge:
  assumes "db_ok d"
  shows "due_cases t (cx_now cx) (purged_db cx t actor corr d) = []"
proof -
  have "\<not> retention_due t (cx_now cx) days (purged_db cx t actor corr d) r"
    if mem: "r \<in> set (candidate_cases (purged_db cx t actor corr d))"
      and pol: "List.find (\<lambda>p. rp_tenant_id p = t) (retention_policies d) = Some p" and days: "days = rp_retention_days p" for r p days
  proof -
    obtain q where q: "q \<in> set (candidate_cases d)"
      "r = (if q \<in> set (due_cases t (cx_now cx) d) then anonymize (cx_now cx) q else q)"
      using mem by (auto simp: purged_db_cases [OF assms])
    show ?thesis
    proof (cases "q \<in> set (due_cases t (cx_now cx) d)")
      case True
      with q show ?thesis by (simp add: retention_due_def)
    next
      case False
      with q pol days show ?thesis by (auto simp: due_cases_def retention_due_def purged_db_eq)
    qed
  qed
  moreover have "retention_policies (purged_db cx t actor corr d) = retention_policies d" by (simp add: purged_db_eq)
  ultimately show ?thesis
    by (cases "List.find (\<lambda>p. rp_tenant_id p = t) (retention_policies d)")
       (simp_all add: due_cases_def [of _ _ "purged_db cx t actor corr d"] filter_empty_conv)
qed

text \<open>
  Purging is idempotent. A second purge of the tenant at the instant of the
  first finds no case due, answers 0, and leaves the database and the files as the first left them.
\<close>

lemma purge_idempotent:
  assumes "keys_valid d" "db_ok d" "purge_due cx t actor corr (open_session d) files = (Inr (n, d'), files')"
    and "cx_now cx2 = cx_now cx" "cx_db_up cx2"
  shows "purge_due cx2 t actor2 corr2 (open_session d') files' = (Inr (0, d'), files')"
proof -
  note r = purge_due_Inr [OF assms(1-3)]
  have due: "due_cases t (cx_now cx2) d' = []" unfolding assms(4) r(2) by (rule due_after_purge [OF assms(2)])
  then have "purged_db cx2 t actor2 corr2 d' = d'"
    by (simp add: purged_db_eq purged_attachment_def update_where_def)
  moreover have "keys_valid d'" using assms(1) by (simp add: r(2) purged_db_eq keys_valid_def)
  ultimately show ?thesis
    using assms(5) r(3) by (simp add: purge_due_eq due purged_attachment_def without_files_def)
qed

text \<open>
  One address blocks a tenant's purges for good. When a case that is not itself
  due bears the address a due case would be redacted to, the purge fails and the database keeps
  every due case with its data; but the attachment files of all due cases are already gone.
\<close>

lemma purge_blocked_by_address:
  assumes "keys_valid d" "db_ok d" "cx_db_up cx"
    and "r \<in> set (due_cases t (cx_now cx) d)" "q \<in> set (candidate_cases d)" "cr_tenant_id q = t"
    and "q \<notin> set (due_cases t (cx_now cx) d)" "cr_email q = redacted_email (cr_id r)"
  shows "purge_due cx t actor corr (open_session d) files =
    (Inl IntegrityError, without_files {a \<in> set (attachments d). purged_attachment t (cx_now cx) d a} files)"
proof (cases "flush_cases (cx_now cx) (sort (map cr_id (due_cases t (cx_now cx) d))) d")
  case (Inl e)
  with flush_cases_Inl [OF Inl] assms(3) show ?thesis by (simp add: purge_due_eq [OF assms(1,2)])
next
  case (Inr d')
  define rows where "rows = map (\<lambda>r. if r \<in> set (due_cases t (cx_now cx) d) then anonymize (cx_now cx) r else r) (candidate_cases d)"
  have "db_ok d'" and "candidate_cases d' = rows"
    using flush_cases_Inr [OF Inr] assms(2) unfolding set_sort anonymized_cases [OF assms(2)]
    by (auto simp: rows_def)
  then have u: "distinct (map (\<lambda>c. (cr_tenant_id c, cr_email c)) rows)"
    by (simp add: db_ok_def candidate_cases_ok_def)
  have rd: "r \<in> set (candidate_cases d)" "cr_tenant_id r = t" using due_casesD [OF assms(4)] by simp_all
  have "q \<in> set rows" "anonymize (cx_now cx) r \<in> set rows"
    using assms(4,5,7) rd(1) by (force simp: rows_def)+
  with u have "q = anonymize (cx_now cx) r"
    using assms(6,8) rd(2) by (auto simp: distinct_map inj_on_def)
  then have "cr_id q = cr_id r" by simp
  then have "q = r" using key_unique [OF db_ok_keys(1) [OF assms(2)] assms(5) rd(1)] by simp
  with assms(4,7) show ?thesis by simp
qed

lemma audits_ok:
  assumes "db_ok d" "distinct (map ae_id es)" "set (map ae_id es) \<inter> set (map ae_id (audit_events d)) = {}"
    and "\<forall>e \<in> set es. has_tenant d (ae_tenant_id e)"
  shows "db_ok (d\<lparr>audit_events := audit_events d @ es\<rparr>)"
  using assms by (auto simp: db_ok_def table_ok_defs list_all_iff)

text \<open>
  Where no case bears the redacted address of another, the server is up and
  the audit identifiers are fresh, a purge succeeds, whatever is due.
\<close>

lemma purge_succeeds:
  assumes "keys_valid d" "db_ok d" "cx_db_up cx"
    and "redaction_free (set (map cr_id (due_cases t (cx_now cx) d))) d"
    and "inj (cx_uuid cx)" "\<forall>k. cx_uuid cx k \<notin> set (map ae_id (audit_events d))"
  shows "\<exists>d' files'. purge_due cx t actor corr (open_session d) files =
    (Inr (length (due_cases t (cx_now cx) d), d'), files')"
proof -
  define ids where "ids = map cr_id (due_cases t (cx_now cx) d)"
  obtain d1 where d1: "flush_cases (cx_now cx) (sort ids) d = Inr d1"
    using flush_cases_ok [of d "sort ids" "cx_now cx"] assms(2,4) by (auto simp: ids_def)
  have ok1: "db_ok d1" and
    e1: "d1 = d\<lparr>candidate_cases := update_where (\<lambda>r. cr_id r \<in> set ids) (anonymize (cx_now cx)) (candidate_cases d)\<rparr>"
    using flush_cases_Inr [OF d1] assms(2) by (auto simp only: set_sort simp_thms)
  define d2 where "d2 = d1\<lparr>attachments := filter (\<lambda>a. \<not> purged_attachment t (cx_now cx) d a) (attachments d1)\<rparr>"
  have ok2: "db_ok d2" unfolding d2_def by (rule db_ok_delete_attachments [OF ok1])
  have "has_tenant d2 t" if ne: "ids \<noteq> []"
  proof -
    obtain r where "r \<in> set (due_cases t (cx_now cx) d)" using ne by (cases "due_cases t (cx_now cx) d") (auto simp: ids_def)
    then have "has_tenant d t" using due_casesD(1,2) db_ok_candidate_refs [OF assms(2)] by blast
    then show ?thesis by (simp add: d2_def e1)
  qed
  then have refs: "\<forall>e \<in> set (map (purged_event cx t actor corr) (List.enumerate 0 ids)). has_tenant d2 (ae_tenant_id e)"
    by (cases ids) (auto simp: purged_event_def)
  have keys: "map ae_id (map (purged_event cx t actor corr) (List.enumerate 0 ids)) = map (cx_uuid cx) [0..<length ids]"
    by (simp add: purged_event_def enumerate_eq_zip comp_def case_prod_unfold flip: map_map [of "cx_uuid cx" fst, unfolded comp_def])
  have "audit_events d2 = audit_events d" by (simp add: d2_def e1)
  then have ids: "db_ok (d2\<lparr>audit_events := audit_events d2 @ map (purged_event cx t actor corr) (List.enumerate 0 ids)\<rparr>)"
    using assms(5,6) refs by (intro audits_ok [OF ok2]) (auto simp only: keys, auto simp: distinct_map inj_on_def inj_def)
  have "purged_db cx t actor corr d =
      d2\<lparr>audit_events := audit_events d2 @ map (purged_event cx t actor corr) (List.enumerate 0 ids)\<rparr>"
    by (simp add: purged_db_eq d2_def e1 ids_def)
  with ids d1 assms(3) show ?thesis by (simp add: purge_due_eq [OF assms(1,2)] ids_def)
qed

section \<open>Holds and the batch run\<close>

text \<open>A hold carries the tenant of the case it protects.\<close>

definition holds_linked :: "db \<Rightarrow> bool" where
  "holds_linked d = (\<forall>h \<in> set (legal_holds d). \<forall>r \<in> set (candidate_cases d).
     cr_id r = lh_candidate_case_id h \<longrightarrow> lh_tenant_id h = cr_tenant_id r)"

lemma set_legal_hold_Inr:
  assumes "set_legal_hold cx t c held reason actor corr (open_session d) = Inr (u, d')"
  shows "\<exists>r \<in> set (candidate_cases d). cr_id r = c \<and> cr_tenant_id r = t" "db_ok d'"
    "candidate_cases d' = candidate_cases d" "retention_policies d' = retention_policies d"
    "attachments d' = attachments d"
    "legal_holds d' = (case List.find (\<lambda>h. lh_candidate_case_id h = c) (legal_holds d) of
         None \<Rightarrow> if held then legal_holds d @ [\<lparr>lh_candidate_case_id = c, lh_tenant_id = t,
             lh_reason = py_or reason ''Legal hold'', lh_created_by = actor, lh_created_at = cx_ts cx\<rparr>]
           else legal_holds d
       | Some h \<Rightarrow> if held then update_where (\<lambda>h. lh_candidate_case_id h = c)
             (\<lambda>h. h\<lparr>lh_reason := py_or reason (lh_reason h)\<rparr>) (legal_holds d)
           else if lh_tenant_id h = t then filter (\<lambda>h. lh_candidate_case_id h \<noteq> c) (legal_holds d)
           else legal_holds d)"
proof -
  let ?s = "retention_set_legal_hold cx t c held reason actor (open_session d)"
  have x: "retention_candidate_exists t c (open_session d)"
    using assms by (auto simp: set_legal_hold_def split: if_splits)
  then show "\<exists>r \<in> set (candidate_cases d). cr_id r = c \<and> cr_tenant_id r = t"
    by (auto simp: retention_candidate_exists_def dest!: find_SomeD)
  obtain e where "session_commit cx (session_add (Audit_Row e) ?s) = Inr d'"
    using assms x by (auto simp: set_legal_hold_def retention_record_def Let_def split: sum.splits)
  note com = session_commitD [OF this]
  then show "db_ok d'" by blast
  have d': "d' = db_insert_all (ss_db ?s) (ss_new ?s @ [Audit_Row e])" using com by simp
  show "candidate_cases d' = candidate_cases d" "retention_policies d' = retention_policies d"
    "attachments d' = attachments d"
    by (auto simp: d' retention_set_legal_hold_def Let_def split: option.splits)
  show "legal_holds d' = (case List.find (\<lambda>h. lh_candidate_case_id h = c) (legal_holds d) of
         None \<Rightarrow> if held then legal_holds d @ [\<lparr>lh_candidate_case_id = c, lh_tenant_id = t,
             lh_reason = py_or reason ''Legal hold'', lh_created_by = actor, lh_created_at = cx_ts cx\<rparr>]
           else legal_holds d
       | Some h \<Rightarrow> if held then update_where (\<lambda>h. lh_candidate_case_id h = c)
             (\<lambda>h. h\<lparr>lh_reason := py_or reason (lh_reason h)\<rparr>) (legal_holds d)
           else if lh_tenant_id h = t then filter (\<lambda>h. lh_candidate_case_id h \<noteq> c) (legal_holds d)
           else legal_holds d)"
    by (auto simp: d' retention_set_legal_hold_def Let_def split: option.splits)
qed

lemma hold_excludes:
  assumes "db_ok d" "h \<in> set (legal_holds d)" "lh_candidate_case_id h = c" "lh_tenant_id h = t"
    and "q \<in> set (candidate_cases d)" "cr_id q = c" "cr_tenant_id q = t"
  shows "c \<notin> set (map cr_id (due_cases t2 now d))"
proof
  assume "c \<in> set (map cr_id (due_cases t2 now d))"
  then obtain r where r: "r \<in> set (due_cases t2 now d)" "cr_id r = c" by auto
  then have "r = q"
    using key_unique [OF db_ok_keys(1) [OF assms(1)] _ assms(5)] due_casesD(1) assms(6) by metis
  then show False using due_casesD(2,5) [OF r(1)] assms(2-4,6,7) by auto
qed


lemma due_other_tenant:
  assumes "t \<noteq> t2" "db_ok d"
  shows "due_cases t now (purged_db cx t2 actor corr d) = due_cases t now d"
proof -
  let ?f = "\<lambda>r. if r \<in> set (due_cases t2 (cx_now cx) d) then anonymize (cx_now cx) r else r"
  have f: "?f r = r" if "cr_tenant_id r = t" for r using that assms(1) due_casesD(2) by auto
  have "retention_due t now days (purged_db cx t2 actor corr d) (?f r) \<longleftrightarrow> retention_due t now days d r" for days r
  proof (cases "cr_tenant_id r = t")
    case True
    then show ?thesis by (simp add: f retention_due_def purged_db_eq)
  qed (simp add: retention_due_def)
  then have "filter (retention_due t now days (purged_db cx t2 actor corr d)) (map ?f (candidate_cases d)) =
      map ?f (filter (retention_due t now days d) (candidate_cases d))" for days
    by (simp add: filter_map comp_def)
  also have "\<dots> days = filter (retention_due t now days d) (candidate_cases d)" for days
    by (intro map_idI f) (simp add: retention_due_def)
  finally have "filter (retention_due t now days (purged_db cx t2 actor corr d)) (candidate_cases (purged_db cx t2 actor corr d)) =
      filter (retention_due t now days d) (candidate_cases d)" for days
    by (simp add: purged_db_cases [OF assms(2)])
  then show ?thesis by (auto simp: due_cases_def purged_db_eq split: option.splits)
qed

lemma due_mono: "now \<le> now' \<Longrightarrow> set (due_cases t now d) \<subseteq> set (due_cases t now' d)"
  by (auto simp: due_cases_def retention_due_def split: option.splits)

lemma keys_valid_purged: "keys_valid d \<Longrightarrow> keys_valid (purged_db cx t actor corr d)"
  by (simp add: purged_db_eq keys_valid_def)

lemma purge_tenants_policies:
  assumes "purge_tenants cxs corr k ts d files n = (res, d', files')" "keys_valid d" "db_ok d"
  shows "retention_policies d' = retention_policies d \<and> keys_valid d' \<and> db_ok d' \<and>
    (\<forall>t. t \<notin> set ts \<longrightarrow> filter (\<lambda>r. cr_tenant_id r = t) (candidate_cases d') = filter (\<lambda>r. cr_tenant_id r = t) (candidate_cases d) \<and>
      (\<forall>now. due_cases t now d' = due_cases t now d))"
  using assms
proof (induction ts arbitrary: k d files n)
  case (Cons u ts)
  show ?case
  proof (cases "fst (purge_due (cxs k) u ''system:retention'' (corr k) (open_session d) files)")
    case (Inl e)
    with Cons.prems show ?thesis by (auto split: prod.splits)
  next
    case (Inr md)
    obtain m d1 f where p: "purge_due (cxs k) u ''system:retention'' (corr k) (open_session d) files = (Inr (m, d1), f)"
      using Inr by (metis prod.collapse)
    note r = purge_due_Inr [OF Cons.prems(2,3) p]
    have "purge_tenants cxs corr (Suc k) ts d1 f (n + m) = (res, d', files')"
      using Cons.prems(1) by (simp add: p)
    note ih = Cons.IH [OF this keys_valid_purged [OF Cons.prems(2), of "cxs k" u "''system:retention''" "corr k", folded r(2)] r(3)]
    have "retention_policies d1 = retention_policies d" by (simp add: r(2) purged_db_eq)
    moreover have "due_cases t now d1 = due_cases t now d" if "t \<noteq> u" for t now
      unfolding r(2) by (rule due_other_tenant [OF that Cons.prems(3)])
    moreover have "filter (\<lambda>r. cr_tenant_id r = t) (candidate_cases d1) = filter (\<lambda>r. cr_tenant_id r = t) (candidate_cases d)"
      if "t \<noteq> u" for t
      using that due_casesD(2) unfolding r(2) purged_db_cases [OF Cons.prems(3)] filter_map comp_def
      by (intro map_idI [THEN trans] filter_cong) auto
    ultimately show ?thesis using ih by auto
  qed
qed auto

text \<open>
  A run only reaches the first tenants. Tenants beyond the batch (the first
  \<open>batch_size\<close> in the order of their ids) keep every case as it is, and since a run leaves the
  policies alone the next run selects the same tenants again: theirs are never purged.
\<close>

lemma worker_starves_later_tenants:
  assumes "keys_valid d" "db_ok d" "t \<notin> set (policy_tenant_ids batch_size d)"
    and "run_retention_worker cxs corr batch_size d files = (res, d', files')"
  shows "filter (\<lambda>r. cr_tenant_id r = t) (candidate_cases d') = filter (\<lambda>r. cr_tenant_id r = t) (candidate_cases d) \<and>
    policy_tenant_ids batch_size d' = policy_tenant_ids batch_size d"
  using purge_tenants_policies [OF assms(4) [unfolded run_retention_worker_def] assms(1,2)] assms(3)
  by (simp add: policy_tenant_ids_def)

lemma purge_tenants_done:
  assumes "purge_tenants cxs corr k ts d files n = (Inr m, d', files')" "keys_valid d" "db_ok d" "distinct ts"
    and "t \<in> set ts" "\<And>j. now \<le> cx_now (cxs j)"
  shows "due_cases t now d' = []"
  using assms(1-5)
proof (induction ts arbitrary: k d files n)
  case (Cons u ts)
  obtain l d1 f where p: "purge_due (cxs k) u ''system:retention'' (corr k) (open_session d) files = (Inr (l, d1), f)"
    and rest: "purge_tenants cxs corr (Suc k) ts d1 f (n + l) = (Inr m, d', files')"
    using Cons.prems(1) by (auto split: prod.splits sum.splits)
  note r = purge_due_Inr [OF Cons.prems(2,3) p]
  have kv: "keys_valid d1" unfolding r(2) by (rule keys_valid_purged [OF Cons.prems(2)])
  show ?case
  proof (cases "t = u")
    case True
    then have "due_cases t now d1 = []"
      using due_mono [OF assms(6), of t d1 k] due_after_purge [OF Cons.prems(3)] by (simp add: r(2))
    then show ?thesis using purge_tenants_policies [OF rest kv r(3)] Cons.prems(4) True by simp
  next
    case False
    then show ?thesis using Cons.IH [OF rest kv r(3)] Cons.prems(4,5) by simp
  qed
qed simp

text \<open>
  A run that ends without an exception leaves no case of the tenants of its
  batch due at the time it began.
\<close>

lemma worker_purges_batch:
  assumes "keys_valid d" "db_ok d" "t \<in> set (policy_tenant_ids batch_size d)"
    and "run_retention_worker cxs corr batch_size d files = (Inr m, d', files')"
    and "\<And>j. now \<le> cx_now (cxs j)"
  shows "due_cases t now d' = []"
proof (rule purge_tenants_done [OF assms(4) [unfolded run_retention_worker_def] assms(1,2) _ assms(3,5)])
  show "distinct (policy_tenant_ids batch_size d)"
    using db_ok_keys [OF assms(2)] by (simp add: policy_tenant_ids_def)
qed

section \<open>The theorems on a concrete tenant\<close>

text \<open>
  The sample tenant with a policy of one day, a case \<open>c4\<close> rejected at the epoch with one attachment,
  and a live case \<open>c5\<close> with an arbitrary address.
\<close>

definition sample_rejected :: candidate_row where
  "sample_rejected = (sample_case ''c4'' ''w'' ''rejected'' 2)\<lparr>cr_terminal_at := Some 0\<rparr>"

definition sample_file_row :: attachment_row where
  "sample_file_row = \<lparr>at_id = ''f'', at_tenant_id = ''t'', at_candidate_case_id = ''c4'', at_document_type = ''resume'',
     at_original_filename = ''cv.pdf'', at_content_type = pdf_type, at_size_bytes = 6, at_sha256 = ''%PDF-1'',
     at_storage_key = sample_key, at_created_by = ''r'', at_created_at = 0\<rparr>"

definition sample_retention_db :: "string \<Rightarrow> db" where
  "sample_retention_db mail = db_insert_all sample_db
     [Candidate_Row sample_rejected, Candidate_Row (sample_case ''c5'' mail ''applied'' 1),
      Policy_Row \<lparr>rp_tenant_id = ''t'', rp_retention_days = 1, rp_updated_at = 0\<rparr>, Attachment_Row sample_file_row]"

definition sample_retention_ctx :: ctx where
  "sample_retention_ctx = \<lparr>cx_uuid = (\<lambda>k. replicate k (CHR ''n'')), cx_now = 10 * microseconds_per_day,
     cx_ts = 10 * microseconds_per_day, cx_db_up = True\<rparr>"

lemma sample_rejected_simps [simp]:
  "cr_id sample_rejected = ''c4''" "cr_tenant_id sample_rejected = ''t''" "cr_email sample_rejected = ''w''"
  "cr_stage sample_rejected = ''rejected''" "cr_terminal_at sample_rejected = Some 0"
  "cr_anonymized_at sample_rejected = None" "cr_requisition_id sample_rejected = ''q''"
  "cr_created_by sample_rejected = ''r''"
  by (simp_all add: sample_rejected_def sample_case_def)

lemma sample_retention_tables [simp]:
  "candidate_cases (sample_retention_db m) = [sample_case ''c1'' ''x'' ''applied'' 1,
     sample_case ''c2'' ''y'' ''interviewing'' 3, sample_case ''c3'' ''z'' ''offer_pending_approval'' 4,
     sample_rejected, sample_case ''c5'' m ''applied'' 1]"
  "attachments (sample_retention_db m) = [sample_file_row]" "legal_holds (sample_retention_db m) = []"
  "audit_events (sample_retention_db m) = []"
  "retention_policies (sample_retention_db m) = [\<lparr>rp_tenant_id = ''t'', rp_retention_days = 1, rp_updated_at = 0\<rparr>]"
  by (simp_all add: sample_retention_db_def)

lemma sample_retention_ok: "m \<notin> {''w'', ''x'', ''y'', ''z''} \<Longrightarrow> db_ok (sample_retention_db m)"
  unfolding sample_retention_db_def
  by (intro db_insert_all_ok) (simp_all add: sample_file_row_def)

lemma sample_retention_keys: "keys_valid (sample_retention_db m)"
  using sample_key_valid by (simp add: keys_valid_def sample_file_row_def sample_env_def)

lemma sample_due: "due_cases ''t'' (10 * microseconds_per_day) (sample_retention_db m) = [sample_rejected]"
  by (simp add: due_cases_def retention_due_def TERMINAL_STAGES_def microseconds_per_day_def)

lemma sample_ctx_retention [simp]:
  "cx_now sample_retention_ctx = 10 * microseconds_per_day" "cx_db_up sample_retention_ctx"
  "cx_uuid sample_retention_ctx = (\<lambda>k. replicate k (CHR ''n''))"
  by (simp_all add: sample_retention_ctx_def)

lemma sample_purge_run:
  "\<exists>d' files'. purge_due sample_retention_ctx ''t'' actor ''k'' (open_session (sample_retention_db ''u'')) files =
    (Inr (1, d'), files')"
proof -
  have "inj (\<lambda>k. replicate k (CHR ''n''))" by (rule injI) (metis length_replicate)
  moreover have "redaction_free {''c4''} (sample_retention_db ''u'')" by (simp add: redaction_free_def redacted_email_def)
  ultimately show ?thesis
    using purge_succeeds [OF sample_retention_keys [of "''u''"] sample_retention_ok [of "''u''"], of sample_retention_ctx "''t''" actor "''k''" files]
    by (simp add: sample_due)
qed

theorem purge_result_witness:
  "\<exists>d' :: db. map cr_first_name (filter (\<lambda>r. cr_id r = ''c4'') (candidate_cases d')) = [''Redacted''] \<and> attachments d' = []"
proof -
  obtain d' f' where p: "purge_due sample_retention_ctx ''t'' ''r'' ''k'' (open_session (sample_retention_db ''u'')) Map.empty =
    (Inr (1, d'), f')" using sample_purge_run by blast
  have n: "sample_case ''c1'' ''x'' ''applied'' 1 \<noteq> sample_rejected" "sample_case ''c2'' ''y'' ''interviewing'' 3 \<noteq> sample_rejected"
    "sample_case ''c3'' ''z'' ''offer_pending_approval'' 4 \<noteq> sample_rejected" "sample_case ''c5'' ''u'' ''applied'' 1 \<noteq> sample_rejected"
    by (simp_all add: sample_case_def sample_rejected_def)
  have "purged_attachment ''t'' (10 * microseconds_per_day) (sample_retention_db ''u'') sample_file_row"
    by (simp add: purged_attachment_def sample_due) (simp add: sample_file_row_def)
  moreover have "cr_first_name (anonymize (10 * microseconds_per_day) sample_rejected) = ''Redacted''" by (simp add: anonymize_def)
  ultimately have "map cr_first_name (filter (\<lambda>r. cr_id r = ''c4'') (candidate_cases d')) = [''Redacted''] \<and> attachments d' = []"
    using purge_result [OF sample_retention_keys sample_retention_ok p] n by (simp add: sample_due Let_def)
  then show ?thesis ..
qed

lemma purge_blocked_by_address_witness:
  "fst (purge_due sample_retention_ctx ''t'' ''r'' ''k'' (open_session (sample_retention_db (redacted_email ''c4''))) Map.empty) =
    Inl IntegrityError"
proof -
  have "redacted_email ''c4'' \<notin> {''w'', ''x'', ''y'', ''z''}" by (simp add: redacted_email_def)
  note ok = sample_retention_ok [OF this]
  have "sample_case ''c5'' (redacted_email ''c4'') ''applied'' 1 \<noteq> sample_rejected"
    by (simp add: sample_case_def sample_rejected_def)
  then show ?thesis
    by (subst purge_blocked_by_address [OF sample_retention_keys ok, of _ sample_rejected _
        "sample_case ''c5'' (redacted_email ''c4'') ''applied'' 1"]) (simp_all add: sample_due)
qed

definition sample_hold_rows :: "string \<Rightarrow> row list" where
  "sample_hold_rows corr = [Hold_Row \<lparr>lh_candidate_case_id = ''c4'', lh_tenant_id = ''t'', lh_reason = ''Legal hold'',
     lh_created_by = ''r'', lh_created_at = cx_ts sample_ctx\<rparr>, Audit_Row \<lparr>ae_id = ''n0'', ae_tenant_id = ''t'',
     ae_actor_id = ''r'', ae_action = ''candidate_case.legal_hold_set'', ae_aggregate_type = ''candidate_case'',
     ae_aggregate_id = ''c4'', ae_correlation_id = corr, ae_metadata = [], ae_created_at = cx_ts sample_ctx\<rparr>]"

lemma sample_hold_run:
  "set_legal_hold sample_ctx ''t'' ''c4'' True None ''r'' corr (open_session (sample_retention_db ''u'')) =
    Inr ((), db_insert_all (sample_retention_db ''u'') (sample_hold_rows corr))"
proof -
  have "rows_ok (sample_retention_db ''u'') (sample_hold_rows corr)" by (simp add: sample_retention_db_def sample_hold_rows_def)
  then have "session_commit sample_ctx \<lparr>ss_db = sample_retention_db ''u'', ss_new = sample_hold_rows corr\<rparr> =
      Inr (db_insert_all (sample_retention_db ''u'') (sample_hold_rows corr))"
    using session_commit_rows [of "\<lparr>ss_db = sample_retention_db ''u'', ss_new = sample_hold_rows corr\<rparr>" sample_ctx]
      sample_retention_ok [of "''u''"]
    by (simp del: db_insert_all_simps rows_ok.simps)
  then show ?thesis
    by (simp add: set_legal_hold_def retention_candidate_exists_def retention_set_legal_hold_def retention_record_def
        session_add_def open_session_def py_or_def sample_hold_rows_def del: db_insert_all_simps)
qed


text \<open>A second tenant whose policy and rejected case are as old as the first one's.\<close>

definition sample_other :: candidate_row where
  "sample_other = sample_rejected\<lparr>cr_id := ''c9'', cr_tenant_id := ''u''\<rparr>"

definition sample_two_tenants :: db where
  "sample_two_tenants = db_insert_all (sample_retention_db ''u'')
     [Tenant_Row \<lparr>tn_id = ''u'', tn_name = ''U'', tn_slug = ''u'', tn_created_at = 0\<rparr>, Candidate_Row sample_other,
      Policy_Row \<lparr>rp_tenant_id = ''u'', rp_retention_days = 1, rp_updated_at = 0\<rparr>]"

lemma sample_two_tenants_ok: "db_ok sample_two_tenants"
proof -
  have "has_tenant (sample_retention_db ''u'') ''t''" "\<not> has_tenant (sample_retention_db ''u'') ''u''"
    "''u'' \<notin> set (map tn_slug (tenants (sample_retention_db ''u'')))"
    "has_requisition (sample_retention_db ''u'') ''q''" "has_user (sample_retention_db ''u'') ''r''"
    by (simp_all add: sample_retention_db_def)
  then show ?thesis
    unfolding sample_two_tenants_def using sample_retention_ok [of "''u''"]
    by (intro db_insert_all_ok) (simp_all add: sample_other_def)
qed

lemma worker_starves_later_tenants_witness:
  "due_cases ''u'' (10 * microseconds_per_day) sample_two_tenants = [sample_other] \<and>
   filter (\<lambda>r. cr_tenant_id r = ''u'') (candidate_cases (fst (snd
     (run_retention_worker (\<lambda>_. sample_retention_ctx) (\<lambda>_. ''k'') 1 sample_two_tenants Map.empty)))) = [sample_other]"
proof -
  have c: "candidate_cases sample_two_tenants = candidate_cases (sample_retention_db ''u'') @ [sample_other]"
    and p: "map rp_tenant_id (retention_policies sample_two_tenants) = [''t'', ''u'']"
    "List.find (\<lambda>p. rp_tenant_id p = ''u'') (retention_policies sample_two_tenants) =
      Some \<lparr>rp_tenant_id = ''u'', rp_retention_days = 1, rp_updated_at = 0\<rparr>"
    and h: "legal_holds sample_two_tenants = []"
    by (simp_all add: sample_two_tenants_def)
  have o: "cr_tenant_id sample_other = ''u''" "cr_stage sample_other = ''rejected''" "cr_anonymized_at sample_other = None"
    "cr_terminal_at sample_other = Some 0" by (simp_all add: sample_other_def)
  have "keys_valid sample_two_tenants"
    using sample_retention_keys [of "''u''"] by (simp add: keys_valid_def sample_two_tenants_def)
  moreover have "''u'' \<notin> set (policy_tenant_ids 1 sample_two_tenants)" by (simp add: policy_tenant_ids_def p)
  moreover obtain res d' f' where
    w: "run_retention_worker (\<lambda>_. sample_retention_ctx) (\<lambda>_. ''k'') 1 sample_two_tenants Map.empty = (res, d', f')"
    by (metis prod.collapse)
  ultimately have "filter (\<lambda>r. cr_tenant_id r = ''u'') (candidate_cases (fst (snd
      (run_retention_worker (\<lambda>_. sample_retention_ctx) (\<lambda>_. ''k'') 1 sample_two_tenants Map.empty)))) = [sample_other]"
    using worker_starves_later_tenants [OF _ sample_two_tenants_ok _ w] by (simp add: c o w)
  moreover have "due_cases ''u'' (10 * microseconds_per_day) sample_two_tenants = [sample_other]"
    by (simp add: due_cases_def p c h retention_due_def o TERMINAL_STAGES_def microseconds_per_day_def)
  ultimately show ?thesis by blast
qed

end
