(* ===== verification/Calendar.thy ===== *)
theory Calendar
  imports Samples Formatting
begin

text \<open>
  The calendar module: the subscription service of \<open>calendar/application/calendar_subscription.py\<close>,
  its repository \<open>calendar/infrastructure/sqlalchemy_repository.py\<close> and the feed's text of
  \<open>calendar/application/icalendar.py\<close>.

  SHA-256 and the random tokens are arguments: \<open>ke_token\<close> is what \<open>token_urlsafe(32)\<close> answers and
  \<open>ke_id\<close> what \<open>token_urlsafe(18)\<close> does.
\<close>

section \<open>The repository\<close>

record calendar_subscription =
  cu_id :: string
  cu_tenant_id :: string
  cu_interviewer_id :: string
  cu_token_hash :: string
  cu_created_by :: string
  cu_created_at :: time
  cu_expires_at :: time

record calendar_event =
  ce_id :: string
  ce_scheduled_at :: time

definition calendar_interviewer_exists :: "string \<Rightarrow> string \<Rightarrow> session \<Rightarrow> bool" where
  "calendar_interviewer_exists tenant_id interviewer_id s =
    (List.find (\<lambda>m. mb_tenant_id m = tenant_id \<and> mb_user_id m = interviewer_id \<and> mb_role m = ''interviewer'')
       (memberships (ss_db s)) \<noteq> None)"

definition calendar_add :: "calendar_subscription \<Rightarrow> session \<Rightarrow> session" where
  "calendar_add u s = session_add (Calendar_Row
     \<lparr>cs_id = cu_id u, cs_tenant_id = cu_tenant_id u, cs_interviewer_id = cu_interviewer_id u,
      cs_token_hash = cu_token_hash u, cs_created_by = cu_created_by u, cs_created_at = cu_created_at u,
      cs_expires_at = cu_expires_at u, cs_revoked_at = None\<rparr>) s"

definition calendar_of_row :: "calendar_row \<Rightarrow> calendar_subscription" where
  "calendar_of_row r =
    \<lparr>cu_id = cs_id r, cu_tenant_id = cs_tenant_id r, cu_interviewer_id = cs_interviewer_id r,
     cu_token_hash = cs_token_hash r, cu_created_by = cs_created_by r, cu_created_at = cs_created_at r,
     cu_expires_at = cs_expires_at r\<rparr>"

definition calendar_get_owned :: "string \<Rightarrow> string \<Rightarrow> session \<Rightarrow> calendar_subscription option" where
  "calendar_get_owned subscription_id tenant_id s =
    map_option calendar_of_row (List.find (\<lambda>r. cs_id r = subscription_id \<and> cs_tenant_id r = tenant_id \<and>
      cs_revoked_at r = None) (calendar_subscriptions (ss_db s)))"

text \<open>\<open>session.get\<close> by primary key; the row it finds is rewritten at the next flush.\<close>

definition calendar_revoke :: "ctx \<Rightarrow> calendar_subscription \<Rightarrow> session \<Rightarrow> session" where
  "calendar_revoke cx u s = s\<lparr>ss_db := (ss_db s)\<lparr>calendar_subscriptions :=
     update_where (\<lambda>r. cs_id r = cu_id u) (\<lambda>r. r\<lparr>cs_revoked_at := Some (cx_now cx)\<rparr>)
       (calendar_subscriptions (ss_db s))\<rparr>\<rparr>"

definition calendar_get_active :: "string \<Rightarrow> time \<Rightarrow> session \<Rightarrow> calendar_subscription option" where
  "calendar_get_active token_hash now s =
    map_option calendar_of_row (List.find (\<lambda>r. cs_token_hash r = token_hash \<and> cs_revoked_at r = None \<and>
      cs_expires_at r > now) (calendar_subscriptions (ss_db s)))"

definition events_for_interviewer :: "string \<Rightarrow> string \<Rightarrow> session \<Rightarrow> calendar_event list" where
  "events_for_interviewer tenant_id interviewer_id s =
    map (\<lambda>r. \<lparr>ce_id = iv_id r, ce_scheduled_at = iv_scheduled_at r\<rparr>)
      (sort_key iv_scheduled_at (filter (\<lambda>r. iv_tenant_id r = tenant_id \<and> iv_interviewer_id r = interviewer_id)
        (interviews (ss_db s))))"

definition calendar_audit ::
  "ctx \<Rightarrow> string \<Rightarrow> string \<Rightarrow> string \<Rightarrow> string \<Rightarrow> string \<Rightarrow> json_object \<Rightarrow> session \<Rightarrow> session" where
  "calendar_audit cx new_id tenant_id actor_id action aggregate_id metadata s =
    session_add (Audit_Row
      \<lparr>ae_id = new_id, ae_tenant_id = tenant_id, ae_actor_id = actor_id, ae_action = action,
       ae_aggregate_type = ''calendar_subscription'', ae_aggregate_id = aggregate_id,
       ae_correlation_id = aggregate_id, ae_metadata = metadata, ae_created_at = cx_ts cx\<rparr>) s"

section \<open>The service\<close>

record calendar_env =
  ke_lifetime_days :: int
  ke_sha256 :: "string \<Rightarrow> string"
  ke_token :: string
  ke_id :: string

definition create_subscription ::
  "ctx \<Rightarrow> calendar_env \<Rightarrow> string \<Rightarrow> string \<Rightarrow> string \<Rightarrow> session \<Rightarrow> exn + (calendar_subscription \<times> string) \<times> db" where
  "create_subscription cx k tenant_id interviewer_id actor_id s =
    (if \<not> calendar_interviewer_exists tenant_id interviewer_id s
     then Inl (CalendarSubscriptionNotFoundError interviewer_id)
     else
       let now = cx_now cx;
           u = \<lparr>cu_id = ke_id k, cu_tenant_id = tenant_id, cu_interviewer_id = interviewer_id,
             cu_token_hash = ke_sha256 k (ke_token k), cu_created_by = actor_id, cu_created_at = now,
             cu_expires_at = now + ke_lifetime_days k * (24 * 60 * 60 * 1000000)\<rparr>;
           s1 = calendar_add u s;
           s2 = calendar_audit cx (cx_uuid cx 0) tenant_id actor_id ''calendar_subscription.created'' (cu_id u)
                  [(''interviewer_id'', JStr interviewer_id), (''expires_at'', JStr (isoformat (cu_expires_at u)))] s1
       in case session_commit cx s2 of Inl e \<Rightarrow> Inl e | Inr d \<Rightarrow> Inr ((u, ke_token k), d))"

definition revoke_subscription ::
  "ctx \<Rightarrow> string \<Rightarrow> string \<Rightarrow> string \<Rightarrow> session \<Rightarrow> exn + unit \<times> db" where
  "revoke_subscription cx subscription_id tenant_id actor_id s =
    (case calendar_get_owned subscription_id tenant_id s of
       None \<Rightarrow> Inl (CalendarSubscriptionNotFoundError subscription_id)
     | Some u \<Rightarrow>
         let s1 = calendar_revoke cx u s;
             s2 = calendar_audit cx (cx_uuid cx 0) tenant_id actor_id ''calendar_subscription.revoked'' (cu_id u)
                    [(''interviewer_id'', JStr (cu_interviewer_id u))] s1
         in case session_commit cx s2 of Inl e \<Rightarrow> Inl e | Inr d \<Rightarrow> Inr ((), d))"

definition calendar_for_token ::
  "ctx \<Rightarrow> calendar_env \<Rightarrow> string \<Rightarrow> session \<Rightarrow> exn + calendar_subscription \<times> calendar_event list" where
  "calendar_for_token cx k token s =
    (case calendar_get_active (ke_sha256 k token) (cx_now cx) s of
       None \<Rightarrow> Inl (CalendarSubscriptionNotFoundError token)
     | Some u \<Rightarrow> Inr (u, events_for_interviewer (cu_tenant_id u) (cu_interviewer_id u) s))"

section \<open>The feed's text\<close>

definition crlf :: string where
  "crlf = [CHR 0x0D, CHR 0x0A]"

fun py_join :: "string \<Rightarrow> string list \<Rightarrow> string" where
  "py_join sep [] = []"
| "py_join sep [w] = w"
| "py_join sep (w # ws) = w @ sep @ py_join sep ws"

definition ical_event_lines :: "int \<Rightarrow> calendar_event \<Rightarrow> string list" where
  "ical_event_lines duration_minutes e =
    (let start = ce_scheduled_at e; finish = start + duration_minutes * (60 * 1000000)
     in [''BEGIN:VEVENT'', ''UID:'' @ ce_id e @ ''@talentflow'', ''DTSTAMP:'' @ stamp start,
         ''DTSTART:'' @ stamp start, ''DTEND:'' @ stamp finish, ''SUMMARY:TalentFlow interview'', ''END:VEVENT''])"

definition ical_header :: "string list" where
  "ical_header = [''BEGIN:VCALENDAR'', ''VERSION:2.0'', ''PRODID:-//TalentFlow//Interview Calendar//EN'',
     ''CALSCALE:GREGORIAN'', ''METHOD:PUBLISH'']"

definition render_icalendar :: "calendar_event list \<Rightarrow> int \<Rightarrow> string" where
  "render_icalendar events duration_minutes =
    py_join crlf (ical_header @ concat (map (ical_event_lines duration_minutes) events) @ [''END:VCALENDAR'']) @ crlf"

section \<open>Reading the feed back\<close>

fun split_crlf :: "string \<Rightarrow> string list" where
  "split_crlf [] = []"
| "split_crlf [c] = [[c]]"
| "split_crlf (c # d # cs) =
    (if c = CHR 0x0D \<and> d = CHR 0x0A then [] # split_crlf cs
     else (case split_crlf (d # cs) of [] \<Rightarrow> [[c]] | w # ws \<Rightarrow> (c # w) # ws))"

fun read_events :: "string list \<Rightarrow> (string \<times> time \<times> time) list" where
  "read_events (l # u # m # b # e # rest) =
    (if l = ''BEGIN:VEVENT''
     then (take (length u - 15) (drop 4 u), read_stamp (drop 8 b), read_stamp (drop 6 e)) # read_events rest
     else read_events (u # m # b # e # rest))"
| "read_events _ = []"

lemma py_join_lines: "ls \<noteq> [] \<Longrightarrow> py_join sep ls @ sep = concat (map (\<lambda>l. l @ sep) ls)"
  by (induction sep ls rule: py_join.induct) auto

lemma split_crlf_line: "CHR 0x0D \<notin> set l \<Longrightarrow> split_crlf (l @ crlf @ r) = l # split_crlf r"
proof (induction l)
  case (Cons c l)
  then show ?case by (cases l) (auto simp: crlf_def)
qed (simp add: crlf_def)

lemma split_crlf_lines: "\<forall>l \<in> set ls. CHR 0x0D \<notin> set l \<Longrightarrow> split_crlf (concat (map (\<lambda>l. l @ crlf) ls)) = ls"
  by (induction ls) (simp_all add: split_crlf_line)

definition whole_second :: "time \<Rightarrow> time" where
  "whole_second t = t div 1000000 * 1000000"

lemma read_event_lines:
  assumes "0 \<le> ce_scheduled_at e" "0 \<le> minutes"
  shows "read_events (ical_event_lines minutes e @ rest) =
    (ce_id e, whole_second (ce_scheduled_at e), whole_second (ce_scheduled_at e + minutes * 60000000)) #
      read_events (''SUMMARY:TalentFlow interview'' # ''END:VEVENT'' # rest)"
  using assms by (simp add: ical_event_lines_def Let_def read_stamp_stamp whole_second_def)

lemma read_tail: "read_events [''SUMMARY:TalentFlow interview'', ''END:VEVENT'', ''END:VCALENDAR''] = []"
  by simp

lemma read_next:
  "read_events (''SUMMARY:TalentFlow interview'' # ''END:VEVENT'' # ical_event_lines minutes e @ rest) =
    read_events (ical_event_lines minutes e @ rest)"
  by (simp add: ical_event_lines_def Let_def)

lemma read_all_events:
  assumes "\<forall>e \<in> set events. 0 \<le> ce_scheduled_at e" "0 \<le> minutes"
  shows "read_events (''SUMMARY:TalentFlow interview'' # ''END:VEVENT'' # concat (map (ical_event_lines minutes) events) @ [''END:VCALENDAR''])
    = map (\<lambda>e. (ce_id e, whole_second (ce_scheduled_at e), whole_second (ce_scheduled_at e + minutes * 60000000))) events"
  using assms by (induction events) (simp_all add: read_next read_event_lines)

lemma read_header:
  "read_events (ical_header @ concat (map (ical_event_lines minutes) events) @ [''END:VCALENDAR'']) =
    read_events (''SUMMARY:TalentFlow interview'' # ''END:VEVENT'' # concat (map (ical_event_lines minutes) events) @ [''END:VCALENDAR''])"
  by (cases events) (simp_all add: ical_header_def ical_event_lines_def Let_def)

lemma event_lines_plain:
  assumes "0 \<le> ce_scheduled_at e" "0 \<le> minutes" "CHR 0x0D \<notin> set (ce_id e)"
  shows "\<forall>l \<in> set (ical_event_lines minutes e). CHR 0x0D \<notin> set l"
proof -
  have "CHR 0x0D \<notin> set (stamp t)" if "0 \<le> t" for t using stamp_range [OF that] by auto
  from this [OF assms(1)] this [of "ce_scheduled_at e + minutes * 60000000"] assms(1,2)
  have "CHR 0x0D \<notin> set (stamp (ce_scheduled_at e))" "CHR 0x0D \<notin> set (stamp (ce_scheduled_at e + minutes * 60000000))"
    by simp_all
  with assms(3) show ?thesis by (simp add: ical_event_lines_def Let_def)
qed

text \<open>
  Claim C33 (round trip): the feed's text carries the interviews. Split into its lines and read back,
  it gives for every event, in order, its id and the seconds at which it starts and ends.
\<close>

theorem icalendar_roundtrip:
  assumes "\<forall>e \<in> set events. 0 \<le> ce_scheduled_at e \<and> CHR 0x0D \<notin> set (ce_id e)" "0 \<le> minutes"
  shows "read_events (split_crlf (render_icalendar events minutes)) =
    map (\<lambda>e. (ce_id e, whole_second (ce_scheduled_at e), whole_second (ce_scheduled_at e + minutes * 60000000))) events"
proof -
  let ?lines = "ical_header @ concat (map (ical_event_lines minutes) events) @ [''END:VCALENDAR'']"
  have "\<forall>l \<in> set ical_header. CHR 0x0D \<notin> set l" by (simp add: ical_header_def)
  moreover have "\<forall>l \<in> set (concat (map (ical_event_lines minutes) events)). CHR 0x0D \<notin> set l"
    using event_lines_plain assms by auto
  ultimately have "\<forall>l \<in> set ?lines. CHR 0x0D \<notin> set l" unfolding set_append by (auto simp del: set_concat)
  then have "split_crlf (concat (map (\<lambda>l. l @ crlf) ?lines)) = ?lines" by (rule split_crlf_lines)
  moreover have "render_icalendar events minutes = concat (map (\<lambda>l. l @ crlf) ?lines)"
    unfolding render_icalendar_def by (rule py_join_lines) simp
  ultimately have "split_crlf (render_icalendar events minutes) = ?lines" by (simp only:)
  moreover have "\<forall>e \<in> set events. 0 \<le> ce_scheduled_at e" using assms(1) by blast
  ultimately show ?thesis unfolding read_header read_all_events [OF _ assms(2)]
    by (simp only: read_header read_all_events [OF _ assms(2)])
qed

theorem icalendar_roundtrip_witness:
  "read_events (split_crlf (render_icalendar [\<lparr>ce_id = ''i'', ce_scheduled_at = 7500000\<rparr>] 1)) = [(''i'', 7000000, 67000000)]"
  by (subst icalendar_roundtrip) (simp_all add: whole_second_def)

section \<open>The life of a subscription\<close>

lemma calendar_rows_unique:
  assumes "db_ok d" "r \<in> set (calendar_subscriptions d)"
  shows "calendar_get_active (cs_token_hash r) now (open_session d) =
    (if cs_revoked_at r = None \<and> now < cs_expires_at r then Some (calendar_of_row r) else None)"
proof -
  have k: "distinct (map cs_token_hash (calendar_subscriptions d))"
    using assms(1) by (simp add: db_ok_def calendar_subscriptions_ok_def)
  have "List.find (\<lambda>q. cs_token_hash q = cs_token_hash r \<and> cs_revoked_at q = None \<and> now < cs_expires_at q)
      (calendar_subscriptions d) = (if cs_revoked_at r = None \<and> now < cs_expires_at r then Some r else None)"
  proof (cases "cs_revoked_at r = None \<and> now < cs_expires_at r")
    case True
    with find_key [OF k assms(2) refl, of "\<lambda>q. cs_revoked_at q = None \<and> now < cs_expires_at q"] show ?thesis by simp
  next
    case False
    have "q = r" if "q \<in> set (calendar_subscriptions d)" "cs_token_hash q = cs_token_hash r" for q
      using key_unique [OF k that(1) assms(2) that(2)] .
    with False show ?thesis by (auto simp: find_None)
  qed
  then show ?thesis by (simp add: calendar_get_active_def)
qed

definition subscription_row :: "calendar_subscription \<Rightarrow> calendar_row" where
  "subscription_row u = \<lparr>cs_id = cu_id u, cs_tenant_id = cu_tenant_id u, cs_interviewer_id = cu_interviewer_id u,
     cs_token_hash = cu_token_hash u, cs_created_by = cu_created_by u, cs_created_at = cu_created_at u,
     cs_expires_at = cu_expires_at u, cs_revoked_at = None\<rparr>"

lemma subscription_row_simps [simp]:
  "cs_id (subscription_row u) = cu_id u" "cs_tenant_id (subscription_row u) = cu_tenant_id u"
  "cs_interviewer_id (subscription_row u) = cu_interviewer_id u" "cs_token_hash (subscription_row u) = cu_token_hash u"
  "cs_expires_at (subscription_row u) = cu_expires_at u" "cs_revoked_at (subscription_row u) = None"
  "cs_created_by (subscription_row u) = cu_created_by u" "calendar_of_row (subscription_row u) = u"
  by (simp_all add: subscription_row_def calendar_of_row_def)

lemma create_subscription_Inr:
  assumes "create_subscription cx k t i a (open_session d) = Inr ((u, tok), d')"
  shows "\<exists>m \<in> set (memberships d). mb_tenant_id m = t \<and> mb_user_id m = i \<and> mb_role m = ''interviewer''"
    "tok = ke_token k" "cu_token_hash u = ke_sha256 k (ke_token k)" "cu_tenant_id u = t" "cu_interviewer_id u = i"
    "cu_expires_at u = cx_now cx + ke_lifetime_days k * (24 * 60 * 60 * 1000000)"
    "calendar_subscriptions d' = calendar_subscriptions d @ [subscription_row u]" "db_ok d'" "cu_created_by u = a"
    "\<exists>e. d' = d\<lparr>calendar_subscriptions := calendar_subscriptions d @ [subscription_row u], audit_events := audit_events d @ [e]\<rparr>
      \<and> ae_tenant_id e = t"
proof -
  have m: "calendar_interviewer_exists t i (open_session d)"
    using assms by (auto simp: create_subscription_def split: if_splits)
  then show "\<exists>m \<in> set (memberships d). mb_tenant_id m = t \<and> mb_user_id m = i \<and> mb_role m = ''interviewer''"
    by (auto simp: calendar_interviewer_exists_def dest!: find_SomeD)
  from assms m show "tok = ke_token k" "cu_token_hash u = ke_sha256 k (ke_token k)" "cu_tenant_id u = t" "cu_interviewer_id u = i"
    "cu_expires_at u = cx_now cx + ke_lifetime_days k * (24 * 60 * 60 * 1000000)" "cu_created_by u = a"
    by (auto simp: create_subscription_def Let_def split: sum.splits)
  obtain e where "session_commit cx \<lparr>ss_db = d, ss_new = [Calendar_Row (subscription_row u), Audit_Row e]\<rparr> = Inr d'"
    and e: "ae_tenant_id e = t"
    using assms m by (auto simp: create_subscription_def Let_def calendar_add_def calendar_audit_def subscription_row_def
        session_add_def open_session_def split: sum.splits)
  note com = session_commitD [OF this(1)]
  then show "db_ok d'" "calendar_subscriptions d' = calendar_subscriptions d @ [subscription_row u]"
    "\<exists>e. d' = d\<lparr>calendar_subscriptions := calendar_subscriptions d @ [subscription_row u], audit_events := audit_events d @ [e]\<rparr>
      \<and> ae_tenant_id e = t"
    using e by auto
qed

lemma revoke_subscription_Inr:
  assumes "revoke_subscription cx i t b (open_session d) = Inr (x, d')"
  shows "\<exists>r \<in> set (calendar_subscriptions d). cs_id r = i \<and> cs_tenant_id r = t \<and> cs_revoked_at r = None"
    "calendar_subscriptions d' = update_where (\<lambda>r. cs_id r = i) (\<lambda>r. r\<lparr>cs_revoked_at := Some (cx_now cx)\<rparr>) (calendar_subscriptions d)"
    "db_ok d'"
    "\<exists>e. d' = d\<lparr>calendar_subscriptions := calendar_subscriptions d', audit_events := audit_events d @ [e]\<rparr> \<and> ae_tenant_id e = t"
proof -
  obtain r where r: "List.find (\<lambda>r. cs_id r = i \<and> cs_tenant_id r = t \<and> cs_revoked_at r = None) (calendar_subscriptions d) = Some r"
    using assms by (auto simp: revoke_subscription_def calendar_get_owned_def split: option.splits)
  from find_SomeD [OF r] show "\<exists>r \<in> set (calendar_subscriptions d). cs_id r = i \<and> cs_tenant_id r = t \<and> cs_revoked_at r = None" by blast
  have i: "cu_id (calendar_of_row r) = i" using find_SomeD [OF r] by (simp add: calendar_of_row_def)
  obtain e where "session_commit cx \<lparr>ss_db = d\<lparr>calendar_subscriptions := update_where (\<lambda>r. cs_id r = i)
      (\<lambda>r. r\<lparr>cs_revoked_at := Some (cx_now cx)\<rparr>) (calendar_subscriptions d)\<rparr>, ss_new = [Audit_Row e]\<rparr> = Inr d'"
    and e: "ae_tenant_id e = t"
    using assms i by (auto simp: revoke_subscription_def calendar_get_owned_def r Let_def calendar_revoke_def calendar_audit_def
        session_add_def open_session_def split: sum.splits)
  note com = session_commitD [OF this(1)]
  then show "db_ok d'" "calendar_subscriptions d' = update_where (\<lambda>r. cs_id r = i) (\<lambda>r. r\<lparr>cs_revoked_at := Some (cx_now cx)\<rparr>) (calendar_subscriptions d)"
    "\<exists>e. d' = d\<lparr>calendar_subscriptions := calendar_subscriptions d', audit_events := audit_events d @ [e]\<rparr> \<and> ae_tenant_id e = t"
    using e by auto
qed


definition sample_calendar_env :: calendar_env where
  "sample_calendar_env = \<lparr>ke_lifetime_days = 1, ke_sha256 = id, ke_token = ''tok'', ke_id = ''s''\<rparr>"

lemma sample_subscription_run:
  "\<exists>u d1. create_subscription sample_ctx sample_calendar_env ''t'' ''v'' ''r'' (open_session sample_db) = Inr ((u, ''tok''), d1)"
proof -
  let ?u = "\<lparr>cu_id = ''s'', cu_tenant_id = ''t'', cu_interviewer_id = ''v'', cu_token_hash = ''tok'', cu_created_by = ''r'',
    cu_created_at = cx_now sample_ctx, cu_expires_at = cx_now sample_ctx + 1 * (24 * 60 * 60 * 1000000)\<rparr>"
  let ?s = "calendar_audit sample_ctx ''n0'' ''t'' ''r'' ''calendar_subscription.created'' ''s''
    [(''interviewer_id'', JStr ''v''), (''expires_at'', JStr (isoformat (cu_expires_at ?u)))] (calendar_add ?u (open_session sample_db))"
  have "rows_ok (ss_db ?s) (ss_new ?s)" by (simp add: calendar_audit_def calendar_add_def)
  then obtain d1 where "session_commit sample_ctx ?s = Inr d1"
    using session_commit_rows [of ?s sample_ctx] by (simp add: calendar_audit_def calendar_add_def del: rows_ok.simps)
  moreover have "calendar_interviewer_exists ''t'' ''v'' (open_session sample_db)"
    by (simp add: calendar_interviewer_exists_def sample_db_def)
  ultimately show ?thesis
    by (simp add: create_subscription_def Let_def sample_calendar_env_def)
qed


end
