(* ===== verification/Commits.thy ===== *)
theory Commits
  imports Offer_Approval Interviews Organization Retention Calendar Delivery "HOL-Library.Sublist"
begin

text \<open>
  What every commit of the system keeps. The invariant \<open>well_kept\<close> joins the schema's constraints
  with what the code itself maintains beyond them; \<open>history\<close> says which tables only grow;
  \<open>board\<close> is the abstract workflow, stage and version of every case; \<open>others\<close> is the database
  without the rows of one tenant. Each handler that commits keeps the first, extends the second,
  makes at most one step of the third and leaves the fourth alone. The theory \<open>System\<close> composes them.
\<close>

section \<open>The invariant\<close>

text \<open>Versions start at 1, and the retention clock of a case runs exactly in the stages it counts.\<close>

definition case_rows_ok :: "db \<Rightarrow> bool" where
  "case_rows_ok d = list_all (\<lambda>r. 1 \<le> cr_version r \<and>
     (cr_terminal_at r \<noteq> None) = (cr_stage r \<in> TERMINAL_STAGES)) (candidate_cases d)"

definition case_owner :: "db \<Rightarrow> (string \<times> string) set" where
  "case_owner d = (\<lambda>r. (cr_id r, cr_tenant_id r)) ` set (candidate_cases d)"

definition attachments_linked :: "db \<Rightarrow> bool" where
  "attachments_linked d = list_all (\<lambda>a. valid_key (at_storage_key a) \<and>
     (at_candidate_case_id a, at_tenant_id a) \<in> case_owner d) (attachments d)"

definition cases_kept :: "db \<Rightarrow> bool" where
  "cases_kept d = (db_ok d \<and> stages_valid d \<and> case_rows_ok d)"

definition offers_kept :: "db \<Rightarrow> bool" where
  "offers_kept d = (offers_inv d \<and> outbox_lockstep d \<and> offers_linked d)"

definition links_kept :: "db \<Rightarrow> bool" where
  "links_kept d = (interviews_linked d \<and> feedbacks_linked d \<and> holds_linked d \<and> attachments_linked d)"

definition well_kept :: "db \<Rightarrow> bool" where
  "well_kept d = (cases_kept d \<and> offers_kept d \<and> links_kept d)"

lemma well_keptD:
  assumes "well_kept d"
  shows "db_ok d" "stages_valid d" "case_rows_ok d" "offers_inv d" "outbox_lockstep d" "offers_linked d"
    "interviews_linked d" "feedbacks_linked d" "holds_linked d" "attachments_linked d"
  using assms by (simp_all add: well_kept_def cases_kept_def offers_kept_def links_kept_def)

lemma attachments_linked_keys: "attachments_linked d \<Longrightarrow> keys_valid d"
  by (simp add: attachments_linked_def keys_valid_def list_all_iff)

lemma holds_linked_owner:
  assumes "db_ok d"
  shows "holds_linked d \<longleftrightarrow> (\<forall>h \<in> set (legal_holds d). (lh_candidate_case_id h, lh_tenant_id h) \<in> case_owner d)"
proof
  assume L: "holds_linked d"
  show "\<forall>h \<in> set (legal_holds d). (lh_candidate_case_id h, lh_tenant_id h) \<in> case_owner d"
  proof
    fix h assume h: "h \<in> set (legal_holds d)"
    then have "has_candidate d (lh_candidate_case_id h)"
      using assms by (simp add: db_ok_def legal_holds_ok_def list_all_iff)
    then obtain r where "r \<in> set (candidate_cases d)" "cr_id r = lh_candidate_case_id h" by auto
    with L h show "(lh_candidate_case_id h, lh_tenant_id h) \<in> case_owner d"
      unfolding holds_linked_def case_owner_def by (intro image_eqI [of _ _ r]) auto
  qed
next
  assume R: "\<forall>h \<in> set (legal_holds d). (lh_candidate_case_id h, lh_tenant_id h) \<in> case_owner d"
  show "holds_linked d"
    unfolding holds_linked_def
  proof (intro ballI impI)
    fix h r assume h: "h \<in> set (legal_holds d)" and r: "r \<in> set (candidate_cases d)" "cr_id r = lh_candidate_case_id h"
    obtain q where "q \<in> set (candidate_cases d)" "cr_id q = lh_candidate_case_id h" "cr_tenant_id q = lh_tenant_id h"
      using R h by (auto simp: case_owner_def)
    then show "lh_tenant_id h = cr_tenant_id r"
      using key_unique [OF db_ok_keys(1) [OF assms] r(1)] r(2) by metis
  qed
qed

lemma interviews_linked_owner:
  "interviews_linked d \<longleftrightarrow> (\<forall>i \<in> set (interviews d). (iv_candidate_case_id i, iv_tenant_id i) \<in> case_owner d \<and>
     (\<exists>m \<in> set (memberships d). mb_tenant_id m = iv_tenant_id i \<and> mb_user_id m = iv_interviewer_id i \<and>
       mb_role m = ''interviewer''))"
  by (force simp: interviews_linked_def list_all_iff list_ex_iff case_owner_def)

text \<open>The links only need the cases and the memberships they refer to, so they survive growth.\<close>

lemma links_kept_mono:
  assumes "links_kept d" "db_ok d" "db_ok d'" "case_owner d \<subseteq> case_owner d'"
    "set (memberships d) \<subseteq> set (memberships d')" "interviews d' = interviews d" "feedbacks d' = feedbacks d"
    "set (legal_holds d') \<subseteq> set (legal_holds d)" "set (attachments d') \<subseteq> set (attachments d)"
  shows "links_kept d'"
proof -
  have "interviews_linked d" using assms(1) by (simp add: links_kept_def)
  note i = this [unfolded interviews_linked_owner]
  have "interviews_linked d'"
    unfolding interviews_linked_owner assms(6)
  proof (intro ballI conjI)
    fix x assume x: "x \<in> set (interviews d)"
    show "(iv_candidate_case_id x, iv_tenant_id x) \<in> case_owner d'" using i x assms(4) by blast
    show "\<exists>m \<in> set (memberships d'). mb_tenant_id m = iv_tenant_id x \<and> mb_user_id m = iv_interviewer_id x \<and>
        mb_role m = ''interviewer''" 
    proof -
      obtain m where "m \<in> set (memberships d)" "mb_tenant_id m = iv_tenant_id x" "mb_user_id m = iv_interviewer_id x"
        "mb_role m = ''interviewer''" using bspec [OF i x] by (elim conjE bexE)
      with assms(5) show ?thesis by (intro bexI [of _ m]) auto
    qed
  qed
  moreover have "feedbacks_linked d'" using assms(1,6,7) by (simp add: links_kept_def feedbacks_linked_def)
  moreover have "holds_linked d'"
    using assms(1,4,8) unfolding links_kept_def holds_linked_owner [OF assms(2)] holds_linked_owner [OF assms(3)] by blast
  moreover have "attachments_linked d'"
    using assms(1,4,9) by (auto simp: links_kept_def attachments_linked_def list_all_iff)
  ultimately show ?thesis by (simp add: links_kept_def)
qed

lemma offers_kept_cong:
  assumes "offers_kept d" "offers d' = offers d" "approval_decisions d' = approval_decisions d"
    "map (\<lambda>e. (ob_tenant_id e, ob_topic e, ob_payload e)) (outbox_events d') =
     map (\<lambda>e. (ob_tenant_id e, ob_topic e, ob_payload e)) (outbox_events d)" "offers_linked d'"
  shows "offers_kept d'"
  using assms by (simp add: offers_kept_def offers_inv_def offer_state_def decision_history_def outbox_lockstep_def)

lemma cases_kept_cong:
  "cases_kept d \<Longrightarrow> db_ok d' \<Longrightarrow> candidate_cases d' = candidate_cases d \<Longrightarrow> cases_kept d'"
  by (simp add: cases_kept_def stages_valid_def case_rows_ok_def)

text \<open>A commit that touches none of the linked tables.\<close>

lemma well_kept_frame:
  assumes "well_kept d" "db_ok d'" "candidate_cases d' = candidate_cases d" "offers d' = offers d"
    "approval_decisions d' = approval_decisions d" "outbox_events d' = outbox_events d"
    "set (memberships d) \<subseteq> set (memberships d')" "interviews d' = interviews d" "feedbacks d' = feedbacks d"
    "set (legal_holds d') \<subseteq> set (legal_holds d)" "set (attachments d') \<subseteq> set (attachments d)"
  shows "well_kept d'"
proof -
  have c: "cases_kept d'" using cases_kept_cong [of d d'] assms(1-3) unfolding well_kept_def by blast
  have "offers_linked d'" using well_keptD(6) [OF assms(1)] assms(3,4) by (simp add: offers_linked_def)
  then have o: "offers_kept d'"
    using assms(1) offers_kept_cong [of d d'] by (simp add: assms(4-6) well_kept_def)
  have "case_owner d \<subseteq> case_owner d'" by (simp add: case_owner_def assms(3))
  moreover have "links_kept d" using assms(1) by (simp add: well_kept_def)
  ultimately have "links_kept d'"
    using links_kept_mono [OF _ well_keptD(1) [OF assms(1)] assms(2) _ assms(7-11)] by blast
  with c o show ?thesis by (simp add: well_kept_def)
qed

section \<open>The tables that only grow\<close>

text \<open>What never changes of a case, an offer, an outbox event and a delivery once it is there.\<close>

definition case_facts :: "candidate_row \<Rightarrow> string \<times> string \<times> string \<times> string \<times> time" where
  "case_facts r = (cr_id r, cr_tenant_id r, cr_requisition_id r, cr_created_by r, cr_created_at r)"

definition offer_facts :: "offer_row \<Rightarrow> string \<times> string \<times> string \<times> string \<times> int \<times> string \<times> string" where
  "offer_facts f = (or_id f, or_tenant_id f, or_candidate_case_id f, or_title f, or_annual_salary f,
     or_currency f, or_created_by f)"

definition event_facts :: "outbox_row \<Rightarrow> string \<times> string \<times> string \<times> json_object \<times> time" where
  "event_facts e = (ob_id e, ob_tenant_id e, ob_topic e, ob_payload e, ob_created_at e)"

definition delivery_facts :: "delivery_row \<Rightarrow> string \<times> string \<times> string \<times> string \<times> json_object" where
  "delivery_facts n = (nd_id n, nd_outbox_event_id n, nd_tenant_id n, nd_recipient_id n, nd_payload n)"

definition history :: "db \<Rightarrow> db \<Rightarrow> bool" where
  "history d d' =
    (prefix (audit_events d) (audit_events d') \<and> prefix (approval_decisions d) (approval_decisions d') \<and>
     prefix (feedbacks d) (feedbacks d') \<and> prefix (interviews d) (interviews d') \<and>
     prefix (tenants d) (tenants d') \<and> prefix (users d) (users d') \<and>
     prefix (memberships d) (memberships d') \<and> prefix (requisitions d) (requisitions d') \<and>
     prefix (map case_facts (candidate_cases d)) (map case_facts (candidate_cases d')) \<and>
     prefix (map offer_facts (offers d)) (map offer_facts (offers d')) \<and>
     prefix (map event_facts (outbox_events d)) (map event_facts (outbox_events d')) \<and>
     prefix (map delivery_facts (deliveries d)) (map delivery_facts (deliveries d')))"

lemma history_refl: "history d d"
  by (simp add: history_def)

lemma history_trans: "history d e \<Longrightarrow> history e f \<Longrightarrow> history d f"
  unfolding history_def by (blast intro: prefix_order.trans)

lemma case_facts_same [simp]:
  "case_facts (candidate_set_stage cx c r) = case_facts r" "case_facts (anonymize now r) = case_facts r"
  by (simp_all add: case_facts_def candidate_set_stage_def anonymize_def)

lemma offer_facts_same [simp]: "offer_facts (offer_set f r) = offer_facts r"
  by (simp add: offer_facts_def offer_set_def)

section \<open>The abstract workflow\<close>

text \<open>The board: the stage and version of every case. A case is opened, or moves along the workflow.\<close>

type_synonym board = "string \<Rightarrow> (string \<times> int) option"

definition board_of :: "db \<Rightarrow> board" where
  "board_of d = (\<lambda>i. map_option (\<lambda>r. (cr_stage r, cr_version r))
     (List.find (\<lambda>r. cr_id r = i) (candidate_cases d)))"

inductive board_step :: "board \<Rightarrow> board \<Rightarrow> bool" where
  opens: "m i = None \<Longrightarrow> board_step m (m(i \<mapsto> (stage_value APPLIED, 1)))"
| moves: "m i = Some (stage_value a, v) \<Longrightarrow> b \<in> allowed_transitions a \<Longrightarrow>
    board_step m (m(i \<mapsto> (stage_value b, v + 1)))"

lemma board_cong: "candidate_cases d' = candidate_cases d \<Longrightarrow> board_of d' = board_of d"
  by (simp add: board_of_def)

lemma find_map_key:
  "(\<And>r. k (f r) = k r) \<Longrightarrow> List.find (\<lambda>r. k r = i) (map f rows) = map_option f (List.find (\<lambda>r. k r = i) rows)"
  by (induction rows) auto

lemma board_map:
  assumes "candidate_cases d' = map f (candidate_cases d)"
    "\<And>r. cr_id (f r) = cr_id r \<and> cr_stage (f r) = cr_stage r \<and> cr_version (f r) = cr_version r"
  shows "board_of d' = board_of d"
  using assms(2) by (simp add: board_of_def assms(1) find_map_key option.map_comp comp_def)

lemma find_append: "List.find P (xs @ ys) = (case List.find P xs of None \<Rightarrow> List.find P ys | Some x \<Rightarrow> Some x)"
  by (induction xs) auto

lemma board_opens:
  assumes "candidate_cases d' = candidate_cases d @ [r]" "\<not> has_candidate d (cr_id r)"
    "cr_stage r = stage_value APPLIED" "cr_version r = 1"
  shows "board_step (board_of d) (board_of d')"
proof -
  have "List.find (\<lambda>q. cr_id q = cr_id r) (candidate_cases d) = None"
    using assms(2) unfolding find_None set_map by (metis image_eqI)
  then have n: "board_of d (cr_id r) = None" by (simp add: board_of_def)
  then have "board_of d' = (board_of d)(cr_id r \<mapsto> (stage_value APPLIED, 1))"
    unfolding board_of_def assms(1) fun_eq_iff find_append using assms(3,4) by (auto split: option.splits)
  with opens [of "board_of d" "cr_id r"] n show ?thesis by simp
qed

lemma board_after_stage_set:
  assumes "db_ok d" "r \<in> set (candidate_cases d)"
  shows "board_of (stage_set cx r b d) = (board_of d)(cr_id r \<mapsto> (stage_value b, cr_version r + 1))"
proof
  fix i
  have "List.find (\<lambda>q. cr_id q = cr_id r \<and> True) (candidate_cases d) = Some r"
    by (rule find_key [OF db_ok_keys(1) [OF assms(1)] assms(2)]) simp_all
  then have f: "List.find (\<lambda>q. cr_id q = cr_id r) (candidate_cases d) = Some r" by simp
  let ?f = "\<lambda>q. if cr_id q = cr_id r then candidate_set_stage cx (moved_case r b) q else q"
  have c: "candidate_cases (stage_set cx r b d) = map ?f (candidate_cases d)"
    by (simp add: stage_set_def update_where_def)
  have g: "board_of (stage_set cx r b d) i = map_option (\<lambda>r. (cr_stage r, cr_version r)) (map_option ?f
      (List.find (\<lambda>q. cr_id q = i) (candidate_cases d)))"
    unfolding board_of_def c by (subst find_map_key) simp_all
  show "board_of (stage_set cx r b d) i = ((board_of d)(cr_id r \<mapsto> (stage_value b, cr_version r + 1))) i"
  proof (cases "i = cr_id r")
    case False
    show ?thesis
    proof (cases "List.find (\<lambda>q. cr_id q = i) (candidate_cases d)")
      case (Some q)
      then have "cr_id q \<noteq> cr_id r" using find_SomeD [OF Some] False by simp
      then show ?thesis unfolding g Some using False Some by (simp add: board_of_def)
    qed (use False in \<open>simp add: g, simp add: board_of_def\<close>)
  next
    case True
    show ?thesis unfolding g by (simp add: True f)
  qed
qed

lemma board_stage_set:
  assumes "db_ok d" "r \<in> set (candidate_cases d)" "cr_stage r = stage_value a" "b \<in> allowed_transitions a"
    "candidate_cases d' = candidate_cases (stage_set cx r b d)"
  shows "board_step (board_of d) (board_of d')"
proof -
  have "List.find (\<lambda>q. cr_id q = cr_id r \<and> True) (candidate_cases d) = Some r"
    by (rule find_key [OF db_ok_keys(1) [OF assms(1)] assms(2)]) simp_all
  then have "board_of d (cr_id r) = Some (stage_value a, cr_version r)"
    using assms(3) by (simp add: board_of_def)
  from moves [of "board_of d", OF this assms(4)] show ?thesis
    by (simp add: board_cong [OF assms(5)] board_after_stage_set [OF assms(1,2)])
qed

section \<open>The rows of other tenants\<close>

definition others :: "string \<Rightarrow> db \<Rightarrow> db" where
  "others t d = d\<lparr>
     tenants := filter (\<lambda>r. tn_id r \<noteq> t) (tenants d),
     memberships := filter (\<lambda>r. mb_tenant_id r \<noteq> t) (memberships d),
     requisitions := filter (\<lambda>r. rq_tenant_id r \<noteq> t) (requisitions d),
     candidate_cases := filter (\<lambda>r. cr_tenant_id r \<noteq> t) (candidate_cases d),
     retention_policies := filter (\<lambda>r. rp_tenant_id r \<noteq> t) (retention_policies d),
     legal_holds := filter (\<lambda>r. lh_tenant_id r \<noteq> t) (legal_holds d),
     attachments := filter (\<lambda>r. at_tenant_id r \<noteq> t) (attachments d),
     interviews := filter (\<lambda>r. iv_tenant_id r \<noteq> t) (interviews d),
     calendar_subscriptions := filter (\<lambda>r. cs_tenant_id r \<noteq> t) (calendar_subscriptions d),
     feedbacks := filter (\<lambda>r. fb_tenant_id r \<noteq> t) (feedbacks d),
     offers := filter (\<lambda>r. or_tenant_id r \<noteq> t) (offers d),
     approval_decisions := filter (\<lambda>r. ad_tenant_id r \<noteq> t) (approval_decisions d),
     outbox_events := filter (\<lambda>r. ob_tenant_id r \<noteq> t) (outbox_events d),
     deliveries := filter (\<lambda>r. nd_tenant_id r \<noteq> t) (deliveries d),
     audit_events := filter (\<lambda>r. ae_tenant_id r \<noteq> t) (audit_events d)\<rparr>"

text \<open>Rewriting the one row with a key of the tenant leaves the others alone.\<close>

lemma others_update:
  assumes "distinct (map k rows)" "r \<in> set rows" "k r = x" "ten r = t" "\<And>q. ten (f q) = ten q"
  shows "filter (\<lambda>q. ten q \<noteq> t) (update_where (\<lambda>q. k q = x) f rows) = filter (\<lambda>q. ten q \<noteq> t) rows"
proof -
  have "update_where (\<lambda>q. k q = x) f rows = update_where (\<lambda>q. k q = x \<and> ten q = t) f rows"
    unfolding update_where_def using key_unique [OF assms(1) _ assms(2)] assms(3,4) by (intro map_cong) auto
  also have "filter (\<lambda>q. ten q \<noteq> t) \<dots> = filter (\<lambda>q. ten q \<noteq> t) rows"
    by (rule filter_update_where) (use assms(5) in auto)
  finally show ?thesis .
qed

lemma others_stage_set:
  assumes "db_ok d" "r \<in> set (candidate_cases d)" "cr_tenant_id r = t"
  shows "others t (stage_set cx r b d) = others t d"
  using others_update [OF db_ok_keys(1) [OF assms(1)] assms(2) refl, of cr_tenant_id t "candidate_set_stage cx (moved_case r b)"] assms(3)
  by (simp add: others_def stage_set_def)

section \<open>What stays redacted\<close>

text \<open>The name, address and time a purged case shows, and the attachments such a case has.\<close>

definition redaction :: "candidate_row \<Rightarrow> string \<times> string \<times> string \<times> string \<times> time option" where
  "redaction r = (cr_id r, cr_first_name r, cr_last_name r, cr_email r, cr_anonymized_at r)"

definition redacted :: "db \<Rightarrow> (string \<times> string \<times> string \<times> string \<times> time option) set" where
  "redacted d = redaction ` {r \<in> set (candidate_cases d). cr_anonymized_at r \<noteq> None}"

definition redacted_files :: "db \<Rightarrow> attachment_row set" where
  "redacted_files d = {a \<in> set (attachments d).
     \<exists>r \<in> set (candidate_cases d). cr_id r = at_candidate_case_id a \<and> cr_anonymized_at r \<noteq> None}"

definition redactions_stay :: "db \<Rightarrow> db \<Rightarrow> bool" where
  "redactions_stay d d' = (redacted d \<subseteq> redacted d' \<and> redacted_files d \<subseteq> redacted_files d')"

lemma redactions_refl: "redactions_stay d d"
  by (simp add: redactions_stay_def)

lemma redactions_trans: "redactions_stay d e \<Longrightarrow> redactions_stay e f \<Longrightarrow> redactions_stay d f"
  unfolding redactions_stay_def by blast

lemma redactions_stayI:
  assumes "\<And>r. r \<in> set (candidate_cases d) \<Longrightarrow> cr_anonymized_at r \<noteq> None \<Longrightarrow>
      redaction r \<in> redaction ` set (candidate_cases d')"
    and "\<And>a. a \<in> redacted_files d \<Longrightarrow> a \<in> set (attachments d')"
  shows "redactions_stay d d'"
proof -
  have r: "\<exists>q \<in> set (candidate_cases d'). redaction q = redaction r \<and> cr_anonymized_at q \<noteq> None \<and> cr_id q = cr_id r"
    if "r \<in> set (candidate_cases d)" "cr_anonymized_at r \<noteq> None" for r
    using assms(1) [OF that] that(2) by (auto simp: redaction_def)
  have "redacted d \<subseteq> redacted d'"
  proof
    fix x assume "x \<in> redacted d"
    then obtain p where "p \<in> set (candidate_cases d)" "cr_anonymized_at p \<noteq> None" "x = redaction p" by (auto simp: redacted_def)
    with r [of p] obtain q where "q \<in> set (candidate_cases d')" "redaction q = x" "cr_anonymized_at q \<noteq> None" by blast
    then show "x \<in> redacted d'" by (auto simp: redacted_def)
  qed
  moreover have "redacted_files d \<subseteq> redacted_files d'"
  proof
    fix a assume a: "a \<in> redacted_files d"
    then obtain p where "p \<in> set (candidate_cases d)" "cr_anonymized_at p \<noteq> None" "cr_id p = at_candidate_case_id a"
      by (auto simp: redacted_files_def)
    with r [of p] obtain q where "q \<in> set (candidate_cases d')" "cr_anonymized_at q \<noteq> None" "cr_id q = at_candidate_case_id a"
      by force
    with assms(2) [OF a] show "a \<in> redacted_files d'" by (auto simp: redacted_files_def)
  qed
  ultimately show ?thesis by (simp add: redactions_stay_def)
qed

lemma redactions_grow:
  assumes "prefix (map redaction (candidate_cases d)) (map redaction (candidate_cases d'))"
    and "set (attachments d) \<subseteq> set (attachments d')"
  shows "redactions_stay d d'"
proof (rule redactions_stayI)
  fix r assume "r \<in> set (candidate_cases d)"
  then have "redaction r \<in> set (map redaction (candidate_cases d))" by simp
  with set_mono_prefix [OF assms(1)] show "redaction r \<in> redaction ` set (candidate_cases d')" by auto
qed (use assms(2) in \<open>auto simp: redacted_files_def\<close>)

lemma redaction_set_stage [simp]: "redaction (candidate_set_stage cx c r) = redaction r"
  by (simp add: redaction_def candidate_set_stage_def)

lemma redaction_stage_set: "map redaction (candidate_cases (stage_set cx r b d)) = map redaction (candidate_cases d)"
  by (simp add: stage_set_def map_update_where)

section \<open>What a commit is\<close>

definition committed :: "db \<Rightarrow> db \<Rightarrow> bool" where
  "committed d d' = (well_kept d' \<and> history d d' \<and> redactions_stay d d' \<and>
     (board_of d' = board_of d \<or> board_step (board_of d) (board_of d')))"

text \<open>One audit event of the tenant that names the actor.\<close>

definition one_event :: "string \<Rightarrow> string \<Rightarrow> db \<Rightarrow> db \<Rightarrow> bool" where
  "one_event t a d d' =
    (\<exists>e. audit_events d' = audit_events d @ [e] \<and> ae_tenant_id e = t \<and> ae_actor_id e = a)"

lemma prefix_append [simp]: "prefix xs (xs @ ys)"
  by (simp add: prefix_def)

lemma map_same_facts:
  "(\<And>r. k (f r) = k r) \<Longrightarrow> map k (update_where P f rows) = map k rows"
  by (rule map_update_where)

text \<open>Commits that leave the cases, the offers, the links and their tables alone.\<close>

lemma committed_frame:
  assumes "well_kept d" "db_ok d'" "candidate_cases d' = candidate_cases d" "offers d' = offers d"
    "approval_decisions d' = approval_decisions d" "outbox_events d' = outbox_events d"
    "interviews d' = interviews d" "feedbacks d' = feedbacks d" "set (legal_holds d') \<subseteq> set (legal_holds d)"
    "attachments d' = attachments d" "prefix (tenants d) (tenants d')" "prefix (users d) (users d')"
    "prefix (memberships d) (memberships d')" "prefix (requisitions d) (requisitions d')"
    "prefix (audit_events d) (audit_events d')" "deliveries d' = deliveries d"
  shows "committed d d'"
proof -
  have "set (memberships d) \<subseteq> set (memberships d')" using set_mono_prefix [OF assms(13)] .
  from well_kept_frame [OF assms(1-6) this assms(7-9)] assms(10) have "well_kept d'" by simp
  moreover have "history d d'" using assms(11-15) by (simp add: history_def assms(3-8,16))
  moreover have "redactions_stay d d'" by (rule redactions_grow) (simp_all add: assms(3,10))
  ultimately show ?thesis using board_cong [OF assms(3)] by (simp add: committed_def)
qed

lemma create_tenant_committed:
  assumes "well_kept d" "create_tenant cx c (open_session d) = Inr (v, d')"
  shows "committed d d'"
proof -
  note r = create_tenant_Inr [OF assms(2)]
  show ?thesis
    by (rule committed_frame [OF assms(1) r(2)]) (simp_all add: r(1) tenant_rows_def admin_rows_def)
qed

lemma create_requisition_committed:
  assumes "well_kept d" "create_requisition cx c (open_session d) = Inr (v, d')"
  shows "committed d d'" "others (cq_tenant_id c) d' = others (cq_tenant_id c) d"
    "one_event (cq_tenant_id c) (cq_actor_id c) d d'"
proof -
  note r = create_requisition_Inr [OF assms(2)]
  show "committed d d'"
    by (rule committed_frame [OF assms(1) r(2)]) (simp_all add: r(1) requisition_rows_def)
  show "others (cq_tenant_id c) d' = others (cq_tenant_id c) d"
    by (simp add: r(1) requisition_rows_def others_def)
  show "one_event (cq_tenant_id c) (cq_actor_id c) d d'"
    by (simp add: r(1) requisition_rows_def one_event_def)
qed

lemma set_policy_Inr:
  assumes "set_policy cx t n a corr (open_session d) = Inr (v, d')"
  obtains e ps where "d' = d\<lparr>retention_policies := ps, audit_events := audit_events d @ [e]\<rparr>"
    "filter (\<lambda>p. rp_tenant_id p \<noteq> t) ps = filter (\<lambda>p. rp_tenant_id p \<noteq> t) (retention_policies d)"
    "ae_tenant_id e = t" "ae_actor_id e = a" "db_ok d'"
proof (cases "List.find (\<lambda>p. rp_tenant_id p = t) (retention_policies d)")
  case None
  from assms None that show ?thesis
    by (auto simp: set_policy_def retention_set_policy_def retention_record_def Let_def split: sum.splits
        dest!: session_commitD)
next
  case (Some p)
  have "filter (\<lambda>p. rp_tenant_id p \<noteq> t) (update_where (\<lambda>p. rp_tenant_id p = t)
      (\<lambda>p. if rp_retention_days p = n then p else p\<lparr>rp_retention_days := n, rp_updated_at := cx_ts cx\<rparr>) (retention_policies d)) =
    filter (\<lambda>p. rp_tenant_id p \<noteq> t) (retention_policies d)"
    by (rule filter_update_where) simp
  with assms Some that show ?thesis
    by (auto simp: set_policy_def retention_set_policy_def retention_record_def Let_def split: sum.splits
        dest!: session_commitD)
qed

lemma set_policy_committed:
  assumes "well_kept d" "set_policy cx t n a corr (open_session d) = Inr (v, d')"
  shows "committed d d'" "others t d' = others t d" "one_event t a d d'"
proof -
  obtain e ps where r: "d' = d\<lparr>retention_policies := ps, audit_events := audit_events d @ [e]\<rparr>"
    "filter (\<lambda>p. rp_tenant_id p \<noteq> t) ps = filter (\<lambda>p. rp_tenant_id p \<noteq> t) (retention_policies d)"
    "ae_tenant_id e = t" "ae_actor_id e = a" "db_ok d'" using set_policy_Inr [OF assms(2)] .
  show "committed d d'" by (rule committed_frame [OF assms(1) r(5)]) (simp_all add: r(1))
  show "others t d' = others t d" using r(2,3) by (simp add: r(1) others_def)
  show "one_event t a d d'" using r(3,4) by (simp add: r(1) one_event_def)
qed

lemma download_committed:
  assumes "well_kept d" "download_attachment cx c (open_session d) files = Inr (v, d')"
  shows "committed d d'" "others (dc_tenant_id c) d' = others (dc_tenant_id c) d"
    "one_event (dc_tenant_id c) (dc_actor_id c) d d'"
proof -
  obtain a path where v: "v = (a, path)" by (cases v)
  obtain r where r: "d' = d\<lparr>audit_events := audit_events d @ [downloaded_event cx c r]\<rparr>" "db_ok d'"
    using download_attachment_Inr [OF assms(2) [unfolded v]] by blast
  show "committed d d'" by (rule committed_frame [OF assms(1) r(2)]) (simp_all add: r(1))
  show "others (dc_tenant_id c) d' = others (dc_tenant_id c) d" "one_event (dc_tenant_id c) (dc_actor_id c) d d'"
    by (simp_all add: r(1) others_def one_event_def downloaded_event_def)
qed

lemma subscription_audits:
  assumes "create_subscription cx k t i a (open_session d) = Inr (v, d')"
  shows "one_event t a d d'"
  using assms by (auto simp: create_subscription_def Let_def calendar_add_def calendar_audit_def one_event_def
      split: if_splits sum.splits dest!: session_commitD)

lemma create_subscription_committed:
  assumes "well_kept d" "create_subscription cx k t i a (open_session d) = Inr (v, d')"
  shows "committed d d'" "others t d' = others t d" "one_event t a d d'"
proof -
  obtain u tok where v: "v = (u, tok)" by (cases v)
  note r = create_subscription_Inr [OF assms(2) [unfolded v]]
  obtain e where d': "d' = d\<lparr>calendar_subscriptions := calendar_subscriptions d @ [subscription_row u],
      audit_events := audit_events d @ [e]\<rparr>" "ae_tenant_id e = t" using r(10) by blast
  show "committed d d'" by (rule committed_frame [OF assms(1) r(8)]) (simp_all add: d'(1))
  show "others t d' = others t d" using d'(2) r(4) by (simp add: d'(1) others_def)
  show "one_event t a d d'" by (rule subscription_audits [OF assms(2)])
qed

lemma revocation_audits:
  assumes "revoke_subscription cx i t a (open_session d) = Inr (v, d')"
  shows "one_event t a d d'"
  using assms by (auto simp: revoke_subscription_def Let_def calendar_revoke_def calendar_audit_def one_event_def
      split: option.splits sum.splits dest!: session_commitD)

lemma revoke_subscription_committed:
  assumes "well_kept d" "revoke_subscription cx i t a (open_session d) = Inr (v, d')"
  shows "committed d d'" "others t d' = others t d" "one_event t a d d'"
proof -
  note r = revoke_subscription_Inr [OF assms(2)]
  obtain q where q: "q \<in> set (calendar_subscriptions d)" "cs_id q = i" "cs_tenant_id q = t" using r(1) by blast
  obtain us e where d': "d' = d\<lparr>calendar_subscriptions := us, audit_events := audit_events d @ [e]\<rparr>"
    "ae_tenant_id e = t" "us = update_where (\<lambda>r. cs_id r = i) (\<lambda>r. r\<lparr>cs_revoked_at := Some (cx_now cx)\<rparr>) (calendar_subscriptions d)"
    using r(2,4) by metis
  have "filter (\<lambda>r. cs_tenant_id r \<noteq> t) us = filter (\<lambda>r. cs_tenant_id r \<noteq> t) (calendar_subscriptions d)"
    unfolding d'(3) by (rule others_update [where ten = cs_tenant_id, OF db_ok_keys(10) [OF well_keptD(1) [OF assms(1)]] q]) simp
  with d'(2) show "others t d' = others t d" by (simp add: d'(1) others_def)
  show "committed d d'" by (rule committed_frame [OF assms(1) r(3)]) (simp_all add: d'(1))
  show "one_event t a d d'" by (rule revocation_audits [OF assms(2)])
qed

lemma set_legal_hold_frame:
  assumes "set_legal_hold cx t c held reason a corr (open_session d) = Inr (v, d')"
  shows "\<exists>e. d' = d\<lparr>legal_holds := legal_holds d', audit_events := audit_events d @ [e]\<rparr> \<and>
    ae_tenant_id e = t \<and> ae_actor_id e = a"
proof -
  let ?s = "retention_set_legal_hold cx t c held reason a (open_session d)"
  obtain e where "session_commit cx (session_add (Audit_Row e) ?s) = Inr d'" "ae_tenant_id e = t" "ae_actor_id e = a"
    using assms by (auto simp: set_legal_hold_def retention_record_def Let_def split: sum.splits if_splits)
  then show ?thesis
    by (intro exI [of _ e]) (auto simp: retention_set_legal_hold_def Let_def split: option.splits dest!: session_commitD)
qed

text \<open>A hold that is set or released belongs to the caller's tenant, because holds are linked.\<close>

lemma set_legal_hold_committed:
  assumes w: "well_kept d" and res: "set_legal_hold cx t c held reason a corr (open_session d) = Inr (v, d')"
  shows "committed d d'" "others t d' = others t d" "one_event t a d d'"
proof -
  note r = set_legal_hold_Inr [OF res]
  obtain e where d': "d' = d\<lparr>legal_holds := legal_holds d', audit_events := audit_events d @ [e]\<rparr>"
    "ae_tenant_id e = t" "ae_actor_id e = a" using set_legal_hold_frame [OF res] by blast
  obtain q where q: "q \<in> set (candidate_cases d)" "cr_id q = c" "cr_tenant_id q = t" using r(1) by blast
  then have co: "(c, t) \<in> case_owner d" by (force simp: case_owner_def)
  have own: "lh_tenant_id h = t" if "h \<in> set (legal_holds d)" "lh_candidate_case_id h = c" for h
    using well_keptD(9) [OF w] that q unfolding holds_linked_def by auto
  let ?new = "\<lparr>lh_candidate_case_id = c, lh_tenant_id = t, lh_reason = py_or reason ''Legal hold'',
     lh_created_by = a, lh_created_at = cx_ts cx\<rparr>"
  let ?upd = "update_where (\<lambda>h. lh_candidate_case_id h = c) (\<lambda>h. h\<lparr>lh_reason := py_or reason (lh_reason h)\<rparr>) (legal_holds d)"
  have holds: "legal_holds d' \<in> {legal_holds d, legal_holds d @ [?new], ?upd,
      filter (\<lambda>h. lh_candidate_case_id h \<noteq> c) (legal_holds d)}"
    using r(6) by (auto split: option.splits if_splits)
  have u: "?upd = update_where (\<lambda>h. lh_candidate_case_id h = c \<and> lh_tenant_id h = t)
      (\<lambda>h. h\<lparr>lh_reason := py_or reason (lh_reason h)\<rparr>) (legal_holds d)"
    unfolding update_where_def using own by (intro map_cong) auto
  have f: "filter (\<lambda>h. lh_tenant_id h \<noteq> t) ?upd = filter (\<lambda>h. lh_tenant_id h \<noteq> t) (legal_holds d)"
    unfolding u by (rule filter_update_where) simp
  have g: "filter (\<lambda>h. lh_tenant_id h \<noteq> t) (filter (\<lambda>h. lh_candidate_case_id h \<noteq> c) (legal_holds d)) =
      filter (\<lambda>h. lh_tenant_id h \<noteq> t) (legal_holds d)"
    unfolding filter_filter using own by (intro filter_cong) auto
  have "filter (\<lambda>h. lh_tenant_id h \<noteq> t) (legal_holds d') = filter (\<lambda>h. lh_tenant_id h \<noteq> t) (legal_holds d)"
    using holds f g by (elim insertE emptyE) simp_all
  with d'(2) show "others t d' = others t d" by (subst d'(1)) (simp add: others_def)
  show "one_event t a d d'" unfolding one_event_def by (subst d'(1), intro exI [of _ e]) (simp add: d'(2,3))
  have "\<forall>h \<in> set (legal_holds d'). (lh_candidate_case_id h, lh_tenant_id h) \<in> case_owner d"
    using holds co well_keptD(9) [OF w] unfolding holds_linked_owner [OF well_keptD(1) [OF w]]
    by (auto simp: update_where_def)
  moreover have "case_owner d' = case_owner d" by (simp add: case_owner_def r(3))
  ultimately have h: "holds_linked d'" by (simp add: holds_linked_owner [OF r(2)])
  have keys: "candidate_cases d' = candidate_cases d" "offers d' = offers d" "approval_decisions d' = approval_decisions d"
    "outbox_events d' = outbox_events d" "memberships d' = memberships d" "interviews d' = interviews d"
    "feedbacks d' = feedbacks d" "attachments d' = attachments d" "tenants d' = tenants d" "users d' = users d"
    "requisitions d' = requisitions d" "audit_events d' = audit_events d @ [e]" "deliveries d' = deliveries d"
    by (subst d'(1), simp)+
  have "links_kept d'"
    using well_keptD(7,8,10) [OF w] h
    by (simp add: links_kept_def interviews_linked_def feedbacks_linked_def attachments_linked_def case_owner_def keys)
  moreover have "cases_kept d'" using cases_kept_cong [OF _ r(2,3)] w by (simp add: well_kept_def)
  moreover have "offers_linked d'" using well_keptD(6) [OF w] by (simp add: offers_linked_def keys)
  then have "offers_kept d'" using offers_kept_cong [of d d'] w by (simp add: well_kept_def keys)
  moreover have "history d d'" by (simp add: history_def keys)
  moreover have "redactions_stay d d'" by (rule redactions_grow) (simp_all add: keys)
  ultimately show "committed d d'" using board_cong [OF r(3)] by (simp add: committed_def well_kept_def)
qed

section \<open>Commits on the linked tables\<close>

lemma schedule_committed:
  assumes w: "well_kept d" and res: "schedule_interview cx c (open_session d) = Inr (v, d')"
  shows "committed d d'" "others (si_tenant_id c) d' = others (si_tenant_id c) d"
    "one_event (si_tenant_id c) (si_actor_id c) d d'"
proof -
  note r = schedule_interview_Inr [OF res] and l = schedule_keeps_linked [OF well_keptD(7,8) [OF w] res]
  have "links_kept d'"
    using l well_keptD(9,10) [OF w]
    by (simp add: links_kept_def r(3) holds_linked_def attachments_linked_def case_owner_def)
  moreover have "cases_kept d'" using cases_kept_cong [OF _ r(4), of d] w by (simp add: well_kept_def r(3))
  moreover have "offers_kept d'"
    using w by (simp add: well_kept_def offers_kept_def offers_inv_def offer_state_def decision_history_def
        outbox_lockstep_def offers_linked_def r(3))
  moreover have "history d d'" by (simp add: history_def r(3))
  moreover have "redactions_stay d d'" by (rule redactions_grow) (auto simp: r(3))
  ultimately show "committed d d'" using board_cong [of d' d] by (simp add: committed_def well_kept_def r(3))
  show "others (si_tenant_id c) d' = others (si_tenant_id c) d" "one_event (si_tenant_id c) (si_actor_id c) d d'"
    by (simp_all add: r(3) others_def one_event_def scheduled_row_def scheduled_event_def)
qed

lemma feedback_committed:
  assumes w: "well_kept d" and res: "submit_feedback cx c (open_session d) = Inr (v, d')"
  shows "committed d d'" "others (sf_tenant_id c) d' = others (sf_tenant_id c) d"
    "one_event (sf_tenant_id c) (sf_actor_id c) d d'"
proof -
  note l = submit_keeps_linked [OF well_keptD(7,8,1) [OF w] res]
  obtain i where i: "iv_tenant_id i = sf_tenant_id c"
    and d': "d' = d\<lparr>feedbacks := feedbacks d @ [feedback_row_of cx c i], audit_events := audit_events d @ [feedback_event cx c]\<rparr>"
    and ok: "db_ok d'" by (rule submit_feedback_Inr [OF well_keptD(1) [OF w] res])
  have "links_kept d'"
    using l well_keptD(9,10) [OF w]
    by (simp add: links_kept_def d' holds_linked_def attachments_linked_def case_owner_def)
  moreover have "cases_kept d'" using cases_kept_cong [OF _ ok, of d] w by (simp add: well_kept_def d')
  moreover have "offers_kept d'"
    using w by (simp add: well_kept_def offers_kept_def offers_inv_def offer_state_def decision_history_def
        outbox_lockstep_def offers_linked_def d')
  moreover have "history d d'" by (simp add: history_def d')
  moreover have "redactions_stay d d'" by (rule redactions_grow) (auto simp: d')
  ultimately show "committed d d'" using board_cong [of d' d] by (simp add: committed_def well_kept_def d')
  show "others (sf_tenant_id c) d' = others (sf_tenant_id c) d" "one_event (sf_tenant_id c) (sf_actor_id c) d d'"
    using i by (simp_all add: d' others_def one_event_def feedback_row_of_def feedback_event_def)
qed

lemma upload_committed:
  assumes w: "well_kept d" and key: "valid_key (av_hex v)"
    and res: "upload_attachment cx v c (open_session d) files = (Inr (a, d'), files')"
  shows "committed d d'" "others (uc_tenant_id c) d' = others (uc_tenant_id c) d"
    "one_event (uc_tenant_id c) (uc_actor_id c) d d'"
proof -
  note r = upload_attachment_Inr [OF key res]
  have "(uc_candidate_case_id c, uc_tenant_id c) \<in> case_owner d" using r(1) by (force simp: case_owner_def)
  then have "attachments_linked d'"
    using well_keptD(10) [OF w] key
    by (simp add: attachments_linked_def r(6) case_owner_def attachment_row_of_def uploaded_def)
  then have "links_kept d'"
    using well_keptD(7,8,9) [OF w]
    by (simp add: links_kept_def interviews_linked_def feedbacks_linked_def holds_linked_def r(6))
  moreover have "cases_kept d'" using cases_kept_cong [OF _ r(7), of d] w by (simp add: well_kept_def r(6))
  moreover have "offers_kept d'"
    using w by (simp add: well_kept_def offers_kept_def offers_inv_def offer_state_def decision_history_def
        outbox_lockstep_def offers_linked_def r(6))
  moreover have "history d d'" by (simp add: history_def r(6))
  moreover have "redactions_stay d d'" by (rule redactions_grow) (auto simp: r(6))
  ultimately show "committed d d'" using board_cong [of d' d] by (simp add: committed_def well_kept_def r(6))
  show "others (uc_tenant_id c) d' = others (uc_tenant_id c) d" "one_event (uc_tenant_id c) (uc_actor_id c) d d'"
    by (simp_all add: r(6) others_def one_event_def attachment_row_of_def uploaded_def uploaded_event_def)
qed

section \<open>Commits on the cases\<close>

lemma create_candidate_committed:
  assumes w: "well_kept d" and res: "create_candidate cx c (open_session d) = Inr (v, d')"
  shows "committed d d'" "others (kc_tenant_id c) d' = others (kc_tenant_id c) d"
    "one_event (kc_tenant_id c) (kc_actor_id c) d d'"
proof -
  note r = create_candidate_Inr [OF res] and ok = well_keptD(1) [OF w]
  have d': "d' = d\<lparr>candidate_cases := candidate_cases d @ [created_row cx c], audit_events := audit_events d @ [created_event cx c]\<rparr>"
    using r(4) by simp
  have "candidate_cases_ok d'" using r(5) by (simp add: db_ok_def)
  then have new: "\<not> has_candidate d (cr_id (created_row cx c))" by (simp add: candidate_cases_ok_def d')
  have "CandidateStage ''applied'' = Inr APPLIED" using CandidateStage_Inr [of "''applied''" APPLIED] by simp
  then have "cases_kept d'"
    using w r(5) by (simp add: well_kept_def cases_kept_def stages_valid_def case_rows_ok_def d' created_row_def
        TERMINAL_STAGES_def is_ok_iff)
  moreover have "offers_linked d'"
    using well_keptD(6) [OF w] by (simp add: offers_linked_def d' list_all_iff)
  then have "offers_kept d'" using w offers_kept_cong [of d d'] by (simp add: well_kept_def d')
  moreover have "links_kept d'"
    using w by (intro links_kept_mono [OF _ ok r(5)]) (simp_all add: well_kept_def d' case_owner_def subset_insertI)
  moreover have "history d d'" by (simp add: history_def d')
  moreover have "redactions_stay d d'" by (rule redactions_grow) (simp_all add: d')
  moreover have "board_step (board_of d) (board_of d')"
    by (rule board_opens [of d' d "created_row cx c", OF _ new]) (simp_all add: d' created_row_def)
  ultimately show "committed d d'" by (simp add: committed_def well_kept_def)
  show "others (kc_tenant_id c) d' = others (kc_tenant_id c) d" "one_event (kc_tenant_id c) (kc_actor_id c) d d'"
    by (simp_all add: d' others_def one_event_def created_row_def created_event_def)
qed

text \<open>A stage move: any database whose cases are those \<open>stage_set\<close> leaves.\<close>

lemma stage_set_case_rows:
  assumes "cases_kept d" "db_ok d'" "r \<in> set (candidate_cases d)" "candidate_cases d' = candidate_cases (stage_set cx r b d)"
  shows "cases_kept d'"
proof -
  have c: "q' \<in> set (candidate_cases d) \<or>
      (\<exists>q \<in> set (candidate_cases d). cr_id q = cr_id r \<and> q' = candidate_set_stage cx (moved_case r b) q)"
    if "q' \<in> set (candidate_cases d')" for q'
    using that by (auto simp: assms(4) stage_set_def set_update_where split: if_splits)
  have v: "1 \<le> cr_version r" using assms(1,3) by (simp add: cases_kept_def case_rows_ok_def list_all_iff)
  have s: "is_ok (CandidateStage (stage_value b))"
    using CandidateStage_Inr [of "stage_value b" b] by (simp add: is_ok_iff)
  have "(1 \<le> cr_version q' \<and> (cr_terminal_at q' \<noteq> None) = (cr_stage q' \<in> TERMINAL_STAGES)) \<and>
      is_ok (CandidateStage (cr_stage q'))" if "q' \<in> set (candidate_cases d')" for q'
    using c [OF that]
  proof (elim disjE bexE conjE)
    assume "q' \<in> set (candidate_cases d)"
    with assms(1) show ?thesis by (simp add: cases_kept_def case_rows_ok_def stages_valid_def list_all_iff)
  next
    fix q assume "q' = candidate_set_stage cx (moved_case r b) q"
    with v s show ?thesis by (simp add: candidate_set_stage_def TERMINAL_STAGES_def del: stage_value.simps)
  qed
  with assms(2) show ?thesis by (simp add: cases_kept_def case_rows_ok_def stages_valid_def list_all_iff)
qed

lemma stage_set_owner: "case_owner (stage_set cx r b d) = case_owner d"
  unfolding case_owner_def set_map [symmetric] by (simp add: stage_set_def map_update_where)

lemma transition_committed:
  assumes w: "well_kept d" and res: "transition_candidate cx c (open_session d) = Inr (v, d')"
  shows "committed d d'" "others (tc_tenant_id c) d' = others (tc_tenant_id c) d"
    "one_event (tc_tenant_id c) (tc_actor_id c) d d'"
proof -
  note ok = well_keptD(1) [OF w]
  obtain r a b where r: "r \<in> set (candidate_cases d)" "cr_stage r = stage_value a" "b \<in> allowed_transitions a"
    "tc_tenant_id c = cr_tenant_id r" and d': "d' = stage_move cx c r a b d" and ok': "db_ok d'"
    by (rule transition_candidate_Inr [OF ok res])
  define e where "e = stage_transitioned_event cx (cx_uuid cx 0) (moved_case r b) (stage_value a)
      (tc_actor_id c) (tc_correlation_id c)"
  have m: "d' = (stage_set cx r b d)\<lparr>audit_events := audit_events d @ [e]\<rparr>"
    by (simp add: d' stage_move_def e_def frame_simps)
  have cs: "candidate_cases d' = candidate_cases (stage_set cx r b d)" by (simp add: m)
  have "cases_kept d'" using stage_set_case_rows [OF _ ok' r(1) cs] w by (simp add: well_kept_def)
  moreover have "offers_linked d'" using linked_stage_set [OF well_keptD(6) [OF w] ok r(1,2,3) _ cs]
    by (simp add: m frame_simps)
  then have "offers_kept d'" using w offers_kept_cong [of d d'] by (simp add: well_kept_def m frame_simps)
  moreover have "case_owner d' = case_owner d" using stage_set_owner [of cx r b d] by (simp add: case_owner_def m)
  then have "links_kept d'"
    using w by (intro links_kept_mono [OF _ ok ok']) (simp_all add: well_kept_def m frame_simps)
  moreover have "map case_facts (candidate_cases d') = map case_facts (candidate_cases d)"
    unfolding cs by (simp add: stage_set_def map_update_where)
  then have "history d d'" unfolding history_def by (simp add: m frame_simps)
  moreover have "redactions_stay d d'"
    by (rule redactions_grow) (simp_all add: cs redaction_stage_set, simp add: m frame_simps)
  moreover have "board_step (board_of d) (board_of d')" by (rule board_stage_set [OF ok r(1,2,3) cs])
  ultimately show "committed d d'" by (simp add: committed_def well_kept_def)
  have "ae_tenant_id e = tc_tenant_id c" "ae_actor_id e = tc_actor_id c"
    by (simp_all add: e_def stage_transitioned_event_def r(4))
  then show "others (tc_tenant_id c) d' = others (tc_tenant_id c) d" "one_event (tc_tenant_id c) (tc_actor_id c) d d'"
    using others_stage_set [OF ok r(1) refl, of cx b]
    by (simp_all add: m r(4) others_def one_event_def frame_simps)
qed

lemma create_offer_committed:
  assumes w: "well_kept d" and res: "create_offer cx c (open_session d) = Inr (v, d')"
  shows "committed d d'" "others (ko_tenant_id c) d' = others (ko_tenant_id c) d" "audit_events d' = audit_events d"
proof -
  note ok = well_keptD(1) [OF w]
  obtain r where en: "creation_enabled c r d" and d': "d' = offer_creation cx c r d" and ok': "db_ok d'"
    by (rule create_offer_Inr [OF ok res])
  have r: "r \<in> set (candidate_cases d)" "cr_stage r = stage_value INTERVIEWING" "cr_tenant_id r = ko_tenant_id c"
    using en by (simp_all add: creation_enabled_def)
  have fresh: "\<not> has_offer d (cx_uuid cx 0)" using offer_creation_ok [OF ok en] ok' by (simp add: d')
  note t = offer_creation_tables [of cx c r d, folded d']
  have "cases_kept d'" using stage_set_case_rows [OF _ ok' r(1) t(2)] w by (simp add: well_kept_def)
  moreover have "offers_kept d'"
    using creation_keeps_offers_inv [OF well_keptD(4) [OF w] ok fresh] creation_linked [OF well_keptD(6) [OF w] ok en]
      well_keptD(5) [OF w] by (simp add: offers_kept_def d' outbox_lockstep_def offer_creation_tables)
  moreover have "case_owner d' = case_owner d"
    using stage_set_owner [of cx r OFFER_PENDING_APPROVAL d] by (simp add: case_owner_def t(2))
  then have "links_kept d'"
    using w by (intro links_kept_mono [OF _ ok ok']) (simp_all add: well_kept_def t)
  moreover have "map case_facts (candidate_cases d') = map case_facts (candidate_cases d)"
    unfolding t(2) by (simp add: stage_set_def map_update_where)
  then have "history d d'" unfolding history_def by (simp add: t)
  moreover have "redactions_stay d d'"
    by (rule redactions_grow) (simp_all add: t(2) redaction_stage_set, simp add: t)
  moreover have "board_step (board_of d) (board_of d')" by (rule board_stage_set [OF ok r(1,2) _ t(2)]) simp
  ultimately show "committed d d'" by (simp add: committed_def well_kept_def)
  show "audit_events d' = audit_events d" by (rule t)
  show "others (ko_tenant_id c) d' = others (ko_tenant_id c) d"
    using others_stage_set [OF ok r(1,3), of cx OFFER_PENDING_APPROVAL]
    by (simp add: d' offer_creation_def others_def created_offer_def frame_simps)
qed

lemma others_offer_put:
  assumes "db_ok d" "r \<in> set (offers d)" "or_tenant_id r = t"
  shows "others t (offer_put r dec d) = others t d"
  using others_update [OF db_ok_keys(2) [OF assms(1)] assms(2) refl, of or_tenant_id t
      "offer_set (decided_offer (offer_to_domain r) dec)"] assms(3)
  by (simp add: others_def offer_put_def)

lemma decide_offer_committed:
  assumes w: "well_kept d" and res: "decide_offer cx standard_policy c (open_session d) = Inr (v, d')"
  shows "committed d d'" "others (do_tenant_id c) d' = others (do_tenant_id c) d" "audit_events d' = audit_events d"
proof -
  note ok = well_keptD(1) [OF w]
  obtain r where dw: "decision_writes cx c r d d'" and ok': "db_ok d'" by (rule decide_offer_Inr [OF ok res])
  have r: "r \<in> set (offers d)" "or_tenant_id r = do_tenant_id c" using dw by (simp_all add: decision_writes_def)
  note t = decision_writes_tables [OF dw]
  let ?p = "offer_put r (do_decision c) d"
  obtain d2 where d2: "candidate_part cx (or_candidate_case_id r) (do_tenant_id c)
      (decision_target (or_approval_step r) (do_decision c)) ?p d2"
    and d': "d' = db_insert_all d2 [Decision_Row (decision_of cx c r), Outbox_Row (decision_event cx c r)]"
    using dw by (auto simp: decision_writes_def)
  have part: "candidate_cases d' = candidate_cases d \<and> others (do_tenant_id c) d2 = others (do_tenant_id c) ?p \<or>
      (\<exists>q a b. q \<in> set (candidate_cases d) \<and> cr_stage q = stage_value a \<and> b \<in> allowed_transitions a \<and>
         candidate_cases d' = candidate_cases (stage_set cx q b d) \<and> others (do_tenant_id c) d2 = others (do_tenant_id c) ?p)"
  proof (cases "decision_target (or_approval_step r) (do_decision c)")
    case None
    with d2 show ?thesis by (simp add: candidate_part_def d')
  next
    case (Some b)
    with d2 obtain q a where q: "q \<in> set (candidate_cases ?p)" "cr_tenant_id q = do_tenant_id c"
      "cr_stage q = stage_value a" "b \<in> allowed_transitions a" "d2 = stage_set cx q b ?p"
      by (auto simp: candidate_part_def)
    have "others (do_tenant_id c) d2 = others (do_tenant_id c) ?p"
      unfolding q(5) by (rule others_stage_set [OF offer_put_ok [OF ok] q(1,2)])
    moreover have "candidate_cases d' = candidate_cases (stage_set cx q b d)" by (simp add: d' q(5) stage_set_def)
    ultimately show ?thesis using q(1,3,4) by auto
  qed
  have "cases_kept d'"
    using part cases_kept_cong [OF _ ok'] stage_set_case_rows [OF _ ok'] w unfolding well_kept_def by blast
  moreover have "offers_kept d'"
    using decision_keeps_offers_inv [OF well_keptD(4) [OF w] dw ok ok'] decision_keeps_lockstep [OF well_keptD(5) [OF w] dw]
      decision_linked [OF well_keptD(6) [OF w] ok dw] by (simp add: offers_kept_def)
  moreover have "case_owner d' = case_owner d"
    using part stage_set_owner by (metis case_owner_def)
  then have "links_kept d'"
    using w by (intro links_kept_mono [OF _ ok ok']) (simp_all add: well_kept_def t)
  moreover have "map case_facts (candidate_cases (stage_set cx q b d)) = map case_facts (candidate_cases d)" for q b
    by (simp add: stage_set_def map_update_where)
  then have "map case_facts (candidate_cases d') = map case_facts (candidate_cases d)" using part by metis
  moreover have "map offer_facts (offers d') = map offer_facts (offers d)"
    by (simp add: t(1) offer_put_def map_update_where)
  ultimately have "well_kept d'" "history d d'" unfolding history_def well_kept_def by (simp_all add: t(2-))
  moreover have "map redaction (candidate_cases d') = map redaction (candidate_cases d)"
    using part redaction_stage_set by metis
  then have "redactions_stay d d'" by (intro redactions_grow) (simp_all add: t(2-))
  moreover have "board_of d' = board_of d \<or> board_step (board_of d) (board_of d')"
    using part board_cong board_stage_set [OF ok] by metis
  ultimately show "committed d d'" by (simp add: committed_def)
  show "audit_events d' = audit_events d" by (rule t)
  have "others (do_tenant_id c) d' = others (do_tenant_id c) d2"
    using r(2) by (simp add: d' others_def decision_event_def)
  then show "others (do_tenant_id c) d' = others (do_tenant_id c) d"
    using part others_offer_put [OF ok r, of "do_decision c"] by metis
qed

section \<open>Purges\<close>

text \<open>Redacting cases and dropping attachments keeps the invariant, the history and the board.\<close>

lemma redacting_kept:
  assumes w: "well_kept d" and ok': "db_ok d'" and f: "\<And>r. f r = r \<or> f r = anonymize now r"
    and d': "d' = d\<lparr>candidate_cases := map f (candidate_cases d), attachments := as, audit_events := audit_events d @ es\<rparr>"
    and as: "set as \<subseteq> set (attachments d)"
  shows "well_kept d'" "history d d'" "board_of d' = board_of d"
proof -
  have fs: "cr_id (f r) = cr_id r" "cr_tenant_id (f r) = cr_tenant_id r" "cr_stage (f r) = cr_stage r"
    "cr_version (f r) = cr_version r" "cr_terminal_at (f r) = cr_terminal_at r" "case_facts (f r) = case_facts r" for r
    using f [of r] by (elim disjE; simp add: anonymize_def case_facts_def)+
  have cs: "candidate_cases d' = map f (candidate_cases d)" by (simp add: d')
  have "cases_kept d'"
    using w ok' by (simp add: well_kept_def cases_kept_def stages_valid_def case_rows_ok_def cs list_all_iff fs)
  moreover have owner: "case_owner d' = case_owner d"
    unfolding case_owner_def cs set_map image_image by (simp add: fs)
  have "list_ex (\<lambda>q. cr_id q = i \<and> cr_tenant_id q = u \<and> past_interviewing (cr_stage q)) (candidate_cases d') \<longleftrightarrow>
      list_ex (\<lambda>q. cr_id q = i \<and> cr_tenant_id q = u \<and> past_interviewing (cr_stage q)) (candidate_cases d)" for i u
    unfolding cs list_ex_iff set_map bex_simps(7) by (simp add: fs)
  then have "offers_linked d'" using well_keptD(6) [OF w] by (simp add: offers_linked_def d')
  then have "offers_kept d'" using w offers_kept_cong [of d d'] by (simp add: well_kept_def d')
  moreover have "links_kept d'"
    using w owner as by (intro links_kept_mono [OF _ well_keptD(1) [OF w] ok']) (auto simp: well_kept_def d')
  ultimately show "well_kept d'" by (simp add: well_kept_def)
  show "history d d'" by (simp add: history_def d' comp_def fs)
  show "board_of d' = board_of d" by (rule board_map [OF cs]) (simp add: fs)
qed

lemma purge_committed:
  assumes w: "well_kept d" and res: "purge_due cx t a corr (open_session d) files = (Inr (n, d'), files')"
  shows "committed d d'" "board_of d' = board_of d" "others t d' = others t d"
    "\<exists>es. audit_events d' = audit_events d @ es \<and> length es = n \<and> (\<forall>e \<in> set es. ae_tenant_id e = t \<and> ae_actor_id e = a)"
proof -
  note ok = well_keptD(1) [OF w]
  note r = purge_due_Inr [OF attachments_linked_keys [OF well_keptD(10) [OF w]] ok res]
  note d' = r(2) [unfolded purged_db_eq]
  let ?due = "due_cases t (cx_now cx) d"
  let ?f = "\<lambda>q. if q \<in> set ?due then anonymize (cx_now cx) q else q"
  have cs: "candidate_cases d' = map ?f (candidate_cases d)" unfolding r(2) by (rule purged_db_cases [OF ok])
  have k: "well_kept d'" "history d d'" "board_of d' = board_of d"
    by (rule redacting_kept [OF w r(3), where f = ?f and now = "cx_now cx",
          OF _ d' [unfolded anonymized_cases [OF ok]]]; auto)+
  have "redactions_stay d d'"
  proof (rule redactions_stayI)
    fix p assume p: "p \<in> set (candidate_cases d)" "cr_anonymized_at p \<noteq> None"
    then have "?f p = p" using due_casesD(4) by auto
    then have "redaction p = redaction (?f p)" by (simp only:)
    then show "redaction p \<in> redaction ` set (candidate_cases d')"
      unfolding cs set_map image_image using p(1) by (rule image_eqI)
  next
    fix x assume "x \<in> redacted_files d"
    then obtain p where x: "x \<in> set (attachments d)" "p \<in> set (candidate_cases d)" "cr_id p = at_candidate_case_id x"
      "cr_anonymized_at p \<noteq> None" by (auto simp: redacted_files_def)
    have "\<not> purged_attachment t (cx_now cx) d x"
    proof
      assume "purged_attachment t (cx_now cx) d x"
      then obtain q where q: "q \<in> set ?due" "cr_id q = at_candidate_case_id x" by (auto simp: purged_attachment_def)
      then have "q = p" using key_unique [OF db_ok_keys(1) [OF ok] due_casesD(1) [OF q(1)] x(2)] x(3) by simp
      with due_casesD(4) [OF q(1)] x(4) show False by simp
    qed
    with x(1) show "x \<in> set (attachments d')" by (simp add: d')
  qed
  with k show "committed d d'" by (simp add: committed_def)
  show "board_of d' = board_of d" by (rule k)
  have evs: "audit_events d' = audit_events d @ map (purged_event cx t a corr) (List.enumerate 0 (map cr_id ?due))"
    by (simp add: d')
  have ev: "ae_tenant_id (purged_event cx t a corr x) = t \<and> ae_actor_id (purged_event cx t a corr x) = a" for x
    by (simp add: purged_event_def split: prod.splits)
  with evs show "\<exists>es. audit_events d' = audit_events d @ es \<and> length es = n \<and> (\<forall>e \<in> set es. ae_tenant_id e = t \<and> ae_actor_id e = a)"
    by (intro exI) (auto simp: r(1))
  have "filter (\<lambda>q. cr_tenant_id q \<noteq> t) (candidate_cases d') = map ?f (filter (\<lambda>q. cr_tenant_id q \<noteq> t) (candidate_cases d))"
    unfolding cs filter_map by (intro arg_cong [of _ _ "map ?f"] filter_cong) auto
  also have "\<dots> = filter (\<lambda>q. cr_tenant_id q \<noteq> t) (candidate_cases d)"
    by (rule map_idI) (auto dest: due_casesD(2))
  finally have c: "filter (\<lambda>q. cr_tenant_id q \<noteq> t) (candidate_cases d') = filter (\<lambda>q. cr_tenant_id q \<noteq> t) (candidate_cases d)" .
  have at: "filter (\<lambda>q. at_tenant_id q \<noteq> t) (filter (\<lambda>q. \<not> purged_attachment t (cx_now cx) d q) (attachments d)) =
      filter (\<lambda>q. at_tenant_id q \<noteq> t) (attachments d)"
    unfolding filter_filter by (intro filter_cong) (auto simp: purged_attachment_def)
  show "others t d' = others t d"
    using c at ev by (simp add: d' others_def filter_empty_conv)
qed

section \<open>The background workers\<close>

text \<open>A worker keeps the cases, the offers and the links, and only adds deliveries or changes their state.\<close>

lemma committed_background:
  assumes w: "well_kept d" and ok': "db_ok d'" and d': "d' = d\<lparr>outbox_events := es, deliveries := ns\<rparr>"
    and es: "map event_facts es = map event_facts (outbox_events d)"
    and ns: "prefix (map delivery_facts (deliveries d)) (map delivery_facts ns)"
  shows "committed d d'" "audit_events d' = audit_events d" "board_of d' = board_of d"
proof -
  have "map (\<lambda>e. (ob_tenant_id e, ob_topic e, ob_payload e)) xs =
      map (\<lambda>(i, t, p, q, c). (t, p, q)) (map event_facts xs)" for xs
    by (simp add: event_facts_def comp_def)
  then have e: "map (\<lambda>e. (ob_tenant_id e, ob_topic e, ob_payload e)) es =
      map (\<lambda>e. (ob_tenant_id e, ob_topic e, ob_payload e)) (outbox_events d)" by (simp only: es)
  have "offers_linked d'" using well_keptD(6) [OF w] by (simp add: offers_linked_def d')
  then have "offers_kept d'" using w e offers_kept_cong [of d d'] by (simp add: well_kept_def d')
  moreover have "cases_kept d'" using cases_kept_cong [OF _ ok', of d] w by (simp add: well_kept_def d')
  moreover have "links_kept d'"
    using w by (intro links_kept_mono [OF _ well_keptD(1) [OF w] ok']) (simp_all add: well_kept_def d' case_owner_def)
  moreover have "history d d'" unfolding history_def using es ns by (simp add: d')
  moreover have "redactions_stay d d'" by (rule redactions_grow) (simp_all add: d')
  ultimately show "committed d d'" using board_cong [of d' d] by (simp add: committed_def well_kept_def d')
  show "audit_events d' = audit_events d" by (simp add: d')
  show "board_of d' = board_of d" by (rule board_cong) (simp add: d')
qed

lemma publish_committed:
  assumes w: "well_kept d" and res: "publish_pending cx (open_session d) = Inr (n, d')"
  shows "committed d d'" "audit_events d' = audit_events d"
proof -
  note r = publish_pending_Inr [OF well_keptD(1,5) [OF w] res]
  have ev: "map event_facts (mark_published P es) = map event_facts es" for P es
    unfolding mark_published_def by (rule map_update_where) (simp add: event_facts_def)
  note c = committed_background [OF w r(3) r(2) [unfolded published_db_def] ev]
  show "committed d d'" "audit_events d' = audit_events d" by (rule c, simp)+
qed

text \<open>The three statements a delivery worker runs on the table.\<close>

lemma delivery_update_committed:
  assumes w: "well_kept d"
    and d': "d' = d\<lparr>deliveries := update_where P f (deliveries d)\<rparr>"
    and f: "\<And>n. delivery_facts (f n) = delivery_facts n"
  shows "committed d d'" "audit_events d' = audit_events d"
proof -
  have "db_ok d'"
    unfolding d' by (rule db_ok_update_deliveries [OF well_keptD(1) [OF w]]) (use f in \<open>simp add: delivery_facts_def\<close>)
  moreover have "d' = d\<lparr>outbox_events := outbox_events d, deliveries := update_where P f (deliveries d)\<rparr>"
    by (simp add: d')
  moreover have "map delivery_facts (update_where P f (deliveries d)) = map delivery_facts (deliveries d)"
    using f by (rule map_update_where)
  ultimately show "committed d d'" "audit_events d' = audit_events d"
    using committed_background [OF w, where d' = d' and es = "outbox_events d" and ns = "update_where P f (deliveries d)"] by simp_all
qed

lemma claim_committed:
  assumes "well_kept d" "claim_update v t i d = (True, d')"
  shows "committed d d'" "audit_events d' = audit_events d"
proof -
  have "d' = d\<lparr>deliveries := update_where (\<lambda>n. nd_id n = i \<and> eligible t n) (claim_row v t) (deliveries d)\<rparr>"
    using assms(2) by (simp add: claim_update_def Let_def split: if_splits)
  from delivery_update_committed [OF assms(1) this]
  show "committed d d'" "audit_events d' = audit_events d" by (simp_all add: claim_row_def delivery_facts_def)
qed

lemma mark_committed:
  assumes "well_kept d"
  shows "committed d (mark_delivered v i d)" "audit_events (mark_delivered v i d) = audit_events d"
proof -
  note c = delivery_update_committed [OF assms mark_delivered_def]
  show "committed d (mark_delivered v i d)" "audit_events (mark_delivered v i d) = audit_events d"
    by (rule c, simp add: delivery_facts_def)+
qed

lemma fail_committed:
  assumes "well_kept d"
  shows "committed d (fail_write v e found d)" "audit_events (fail_write v e found d) = audit_events d"
proof -
  note c = delivery_update_committed [OF assms fail_write_def]
  show "committed d (fail_write v e found d)" "audit_events (fail_write v e found d) = audit_events d"
    by (rule c, simp add: delivery_facts_def fail_row_def)+
qed

text \<open>A run of the retention worker, tenant by tenant, also one that an exception ends.\<close>

lemma purge_tenants_committed:
  assumes "purge_tenants cxs corr k ts d files n = (res, d', files')" "well_kept d"
  shows "committed d d' \<and> board_of d' = board_of d"
  using assms
proof (induction ts arbitrary: k d files n)
  case Nil
  then show ?case by (simp add: committed_def history_refl redactions_refl)
next
  case (Cons t ts)
  show ?case
  proof (cases "fst (purge_due (cxs k) t ''system:retention'' (corr k) (open_session d) files)")
    case (Inl e)
    with Cons.prems show ?thesis by (auto simp: committed_def history_refl redactions_refl split: prod.splits)
  next
    case (Inr md)
    obtain m d1 f where p: "purge_due (cxs k) t ''system:retention'' (corr k) (open_session d) files = (Inr (m, d1), f)"
      using Inr by (metis prod.collapse)
    note c = purge_committed [OF Cons.prems(2) p]
    have rest: "purge_tenants cxs corr (Suc k) ts d1 f (n + m) = (res, d', files')"
      using Cons.prems(1) by (simp add: p)
    have "committed d1 d' \<and> board_of d' = board_of d1"
      by (rule Cons.IH [OF rest]) (use c(1) in \<open>simp add: committed_def\<close>)
    with c(1,2) history_trans [of d d1 d'] redactions_trans [of d d1 d'] show ?thesis by (simp add: committed_def)
  qed
qed

end
