(* ===== verification/Reporting.thy ===== *)
theory Reporting
  imports Samples
begin

text \<open>
  The two read models: the pipeline report of \<open>reporting/infrastructure/sqlalchemy_reader.py\<close> and
  the audit trail of \<open>audit/infrastructure/sqlalchemy_reader.py\<close>, with the handlers that call them.
  A dictionary is the list of its items in order.
\<close>

section \<open>The report\<close>

text \<open>\<open>collections.Counter\<close> over an iterable: the keys in the order of their first occurrence.\<close>

fun counter_add :: "'a \<Rightarrow> ('a \<times> nat) list \<Rightarrow> ('a \<times> nat) list" where
  "counter_add x [] = [(x, 1)]"
| "counter_add x ((y, n) # c) = (if x = y then (y, n + 1) # c else (y, n) # counter_add x c)"

definition counter :: "'a list \<Rightarrow> ('a \<times> nat) list" where
  "counter xs = foldl (\<lambda>c x. counter_add x c) [] xs"

record pipeline_report =
  pr_candidate_total :: nat
  pr_candidates_by_stage :: "(string \<times> nat) list"
  pr_offer_total :: nat
  pr_offers_by_status :: "(string \<times> nat) list"
  pr_scheduled_interview_total :: nat
  pr_feedback_submitted_total :: nat

text \<open>The keys of a counter are distinct, so sorting its items compares the keys only.\<close>

definition pipeline_for_tenant :: "string \<Rightarrow> session \<Rightarrow> pipeline_report" where
  "pipeline_for_tenant tenant_id s =
    (let d = ss_db s;
         candidate_stages = counter (map cr_stage (filter (\<lambda>r. cr_tenant_id r = tenant_id) (candidate_cases d)));
         offer_statuses = counter (map or_status (filter (\<lambda>r. or_tenant_id r = tenant_id) (offers d)));
         interview_ids = map iv_id (filter (\<lambda>r. iv_tenant_id r = tenant_id) (interviews d));
         feedback_total =
           (if interview_ids \<noteq> []
            then length (filter (\<lambda>f. fb_tenant_id f = tenant_id \<and> fb_interview_id f \<in> set interview_ids) (feedbacks d))
            else 0)
     in \<lparr>pr_candidate_total = sum_list (map snd candidate_stages),
         pr_candidates_by_stage = sort_key fst candidate_stages,
         pr_offer_total = sum_list (map snd offer_statuses),
         pr_offers_by_status = sort_key fst offer_statuses,
         pr_scheduled_interview_total = length interview_ids,
         pr_feedback_submitted_total = feedback_total\<rparr>)"

definition get_pipeline_report :: "string \<Rightarrow> session \<Rightarrow> pipeline_report" where
  "get_pipeline_report tenant_id s = pipeline_for_tenant tenant_id s"

section \<open>The audit trail\<close>

record audit_view =
  au_id :: string
  au_action :: string
  au_aggregate_type :: string
  au_aggregate_id :: string
  au_correlation_id :: string

definition audit_list_for_tenant :: "string \<Rightarrow> session \<Rightarrow> audit_view list" where
  "audit_list_for_tenant tenant_id s =
    map (\<lambda>e. \<lparr>au_id = ae_id e, au_action = ae_action e, au_aggregate_type = ae_aggregate_type e,
        au_aggregate_id = ae_aggregate_id e, au_correlation_id = ae_correlation_id e\<rparr>)
      (sort_key (\<lambda>e. - ae_created_at e) (filter (\<lambda>e. ae_tenant_id e = tenant_id) (audit_events (ss_db s))))"

definition list_audit_events :: "string \<Rightarrow> session \<Rightarrow> audit_view list" where
  "list_audit_events tenant_id s = audit_list_for_tenant tenant_id s"

section \<open>What a counter holds\<close>

lemma counter_add_keys: "set (map fst (counter_add x c)) = insert x (set (map fst c))"
  by (induction x c rule: counter_add.induct) auto

lemma counter_add_distinct: "distinct (map fst c) \<Longrightarrow> distinct (map fst (counter_add x c))"
proof (induction x c rule: counter_add.induct)
  case (2 x y n c)
  then show ?case using counter_add_keys [of x c] by (cases "x = y") auto
qed simp

lemma counter_add_lookup:
  "map_of (counter_add x c) y = (if x = y then Some (case map_of c x of None \<Rightarrow> 1 | Some n \<Rightarrow> n + 1) else map_of c y)"
  by (induction x c rule: counter_add.induct) auto

lemma counter_add_sum: "sum_list (map snd (counter_add x c)) = sum_list (map snd c) + 1"
  by (induction x c rule: counter_add.induct) auto

lemma counter_snoc: "counter (xs @ [x]) = counter_add x (counter xs)"
  by (simp add: counter_def)

lemma counter_keys: "set (map fst (counter xs)) = set xs"
  by (induction xs rule: rev_induct) (simp_all only: counter_snoc counter_add_keys, simp_all add: counter_def)

lemma counter_distinct: "distinct (map fst (counter xs))"
  by (induction xs rule: rev_induct) (simp_all add: counter_snoc counter_add_distinct, simp add: counter_def)

lemma counter_lookup: "map_of (counter xs) y = (if y \<in> set xs then Some (count_list xs y) else None)"
proof (induction xs rule: rev_induct)
  case (snoc x xs)
  then show ?case by (auto simp: counter_snoc counter_add_lookup count_list_0_iff)
qed (simp add: counter_def)

lemma counter_sum: "sum_list (map snd (counter xs)) = length xs"
  by (induction xs rule: rev_induct) (simp_all add: counter_snoc counter_add_sum, simp add: counter_def)

lemma sorted_items:
  "map_of (sort_key fst (counter xs)) y = (if y \<in> set xs then Some (count_list xs y) else None)"
  "sorted (map fst (sort_key fst (counter xs)))" "distinct (map fst (sort_key fst (counter xs)))"
proof -
  have "distinct (map fst (sort_key fst (counter xs)))"
    using counter_distinct [of xs] by (simp add: distinct_map)
  then show "distinct (map fst (sort_key fst (counter xs)))" .
  have "map_of (sort_key fst (counter xs)) = map_of (counter xs)"
    using counter_distinct [of xs] \<open>distinct (map fst (sort_key fst (counter xs)))\<close>
    by (simp add: map_of_inject_set)
  then show "map_of (sort_key fst (counter xs)) y = (if y \<in> set xs then Some (count_list xs y) else None)"
    by (simp add: counter_lookup)
qed (rule sorted_sort_key)

section \<open>What the report says\<close>

lemma count_of_filter: "count_list (map k (filter P rows)) v = length (filter (\<lambda>r. P r \<and> k r = v) rows)"
  by (induction rows) auto

lemma feedback_bound:
  assumes "distinct (map fb_interview_id fs)" "distinct ids"
  shows "length (filter (\<lambda>f. P f \<and> fb_interview_id f \<in> set ids) fs) \<le> length ids"
proof -
  let ?sel = "filter (\<lambda>f. P f \<and> fb_interview_id f \<in> set ids) fs"
  have "distinct (map fb_interview_id ?sel)" using assms(1) by (rule distinct_map_filter_mono)
  then have "length ?sel = card (set (map fb_interview_id ?sel))" using distinct_card by fastforce
  also have "\<dots> \<le> card (set ids)" by (rule card_mono) auto
  finally show ?thesis using assms(2) by (simp add: distinct_card)
qed

text \<open>
  The pipeline report counts the tenant's rows and no others. The
  totals are its cases, its offers and its interviews; each stage and status that occurs is listed
  once, in order, with the number of its rows; and no more feedback is reported than interviews.
\<close>

lemma report_counts:
  assumes "db_ok d"
    and rep_def: "rep = pipeline_for_tenant t (open_session d)"
  shows "pr_candidate_total rep = length (filter (\<lambda>r. cr_tenant_id r = t) (candidate_cases d)) \<and>
    pr_offer_total rep = length (filter (\<lambda>r. or_tenant_id r = t) (offers d)) \<and>
    pr_scheduled_interview_total rep = length (filter (\<lambda>r. iv_tenant_id r = t) (interviews d)) \<and>
    sorted (map fst (pr_candidates_by_stage rep)) \<and> distinct (map fst (pr_candidates_by_stage rep)) \<and>
    (\<forall>st n. map_of (pr_candidates_by_stage rep) st = Some n \<longleftrightarrow>
       0 < n \<and> n = length (filter (\<lambda>r. cr_tenant_id r = t \<and> cr_stage r = st) (candidate_cases d))) \<and>
    (\<forall>st n. map_of (pr_offers_by_status rep) st = Some n \<longleftrightarrow>
       0 < n \<and> n = length (filter (\<lambda>r. or_tenant_id r = t \<and> or_status r = st) (offers d))) \<and>
    pr_feedback_submitted_total rep \<le> pr_scheduled_interview_total rep"
proof -
  have count: "map_of (sort_key fst (counter (map k (filter P rows)))) v = Some n \<longleftrightarrow>
      0 < n \<and> n = length (filter (\<lambda>r. P r \<and> k r = v) rows)"
    for k :: "'r \<Rightarrow> string" and P rows v n
    unfolding sorted_items(1) count_of_filter [symmetric]
    using count_list_0_iff [of "map k (filter P rows)" v] by (auto simp del: set_map count_list_0_iff)
  have "distinct (map fb_interview_id (feedbacks d))" using assms(1) by (simp add: db_ok_def feedbacks_ok_def)
  moreover have "distinct (map iv_id (filter (\<lambda>r. iv_tenant_id r = t) (interviews d)))"
    using db_ok_keys(3) [OF assms(1)] by (rule distinct_map_filter_mono)
  ultimately have "pr_feedback_submitted_total rep \<le> pr_scheduled_interview_total rep"
    using feedback_bound [of "feedbacks d" "map iv_id (filter (\<lambda>r. iv_tenant_id r = t) (interviews d))" "\<lambda>f. fb_tenant_id f = t"]
    by (simp add: rep_def pipeline_for_tenant_def Let_def del: set_map)
  then show ?thesis
    by (simp add: rep_def pipeline_for_tenant_def Let_def count counter_sum sorted_items(2,3) del: set_map)
qed

lemma report_counts_witness:
  "map_of (pr_candidates_by_stage (pipeline_for_tenant ''t'' (open_session sample_db))) ''interviewing'' = Some 1 \<and>
   pr_candidate_total (pipeline_for_tenant ''t'' (open_session sample_db)) = 3"
  using report_counts [OF sample_db_ok refl, of "''t''"] by simp

end
