(* ===== verification/Api_Schemas.thy ===== *)
theory Api_Schemas
  imports Reporting Candidates
begin

text \<open>
  The request and response models of \<open>app/api/schemas.py\<close>. A request model is a record and the
  constraints of its fields are a predicate, which the framework checks before the endpoint runs
  (a violation is a 422). The patterns are matched against the whole string.
\<close>

section \<open>Requests\<close>

definition length_between :: "nat \<Rightarrow> nat \<Rightarrow> string \<Rightarrow> bool" where
  "length_between lo hi s = (lo \<le> length s \<and> length s \<le> hi)"

definition char_in :: "char \<Rightarrow> char \<Rightarrow> char \<Rightarrow> bool" where
  "char_in lo hi c = ((of_char lo :: nat) \<le> of_char c \<and> (of_char c :: nat) \<le> of_char hi)"

record create_tenant_request =
  qt_name :: string
  qt_slug :: string
  qt_admin_id :: string

definition slug_char :: "char \<Rightarrow> bool" where
  "slug_char c = (char_in (CHR ''a'') (CHR ''z'') c \<or> char_in (CHR ''0'') (CHR ''9'') c \<or> c = CHR ''-'')"

definition create_tenant_request_ok :: "create_tenant_request \<Rightarrow> bool" where
  "create_tenant_request_ok q =
    (length_between 2 120 (qt_name q) \<and> list_all slug_char (qt_slug q) \<and> length_between 2 80 (qt_slug q) \<and>
     length_between 1 128 (qt_admin_id q))"

record create_requisition_request =
  qr_title :: string
  qr_department :: string

definition create_requisition_request_ok :: "create_requisition_request \<Rightarrow> bool" where
  "create_requisition_request_ok q = (length_between 2 160 (qr_title q) \<and> length_between 2 120 (qr_department q))"

record create_candidate_request =
  qc_requisition_id :: string
  qc_first_name :: string
  qc_last_name :: string
  qc_email :: string

definition create_candidate_request_ok :: "create_candidate_request \<Rightarrow> bool" where
  "create_candidate_request_ok q =
    (length_between 36 36 (qc_requisition_id q) \<and> length_between 1 100 (qc_first_name q) \<and>
     length_between 1 100 (qc_last_name q) \<and> length_between 3 320 (qc_email q))"

record transition_request =
  qs_target_stage :: string
  qs_expected_version :: int

definition transition_request_ok :: "transition_request \<Rightarrow> bool" where
  "transition_request_ok q = (length_between 3 40 (qs_target_stage q) \<and> 1 \<le> qs_expected_version q)"

record create_interview_request =
  qi_interviewer_id :: string
  qi_scheduled_at :: time

definition create_interview_request_ok :: "create_interview_request \<Rightarrow> bool" where
  "create_interview_request_ok q = length_between 1 128 (qi_interviewer_id q)"

record submit_feedback_request =
  qf_score :: int
  qf_recommendation :: string
  qf_comments :: string

definition submit_feedback_request_ok :: "submit_feedback_request \<Rightarrow> bool" where
  "submit_feedback_request_ok q =
    (1 \<le> qf_score q \<and> qf_score q \<le> 5 \<and>
     qf_recommendation q \<in> {''strong_hire'', ''hire'', ''no_hire'', ''strong_no_hire''} \<and>
     length_between 1 5000 (qf_comments q))"

record create_offer_request =
  qo_title :: string
  qo_annual_salary :: int
  qo_currency :: string

definition create_offer_request_ok :: "create_offer_request \<Rightarrow> bool" where
  "create_offer_request_ok q =
    (length_between 2 160 (qo_title q) \<and> 0 < qo_annual_salary q \<and>
     length (qo_currency q) = 3 \<and> list_all (char_in (CHR ''A'') (CHR ''Z'')) (qo_currency q))"

record approve_offer_request =
  qa_decision :: string
  qa_expected_version :: int

definition approve_offer_request_ok :: "approve_offer_request \<Rightarrow> bool" where
  "approve_offer_request_ok q = (qa_decision q \<in> {''approved'', ''rejected''} \<and> 1 \<le> qa_expected_version q)"

record create_subscription_request =
  qk_interviewer_id :: string

definition create_subscription_request_ok :: "create_subscription_request \<Rightarrow> bool" where
  "create_subscription_request_ok q = length_between 1 128 (qk_interviewer_id q)"

record retention_policy_request =
  qp_retention_days :: int

definition retention_policy_request_ok :: "retention_policy_request \<Rightarrow> bool" where
  "retention_policy_request_ok q = (1 \<le> qp_retention_days q \<and> qp_retention_days q \<le> 3650)"

record legal_hold_request =
  qh_held :: bool
  qh_reason :: "string option"

definition legal_hold_request_ok :: "legal_hold_request \<Rightarrow> bool" where
  "legal_hold_request_ok q = (case qh_reason q of None \<Rightarrow> True | Some r \<Rightarrow> length_between 1 500 r)"

section \<open>Responses\<close>

record tenant_response =
  pt_id :: string
  pt_name :: string
  pt_slug :: string

record requisition_response =
  pq_id :: string
  pq_title :: string
  pq_department :: string

record candidate_response =
  pc_id :: string
  pc_requisition_id :: string
  pc_first_name :: string
  pc_last_name :: string
  pc_email :: string
  pc_stage :: string
  pc_version :: int

record candidate_list_response =
  pl_items :: "candidate_response list"
  pl_next_cursor :: "string option"
  pl_total :: nat

record interview_response =
  pi_id :: string
  pi_candidate_case_id :: string
  pi_interviewer_id :: string
  pi_scheduled_at :: time

record feedback_response =
  pf_id :: string
  pf_interview_id :: string
  pf_score :: int
  pf_recommendation :: string
  pf_comments :: string

record offer_response =
  po_id :: string
  po_status :: string
  po_approval_step :: int
  po_version :: int
  po_candidate_stage :: string

record subscription_response =
  pu_id :: string
  pu_interviewer_id :: string
  pu_feed_url :: string
  pu_expires_at :: time

record attachment_response =
  pa_id :: string
  pa_document_type :: string
  pa_filename :: string
  pa_content_type :: string
  pa_size_bytes :: int
  pa_sha256 :: string
  pa_created_at :: time

record pipeline_summary =
  ps_total :: nat
  ps_by_key :: "(string \<times> nat) list"

record pipeline_interviews =
  ps_scheduled_total :: nat
  ps_feedback_submitted_total :: nat

record pipeline_response =
  pp_candidates :: pipeline_summary
  pp_offers :: pipeline_summary
  pp_interviews :: pipeline_interviews

record audit_response =
  pe_id :: string
  pe_action :: string
  pe_aggregate_type :: string
  pe_aggregate_id :: string
  pe_correlation_id :: string

end
