(* ===== verification/Runtime_Settings.thy ===== *)
theory Runtime_Settings
  imports Schema
begin

text \<open>
  The runtime configuration of \<open>app/shared/settings.py\<close>: its fields with their defaults, the two
  comma-separated lists, and the validator that runs after the fields are read. The \<open>Literal\<close> types
  are part of the reader (\<open>literals_ok\<close>); reading the environment is left to the library.
\<close>

record settings =
  st_app_env :: string
  st_auth_mode :: string
  st_database_url :: string
  st_cors_allowed_origins :: string
  st_oidc_issuer :: string
  st_oidc_audience :: string
  st_oidc_jwks_url :: string
  st_oidc_jwks_cache_ttl_seconds :: int
  st_sendgrid_api_key :: "string option"
  st_notification_from_email :: string
  st_worker_lease_seconds :: int
  st_worker_max_attempts :: int
  st_redis_url :: string
  st_rate_limit_enabled :: bool
  st_rate_limit_requests_per_minute :: int
  st_rate_limit_trusted_proxy_cidrs :: string
  st_attachment_storage_root :: string
  st_attachment_max_bytes :: int
  st_attachment_scan_mode :: string
  st_attachment_scan_command :: string
  st_calendar_subscription_lifetime_days :: int
  st_calendar_interview_duration_minutes :: int
  st_calendar_public_base_url :: string
  st_retention_worker_batch_size :: int

definition default_settings :: settings where
  "default_settings =
    \<lparr>st_app_env = ''development'', st_auth_mode = ''development_headers'',
     st_database_url = ''sqlite:///talentflow.db'', st_cors_allowed_origins = [], st_oidc_issuer = [],
     st_oidc_audience = [], st_oidc_jwks_url = [], st_oidc_jwks_cache_ttl_seconds = 300,
     st_sendgrid_api_key = None, st_notification_from_email = [], st_worker_lease_seconds = 60,
     st_worker_max_attempts = 5, st_redis_url = [], st_rate_limit_enabled = True,
     st_rate_limit_requests_per_minute = 120, st_rate_limit_trusted_proxy_cidrs = [],
     st_attachment_storage_root = ''./data/attachments'', st_attachment_max_bytes = 5 * 1024 * 1024,
     st_attachment_scan_mode = ''noop'', st_attachment_scan_command = ''clamscan'',
     st_calendar_subscription_lifetime_days = 90, st_calendar_interview_duration_minutes = 60,
     st_calendar_public_base_url = [], st_retention_worker_batch_size = 100\<rparr>"

definition literals_ok :: "settings \<Rightarrow> bool" where
  "literals_ok s =
    (st_app_env s \<in> {''development'', ''test'', ''production''} \<and>
     st_auth_mode s \<in> {''development_headers'', ''oidc_jwt''} \<and>
     st_attachment_scan_mode s \<in> {''noop'', ''clamav''})"

definition comma_list :: "string \<Rightarrow> string list" where
  "comma_list s = filter (\<lambda>w. w \<noteq> []) (map py_strip (py_split (CHR '','') s))"

definition cors_origins :: "settings \<Rightarrow> string list" where
  "cors_origins s = comma_list (st_cors_allowed_origins s)"

definition trusted_proxy_cidrs :: "settings \<Rightarrow> string list" where
  "trusted_proxy_cidrs s = comma_list (st_rate_limit_trusted_proxy_cidrs s)"

definition https :: "string \<Rightarrow> bool" where
  "https url = py_startswith url ''https://''"

text \<open>The checks in the order of the code: what each requires, and the message when it fails.\<close>

definition production_checks :: "settings \<Rightarrow> (bool \<times> string) list" where
  "production_checks s =
    [(st_auth_mode s = ''oidc_jwt'', ''Production requires AUTH_MODE=oidc_jwt''),
     (py_startswith (st_database_url s) ''postgresql://'' \<or> py_startswith (st_database_url s) ''postgresql+psycopg://'',
        ''Production requires a PostgreSQL DATABASE_URL''),
     (cors_origins s \<noteq> [] \<and> ''*'' \<notin> set (cors_origins s), ''Production requires explicit CORS_ALLOWED_ORIGINS''),
     (list_all https (cors_origins s), ''Production CORS_ALLOWED_ORIGINS must use HTTPS''),
     (py_startswith (st_redis_url s) ''redis://'' \<or> py_startswith (st_redis_url s) ''rediss://'',
        ''Production requires a Redis REDIS_URL for rate limiting''),
     (st_attachment_scan_mode s = ''clamav'', ''Production requires ATTACHMENT_SCAN_MODE=clamav''),
     (py_startswith (st_attachment_storage_root s) ''/'', ''Production requires an absolute ATTACHMENT_STORAGE_ROOT''),
     (https (st_calendar_public_base_url s), ''Production requires an HTTPS CALENDAR_PUBLIC_BASE_URL'')]"

definition general_checks :: "settings \<Rightarrow> (bool \<times> string) list" where
  "general_checks s =
    [(st_rate_limit_requests_per_minute s \<ge> 1, ''RATE_LIMIT_REQUESTS_PER_MINUTE must be positive''),
     (st_attachment_max_bytes s \<ge> 1, ''ATTACHMENT_MAX_BYTES must be positive''),
     (st_calendar_subscription_lifetime_days s \<ge> 1, ''CALENDAR_SUBSCRIPTION_LIFETIME_DAYS must be positive''),
     (st_calendar_interview_duration_minutes s \<ge> 1, ''CALENDAR_INTERVIEW_DURATION_MINUTES must be positive''),
     (st_retention_worker_batch_size s \<ge> 1, ''RETENTION_WORKER_BATCH_SIZE must be positive''),
     (\<not> (st_auth_mode s = ''oidc_jwt'' \<and>
         \<not> (st_oidc_issuer s \<noteq> [] \<and> st_oidc_audience s \<noteq> [] \<and> st_oidc_jwks_url s \<noteq> [])),
        ''OIDC issuer, audience, and JWKS URL are required''),
     (\<not> (st_app_env s = ''production'' \<and> st_auth_mode s = ''oidc_jwt'' \<and>
         (\<not> https (st_oidc_issuer s) \<or> \<not> https (st_oidc_jwks_url s))),
        ''Production OIDC issuer and JWKS URL must use HTTPS''),
     ((st_sendgrid_api_key s \<noteq> None \<and> st_sendgrid_api_key s \<noteq> Some []) = (st_notification_from_email s \<noteq> []),
        ''SENDGRID_API_KEY and NOTIFICATION_FROM_EMAIL must be configured together'')]"

fun first_failure :: "(bool \<times> string) list \<Rightarrow> string option" where
  "first_failure [] = None"
| "first_failure ((ok, message) # checks) = (if ok then first_failure checks else Some message)"

definition validate_settings :: "settings \<Rightarrow> exn + settings" where
  "validate_settings s =
    (case first_failure ((if st_app_env s = ''production'' then production_checks s else []) @ general_checks s) of
       Some message \<Rightarrow> Inl (ValueError message)
     | None \<Rightarrow> Inr s)"

lemma first_failure_None: "first_failure checks = None \<longleftrightarrow> (\<forall>c \<in> set checks. fst c)"
  by (induction checks rule: first_failure.induct) auto

lemma validate_settings_Inr:
  "validate_settings s = Inr s' \<longleftrightarrow> s' = s \<and> (\<forall>c \<in> set (general_checks s). fst c) \<and>
    (st_app_env s = ''production'' \<longrightarrow> (\<forall>c \<in> set (production_checks s). fst c))"
  unfolding validate_settings_def
  using first_failure_None [of "(if st_app_env s = ''production'' then production_checks s else []) @ general_checks s"]
  by (auto split: option.splits if_splits)

lemma comma_list_items: "w \<in> set (comma_list s) \<Longrightarrow> w \<noteq> [] \<and> py_strip w = w \<and> CHR '','' \<notin> set w"
proof -
  assume "w \<in> set (comma_list s)"
  then obtain v where v: "v \<in> set (py_split (CHR '','') s)" "w = py_strip v" "w \<noteq> []" by (auto simp: comma_list_def)
  have "set (py_strip v) \<subseteq> set v" unfolding py_strip_def py_lstrip_def by (auto dest!: set_dropWhileD)
  with v py_split_no_sep [OF v(1)] show ?thesis by auto
qed

text \<open>
  A production configuration that validates is locked down. Requests are
  authenticated by tokens of a configured HTTPS issuer, the origins are explicit HTTPS addresses
  without blanks around them, rate limiting uses Redis, uploads are scanned, and the stores are a
  PostgreSQL database and an absolute path. A configuration with the development defaults validates,
  and never does in production.
\<close>

lemma production_locked_down:
  "(validate_settings s = Inr s' \<and> st_app_env s = ''production'' \<longrightarrow>
     s' = s \<and> st_auth_mode s = ''oidc_jwt'' \<and> st_oidc_audience s \<noteq> [] \<and> https (st_oidc_issuer s) \<and> https (st_oidc_jwks_url s) \<and>
     cors_origins s \<noteq> [] \<and> (\<forall>origin \<in> set (cors_origins s). https origin \<and> py_strip origin = origin) \<and>
     (\<exists>scheme \<in> {''redis://'', ''rediss://''}. py_startswith (st_redis_url s) scheme) \<and>
     st_attachment_scan_mode s = ''clamav'' \<and> 1 \<le> st_attachment_max_bytes s \<and> 1 \<le> st_rate_limit_requests_per_minute s) \<and>
   validate_settings default_settings = Inr default_settings \<and>
   (\<exists>message. validate_settings (default_settings\<lparr>st_app_env := ''production''\<rparr>) = Inl (ValueError message))"
proof (intro conjI impI)
  assume "validate_settings s = Inr s' \<and> st_app_env s = ''production''"
  then have c: "\<forall>c \<in> set (general_checks s). fst c" "\<forall>c \<in> set (production_checks s). fst c" "s' = s"
    "st_app_env s = ''production''" unfolding validate_settings_Inr by blast+
  have p: "st_auth_mode s = ''oidc_jwt''" "cors_origins s \<noteq> []" "list_all https (cors_origins s)"
    "\<exists>scheme \<in> {''redis://'', ''rediss://''}. py_startswith (st_redis_url s) scheme" "st_attachment_scan_mode s = ''clamav''"
    using c(2) by (simp_all add: production_checks_def)
  have g: "1 \<le> st_attachment_max_bytes s" "1 \<le> st_rate_limit_requests_per_minute s" "st_oidc_audience s \<noteq> []"
    "https (st_oidc_issuer s)" "https (st_oidc_jwks_url s)"
    using c(1,4) p(1) by (simp_all add: general_checks_def)
  show "s' = s" "st_auth_mode s = ''oidc_jwt''" "cors_origins s \<noteq> []" "st_oidc_audience s \<noteq> []"
    "https (st_oidc_issuer s)" "https (st_oidc_jwks_url s)" "1 \<le> st_attachment_max_bytes s"
    "1 \<le> st_rate_limit_requests_per_minute s" "st_attachment_scan_mode s = ''clamav''"
    "\<exists>scheme \<in> {''redis://'', ''rediss://''}. py_startswith (st_redis_url s) scheme"
    by (fact c(3) p g)+
  show "\<forall>origin \<in> set (cors_origins s). https origin \<and> py_strip origin = origin"
    using p(3) comma_list_items by (auto simp: list_all_iff cors_origins_def)
next
  show "validate_settings default_settings = Inr default_settings"
    by (simp add: validate_settings_def default_settings_def general_checks_def)
next
  show "\<exists>message. validate_settings (default_settings\<lparr>st_app_env := ''production''\<rparr>) = Inl (ValueError message)"
    by (simp add: validate_settings_def default_settings_def production_checks_def)
qed

definition sample_production :: settings where
  "sample_production = default_settings
    \<lparr>st_app_env := ''production'', st_auth_mode := ''oidc_jwt'', st_database_url := ''postgresql://db'',
     st_cors_allowed_origins := '' https://a'', st_oidc_issuer := ''https://i'', st_oidc_audience := ''x'',
     st_oidc_jwks_url := ''https://k'', st_redis_url := ''redis://r'', st_attachment_scan_mode := ''clamav'',
     st_attachment_storage_root := ''/data'', st_calendar_public_base_url := ''https://c''\<rparr>"

lemma sample_origins: "cors_origins sample_production = [''https://a'']"
  by (simp add: cors_origins_def comma_list_def sample_production_def default_settings_def py_strip_def py_lstrip_def
      py_isspace_def Let_def)

lemma sample_production_valid: "validate_settings sample_production = Inr sample_production"
proof -
  have "\<forall>c \<in> set (production_checks sample_production). fst c"
    unfolding production_checks_def sample_origins
    by (simp add: sample_production_def default_settings_def https_def py_startswith_def)
  moreover have "\<forall>c \<in> set (general_checks sample_production). fst c"
    by (simp add: general_checks_def sample_production_def default_settings_def https_def py_startswith_def)
  ultimately show ?thesis by (simp add: validate_settings_Inr)
qed

lemma production_locked_down_witness:
  "https (st_oidc_issuer sample_production) \<and> cors_origins sample_production \<noteq> []"
  using production_locked_down [of sample_production sample_production] sample_production_valid
  by (simp add: sample_origins) (simp add: sample_production_def)

end
