(* ===== verification/Api.thy ===== *)
theory Api
  imports Api_Schemas Offer_Approval Interviews Organization Identity Attachments Retention Calendar Runtime_Settings
begin

text \<open>
  The HTTP endpoints of \<open>app/main.py\<close> and \<open>app/api/*_router.py\<close>: each checks the caller
  (\<open>require\<close>), has the framework check the request model, runs one handler in one session and maps
  its exceptions to a status. An exception that is not mapped is the framework's 500
  (\<open>ServerError\<close>), and the session is rolled back after every exception.

  The framework resolves the dependency \<open>require\<close> before it validates the body.
\<close>

section \<open>Requests and answers\<close>

record request_headers =
  rq_auth :: auth_headers
  rq_correlation_id :: "string option"
  rq_request_id :: "string option"

text \<open>
  What a request draws from its environment: the application's state, the handler's \<open>ctx\<close>, the
  \<open>uuid4()\<close> for a missing correlation id, and what the parameters of the modules stand for.
\<close>

record api_env =
  ap_settings :: settings
  ap_validator :: "(string \<Rightarrow> auth_error + principal) option"
  ap_ctx :: ctx
  ap_uuid :: string
  ap_clam :: "bytes \<Rightarrow> clam_result"
  ap_sha256 :: "string \<Rightarrow> string"
  ap_hex :: string
  ap_token :: string
  ap_token_id :: string
  ap_base_url :: string

text \<open>
  \<open>str(error)\<close> for the exceptions whose text the endpoints pass on. The value an unknown stage is
  quoted with is Python's \<open>repr\<close> of a string without quotes, backslashes and control characters.
\<close>

fun exn_text :: "exn \<Rightarrow> string" where
  "exn_text TenantSlugAlreadyExistsError = ''Tenant slug already exists''"
| "exn_text CandidateEmailAlreadyExistsError = ''Candidate email already exists in this tenant''"
| "exn_text (InvalidTransitionError a b) = ''Invalid candidate stage transition: '' @ a @ '' -> '' @ b"
| "exn_text (ValueError v) = [CHR 0x27] @ v @ [CHR 0x27] @ '' is not a valid CandidateStage''"
| "exn_text InterviewSchedulingTargetNotFoundError = ''Candidate case or interviewer not found''"
| "exn_text InterviewerNotAssignedError = ''Only the assigned interviewer can submit feedback''"
| "exn_text FeedbackAlreadySubmittedError = ''Feedback has already been submitted''"
| "exn_text CandidateNotEligibleForOfferError = ''Candidate must be interviewing before an offer is created''"
| "exn_text OfferAlreadyExistsError = ''Candidate case has changed; refresh and retry''"
| "exn_text (InvalidOfferApprovalError m) = m"
| "exn_text (InvalidAttachmentError m) = m"
| "exn_text (AttachmentTooLargeError m) = ''Attachment must be between 1 and '' @ py_str_int m @ '' bytes''"
| "exn_text MalwareScanRejectedError = ''Attachment malware scan rejected the file''"
| "exn_text _ = []"

definition guarded ::
  "api_env \<Rightarrow> request_headers \<Rightarrow> string \<Rightarrow> db \<Rightarrow> (actor_context \<Rightarrow> (http_error + 'r) \<times> 's) \<Rightarrow> 's \<Rightarrow>
   (http_error + 'r) \<times> 's" where
  "guarded E h permission d run unchanged =
    (case require permission (st_auth_mode (ap_settings E)) (ap_validator E) (rq_auth h) d of
       Inl e \<Rightarrow> (Inl e, unchanged)
     | Inr actor \<Rightarrow> run actor)"

definition checked :: "bool \<Rightarrow> 's \<Rightarrow> (http_error + 'r) \<times> 's \<Rightarrow> (http_error + 'r) \<times> 's" where
  "checked ok unchanged run = (if ok then run else (Inl (HTTPException 422 ''validation error''), unchanged))"

text \<open>The body of an endpoint: a handler in a session of its own, and the mapping of its result.\<close>

definition respond ::
  "(exn \<Rightarrow> http_error) \<Rightarrow> ('a \<Rightarrow> 'r) \<Rightarrow> (session \<Rightarrow> exn + 'a \<times> db) \<Rightarrow> db \<Rightarrow> (http_error + 'r) \<times> db" where
  "respond err resp handler d =
    (case with_session handler d of
       (Inl e, d') \<Rightarrow> (Inl (err e), d')
     | (Inr a, d') \<Rightarrow> (Inr (resp a), d'))"

text \<open>\<open>correlation_id or str(uuid4())\<close>, and the variant that looks at \<open>X-Request-Id\<close> in between.\<close>

definition correlation :: "api_env \<Rightarrow> request_headers \<Rightarrow> string" where
  "correlation E h = py_or (rq_correlation_id h) (ap_uuid E)"

definition correlation_or_request :: "api_env \<Rightarrow> request_headers \<Rightarrow> string" where
  "correlation_or_request E h = py_or (rq_correlation_id h) (py_or (rq_request_id h) (ap_uuid E))"

section \<open>Tenants, requisitions and candidate cases\<close>

fun create_tenant_error :: "exn \<Rightarrow> http_error" where
  "create_tenant_error TenantSlugAlreadyExistsError = HTTPException 409 (exn_text TenantSlugAlreadyExistsError)"
| "create_tenant_error _ = ServerError"

text \<open>The one endpoint that asks for no caller.\<close>

definition api_create_tenant :: "api_env \<Rightarrow> create_tenant_request \<Rightarrow> db \<Rightarrow> (http_error + tenant_response) \<times> db" where
  "api_create_tenant E q d =
    checked (create_tenant_request_ok q) d
      (respond create_tenant_error (\<lambda>t. \<lparr>pt_id = tv_id t, pt_name = tv_name t, pt_slug = tv_slug t\<rparr>)
        (create_tenant (ap_ctx E) \<lparr>ct_name = qt_name q, ct_slug = qt_slug q, ct_admin_id = qt_admin_id q\<rparr>) d)"

definition api_create_requisition ::
  "api_env \<Rightarrow> request_headers \<Rightarrow> create_requisition_request \<Rightarrow> db \<Rightarrow> (http_error + requisition_response) \<times> db" where
  "api_create_requisition E h q d =
    guarded E h ''requisition:create'' d (\<lambda>actor. checked (create_requisition_request_ok q) d
      (respond (\<lambda>_. ServerError) (\<lambda>r. \<lparr>pq_id = rv_id r, pq_title = rv_title r, pq_department = rv_department r\<rparr>)
        (create_requisition (ap_ctx E)
          \<lparr>cq_tenant_id = ac_tenant_id actor, cq_title = qr_title q, cq_department = qr_department q,
           cq_actor_id = ac_actor_id actor, cq_correlation_id = correlation E h\<rparr>) d)) d"

definition item_response :: "list_item \<Rightarrow> candidate_response" where
  "item_response i = \<lparr>pc_id = li_id i, pc_requisition_id = li_requisition_id i, pc_first_name = li_first_name i,
     pc_last_name = li_last_name i, pc_email = li_email i, pc_stage = li_stage i, pc_version = li_version i\<rparr>"

text \<open>A read leaves the database alone; \<open>limit\<close> is checked to lie between 1 and 100.\<close>

definition api_list_candidates ::
  "api_env \<Rightarrow> request_headers \<Rightarrow> string option \<Rightarrow> string option \<Rightarrow> string option \<Rightarrow> nat \<Rightarrow> db \<Rightarrow>
   (http_error + candidate_list_response) \<times> db" where
  "api_list_candidates E h stage requisition_id cursor limit d =
    guarded E h ''tenant:read'' d (\<lambda>actor. checked (1 \<le> limit \<and> limit \<le> 100) d
      (case list_candidates \<lparr>lq_tenant_id = ac_tenant_id actor, lq_stage = stage, lq_requisition_id = requisition_id,
           lq_cursor = cursor, lq_limit = limit\<rparr> (open_session d) of
         Inl e \<Rightarrow> (Inl ServerError, d)
       | Inr page \<Rightarrow> (Inr \<lparr>pl_items = map item_response (pg_items page), pl_next_cursor = pg_next_cursor page,
           pl_total = pg_total page\<rparr>, d))) d"

fun create_candidate_error :: "exn \<Rightarrow> http_error" where
  "create_candidate_error (RequisitionNotFoundError r) = HTTPException 404 ''Requisition not found''"
| "create_candidate_error CandidateEmailAlreadyExistsError = HTTPException 409 (exn_text CandidateEmailAlreadyExistsError)"
| "create_candidate_error _ = ServerError"

definition api_create_candidate ::
  "api_env \<Rightarrow> request_headers \<Rightarrow> create_candidate_request \<Rightarrow> db \<Rightarrow> (http_error + candidate_response) \<times> db" where
  "api_create_candidate E h q d =
    guarded E h ''candidate:create'' d (\<lambda>actor. checked (create_candidate_request_ok q) d
      (respond create_candidate_error
        (\<lambda>c. \<lparr>pc_id = cc_id (kd_candidate c), pc_requisition_id = cc_requisition_id (kd_candidate c),
           pc_first_name = kd_first_name c, pc_last_name = kd_last_name c, pc_email = kd_email c,
           pc_stage = stage_value (cc_stage (kd_candidate c)), pc_version = cc_version (kd_candidate c)\<rparr>)
        (create_candidate (ap_ctx E)
          \<lparr>kc_tenant_id = ac_tenant_id actor, kc_requisition_id = qc_requisition_id q,
           kc_first_name = qc_first_name q, kc_last_name = qc_last_name q, kc_email = qc_email q,
           kc_actor_id = ac_actor_id actor, kc_correlation_id = correlation_or_request E h\<rparr>) d)) d"

fun transition_error :: "exn \<Rightarrow> http_error" where
  "transition_error (CandidateNotFoundError c) = HTTPException 404 ''Candidate case not found''"
| "transition_error (ConcurrencyConflictError c) = HTTPException 409 ''Candidate case has changed; refresh and retry''"
| "transition_error (InvalidTransitionError a b) = HTTPException 422 (exn_text (InvalidTransitionError a b))"
| "transition_error (ValueError v) = HTTPException 422 (exn_text (ValueError v))"
| "transition_error _ = ServerError"

text \<open>The answer's names are read back after the commit, by primary key.\<close>

definition api_transition ::
  "api_env \<Rightarrow> request_headers \<Rightarrow> string \<Rightarrow> transition_request \<Rightarrow> db \<Rightarrow> (http_error + candidate_response) \<times> db" where
  "api_transition E h candidate_case_id q d =
    guarded E h ''candidate:transition'' d (\<lambda>actor. checked (transition_request_ok q) d
      (case with_session (transition_candidate (ap_ctx E)
          \<lparr>tc_candidate_id = candidate_case_id, tc_tenant_id = ac_tenant_id actor, tc_target_stage = qs_target_stage q,
           tc_expected_version = qs_expected_version q, tc_actor_id = ac_actor_id actor,
           tc_correlation_id = correlation_or_request E h\<rparr>) d of
         (Inl e, d') \<Rightarrow> (Inl (transition_error e), d')
       | (Inr c, d') \<Rightarrow>
           (case List.find (\<lambda>r. cr_id r = cc_id c) (candidate_cases d') of
              None \<Rightarrow> (Inl ServerError, d')
            | Some r \<Rightarrow> (Inr \<lparr>pc_id = cr_id r, pc_requisition_id = cr_requisition_id r, pc_first_name = cr_first_name r,
                pc_last_name = cr_last_name r, pc_email = cr_email r, pc_stage = stage_value (cc_stage c),
                pc_version = cc_version c\<rparr>, d')))) d"

section \<open>Interviews and offers\<close>

fun schedule_error :: "exn \<Rightarrow> http_error" where
  "schedule_error InterviewSchedulingTargetNotFoundError = HTTPException 404 (exn_text InterviewSchedulingTargetNotFoundError)"
| "schedule_error _ = ServerError"

definition api_schedule_interview ::
  "api_env \<Rightarrow> request_headers \<Rightarrow> string \<Rightarrow> create_interview_request \<Rightarrow> db \<Rightarrow> (http_error + interview_response) \<times> db" where
  "api_schedule_interview E h candidate_case_id q d =
    guarded E h ''interview:manage'' d (\<lambda>actor. checked (create_interview_request_ok q) d
      (respond schedule_error
        (\<lambda>i. \<lparr>pi_id = in_id i, pi_candidate_case_id = in_candidate_case_id i, pi_interviewer_id = in_interviewer_id i,
           pi_scheduled_at = in_scheduled_at i\<rparr>)
        (schedule_interview (ap_ctx E)
          \<lparr>si_tenant_id = ac_tenant_id actor, si_candidate_case_id = candidate_case_id,
           si_interviewer_id = qi_interviewer_id q, si_scheduled_at = qi_scheduled_at q,
           si_actor_id = ac_actor_id actor, si_correlation_id = correlation E h\<rparr>) d)) d"

fun feedback_error :: "exn \<Rightarrow> http_error" where
  "feedback_error (InterviewNotFoundError i) = HTTPException 404 ''Interview not found''"
| "feedback_error InterviewerNotAssignedError = HTTPException 403 (exn_text InterviewerNotAssignedError)"
| "feedback_error FeedbackAlreadySubmittedError = HTTPException 409 (exn_text FeedbackAlreadySubmittedError)"
| "feedback_error _ = ServerError"

definition api_submit_feedback ::
  "api_env \<Rightarrow> request_headers \<Rightarrow> string \<Rightarrow> submit_feedback_request \<Rightarrow> db \<Rightarrow> (http_error + feedback_response) \<times> db" where
  "api_submit_feedback E h interview_id q d =
    guarded E h ''feedback:submit'' d (\<lambda>actor. checked (submit_feedback_request_ok q) d
      (respond feedback_error
        (\<lambda>f. \<lparr>pf_id = fe_id f, pf_interview_id = fe_interview_id f, pf_score = fe_score f,
           pf_recommendation = fe_recommendation f, pf_comments = fe_comments f\<rparr>)
        (submit_feedback (ap_ctx E)
          \<lparr>sf_interview_id = interview_id, sf_tenant_id = ac_tenant_id actor, sf_actor_id = ac_actor_id actor,
           sf_score = qf_score q, sf_recommendation = qf_recommendation q, sf_comments = qf_comments q,
           sf_correlation_id = correlation E h\<rparr>) d)) d"

fun create_offer_error :: "exn \<Rightarrow> http_error" where
  "create_offer_error CandidateNotEligibleForOfferError = HTTPException 409 (exn_text CandidateNotEligibleForOfferError)"
| "create_offer_error OfferAlreadyExistsError = HTTPException 409 (exn_text OfferAlreadyExistsError)"
| "create_offer_error _ = ServerError"

definition offer_response_of :: "offer \<Rightarrow> string \<Rightarrow> offer_response" where
  "offer_response_of f candidate_stage = \<lparr>po_id = of_id f, po_status = of_status f,
     po_approval_step = of_approval_step f, po_version = of_version f, po_candidate_stage = candidate_stage\<rparr>"

definition api_create_offer ::
  "api_env \<Rightarrow> request_headers \<Rightarrow> string \<Rightarrow> create_offer_request \<Rightarrow> db \<Rightarrow> (http_error + offer_response) \<times> db" where
  "api_create_offer E h candidate_case_id q d =
    guarded E h ''candidate:transition'' d (\<lambda>actor. checked (create_offer_request_ok q) d
      (respond create_offer_error (\<lambda>f. offer_response_of f (stage_value OFFER_PENDING_APPROVAL))
        (create_offer (ap_ctx E)
          \<lparr>ko_tenant_id = ac_tenant_id actor, ko_candidate_case_id = candidate_case_id, ko_title = qo_title q,
           ko_annual_salary = qo_annual_salary q, ko_currency = qo_currency q, ko_actor_id = ac_actor_id actor\<rparr>) d)) d"

fun approve_offer_error :: "exn \<Rightarrow> http_error" where
  "approve_offer_error (OfferNotFoundError i) = HTTPException 404 ''Offer not found''"
| "approve_offer_error (OfferConcurrencyConflictError i) = HTTPException 409 ''Offer has changed; refresh and retry''"
| "approve_offer_error (InvalidOfferApprovalError m) = HTTPException 403 (exn_text (InvalidOfferApprovalError m))"
| "approve_offer_error _ = ServerError"

definition api_approve_offer ::
  "api_env \<Rightarrow> request_headers \<Rightarrow> string \<Rightarrow> approve_offer_request \<Rightarrow> db \<Rightarrow> (http_error + offer_response) \<times> db" where
  "api_approve_offer E h offer_id q d =
    guarded E h ''tenant:read'' d (\<lambda>actor. checked (approve_offer_request_ok q) d
      (respond approve_offer_error (\<lambda>(f, candidate_stage). offer_response_of f candidate_stage)
        (decide_offer (ap_ctx E) standard_policy
          \<lparr>do_offer_id = offer_id, do_tenant_id = ac_tenant_id actor, do_actor_id = ac_actor_id actor,
           do_actor_role = ac_role actor, do_decision = qa_decision q, do_expected_version = qa_expected_version q\<rparr>) d)) d"

section \<open>Attachments\<close>

definition attachment_response_of :: "attachment \<Rightarrow> attachment_response" where
  "attachment_response_of a = \<lparr>pa_id = am_id a, pa_document_type = am_document_type a, pa_filename = am_filename a,
     pa_content_type = am_content_type a, pa_size_bytes = am_size_bytes a, pa_sha256 = am_sha256 a,
     pa_created_at = am_created_at a\<rparr>"

definition attachment_service :: "api_env \<Rightarrow> attachment_env" where
  "attachment_service E =
    \<lparr>av_max_bytes = st_attachment_max_bytes (ap_settings E),
     av_scan = build_scanner (st_attachment_scan_mode (ap_settings E)) (ap_clam E),
     av_sha256 = ap_sha256 E, av_hex = ap_hex E\<rparr>"

text \<open>An uploaded part: its declared name and type may be missing.\<close>

record upload_file =
  ul_filename :: "string option"
  ul_content_type :: "string option"
  ul_content :: bytes

fun upload_error :: "exn \<Rightarrow> http_error" where
  "upload_error (CandidateNotFoundError c) = HTTPException 404 ''Candidate case not found''"
| "upload_error (InvalidAttachmentError m) = HTTPException 422 (exn_text (InvalidAttachmentError m))"
| "upload_error (AttachmentTooLargeError m) = HTTPException 422 (exn_text (AttachmentTooLargeError m))"
| "upload_error MalwareScanRejectedError = HTTPException 422 (exn_text MalwareScanRejectedError)"
| "upload_error MalwareScannerUnavailableError = HTTPException 503 ''Attachment malware scanner is unavailable''"
| "upload_error _ = ServerError"

definition api_upload_attachment ::
  "api_env \<Rightarrow> request_headers \<Rightarrow> string \<Rightarrow> string \<Rightarrow> upload_file \<Rightarrow> db \<times> fs \<Rightarrow>
   (http_error + attachment_response) \<times> db \<times> fs" where
  "api_upload_attachment E h candidate_case_id document_type f st =
    (case st of (d, files) \<Rightarrow>
      guarded E h ''candidate:attachment'' d (\<lambda>actor.
        (case upload_attachment (ap_ctx E) (attachment_service E)
            \<lparr>uc_tenant_id = ac_tenant_id actor, uc_candidate_case_id = candidate_case_id,
             uc_document_type = document_type, uc_filename = py_or (ul_filename f) [],
             uc_content_type = py_or (ul_content_type f) [], uc_content = ul_content f,
             uc_actor_id = ac_actor_id actor, uc_correlation_id = correlation E h\<rparr> (open_session d) files of
           (Inl e, files') \<Rightarrow> (Inl (upload_error e), (d, files'))
         | (Inr (a, d'), files') \<Rightarrow> (Inr (attachment_response_of a), (d', files')))) (d, files))"

fun list_attachments_error :: "exn \<Rightarrow> http_error" where
  "list_attachments_error (CandidateNotFoundError c) = HTTPException 404 ''Candidate case not found''"
| "list_attachments_error _ = ServerError"

definition api_list_attachments ::
  "api_env \<Rightarrow> request_headers \<Rightarrow> string \<Rightarrow> db \<Rightarrow> (http_error + attachment_response list) \<times> db" where
  "api_list_attachments E h candidate_case_id d =
    guarded E h ''candidate:attachment'' d (\<lambda>actor.
      (case list_attachments candidate_case_id (ac_tenant_id actor) (open_session d) of
         Inl e \<Rightarrow> (Inl (list_attachments_error e), d)
       | Inr atts \<Rightarrow> (Inr (map attachment_response_of atts), d))) d"

fun download_error :: "exn \<Rightarrow> http_error" where
  "download_error (AttachmentNotFoundError a) = HTTPException 404 ''Attachment not found''"
| "download_error (FileNotFoundError k) = HTTPException 410 ''Attachment content is unavailable''"
| "download_error _ = ServerError"

text \<open>The answer streams the file at the path, with the recorded type and name.\<close>

definition api_download_attachment ::
  "api_env \<Rightarrow> request_headers \<Rightarrow> string \<Rightarrow> string \<Rightarrow> db \<Rightarrow> fs \<Rightarrow> (http_error + string \<times> string \<times> string) \<times> db" where
  "api_download_attachment E h candidate_case_id attachment_id d files =
    guarded E h ''candidate:attachment'' d (\<lambda>actor.
      respond download_error (\<lambda>(a, path). (path, am_content_type a, am_filename a))
        (\<lambda>s. download_attachment (ap_ctx E)
          \<lparr>dc_attachment_id = attachment_id, dc_candidate_case_id = candidate_case_id,
           dc_tenant_id = ac_tenant_id actor, dc_actor_id = ac_actor_id actor, dc_correlation_id = correlation E h\<rparr>
          s files) d) d"

section \<open>Retention\<close>

definition api_set_retention_policy ::
  "api_env \<Rightarrow> request_headers \<Rightarrow> retention_policy_request \<Rightarrow> db \<Rightarrow> (http_error + int) \<times> db" where
  "api_set_retention_policy E h q d =
    guarded E h ''retention:manage'' d (\<lambda>actor. checked (retention_policy_request_ok q) d
      (respond (\<lambda>_. ServerError) snd
        (set_policy (ap_ctx E) (ac_tenant_id actor) (qp_retention_days q) (ac_actor_id actor) (correlation E h)) d)) d"

fun legal_hold_error :: "exn \<Rightarrow> http_error" where
  "legal_hold_error (CandidateNotFoundError c) = HTTPException 404 ''Candidate case not found''"
| "legal_hold_error _ = ServerError"

definition api_set_legal_hold ::
  "api_env \<Rightarrow> request_headers \<Rightarrow> string \<Rightarrow> legal_hold_request \<Rightarrow> db \<Rightarrow> (http_error + unit) \<times> db" where
  "api_set_legal_hold E h candidate_case_id q d =
    guarded E h ''retention:manage'' d (\<lambda>actor. checked (legal_hold_request_ok q) d
      (respond legal_hold_error id
        (set_legal_hold (ap_ctx E) (ac_tenant_id actor) candidate_case_id (qh_held q) (qh_reason q)
          (ac_actor_id actor) (correlation E h)) d)) d"

definition api_purge_due ::
  "api_env \<Rightarrow> request_headers \<Rightarrow> db \<times> fs \<Rightarrow> (http_error + nat) \<times> db \<times> fs" where
  "api_purge_due E h st =
    (case st of (d, files) \<Rightarrow>
      guarded E h ''retention:purge'' d (\<lambda>actor.
        (case purge_due (ap_ctx E) (ac_tenant_id actor) (ac_actor_id actor) (correlation E h) (open_session d) files of
           (Inl e, files') \<Rightarrow> (Inl ServerError, (d, files'))
         | (Inr (n, d'), files') \<Rightarrow> (Inr n, (d', files')))) (d, files))"

section \<open>Calendar\<close>

definition calendar_service :: "api_env \<Rightarrow> calendar_env" where
  "calendar_service E = \<lparr>ke_lifetime_days = st_calendar_subscription_lifetime_days (ap_settings E),
     ke_sha256 = ap_sha256 E, ke_token = ap_token E, ke_id = ap_token_id E\<rparr>"

text \<open>\<open>rstrip("/")\<close>.\<close>

definition rstrip_slash :: "string \<Rightarrow> string" where
  "rstrip_slash s = rev (dropWhile (\<lambda>c. c = CHR ''/'') (rev s))"

definition feed_url :: "api_env \<Rightarrow> string \<Rightarrow> string" where
  "feed_url E token =
    (let configured = rstrip_slash (st_calendar_public_base_url (ap_settings E));
         base = (if configured = [] then rstrip_slash (ap_base_url E) else configured)
     in base @ ''/v1/calendar-feeds/'' @ token @ ''.ics'')"

fun create_subscription_error :: "exn \<Rightarrow> http_error" where
  "create_subscription_error (CalendarSubscriptionNotFoundError i) = HTTPException 404 ''Interviewer not found''"
| "create_subscription_error _ = ServerError"

definition api_create_subscription ::
  "api_env \<Rightarrow> request_headers \<Rightarrow> create_subscription_request \<Rightarrow> db \<Rightarrow> (http_error + subscription_response) \<times> db" where
  "api_create_subscription E h q d =
    guarded E h ''calendar:manage'' d (\<lambda>actor. checked (create_subscription_request_ok q) d
      (respond create_subscription_error
        (\<lambda>(u, token). \<lparr>pu_id = cu_id u, pu_interviewer_id = cu_interviewer_id u, pu_feed_url = feed_url E token,
           pu_expires_at = cu_expires_at u\<rparr>)
        (create_subscription (ap_ctx E) (calendar_service E) (ac_tenant_id actor) (qk_interviewer_id q)
          (ac_actor_id actor)) d)) d"

fun revoke_subscription_error :: "exn \<Rightarrow> http_error" where
  "revoke_subscription_error (CalendarSubscriptionNotFoundError i) = HTTPException 404 ''Calendar subscription not found''"
| "revoke_subscription_error _ = ServerError"

definition api_revoke_subscription ::
  "api_env \<Rightarrow> request_headers \<Rightarrow> string \<Rightarrow> db \<Rightarrow> (http_error + unit) \<times> db" where
  "api_revoke_subscription E h subscription_id d =
    guarded E h ''calendar:manage'' d (\<lambda>actor.
      respond revoke_subscription_error id
        (revoke_subscription (ap_ctx E) subscription_id (ac_tenant_id actor) (ac_actor_id actor)) d) d"

text \<open>The feed is public: the token is the credential.\<close>

fun feed_error :: "exn \<Rightarrow> http_error" where
  "feed_error (CalendarSubscriptionNotFoundError i) = HTTPException 404 ''Calendar feed not found''"
| "feed_error _ = ServerError"

definition api_calendar_feed :: "api_env \<Rightarrow> string \<Rightarrow> db \<Rightarrow> http_error + string" where
  "api_calendar_feed E token d =
    (case calendar_for_token (ap_ctx E) (calendar_service E) token (open_session d) of
       Inl e \<Rightarrow> Inl (feed_error e)
     | Inr (u, events) \<Rightarrow>
         Inr (render_icalendar events (st_calendar_interview_duration_minutes (ap_settings E))))"

section \<open>Reports, audit trail and health\<close>

definition api_pipeline_report :: "api_env \<Rightarrow> request_headers \<Rightarrow> db \<Rightarrow> (http_error + pipeline_response) \<times> db" where
  "api_pipeline_report E h d =
    guarded E h ''report:read'' d (\<lambda>actor.
      let r = get_pipeline_report (ac_tenant_id actor) (open_session d)
      in (Inr \<lparr>pp_candidates = \<lparr>ps_total = pr_candidate_total r, ps_by_key = pr_candidates_by_stage r\<rparr>,
           pp_offers = \<lparr>ps_total = pr_offer_total r, ps_by_key = pr_offers_by_status r\<rparr>,
           pp_interviews = \<lparr>ps_scheduled_total = pr_scheduled_interview_total r,
             ps_feedback_submitted_total = pr_feedback_submitted_total r\<rparr>\<rparr>, d)) d"

definition api_audit_events :: "api_env \<Rightarrow> request_headers \<Rightarrow> db \<Rightarrow> (http_error + audit_response list) \<times> db" where
  "api_audit_events E h d =
    guarded E h ''audit:read'' d (\<lambda>actor.
      (Inr (map (\<lambda>e. \<lparr>pe_id = au_id e, pe_action = au_action e, pe_aggregate_type = au_aggregate_type e,
           pe_aggregate_id = au_aggregate_id e, pe_correlation_id = au_correlation_id e\<rparr>)
         (list_audit_events (ac_tenant_id actor) (open_session d))), d)) d"

text \<open>Readiness asks the database and the rate limiter (\<open>ping\<close> fails when it raises).\<close>

definition api_liveness :: "nat \<times> string" where
  "api_liveness = (200, ''ok'')"

definition api_readiness :: "bool \<Rightarrow> bool \<Rightarrow> nat \<times> string" where
  "api_readiness db_up limiter_ping_raises = (if db_up \<and> \<not> limiter_ping_raises then (200, ''ok'') else (503, ''unavailable''))"

end
