(* ===== verification/System.thy ===== *)
theory System
  imports Commits Api Delivery_Concurrency
begin

text \<open>
  The whole service: the requests that change state, the outbox publisher, the delivery workers
  statement by statement, and the retention worker, as the steps of one system over one database and
  one file store. The steps interleave in any order; each request sees the database the last commit left.
\<close>

section \<open>Requests\<close>

datatype api_call =
    Create_Tenant create_tenant_request
  | Create_Requisition create_requisition_request
  | Create_Candidate create_candidate_request
  | Transition string transition_request
  | Schedule_Interview string create_interview_request
  | Submit_Feedback string submit_feedback_request
  | Create_Offer string create_offer_request
  | Approve_Offer string approve_offer_request
  | Upload_Attachment string string upload_file
  | Download_Attachment string string
  | Set_Retention_Policy retention_policy_request
  | Set_Legal_Hold string legal_hold_request
  | Purge_Due
  | Create_Subscription create_subscription_request
  | Revoke_Subscription string

text \<open>The outcome of a request: the error it answers, if any, and the state it leaves.\<close>

definition error_of :: "http_error + 'r \<Rightarrow> http_error option" where
  "error_of r = (case r of Inl e \<Rightarrow> Some e | Inr _ \<Rightarrow> None)"

definition on_db :: "(http_error + 'r) \<times> db \<Rightarrow> fs \<Rightarrow> http_error option \<times> db \<times> fs" where
  "on_db out files = (case out of (r, d) \<Rightarrow> (error_of r, d, files))"

fun serve :: "api_env \<Rightarrow> request_headers \<Rightarrow> api_call \<Rightarrow> db \<times> fs \<Rightarrow> http_error option \<times> db \<times> fs" where
  "serve E h (Create_Tenant q) (d, files) = on_db (api_create_tenant E q d) files"
| "serve E h (Create_Requisition q) (d, files) = on_db (api_create_requisition E h q d) files"
| "serve E h (Create_Candidate q) (d, files) = on_db (api_create_candidate E h q d) files"
| "serve E h (Transition i q) (d, files) = on_db (api_transition E h i q d) files"
| "serve E h (Schedule_Interview i q) (d, files) = on_db (api_schedule_interview E h i q d) files"
| "serve E h (Submit_Feedback i q) (d, files) = on_db (api_submit_feedback E h i q d) files"
| "serve E h (Create_Offer i q) (d, files) = on_db (api_create_offer E h i q d) files"
| "serve E h (Approve_Offer i q) (d, files) = on_db (api_approve_offer E h i q d) files"
| "serve E h (Upload_Attachment i t f) (d, files) =
     (case api_upload_attachment E h i t f (d, files) of (r, st) \<Rightarrow> (error_of r, st))"
| "serve E h (Download_Attachment i a) (d, files) = on_db (api_download_attachment E h i a d files) files"
| "serve E h (Set_Retention_Policy q) (d, files) = on_db (api_set_retention_policy E h q d) files"
| "serve E h (Set_Legal_Hold i q) (d, files) = on_db (api_set_legal_hold E h i q d) files"
| "serve E h Purge_Due (d, files) = (case api_purge_due E h (d, files) of (r, st) \<Rightarrow> (error_of r, st))"
| "serve E h (Create_Subscription q) (d, files) = on_db (api_create_subscription E h q d) files"
| "serve E h (Revoke_Subscription i) (d, files) = on_db (api_revoke_subscription E h i d) files"

text \<open>The permission each endpoint asks for; creating a tenant asks for none.\<close>

fun permission_of :: "api_call \<Rightarrow> string option" where
  "permission_of (Create_Tenant q) = None"
| "permission_of (Create_Requisition q) = Some ''requisition:create''"
| "permission_of (Create_Candidate q) = Some ''candidate:create''"
| "permission_of (Transition i q) = Some ''candidate:transition''"
| "permission_of (Schedule_Interview i q) = Some ''interview:manage''"
| "permission_of (Submit_Feedback i q) = Some ''feedback:submit''"
| "permission_of (Create_Offer i q) = Some ''candidate:transition''"
| "permission_of (Approve_Offer i q) = Some ''tenant:read''"
| "permission_of (Upload_Attachment i t f) = Some ''candidate:attachment''"
| "permission_of (Download_Attachment i a) = Some ''candidate:attachment''"
| "permission_of (Set_Retention_Policy q) = Some ''retention:manage''"
| "permission_of (Set_Legal_Hold i q) = Some ''retention:manage''"
| "permission_of Purge_Due = Some ''retention:purge''"
| "permission_of (Create_Subscription q) = Some ''calendar:manage''"
| "permission_of (Revoke_Subscription i) = Some ''calendar:manage''"

definition granted :: "api_env \<Rightarrow> request_headers \<Rightarrow> string \<Rightarrow> db \<Rightarrow> actor_context \<Rightarrow> bool" where
  "granted E h p d a = (require p (st_auth_mode (ap_settings E)) (ap_validator E) (rq_auth h) d = Inr a)"

text \<open>What a request that succeeds leaves in the audit trail of its tenant.\<close>

fun audited :: "api_call \<Rightarrow> string \<Rightarrow> string \<Rightarrow> db \<Rightarrow> db \<Rightarrow> bool" where
  "audited (Create_Offer i q) t a d d' = (audit_events d' = audit_events d)"
| "audited (Approve_Offer i q) t a d d' = (audit_events d' = audit_events d)"
| "audited Purge_Due t a d d' = (\<exists>es. audit_events d' = audit_events d @ es \<and>
     (\<forall>e \<in> set es. ae_tenant_id e = t \<and> ae_actor_id e = a))"
| "audited call t a d d' = one_event t a d d'"

section \<open>The endpoints' common part\<close>

lemma guarded_cases:
  assumes "guarded E h p d run un = (r, s)"
  obtains e where "r = Inl e" "s = un" | a where "granted E h p d a" "run a = (r, s)"
  using assms by (auto simp: guarded_def granted_def split: sum.splits)

lemma checked_cases:
  assumes "checked ok un run = (r, s)"
  obtains e where "r = Inl e" "s = un" | "ok" "run = (r, s)"
  using assms by (auto simp: checked_def split: if_splits)

lemma respond_cases:
  assumes "respond err resp handler d = (r, d')"
  obtains e where "r = Inl e" "d' = d" | v where "handler (open_session d) = Inr (v, d')" "r = Inr (resp v)"
  using assms by (auto simp: respond_def with_session_def split: sum.splits prod.splits)

lemma guarded_respond:
  assumes "guarded E h p d (\<lambda>a. checked ok d (respond (err a) (resp a) (handler a) d)) d = (r, d')"
  obtains e where "r = Inl e" "d' = d"
    | a v where "granted E h p d a" "handler a (open_session d) = Inr (v, d')" "r = Inr (resp a v)"
  using assms by (elim guarded_cases checked_cases respond_cases) blast+

section \<open>What a request does\<close>

definition accepted :: "api_env \<Rightarrow> request_headers \<Rightarrow> api_call \<Rightarrow> db \<Rightarrow> db \<Rightarrow> bool" where
  "accepted E h call d d' = (committed d d' \<and>
     (case permission_of call of
        None \<Rightarrow> True
      | Some p \<Rightarrow> (\<exists>a. granted E h p d a \<and> others (ac_tenant_id a) d' = others (ac_tenant_id a) d \<and>
          audited call (ac_tenant_id a) (ac_actor_id a) d d')))"

text \<open>A request is refused and leaves the database alone, or it is accepted and commits.\<close>

definition outcome :: "api_env \<Rightarrow> request_headers \<Rightarrow> api_call \<Rightarrow> db \<Rightarrow> http_error option \<times> db \<times> fs \<Rightarrow> bool" where
  "outcome E h call d res =
    (case res of (out, d', files') \<Rightarrow> (out \<noteq> None \<and> d' = d) \<or> (out = None \<and> accepted E h call d d'))"

lemma outcome_respond:
  assumes "\<And>a v d'. granted E h p d a \<Longrightarrow> handler a (open_session d) = Inr (v, d') \<Longrightarrow>
      committed d d' \<and> others (ac_tenant_id a) d' = others (ac_tenant_id a) d \<and>
      audited call (ac_tenant_id a) (ac_actor_id a) d d'"
    and "permission_of call = Some p"
  shows "outcome E h call d (on_db (guarded E h p d (\<lambda>a. checked ok d (respond (err a) (resp a) (handler a) d)) d) files)"
proof -
  obtain r d' where g: "guarded E h p d (\<lambda>a. checked ok d (respond (err a) (resp a) (handler a) d)) d = (r, d')"
    by (cases "guarded E h p d (\<lambda>a. checked ok d (respond (err a) (resp a) (handler a) d)) d")
  show ?thesis
    using g
  proof (rule guarded_respond)
    fix e assume "r = Inl e" "d' = d"
    with g show ?thesis by (simp add: outcome_def on_db_def error_of_def)
  next
    fix a v assume a: "granted E h p d a" and v: "handler a (open_session d) = Inr (v, d')" "r = Inr (resp a v)"
    have "accepted E h call d d'"
      unfolding accepted_def assms(2) option.case using assms(1) [OF a v(1)] a by blast
    with g v(2) show ?thesis by (simp add: outcome_def on_db_def error_of_def)
  qed
qed

lemma outcome_respond':
  assumes "\<And>a v d'. granted E h p d a \<Longrightarrow> handler a (open_session d) = Inr (v, d') \<Longrightarrow>
      committed d d' \<and> others (ac_tenant_id a) d' = others (ac_tenant_id a) d \<and>
      audited call (ac_tenant_id a) (ac_actor_id a) d d'"
    and "permission_of call = Some p"
  shows "outcome E h call d (on_db (guarded E h p d (\<lambda>a. respond (err a) (resp a) (handler a) d) d) files)"
  using outcome_respond [OF assms, where ok = True] by (simp add: checked_def)

lemma transition_outcome:
  assumes w: "well_kept d"
  shows "outcome E h (Transition i q) d (serve E h (Transition i q) (d, files))"
proof -
  obtain r d' where g: "api_transition E h i q d = (r, d')" by (cases "api_transition E h i q d")
  have s: "serve E h (Transition i q) (d, files) = (error_of r, d', files)" by (simp add: g on_db_def)
  have "outcome E h (Transition i q) d (error_of r, d', files)" (is ?goal)
    using g [unfolded api_transition_def]
  proof (elim guarded_cases checked_cases)
    fix a assume a: "granted E h ''candidate:transition'' d a"
    let ?c = "\<lparr>tc_candidate_id = i, tc_tenant_id = ac_tenant_id a, tc_target_stage = qs_target_stage q,
           tc_expected_version = qs_expected_version q, tc_actor_id = ac_actor_id a,
           tc_correlation_id = correlation_or_request E h\<rparr>"
    assume run: "(case with_session (transition_candidate (ap_ctx E) ?c) d of
         (Inl e, d') \<Rightarrow> (Inl (transition_error e), d')
       | (Inr c, d') \<Rightarrow>
           (case List.find (\<lambda>r. cr_id r = cc_id c) (candidate_cases d') of
              None \<Rightarrow> (Inl ServerError, d')
            | Some r \<Rightarrow> (Inr \<lparr>pc_id = cr_id r, pc_requisition_id = cr_requisition_id r, pc_first_name = cr_first_name r,
                pc_last_name = cr_last_name r, pc_email = cr_email r, pc_stage = stage_value (cc_stage c),
                pc_version = cc_version c\<rparr>, d'))) = (r, d')"
    show ?goal
    proof (cases "transition_candidate (ap_ctx E) ?c (open_session d)")
      case (Inl e)
      with run have "(Inl (transition_error e), d) = (r, d')" by (simp add: with_session_def)
      then show ?goal unfolding outcome_def by (auto simp: error_of_def)
    next
      case (Inr md)
      obtain m e where md: "md = (m, e)" by (cases md)
      note res = Inr [unfolded md]
      obtain x y z where x: "x \<in> set (candidate_cases d)" "m = moved_case x z" "e = stage_move (ap_ctx E) ?c x y z d"
        by (rule transition_candidate_Inr [OF well_keptD(1) [OF w] res])
      have "candidate_set_stage (ap_ctx E) (moved_case x z) x \<in> set (candidate_cases e)"
        using x(1) by (auto simp: x(3) stage_move_def stage_set_def set_update_where)
      moreover have "cr_id (candidate_set_stage (ap_ctx E) (moved_case x z) x) = cc_id m" by (simp add: x(2))
      ultimately have "List.find (\<lambda>r. cr_id r = cc_id m) (candidate_cases e) \<noteq> None"
        unfolding find_None by blast
      then obtain y where y: "List.find (\<lambda>r. cr_id r = cc_id m) (candidate_cases e) = Some y" by blast
      from run have de: "d' = e" and "\<exists>v. r = Inr v" by (auto simp: with_session_def res y)
      then have r: "error_of r = None" by (auto simp: error_of_def)
      have "accepted E h (Transition i q) d d'"
        using transition_committed [OF w res] a by (auto simp: accepted_def de)
      then show ?goal unfolding outcome_def by (simp add: r)
    qed
  qed (auto simp: outcome_def error_of_def)
  then show ?thesis unfolding s .
qed

lemma upload_outcome:
  assumes w: "well_kept d" and key: "valid_key (ap_hex E)"
  shows "outcome E h (Upload_Attachment i t f) d (serve E h (Upload_Attachment i t f) (d, files))"
proof -
  have key': "valid_key (av_hex (attachment_service E))" using key by (simp add: attachment_service_def)
  obtain r d' files' where g: "api_upload_attachment E h i t f (d, files) = (r, d', files')"
    by (cases "api_upload_attachment E h i t f (d, files)") auto
  from g [unfolded api_upload_attachment_def prod.case] show ?thesis
  proof (elim guarded_cases)
    fix a assume a: "granted E h ''candidate:attachment'' d a"
    let ?c = "\<lparr>uc_tenant_id = ac_tenant_id a, uc_candidate_case_id = i, uc_document_type = t,
      uc_filename = py_or (ul_filename f) [], uc_content_type = py_or (ul_content_type f) [],
      uc_content = ul_content f, uc_actor_id = ac_actor_id a, uc_correlation_id = correlation E h\<rparr>"
    assume run: "(case upload_attachment (ap_ctx E) (attachment_service E) ?c (open_session d) files of
           (Inl e, files') \<Rightarrow> (Inl (upload_error e), (d, files'))
         | (Inr (a, d'), files') \<Rightarrow> (Inr (attachment_response_of a), (d', files'))) = (r, d', files')"
    show ?thesis
    proof (cases "fst (upload_attachment (ap_ctx E) (attachment_service E) ?c (open_session d) files)")
      case (Inl e)
      with run g show ?thesis by (auto simp: outcome_def error_of_def split: prod.splits)
    next
      case (Inr ad)
      obtain x e fs' where res: "upload_attachment (ap_ctx E) (attachment_service E) ?c (open_session d) files = (Inr (x, e), fs')"
        using Inr by (metis prod.collapse)
      from run res have "d' = e" "\<exists>v. r = Inr v" by auto
      with upload_committed [OF w key' res] a g show ?thesis
        by (auto simp: outcome_def error_of_def accepted_def)
    qed
  qed (use g in \<open>auto simp: outcome_def error_of_def\<close>)
qed

lemma purge_outcome:
  assumes w: "well_kept d"
  shows "outcome E h Purge_Due d (serve E h Purge_Due (d, files))"
proof -
  obtain r d' files' where g: "api_purge_due E h (d, files) = (r, d', files')"
    by (cases "api_purge_due E h (d, files)") auto
  from g [unfolded api_purge_due_def prod.case] show ?thesis
  proof (elim guarded_cases)
    fix a assume a: "granted E h ''retention:purge'' d a"
    assume run: "(case purge_due (ap_ctx E) (ac_tenant_id a) (ac_actor_id a) (correlation E h) (open_session d) files of
           (Inl e, files') \<Rightarrow> (Inl ServerError, (d, files'))
         | (Inr (n, d'), files') \<Rightarrow> (Inr n, (d', files'))) = (r, d', files')"
    show ?thesis
    proof (cases "fst (purge_due (ap_ctx E) (ac_tenant_id a) (ac_actor_id a) (correlation E h) (open_session d) files)")
      case (Inl e)
      with run g show ?thesis by (auto simp: outcome_def error_of_def split: prod.splits)
    next
      case (Inr ad)
      obtain n e fs' where res: "purge_due (ap_ctx E) (ac_tenant_id a) (ac_actor_id a) (correlation E h) (open_session d) files = (Inr (n, e), fs')"
        using Inr by (metis prod.collapse)
      from run res have "d' = e" "\<exists>v. r = Inr v" by auto
      with purge_committed [OF w res] a g show ?thesis
        by (auto simp: outcome_def error_of_def accepted_def)
    qed
  qed (use g in \<open>auto simp: outcome_def error_of_def\<close>)
qed

lemma create_tenant_outcome:
  assumes w: "well_kept d"
  shows "outcome E h (Create_Tenant q) d (serve E h (Create_Tenant q) (d, files))"
proof -
  obtain r d' where g: "api_create_tenant E q d = (r, d')" by (cases "api_create_tenant E q d")
  have "outcome E h (Create_Tenant q) d (error_of r, d', files)"
    using g [unfolded api_create_tenant_def]
  proof (elim checked_cases respond_cases)
    fix v assume "create_tenant (ap_ctx E) \<lparr>ct_name = qt_name q, ct_slug = qt_slug q, ct_admin_id = qt_admin_id q\<rparr>
      (open_session d) = Inr (v, d')"
      and r: "r = Inr \<lparr>pt_id = tv_id v, pt_name = tv_name v, pt_slug = tv_slug v\<rparr>"
    from create_tenant_committed [OF w this(1)] show ?thesis by (simp add: outcome_def error_of_def r accepted_def)
  qed (simp_all add: outcome_def error_of_def)
  then show ?thesis by (simp add: g on_db_def)
qed

lemma serve_outcome:
  assumes w: "well_kept d" and key: "valid_key (ap_hex E)"
  shows "outcome E h call d (serve E h call (d, files))"
proof (cases call)
  case (Create_Tenant q)
  then show ?thesis using create_tenant_outcome [OF w] by simp
next
  case (Create_Requisition q)
  then show ?thesis unfolding serve.simps api_create_requisition_def Create_Requisition
    by (intro outcome_respond) (auto dest: create_requisition_committed [OF w])
next
  case (Create_Candidate q)
  then show ?thesis unfolding serve.simps api_create_candidate_def Create_Candidate
    by (intro outcome_respond) (auto dest: create_candidate_committed [OF w])
next
  case (Transition i q)
  then show ?thesis using transition_outcome [OF w] by simp
next
  case (Schedule_Interview i q)
  then show ?thesis unfolding serve.simps api_schedule_interview_def Schedule_Interview
    by (intro outcome_respond) (auto dest: schedule_committed [OF w])
next
  case (Submit_Feedback i q)
  then show ?thesis unfolding serve.simps api_submit_feedback_def Submit_Feedback
    by (intro outcome_respond) (auto dest: feedback_committed [OF w])
next
  case (Create_Offer i q)
  then show ?thesis unfolding serve.simps api_create_offer_def Create_Offer
    by (intro outcome_respond) (auto dest: create_offer_committed [OF w])
next
  case (Approve_Offer i q)
  then show ?thesis unfolding serve.simps api_approve_offer_def Approve_Offer
    by (intro outcome_respond) (auto dest: decide_offer_committed [OF w])
next
  case (Upload_Attachment i t f)
  then show ?thesis using upload_outcome [OF w key] by simp
next
  case (Download_Attachment i a)
  then show ?thesis unfolding serve.simps api_download_attachment_def Download_Attachment
    by (intro outcome_respond') (auto dest: download_committed [OF w])
next
  case (Set_Retention_Policy q)
  then show ?thesis unfolding serve.simps api_set_retention_policy_def Set_Retention_Policy
    by (intro outcome_respond) (auto dest: set_policy_committed [OF w])
next
  case (Set_Legal_Hold i q)
  then show ?thesis unfolding serve.simps api_set_legal_hold_def Set_Legal_Hold
    by (intro outcome_respond) (auto dest: set_legal_hold_committed [OF w])
next
  case Purge_Due
  then show ?thesis using purge_outcome [OF w] by simp
next
  case (Create_Subscription q)
  then show ?thesis unfolding serve.simps api_create_subscription_def Create_Subscription
    by (intro outcome_respond) (auto dest: create_subscription_committed [OF w])
next
  case (Revoke_Subscription i)
  then show ?thesis unfolding serve.simps api_revoke_subscription_def Revoke_Subscription
    by (intro outcome_respond') (auto dest: revoke_subscription_committed [OF w])
qed

section \<open>The steps of the system\<close>

record system =
  sy_fleet :: fleet
  sy_files :: fs

abbreviation sy_db :: "system \<Rightarrow> db" where
  "sy_db s \<equiv> fl_db (sy_fleet s)"

definition put_db :: "db \<Rightarrow> fs \<Rightarrow> system \<Rightarrow> system" where
  "put_db d files s = s\<lparr>sy_fleet := (sy_fleet s)\<lparr>fl_db := d\<rparr>, sy_files := files\<rparr>"

text \<open>
  A request with any environment and headers; a publisher run that commits (one that raises changes
  nothing); a statement of a delivery worker; a run of the retention worker, whether it ends well or
  not. \<open>uuid4().hex\<close>, the key of an uploaded file, is 32 hexadecimal digits.
\<close>

inductive system_step :: "(nat \<Rightarrow> delivery_worker) \<Rightarrow> system \<Rightarrow> system \<Rightarrow> bool"
  for W :: "nat \<Rightarrow> delivery_worker" where
  requests: "system_step W s (put_db d' files' s)"
    if "valid_key (ap_hex E)" and "serve E h call (sy_db s, sy_files s) = (out, d', files')"
| publishes: "system_step W s (put_db d' (sy_files s) s)"
    if "publish_pending cx (open_session (sy_db s)) = Inr (n, d')"
| delivers: "system_step W s (s\<lparr>sy_fleet := fl\<rparr>)" if "fleet_step W False (sy_fleet s) fl"
| retains: "system_step W s (put_db d' files' s)"
    if "run_retention_worker cxs corr batch_size (sy_db s) (sy_files s) = (res, d', files')"

inductive_cases system_stepE: "system_step W s s'"

definition system_init :: "system \<Rightarrow> bool" where
  "system_init s = (sy_db s = empty_db \<and> (\<forall>k. fl_worker (sy_fleet s) k = Idle))"

lemma put_db_simps [simp]: "sy_db (put_db d files s) = d" "sy_files (put_db d files s) = files"
  by (simp_all add: put_db_def)

lemma fleet_step_db:
  assumes "fleet_step W timely f f'" "well_kept (fl_db f)"
  shows "fl_db f' = fl_db f \<or> committed (fl_db f) (fl_db f')"
  using assms by (cases rule: fleet_step.cases) (auto dest: claim_committed mark_committed fail_committed)

text \<open>Every step either leaves the database alone or is a commit.\<close>

lemma system_step_commits:
  assumes "system_step W s s'" and w: "well_kept (sy_db s)"
  shows "sy_db s' = sy_db s \<or> committed (sy_db s) (sy_db s')"
  using assms(1)
proof (cases rule: system_step.cases)
  case (requests E h call out d' files')
  then show ?thesis
    using serve_outcome [OF w requests(2), of h call "sy_files s"] by (auto simp: outcome_def accepted_def)
next
  case (publishes cx n d')
  then show ?thesis using publish_committed [OF w] by simp
next
  case (delivers fl)
  then show ?thesis using fleet_step_db [OF _ w] by simp
next
  case (retains cxs corr batch_size res d' files')
  then show ?thesis using purge_tenants_committed [OF _ w] by (simp add: run_retention_worker_def)
qed

lemma empty_well_kept: "well_kept empty_db"
  by (simp add: well_kept_def cases_kept_def offers_kept_def links_kept_def stages_valid_def case_rows_ok_def
      offers_inv_def outbox_lockstep_def offers_linked_def interviews_linked_def feedbacks_linked_def
      holds_linked_def attachments_linked_def empty_db_def [symmetric])
     (simp add: empty_db_def)

interpretation service: invariant_of system_init "system_step W" "\<lambda>s. well_kept (sy_db s)"
  for W
proof
  fix s assume "system_init s"
  then show "well_kept (sy_db s)" by (simp add: system_init_def empty_well_kept)
next
  fix s t assume "well_kept (sy_db s)" "system_step W s t"
  then show "well_kept (sy_db t)" using system_step_commits by (metis committed_def)
qed

section \<open>Sample requests\<close>

definition sample_api :: "ctx \<Rightarrow> api_env" where
  "sample_api cx = \<lparr>ap_settings = default_settings, ap_validator = None, ap_ctx = cx, ap_uuid = ''u'',
     ap_clam = (\<lambda>_. Clam_Exit 0), ap_sha256 = id, ap_hex = sample_key, ap_token = ''k'', ap_token_id = ''s'',
     ap_base_url = ''http://a''\<rparr>"

definition sample_request :: "string \<Rightarrow> request_headers" where
  "sample_request who = \<lparr>rq_auth = sample_headers who, rq_correlation_id = None, rq_request_id = None\<rparr>"

lemma sample_api_simps [simp]:
  "ap_ctx (sample_api cx) = cx" "ap_hex (sample_api cx) = sample_key" "valid_key sample_key"
  using sample_key_valid by (simp_all add: sample_api_def sample_env_def)

lemma sample_granted:
  "granted (sample_api cx) (sample_request ''r'') ''candidate:transition'' sample_db
     \<lparr>ac_tenant_id = ''t'', ac_actor_id = ''r'', ac_role = ''recruiter''\<rparr>"
  by (simp add: granted_def sample_api_def sample_request_def require_def caller_identity_def default_settings_def
      sample_headers_def truthy_def membership_of_def sample_db_def role_permissions_def ROLE_PERMISSIONS_def
      recruiting_permissions_def)

lemma sample_well_kept: "well_kept sample_db"
proof -
  have "memberships sample_db = map (\<lambda>(i, role). \<lparr>mb_id = i, mb_tenant_id = ''t'', mb_user_id = i, mb_role = role,
       mb_created_at = 0\<rparr>) [(''r'', ''recruiter''), (''h'', ''hiring_manager''),
         (''a'', ''tenant_admin''), (''v'', ''interviewer'')]" by (simp add: sample_db_def)
  then show ?thesis
    by (simp add: well_kept_def cases_kept_def offers_kept_def links_kept_def case_rows_ok_def TERMINAL_STAGES_def
        interviews_linked_def feedbacks_linked_def holds_linked_def attachments_linked_def)
qed

text \<open>A stage change by a member who may transition cases goes through.\<close>

lemma serve_transition:
  assumes w: "well_kept d" and r: "r \<in> set (candidate_cases d)" "cr_stage r = stage_value x" "y \<in> allowed_transitions x"
    and a: "granted E h ''candidate:transition'' d a" "ac_tenant_id a = cr_tenant_id r"
    and fresh: "cx_uuid (ap_ctx E) 0 \<notin> set (map ae_id (audit_events d))" and up: "cx_db_up (ap_ctx E)"
  shows "\<exists>c. serve E h (Transition (cr_id r) \<lparr>qs_target_stage = stage_value y, qs_expected_version = cr_version r\<rparr>) (d, files) =
      (None, stage_move (ap_ctx E) c r x y d, files)"
proof -
  let ?q = "\<lparr>qs_target_stage = stage_value y, qs_expected_version = cr_version r\<rparr>"
  define c where "c = \<lparr>tc_candidate_id = cr_id r, tc_tenant_id = ac_tenant_id a, tc_target_stage = stage_value y,
    tc_expected_version = cr_version r, tc_actor_id = ac_actor_id a, tc_correlation_id = correlation_or_request E h\<rparr>"
  let ?d = "stage_move (ap_ctx E) c r x y d"
  note ok = well_keptD(1) [OF w]
  have "1 \<le> cr_version r" using well_keptD(3) [OF w] r(1) by (simp add: case_rows_ok_def list_all_iff)
  moreover have "length_between 3 40 (stage_value y)" by (cases y) (simp_all add: length_between_def)
  ultimately have q: "transition_request_ok ?q" by (simp add: transition_request_ok_def)
  have "session_commit (ap_ctx E) (open_session ?d) = Inr ?d"
    using fresh up by (simp add: session_commit_eq Let_def stage_move_ok [OF ok r(1)])
  then have t: "transition_candidate (ap_ctx E) c (open_session d) = Inr (moved_case r y, ?d)"
    using transition_candidate_eq [OF ok r(1,2), of c y "ap_ctx E"] r(3) a(2) by (simp add: c_def)
  have "candidate_set_stage (ap_ctx E) (moved_case r y) r \<in> set (candidate_cases ?d)"
    using r(1) by (auto simp: stage_move_def stage_set_def set_update_where)
  then have "List.find (\<lambda>q. cr_id q = cr_id r) (candidate_cases ?d) \<noteq> None"
    unfolding find_None by (metis candidate_set_stage_simps(1))
  then obtain z where z: "List.find (\<lambda>q. cr_id q = cr_id r) (candidate_cases ?d) = Some z" by blast
  have "fst (api_transition E h (cr_id r) ?q d) = Inr \<lparr>pc_id = cr_id z, pc_requisition_id = cr_requisition_id z,
      pc_first_name = cr_first_name z, pc_last_name = cr_last_name z, pc_email = cr_email z,
      pc_stage = stage_value y, pc_version = cr_version r + 1\<rparr> \<and> snd (api_transition E h (cr_id r) ?q d) = ?d"
    using a(1) q t z
    by (simp add: api_transition_def guarded_def granted_def checked_def with_session_def c_def [symmetric])
  then show ?thesis
    by (intro exI [of _ c]) (auto simp: on_db_def error_of_def split: prod.splits)
qed

text \<open>A service that holds the sample database, the stage change of its pending case, and an empty service.\<close>

definition sample_workers :: "nat \<Rightarrow> delivery_worker" where
  "sample_workers k = \<lparr>dw_max_attempts = 3, dw_lease = 60, dw_id = ''w''\<rparr>"

definition service_with :: "db \<Rightarrow> system" where
  "service_with d = \<lparr>sy_fleet = \<lparr>fl_clock = 0, fl_db = d, fl_worker = (\<lambda>_. Idle)\<rparr>, sy_files = (\<lambda>_. None)\<rparr>"

definition sample_approval :: api_call where
  "sample_approval = Transition ''c3'' \<lparr>qs_target_stage = ''offer_approved'', qs_expected_version = 4\<rparr>"

lemma service_with_simps [simp]:
  "sy_db (service_with d) = d" "sy_files (service_with d) = (\<lambda>_. None)"
  by (simp_all add: service_with_def)

lemma sample_served:
  "\<exists>c. serve (sample_api sample_ctx) (sample_request ''r'') sample_approval (sample_db, \<lambda>_. None) =
    (None, stage_move sample_ctx c (sample_case ''c3'' ''z'' ''offer_pending_approval'' 4)
       OFFER_PENDING_APPROVAL OFFER_APPROVED sample_db, \<lambda>_. None)"
  using serve_transition [OF sample_well_kept _ _ _ sample_granted, of "sample_case ''c3'' ''z'' ''offer_pending_approval'' 4"
      OFFER_PENDING_APPROVAL OFFER_APPROVED sample_ctx "\<lambda>_. None"]
  by (simp add: sample_approval_def)

definition sample_approved :: db where
  "sample_approved = fst (snd (serve (sample_api sample_ctx) (sample_request ''r'') sample_approval (sample_db, \<lambda>_. None)))"

lemma sample_serve:
  "serve (sample_api sample_ctx) (sample_request ''r'') sample_approval (sample_db, \<lambda>_. None) = (None, sample_approved, \<lambda>_. None)"
  using sample_served by (auto simp: sample_approved_def)

lemma sample_run: "(system_step sample_workers)\<^sup>*\<^sup>* (service_with sample_db) (put_db sample_approved (\<lambda>_. None) (service_with sample_db))"
  by (rule r_into_rtranclp, rule system_step.requests [where E = "sample_api sample_ctx" and h = "sample_request ''r''"
        and call = sample_approval and out = None]) (simp_all add: sample_serve)

text \<open>The first tenant of an empty service.\<close>

definition boot_ctx :: ctx where
  "boot_ctx = \<lparr>cx_uuid = (\<lambda>k. replicate (k + 1) (CHR ''n'')), cx_now = 0, cx_ts = 0, cx_db_up = True\<rparr>"

definition boot_call :: api_call where
  "boot_call = Create_Tenant \<lparr>qt_name = ''Acme'', qt_slug = ''acme'', qt_admin_id = ''a''\<rparr>"

definition booted :: db where
  "booted = fst (snd (serve (sample_api boot_ctx) (sample_request ''a'') boot_call (empty_db, \<lambda>_. None)))"

lemma boot_step:
  "system_init (service_with empty_db)"
  "system_step sample_workers (service_with empty_db) (put_db booted (\<lambda>_. None) (service_with empty_db))"
proof -
  show "system_init (service_with empty_db)" by (simp add: system_init_def service_with_def)
  have "snd (snd (serve (sample_api boot_ctx) (sample_request ''a'') boot_call (empty_db, \<lambda>_. None))) = (\<lambda>_. None)"
    by (simp add: boot_call_def on_db_def split: prod.splits)
  then have "serve (sample_api boot_ctx) (sample_request ''a'') boot_call (empty_db, \<lambda>_. None) =
      (fst (serve (sample_api boot_ctx) (sample_request ''a'') boot_call (empty_db, \<lambda>_. None)), booted, \<lambda>_. None)"
    unfolding booted_def by (metis prod.collapse)
  then show "system_step sample_workers (service_with empty_db) (put_db booted (\<lambda>_. None) (service_with empty_db))"
    by (intro system_step.requests [where E = "sample_api boot_ctx" and h = "sample_request ''a''" and call = boot_call]) simp_all
qed

lemma boot_reached:
  "reachable system_init (system_step sample_workers) (service_with empty_db)"
  "reachable system_init (system_step sample_workers) (put_db booted (\<lambda>_. None) (service_with empty_db))"
proof -
  show r: "reachable system_init (system_step sample_workers) (service_with empty_db)"
    by (rule reach_init) (rule boot_step(1))
  show "reachable system_init (system_step sample_workers) (put_db booted (\<lambda>_. None) (service_with empty_db))"
    by (rule reach_step [where step = "system_step sample_workers", OF r boot_step(2)])
qed

lemma booted_tenants: "map tn_slug (tenants booted) = [''acme'']" "map mb_role (memberships booted) = [''tenant_admin'']"
proof -
  let ?c = "\<lparr>ct_name = ''Acme'', ct_slug = ''acme'', ct_admin_id = ''a''\<rparr>"
  have r: "tenant_rows boot_ctx ?c empty_db = [Tenant_Row \<lparr>tn_id = ''nn'', tn_name = ''Acme'', tn_slug = ''acme'', tn_created_at = 0\<rparr>,
      User_Row \<lparr>us_id = ''a'', us_email = None, us_created_at = 0\<rparr>]"
    by (simp add: tenant_rows_def boot_ctx_def empty_db_def)
  have ok: "db_ok (db_insert_all empty_db (tenant_rows boot_ctx ?c empty_db))"
    unfolding r by (rule db_insert_all_ok [OF empty_db_ok]) (simp add: empty_db_def List.map_filter_def)
  have ok': "db_ok (db_insert_all empty_db (tenant_rows boot_ctx ?c empty_db @ admin_rows boot_ctx ?c))"
    unfolding r by (rule db_insert_all_ok [OF empty_db_ok])
      (simp add: empty_db_def List.map_filter_def admin_rows_def boot_ctx_def numeral_eq_Suc)
  have q: "create_tenant_request_ok \<lparr>qt_name = ''Acme'', qt_slug = ''acme'', qt_admin_id = ''a''\<rparr>" by code_simp
  have "create_tenant boot_ctx ?c (open_session empty_db) = Inr (\<lparr>tv_id = cx_uuid boot_ctx 1, tv_name = ''Acme'', tv_slug = ''acme''\<rparr>,
      db_insert_all empty_db (tenant_rows boot_ctx ?c empty_db @ admin_rows boot_ctx ?c))"
    using ok ok' by (simp add: create_tenant_eq) (simp add: empty_db_def boot_ctx_def)
  then have "booted = db_insert_all empty_db (tenant_rows boot_ctx ?c empty_db @ admin_rows boot_ctx ?c)"
    by (simp add: booted_def boot_call_def api_create_tenant_def checked_def q respond_def with_session_def on_db_def)
  then have "booted = db_insert_all (db_insert_all empty_db (tenant_rows boot_ctx ?c empty_db)) (admin_rows boot_ctx ?c)"
    by (simp only: db_insert_all_append)
  note b = this [unfolded r admin_rows_def]
  show "map tn_slug (tenants booted) = [''acme'']" "map mb_role (memberships booted) = [''tenant_admin'']"
    unfolding b by (simp_all add: empty_db_def)
qed

section \<open>Properties of the service\<close>

text \<open>
  Claim C1 (invariant): whatever the requests, their callers and the interleaving of the workers,
  the database of a service that started empty meets the schema's constraints, stores only stages of the
  workflow with versions from 1, keeps \<open>terminal_at\<close> exactly for rejected and withdrawn cases, has every
  offer in a state its recorded decisions determine and its case past the interviews, one outbox event
  per decision, and links offers, interviews, feedback, holds and attachments to a case of their tenant.
\<close>

theorem system_invariant:
  assumes "reachable system_init (system_step W) s"
  shows "db_ok (sy_db s) \<and> stages_valid (sy_db s) \<and> case_rows_ok (sy_db s) \<and> offers_inv (sy_db s) \<and>
    outbox_lockstep (sy_db s) \<and> offers_linked (sy_db s) \<and> interviews_linked (sy_db s) \<and>
    feedbacks_linked (sy_db s) \<and> holds_linked (sy_db s) \<and> attachments_linked (sy_db s)"
  using service.inv_reachable [OF assms] by (intro conjI well_keptD)

theorem system_invariant_witness:
  "db_ok booted \<and> map tn_slug (tenants booted) = [''acme'']"
  using system_invariant [OF boot_reached(2)] booted_tenants by simp

lemma system_run_history:
  assumes "(system_step W)\<^sup>*\<^sup>* s s'" "well_kept (sy_db s)"
  shows "history (sy_db s) (sy_db s') \<and> redactions_stay (sy_db s) (sy_db s') \<and> well_kept (sy_db s')"
  using assms(1)
proof (induction rule: rtranclp_induct)
  case base
  then show ?case using assms(2) by (simp add: history_refl redactions_refl)
next
  case (step y z)
  with system_step_commits [OF step(2)] have "sy_db z = sy_db y \<or> committed (sy_db y) (sy_db z)" by blast
  with step(3) history_trans [of "sy_db s" "sy_db y" "sy_db z"] redactions_trans [of "sy_db s" "sy_db y" "sy_db z"]
  show ?case by (auto simp: committed_def)
qed

text \<open>
  Claim C5 (safety): the records are append-only. Along every run of a well kept service the audit trail,
  the approval decisions, the feedback, the interviews, the tenants, the memberships and the
  requisitions only grow at the end; no case, offer, outbox event or delivery disappears, and the
  terms of an offer and the payload of an event never change.
\<close>

theorem records_append_only:
  assumes "(system_step W)\<^sup>*\<^sup>* s s'" "well_kept (sy_db s)"
  shows "prefix (audit_events (sy_db s)) (audit_events (sy_db s')) \<and>
    prefix (approval_decisions (sy_db s)) (approval_decisions (sy_db s')) \<and>
    prefix (feedbacks (sy_db s)) (feedbacks (sy_db s')) \<and> prefix (interviews (sy_db s)) (interviews (sy_db s')) \<and>
    prefix (tenants (sy_db s)) (tenants (sy_db s')) \<and> prefix (users (sy_db s)) (users (sy_db s')) \<and>
    prefix (memberships (sy_db s)) (memberships (sy_db s')) \<and>
    prefix (requisitions (sy_db s)) (requisitions (sy_db s')) \<and>
    prefix (map case_facts (candidate_cases (sy_db s))) (map case_facts (candidate_cases (sy_db s'))) \<and>
    prefix (map offer_facts (offers (sy_db s))) (map offer_facts (offers (sy_db s'))) \<and>
    prefix (map event_facts (outbox_events (sy_db s))) (map event_facts (outbox_events (sy_db s'))) \<and>
    prefix (map delivery_facts (deliveries (sy_db s))) (map delivery_facts (deliveries (sy_db s')))"
  using system_run_history [OF assms] unfolding history_def by blast

theorem records_append_only_witness:
  "prefix (map offer_facts (offers sample_db)) (map offer_facts (offers sample_approved))"
  using records_append_only [OF sample_run] sample_well_kept by simp

text \<open>
  Claim C6 (safety): a purge is final, for what it redacted and for what it left. Along every run a redacted
  case keeps its redacted name and address and its time of redaction, whatever is requested; and every
  attachment it has stays. Uploads do not ask whether the case is redacted, and no purge selects a redacted
  case again, so a document that reaches a case after its purge is never purged.
\<close>

theorem redaction_permanent:
  assumes "(system_step W)\<^sup>*\<^sup>* s s'" "well_kept (sy_db s)" "r \<in> set (candidate_cases (sy_db s))" "cr_anonymized_at r \<noteq> None"
  shows "(\<exists>q \<in> set (candidate_cases (sy_db s')). cr_id q = cr_id r \<and> cr_first_name q = cr_first_name r \<and>
      cr_last_name q = cr_last_name r \<and> cr_email q = cr_email r \<and> cr_anonymized_at q = cr_anonymized_at r) \<and>
    set (filter (\<lambda>a. at_candidate_case_id a = cr_id r) (attachments (sy_db s))) \<subseteq> set (attachments (sy_db s'))"
proof
  have st: "redactions_stay (sy_db s) (sy_db s')" using system_run_history [OF assms(1,2)] by blast
  have "redaction r \<in> redacted (sy_db s)" using assms(3,4) by (auto simp: redacted_def)
  with st have "redaction r \<in> redacted (sy_db s')" by (auto simp: redactions_stay_def)
  then show "\<exists>q \<in> set (candidate_cases (sy_db s')). cr_id q = cr_id r \<and> cr_first_name q = cr_first_name r \<and>
      cr_last_name q = cr_last_name r \<and> cr_email q = cr_email r \<and> cr_anonymized_at q = cr_anonymized_at r"
    by (auto simp: redacted_def redaction_def)
  show "set (filter (\<lambda>a. at_candidate_case_id a = cr_id r) (attachments (sy_db s))) \<subseteq> set (attachments (sy_db s'))"
  proof
    fix a assume "a \<in> set (filter (\<lambda>a. at_candidate_case_id a = cr_id r) (attachments (sy_db s)))"
    then have "a \<in> redacted_files (sy_db s)" using assms(3,4) by (auto simp: redacted_files_def)
    with st have "a \<in> redacted_files (sy_db s')" by (auto simp: redactions_stay_def)
    then show "a \<in> set (attachments (sy_db s'))" by (simp add: redacted_files_def)
  qed
qed

text \<open>The sample case redacted at instant 5, with an attachment uploaded afterwards, and a retention run ten days later.\<close>

definition sample_redacted :: candidate_row where
  "sample_redacted = anonymize 5 sample_rejected"

definition sample_redacted_db :: db where
  "sample_redacted_db = db_insert_all sample_db
     [Candidate_Row sample_redacted, Attachment_Row sample_file_row,
      Policy_Row \<lparr>rp_tenant_id = ''t'', rp_retention_days = 1, rp_updated_at = 0\<rparr>]"

lemma sample_redacted_simps [simp]:
  "cr_id sample_redacted = ''c4''" "cr_tenant_id sample_redacted = ''t''" "cr_stage sample_redacted = ''rejected''"
  "cr_terminal_at sample_redacted = Some 0" "cr_anonymized_at sample_redacted = Some 5" "cr_version sample_redacted = 2"
  "cr_requisition_id sample_redacted = ''q''" "cr_created_by sample_redacted = ''r''"
  "cr_email sample_redacted = redacted_email ''c4''"
  by (simp_all add: sample_redacted_def) (simp_all add: anonymize_def sample_rejected_def sample_case_def)

lemma sample_redacted_tables [simp]:
  "candidate_cases sample_redacted_db = candidate_cases sample_db @ [sample_redacted]"
  "attachments sample_redacted_db = attachments sample_db @ [sample_file_row]"
  by (simp_all add: sample_redacted_db_def)

lemma sample_redacted_well_kept: "well_kept sample_redacted_db"
proof -
  have "redacted_email ''c4'' \<notin> {''w'', ''x'', ''y'', ''z''}" by (simp add: redacted_email_def)
  then have "db_ok sample_redacted_db"
    unfolding sample_redacted_db_def by (intro db_insert_all_ok) (simp_all add: sample_file_row_def)
  moreover have "CandidateStage ''rejected'' = Inr REJECTED" using CandidateStage_Inr [of "''rejected''" REJECTED] by simp
  moreover have "valid_key (at_storage_key sample_file_row)" "at_candidate_case_id sample_file_row = ''c4''"
    "at_tenant_id sample_file_row = ''t''"
    using sample_key_valid by (simp_all add: sample_file_row_def sample_env_def)
  ultimately show ?thesis
    using sample_well_kept
    by (simp add: well_kept_def cases_kept_def offers_kept_def links_kept_def case_rows_ok_def stages_valid_def TERMINAL_STAGES_def
        interviews_linked_def feedbacks_linked_def holds_linked_def attachments_linked_def offers_inv_def outbox_lockstep_def
        offers_linked_def offer_state_def decision_history_def case_owner_def is_ok_iff sample_redacted_db_def)
qed

lemma sample_retention_kept: "well_kept (sample_retention_db ''u'')"
proof -
  have "CandidateStage ''rejected'' = Inr REJECTED" using CandidateStage_Inr [of "''rejected''" REJECTED] by simp
  moreover have "valid_key (at_storage_key sample_file_row)" "at_candidate_case_id sample_file_row = ''c4''"
    "at_tenant_id sample_file_row = ''t''"
    using sample_key_valid by (simp_all add: sample_file_row_def sample_env_def)
  moreover have "cr_version sample_rejected = 2" by (simp add: sample_rejected_def sample_case_def)
  moreover have "offers (sample_retention_db ''u'') = offers sample_db" "memberships (sample_retention_db ''u'') = memberships sample_db"
    "approval_decisions (sample_retention_db ''u'') = approval_decisions sample_db"
    "interviews (sample_retention_db ''u'') = interviews sample_db" "feedbacks (sample_retention_db ''u'') = feedbacks sample_db"
    "outbox_events (sample_retention_db ''u'') = outbox_events sample_db"
    by (simp_all add: sample_retention_db_def)
  ultimately show ?thesis
    using sample_well_kept sample_retention_ok [of "''u''"]
    by (simp add: well_kept_def cases_kept_def offers_kept_def links_kept_def case_rows_ok_def stages_valid_def TERMINAL_STAGES_def
        interviews_linked_def feedbacks_linked_def holds_linked_def attachments_linked_def offers_inv_def outbox_lockstep_def
        offers_linked_def offer_state_def decision_history_def case_owner_def is_ok_iff)
qed

theorem redaction_permanent_witness:
  "sample_file_row \<in> set (attachments (fst (snd (run_retention_worker (\<lambda>_. sample_retention_ctx) (\<lambda>_. ''k'') 5 sample_redacted_db (\<lambda>_. None)))))"
proof -
  obtain res d' files' where w: "run_retention_worker (\<lambda>_. sample_retention_ctx) (\<lambda>_. ''k'') 5 sample_redacted_db (\<lambda>_. None) = (res, d', files')"
    by (metis prod.collapse)
  have "(system_step sample_workers)\<^sup>*\<^sup>* (service_with sample_redacted_db) (put_db d' files' (service_with sample_redacted_db))"
    by (rule r_into_rtranclp, rule system_step.retains) (use w in simp)
  from redaction_permanent [OF this, of sample_redacted] sample_redacted_well_kept show ?thesis
    by (simp add: w) (simp add: sample_file_row_def)
qed

text \<open>
  Claim C7 (refinement): the service implements the abstract workflow. Each step of a reachable service,
  seen on the board of stages and versions, is either invisible or opens one case in \<open>applied\<close> at version 1
  or moves one case along an allowed transition with the version raised by one.
\<close>

theorem system_refines_workflow:
  assumes "reachable system_init (system_step W) s" "system_step W s s'"
  shows "board_of (sy_db s') = board_of (sy_db s) \<or> board_step (board_of (sy_db s)) (board_of (sy_db s'))"
  using system_step_commits [OF assms(2) service.inv_reachable [OF assms(1)]] by (auto simp: committed_def)

theorem system_refines_workflow_witness:
  "board_of booted = board_of empty_db \<or> board_step (board_of empty_db) (board_of booted)"
  using system_refines_workflow [OF boot_reached(1) boot_step(2)] by simp

lemma board_step_case:
  assumes "board_step m m'" "m i = Some (stage_value a, v)"
  shows "\<exists>b p. m' i = Some (stage_value b, v + int (length p)) \<and> stage_path a p b"
  using assms(1)
proof cases
  case (opens j)
  with assms(2) have "m' i = Some (stage_value a, v + int (length []))" by auto
  then show ?thesis using path_nil by blast
next
  case (moves j c u b)
  show ?thesis
  proof (cases "j = i")
    case True
    with moves assms(2) have "stage_value c = stage_value a" "u = v" by simp_all
    then have "c = a" by simp
    with moves True \<open>u = v\<close> have "m' i = Some (stage_value b, v + int (length [b])) \<and> stage_path a [b] b"
      by (simp add: stage_path.intros)
    then show ?thesis by blast
  next
    case False
    with moves assms(2) have "m' i = Some (stage_value a, v + int (length []))" by simp
    then show ?thesis using path_nil by blast
  qed
qed

text \<open>
  Claim C8 (safety): along every run a case that is there stays there, its stage moves along a path
  of the state machine, and its version counts the transitions it made.
\<close>

theorem cases_follow_workflow:
  assumes "(system_step W)\<^sup>*\<^sup>* s s'" "well_kept (sy_db s)" "board_of (sy_db s) i = Some (stage_value a, v)"
  shows "\<exists>b p. board_of (sy_db s') i = Some (stage_value b, v + int (length p)) \<and> stage_path a p b"
  using assms(1)
proof (induction rule: rtranclp_induct)
  case base
  have "board_of (sy_db s) i = Some (stage_value a, v + int (length []))" using assms(3) by simp
  then show ?case using path_nil by blast
next
  case (step y z)
  then obtain b p where b: "board_of (sy_db y) i = Some (stage_value b, v + int (length p))" "stage_path a p b" by blast
  have "well_kept (sy_db y)" using system_run_history [OF step(1) assms(2)] by blast
  with system_step_commits [OF step(2)]
  have "board_of (sy_db z) = board_of (sy_db y) \<or> board_step (board_of (sy_db y)) (board_of (sy_db z))"
    by (auto simp: committed_def)
  then show ?case
  proof
    assume "board_step (board_of (sy_db y)) (board_of (sy_db z))"
    from board_step_case [OF this b(1)] obtain c q where
      "board_of (sy_db z) i = Some (stage_value c, v + int (length p) + int (length q))" "stage_path b q c" by blast
    then have "board_of (sy_db z) i = Some (stage_value c, v + int (length (p @ q))) \<and> stage_path a (p @ q) c"
      using b(2) by (auto simp: stage_path_append add.assoc)
    then show ?case by blast
  qed (use b in auto)
qed

theorem cases_follow_workflow_witness:
  "\<exists>b p. board_of sample_approved ''c3'' = Some (stage_value b, 4 + int (length p)) \<and> stage_path OFFER_PENDING_APPROVAL p b"
  using cases_follow_workflow [OF sample_run, of "''c3''" OFFER_PENDING_APPROVAL 4] sample_well_kept
  by (simp add: board_of_def)



text \<open>
  Claim C3 (safety): tenants are isolated. A request of a member of tenant \<open>t\<close> leaves every row of
  every other tenant, in all tables, as it was; only rows of \<open>t\<close> are added, rewritten or deleted.
\<close>

theorem writes_isolated:
  assumes "well_kept d" "valid_key (ap_hex E)" "serve E h call (d, files) = (out, d', files')"
    and "permission_of call = Some p" "granted E h p d a"
  shows "others (ac_tenant_id a) d' = others (ac_tenant_id a) d"
proof -
  note o = serve_outcome [OF assms(1,2), of h call files, unfolded assms(3) outcome_def prod.case]
  show ?thesis
  proof (cases "d' = d")
    case False
    with o assms(4) obtain b where "granted E h p d b" "others (ac_tenant_id b) d' = others (ac_tenant_id b) d"
      by (auto simp: accepted_def)
    with assms(5) show ?thesis by (simp add: granted_def)
  qed simp
qed

theorem writes_isolated_witness:
  "others ''t'' sample_approved = others ''t'' sample_db"
  using writes_isolated [OF sample_well_kept _ sample_serve _ sample_granted] by (simp add: sample_approval_def)



text \<open>
  Claim C11 (safety): the approvals of an offer can be bypassed. A case that waits for the approval of its offer is
  moved to \<open>offer_approved\<close> by the generic stage endpoint, on the request of any member who may transition
  cases (a recruiter may), with no decision recorded, no outbox event and the offer still pending.
\<close>

theorem stage_endpoint_bypasses_approvals:
  assumes "well_kept d" "r \<in> set (candidate_cases d)" "cr_stage r = ''offer_pending_approval''"
    and "granted E h ''candidate:transition'' d a" "ac_tenant_id a = cr_tenant_id r"
    and "cx_uuid (ap_ctx E) 0 \<notin> set (map ae_id (audit_events d))" "cx_db_up (ap_ctx E)"
  shows "\<exists>d'. serve E h (Transition (cr_id r) \<lparr>qs_target_stage = ''offer_approved'', qs_expected_version = cr_version r\<rparr>)
      (d, files) = (None, d', files) \<and>
    board_of d' (cr_id r) = Some (''offer_approved'', cr_version r + 1) \<and>
    offers d' = offers d \<and> approval_decisions d' = approval_decisions d \<and> outbox_events d' = outbox_events d"
proof -
  have st: "cr_stage r = stage_value OFFER_PENDING_APPROVAL" using assms(3) by simp
  have al: "OFFER_APPROVED \<in> allowed_transitions OFFER_PENDING_APPROVAL" by simp
  obtain c where s: "serve E h (Transition (cr_id r) \<lparr>qs_target_stage = stage_value OFFER_APPROVED,
      qs_expected_version = cr_version r\<rparr>) (d, files) =
    (None, stage_move (ap_ctx E) c r OFFER_PENDING_APPROVAL OFFER_APPROVED d, files)"
    using serve_transition [OF assms(1,2) st al assms(4-7)] by blast
  let ?d = "stage_move (ap_ctx E) c r OFFER_PENDING_APPROVAL OFFER_APPROVED d"
  have "board_of ?d = board_of (stage_set (ap_ctx E) r OFFER_APPROVED d)" by (rule board_cong) (simp add: stage_move_def)
  with board_after_stage_set [OF well_keptD(1) [OF assms(1)] assms(2), of "ap_ctx E" OFFER_APPROVED]
  have "board_of ?d (cr_id r) = Some (''offer_approved'', cr_version r + 1)" by simp
  with s show ?thesis by (intro exI [of _ ?d]) (simp add: stage_move_def frame_simps)
qed

theorem stage_endpoint_bypasses_approvals_witness:
  "approval_decisions sample_approved = [] \<and> board_of sample_approved ''c3'' = Some (''offer_approved'', 5)"
  using stage_endpoint_bypasses_approvals [OF sample_well_kept _ _ sample_granted,
      of "sample_case ''c3'' ''z'' ''offer_pending_approval'' 4" sample_ctx "\<lambda>_. None"] sample_serve
  by (auto simp: sample_approval_def)

end
