(* ===== verification/Purge_Concurrency.thy ===== *)
theory Purge_Concurrency
  imports System
begin

text \<open>
  A purge statement by statement, beside everything else the service does. \<open>RetentionService.purge_due\<close>
  of \<open>retention/application/retention.py\<close> runs in one session at the default isolation level: each
  select sees what has been committed by then, and nothing is locked until the flush. In \<open>Retention\<close> and
  \<open>System\<close> it is one step; here other requests and workers may come between its statements.
\<close>

section \<open>The statements\<close>

text \<open>
  Where a purge stands: before the policy is read; with the days of the policy; with the selected cases
  whose attachments are still to be read and removed, and the changes collected in the session;
  committed; or ended by an exception.
\<close>

datatype purger =
    Purge_Start
  | Policy_Read int
  | Collecting "candidate_row list" purge_changes
  | Purge_Committed nat
  | Purge_Failed exn

definition no_changes :: purge_changes where
  "no_changes = \<lparr>pc_deleted = [], pc_cases = []\<rparr>"

text \<open>The flush and the commit write by primary key to the database as it is then.\<close>

definition purge_commit :: "ctx \<Rightarrow> string \<Rightarrow> string \<Rightarrow> string \<Rightarrow> purge_changes \<Rightarrow> db \<Rightarrow> exn + db" where
  "purge_commit cx tenant_id actor_id correlation_id p d =
    (case purge_flush cx (cx_now cx) p (open_session d) of
       Inl e \<Rightarrow> Inl e
     | Inr s1 \<Rightarrow> session_commit cx (s1\<lparr>ss_new := ss_new s1 @
         purged_events cx tenant_id actor_id correlation_id (pc_cases p)\<rparr>))"

fun purge_step ::
  "ctx \<Rightarrow> string \<Rightarrow> string \<Rightarrow> string \<Rightarrow> purger \<times> db \<times> fs \<Rightarrow> purger \<times> db \<times> fs" where
  "purge_step cx tenant_id actor_id correlation_id (Purge_Start, d, files) =
    ((case List.find (\<lambda>p. rp_tenant_id p = tenant_id) (retention_policies d) of
        None \<Rightarrow> Collecting [] no_changes
      | Some p \<Rightarrow> Policy_Read (rp_retention_days p)), d, files)"
| "purge_step cx tenant_id actor_id correlation_id (Policy_Read days, d, files) =
    (Collecting (filter (retention_due tenant_id (cx_now cx) days d) (candidate_cases d)) no_changes, d, files)"
| "purge_step cx tenant_id actor_id correlation_id (Collecting (r # rs) p, d, files) =
    (case purge_records tenant_id [r] d files p of
       (Inl e, files') \<Rightarrow> (Purge_Failed e, d, files')
     | (Inr p', files') \<Rightarrow> (Collecting rs p', d, files'))"
| "purge_step cx tenant_id actor_id correlation_id (Collecting [] p, d, files) =
    (case purge_commit cx tenant_id actor_id correlation_id p d of
       Inl e \<Rightarrow> (Purge_Failed e, d, files)
     | Inr d' \<Rightarrow> (Purge_Committed (length (pc_cases p)), d', files))"
| "purge_step cx tenant_id actor_id correlation_id (Purge_Committed n, d, files) = (Purge_Committed n, d, files)"
| "purge_step cx tenant_id actor_id correlation_id (Purge_Failed e, d, files) = (Purge_Failed e, d, files)"

section \<open>Alone, the statements are the purge\<close>

abbreviation purge_steps :: "ctx \<Rightarrow> string \<Rightarrow> string \<Rightarrow> string \<Rightarrow> nat \<Rightarrow> purger \<times> db \<times> fs \<Rightarrow> purger \<times> db \<times> fs" where
  "purge_steps cx t actor corr n \<equiv> (purge_step cx t actor corr ^^ n)"

lemma purge_records_Cons:
  "purge_records t (r # rs) d files p =
    (case purge_records t [r] d files p of (Inl e, files') \<Rightarrow> (Inl e, files') | (Inr p', files') \<Rightarrow> purge_records t rs d files' p')"
  by (auto simp: Let_def split: prod.splits sum.splits)

definition purge_ends :: "ctx \<Rightarrow> string \<Rightarrow> string \<Rightarrow> string \<Rightarrow> db \<Rightarrow> (exn + purge_changes) \<times> fs \<Rightarrow> purger \<times> db \<times> fs" where
  "purge_ends cx t actor corr d out =
    (case out of
       (Inl e, files) \<Rightarrow> (Purge_Failed e, d, files)
     | (Inr p, files) \<Rightarrow>
         (case purge_commit cx t actor corr p d of
            Inl e \<Rightarrow> (Purge_Failed e, d, files)
          | Inr d' \<Rightarrow> (Purge_Committed (length (pc_cases p)), d', files)))"

lemma collecting_ends:
  "\<exists>n. purge_steps cx t actor corr n (Collecting rs p, d, files) = purge_ends cx t actor corr d (purge_records t rs d files p)"
proof (induction rs arbitrary: p files)
  case Nil
  show ?case by (intro exI [of _ 1]) (simp add: purge_ends_def split: sum.splits)
next
  case (Cons r rs)
  obtain res files' where one: "purge_records t [r] d files p = (res, files')" by (cases "purge_records t [r] d files p")
  show ?case
  proof (cases res)
    case (Inl e)
    then show ?thesis using one purge_records_Cons [of t r rs]
      by (intro exI [of _ 1]) (simp add: purge_ends_def del: purge_records.simps)
  next
    case (Inr q)
    obtain n where "purge_steps cx t actor corr n (Collecting rs q, d, files') =
        purge_ends cx t actor corr d (purge_records t rs d files' q)" using Cons.IH by blast
    then show ?thesis using one Inr purge_records_Cons [of t r rs]
      by (intro exI [of _ "Suc n"]) (simp add: funpow_Suc_right del: purge_records.simps funpow.simps)
  qed
qed

lemma purge_due_ends:
  "purge_ends cx t actor corr d (retention_purge_due t (cx_now cx) (open_session d) files) =
    (case purge_due cx t actor corr (open_session d) files of
       (Inl e, files') \<Rightarrow> (Purge_Failed e, d, files')
     | (Inr (k, d'), files') \<Rightarrow> (Purge_Committed k, d', files'))"
  by (auto simp: purge_ends_def purge_due_def purge_commit_def split: prod.splits sum.splits)

text \<open>
  Run one after the other with nothing between them, the statements end, and with the result of the
  handler \<open>purge_due\<close> as the other theories take it, in one step.
\<close>

lemma purge_alone:
  "\<exists>n. purge_steps cx t actor corr n (Purge_Start, d, files) =
    (case purge_due cx t actor corr (open_session d) files of
       (Inl e, files') \<Rightarrow> (Purge_Failed e, d, files')
     | (Inr (k, d'), files') \<Rightarrow> (Purge_Committed k, d', files'))"
proof (cases "List.find (\<lambda>p. rp_tenant_id p = t) (retention_policies d)")
  case None
  obtain n where "purge_steps cx t actor corr n (Collecting [] no_changes, d, files) =
      purge_ends cx t actor corr d (purge_records t [] d files no_changes)" using collecting_ends by blast
  with None show ?thesis
    unfolding purge_due_ends [symmetric]
    by (intro exI [of _ "Suc n"]) (simp add: funpow_Suc_right retention_purge_due_def no_changes_def del: funpow.simps)
next
  case (Some p)
  let ?rs = "filter (retention_due t (cx_now cx) (rp_retention_days p) d) (candidate_cases d)"
  obtain n where "purge_steps cx t actor corr n (Collecting ?rs no_changes, d, files) =
      purge_ends cx t actor corr d (purge_records t ?rs d files no_changes)" using collecting_ends by blast
  with Some show ?thesis
    unfolding purge_due_ends [symmetric]
    by (intro exI [of _ "Suc (Suc n)"])
      (simp add: funpow_Suc_right retention_purge_due_def no_changes_def del: funpow.simps purge_records.simps)
qed

section \<open>Beside the rest of the service\<close>

inductive purge_beside ::
  "(nat \<Rightarrow> delivery_worker) \<Rightarrow> ctx \<Rightarrow> string \<Rightarrow> string \<Rightarrow> string \<Rightarrow> purger \<times> system \<Rightarrow> purger \<times> system \<Rightarrow> bool"
  for W :: "nat \<Rightarrow> delivery_worker" and cx :: ctx and t actor corr :: string where
  purges: "purge_beside W cx t actor corr (p, s) (p', put_db d' files' s)"
    if "purge_step cx t actor corr (p, sy_db s, sy_files s) = (p', d', files')"
| others: "purge_beside W cx t actor corr (p, s) (p, s')" if "system_step W s s'"

text \<open>The cases a purge has selected and not yet committed.\<close>

fun selected :: "purger \<Rightarrow> string list" where
  "selected (Collecting rs p) = pc_cases p @ map cr_id rs"
| "selected _ = []"

text \<open>What the commit writes.\<close>

definition purge_written :: "ctx \<Rightarrow> string \<Rightarrow> string \<Rightarrow> string \<Rightarrow> purge_changes \<Rightarrow> db \<Rightarrow> db" where
  "purge_written cx t actor corr p d = d\<lparr>
     candidate_cases := map (\<lambda>r. if cr_id r \<in> set (pc_cases p) then anonymize (cx_now cx) r else r) (candidate_cases d),
     attachments := filter (\<lambda>a. at_id a \<notin> set (pc_deleted p)) (attachments d),
     audit_events := audit_events d @ map (purged_event cx t actor corr) (List.enumerate 0 (pc_cases p))\<rparr>"

lemma purge_commit_eq:
  "purge_commit cx t actor corr p d =
    (if \<not> cx_db_up cx then Inl OperationalError
     else case flush_cases (cx_now cx) (sort (pc_cases p)) d of
         Inl e \<Rightarrow> Inl e
       | Inr _ \<Rightarrow> if db_ok (purge_written cx t actor corr p d) then Inr (purge_written cx t actor corr p d)
           else Inl IntegrityError)"
proof -
  have e: "purged_events cx t actor corr ids = map (\<lambda>x. Audit_Row (purged_event cx t actor corr x)) (List.enumerate 0 ids)" for ids
    by (auto simp: purged_events_def purged_event_def)
  show ?thesis
    by (auto simp: purge_commit_def purge_flush_def session_commit_eq Let_def purge_written_def e insert_audits update_where_def
        split: sum.splits dest!: flush_cases_Inr)
qed

lemma purge_commit_Inr:
  assumes "purge_commit cx t actor corr p d = Inr d'"
  shows "d' = purge_written cx t actor corr p d" "db_ok d'" "cx_db_up cx"
  using assms unfolding purge_commit_eq by (auto split: if_splits sum.splits)

lemma purge_written_kept:
  assumes "well_kept d" "purge_commit cx t actor corr p d = Inr d'"
  shows "well_kept d'" "history d d'" "board_of d' = board_of d"
proof -
  note r = purge_commit_Inr [OF assms(2)]
  show "well_kept d'" "history d d'" "board_of d' = board_of d"
    by (rule redacting_kept [OF assms(1) r(2), where now = "cx_now cx", OF _ r(1) [unfolded purge_written_def]]; auto)+
qed

lemma purge_commit_succeeds:
  assumes "db_ok d" "cx_db_up cx" "redaction_free (set (pc_cases p)) d" "has_tenant d t"
    and "inj (cx_uuid cx)" "\<forall>k. cx_uuid cx k \<notin> set (map ae_id (audit_events d))"
  shows "purge_commit cx t actor corr p d = Inr (purge_written cx t actor corr p d)"
proof -
  obtain d1 where d1: "flush_cases (cx_now cx) (sort (pc_cases p)) d = Inr d1"
    using flush_cases_ok [of d "sort (pc_cases p)" "cx_now cx"] assms(1,3) by auto
  define d2 where "d2 = d1\<lparr>attachments := filter (\<lambda>a. at_id a \<notin> set (pc_deleted p)) (attachments d1)\<rparr>"
  let ?es = "map (purged_event cx t actor corr) (List.enumerate 0 (pc_cases p))"
  have e1: "d1 = d\<lparr>candidate_cases := update_where (\<lambda>r. cr_id r \<in> set (pc_cases p)) (anonymize (cx_now cx)) (candidate_cases d)\<rparr>"
    and "db_ok d1"
    using flush_cases_Inr [OF d1] assms(1) by auto
  then have ok2: "db_ok d2" unfolding d2_def by (intro db_ok_delete_attachments)
  have keys: "map ae_id ?es = map (cx_uuid cx) [0..<length (pc_cases p)]"
    by (simp add: purged_event_def enumerate_eq_zip comp_def case_prod_unfold flip: map_map [of "cx_uuid cx" fst, unfolded comp_def])
  have "audit_events d2 = audit_events d" "has_tenant d2 t" using assms(4) by (simp_all add: d2_def e1)
  then have "db_ok (d2\<lparr>audit_events := audit_events d2 @ ?es\<rparr>)"
    using assms(5,6) by (intro audits_ok [OF ok2]) (auto simp only: keys, auto simp: distinct_map inj_on_def inj_def purged_event_def)
  moreover have "purge_written cx t actor corr p d = d2\<lparr>audit_events := audit_events d2 @ ?es\<rparr>"
    by (simp add: purge_written_def d2_def e1 update_where_def)
  ultimately show ?thesis using d1 assms(2) by (simp add: purge_commit_eq)
qed

section \<open>What stays true of a selected case\<close>

text \<open>A case of the tenant in a stage that no transition leaves.\<close>

definition resting :: "string \<Rightarrow> string \<Rightarrow> db \<Rightarrow> bool" where
  "resting t i d = (\<exists>r \<in> set (candidate_cases d). cr_id r = i \<and> cr_tenant_id r = t \<and> cr_stage r \<in> TERMINAL_STAGES)"

lemma board_row:
  assumes "db_ok d" "r \<in> set (candidate_cases d)"
  shows "board_of d (cr_id r) = Some (cr_stage r, cr_version r)"
proof -
  have "List.find (\<lambda>q. cr_id q = cr_id r \<and> True) (candidate_cases d) = Some r"
    by (rule find_key [OF db_ok_keys(1) [OF assms(1)] assms(2)]) simp_all
  then show ?thesis by (simp add: board_of_def)
qed

lemma terminal_board_step:
  assumes "board_step m m'" "m i = Some (st, v)" "st \<in> TERMINAL_STAGES"
  shows "m' i = Some (st, v)"
  using assms(1)
proof cases
  case (moves j a u b)
  have "j \<noteq> i"
  proof
    assume "j = i"
    with moves assms(2,3) have "stage_value a \<in> TERMINAL_STAGES" by simp
    with moves(3) show False by (cases a) (simp_all add: TERMINAL_STAGES_def)
  qed
  with moves assms(2) show ?thesis by simp
qed (use assms(2) in auto)

lemma resting_stays:
  assumes "committed d d'" "well_kept d" "resting t i d"
  shows "resting t i d'"
proof -
  obtain r where r: "r \<in> set (candidate_cases d)" "cr_id r = i" "cr_tenant_id r = t" "cr_stage r \<in> TERMINAL_STAGES"
    using assms(3) by (auto simp: resting_def)
  have c: "well_kept d'" "history d d'" "board_of d' = board_of d \<or> board_step (board_of d) (board_of d')"
    using assms(1) by (auto simp: committed_def)
  have "case_facts r \<in> set (map case_facts (candidate_cases d))" using r(1) by simp
  moreover have "prefix (map case_facts (candidate_cases d)) (map case_facts (candidate_cases d'))"
    using c(2) by (simp add: history_def)
  ultimately have "case_facts r \<in> set (map case_facts (candidate_cases d'))" using set_mono_prefix by blast
  then obtain q where q: "q \<in> set (candidate_cases d')" "cr_id q = i" "cr_tenant_id q = t"
    using r(2,3) by (auto simp: case_facts_def)
  have "board_of d i = Some (cr_stage r, cr_version r)" using board_row [OF well_keptD(1) [OF assms(2)] r(1)] r(2) by simp
  then have "board_of d' i = Some (cr_stage r, cr_version r)" using c(3) terminal_board_step r(4) by metis
  then have "cr_stage q = cr_stage r" using board_row [OF well_keptD(1) [OF c(1)] q(1)] q(2) by simp
  with q r(4) show ?thesis by (auto simp: resting_def)
qed

lemma resting_system_step:
  assumes "system_step W s s'" "well_kept (sy_db s)" "resting t i (sy_db s)"
  shows "resting t i (sy_db s')"
  using system_step_commits [OF assms(1,2)] resting_stays [OF _ assms(2,3)] assms(3) by auto

text \<open>The cases selected before a step are, after it, still selected, or the purge has ended.\<close>

lemma purge_records_cases:
  "purge_records t rs d files p = (Inr p', files') \<Longrightarrow> pc_cases p' = pc_cases p @ map cr_id rs"
  by (induction rs arbitrary: files p) (auto simp: Let_def split: prod.splits sum.splits)

lemma purge_step_cases:
  assumes "purge_step cx t actor corr (p, d, files) = (p', d', files')"
  obtains (start) "p = Purge_Start" "selected p' = []" "d' = d"
      "\<And>days. p' = Policy_Read days \<Longrightarrow>
        \<exists>pol \<in> set (retention_policies d). rp_tenant_id pol = t \<and> rp_retention_days pol = days"
  | (select) days where "p = Policy_Read days" "d' = d"
      "p' = Collecting (filter (retention_due t (cx_now cx) days d) (candidate_cases d)) no_changes"
  | (collect) r rs q where "p = Collecting (r # rs) q" "d' = d" "selected p' = selected p" "\<exists>rs q. p' = Collecting rs q"
  | (failed) e where "p' = Purge_Failed e" "d' = d"
  | (commit) q where "p = Collecting [] q" "p' = Purge_Committed (length (pc_cases q))"
      "purge_commit cx t actor corr q d = Inr d'"
  | (idle) n where "p = Purge_Committed n" "p' = p" "d' = d"
proof (cases p)
  case Purge_Start
  with assms show thesis
    by (intro start) (auto simp: no_changes_def split: option.splits dest!: find_SomeD)
next
  case (Policy_Read days)
  with assms show thesis by (intro select) auto
next
  case (Collecting rs q)
  show thesis
  proof (cases rs)
    case Nil
    with assms Collecting show thesis by (auto split: sum.splits intro: failed commit)
  next
    case (Cons r rs')
    obtain res f where one: "purge_records t [r] d files q = (res, f)" by (cases "purge_records t [r] d files q")
    show thesis
    proof (cases res)
      case (Inl e)
      with assms Collecting Cons one show thesis by (intro failed) (auto simp del: purge_records.simps)
    next
      case (Inr q')
      with assms Collecting Cons one show thesis
        using purge_records_cases [of t "[r]" d files q q' f] by (intro collect) (auto simp del: purge_records.simps)
    qed
  qed
next
  case (Purge_Committed n)
  with assms show thesis by (intro idle) auto
next
  case (Purge_Failed e)
  with assms show thesis by (intro failed) auto
qed

text \<open>A selected case met every condition at some moment of the run, and its policy was in force at one before.\<close>

definition was_due ::
  "(nat \<Rightarrow> delivery_worker) \<Rightarrow> ctx \<Rightarrow> string \<Rightarrow> string \<Rightarrow> string \<Rightarrow> system \<Rightarrow> string \<Rightarrow> bool" where
  "was_due W cx t actor corr s0 i =
    (\<exists>s1 s2 days. (purge_beside W cx t actor corr)\<^sup>*\<^sup>* (Purge_Start, s0) (Purge_Start, s1) \<and>
      (\<exists>pol \<in> set (retention_policies (sy_db s1)). rp_tenant_id pol = t \<and> rp_retention_days pol = days) \<and>
      (purge_beside W cx t actor corr)\<^sup>*\<^sup>* (Purge_Start, s0) (Policy_Read days, s2) \<and>
      (\<exists>r \<in> set (candidate_cases (sy_db s2)). cr_id r = i \<and> retention_due t (cx_now cx) days (sy_db s2) r))"

definition purge_inv ::
  "(nat \<Rightarrow> delivery_worker) \<Rightarrow> ctx \<Rightarrow> string \<Rightarrow> string \<Rightarrow> string \<Rightarrow> system \<Rightarrow> purger \<times> system \<Rightarrow> bool" where
  "purge_inv W cx t actor corr s0 = (\<lambda>(p, s). well_kept (sy_db s) \<and>
    (\<forall>days. p = Policy_Read days \<longrightarrow>
      (\<exists>s1. (purge_beside W cx t actor corr)\<^sup>*\<^sup>* (Purge_Start, s0) (Purge_Start, s1) \<and>
        (\<exists>pol \<in> set (retention_policies (sy_db s1)). rp_tenant_id pol = t \<and> rp_retention_days pol = days))) \<and>
    (\<forall>i \<in> set (selected p). resting t i (sy_db s) \<and> was_due W cx t actor corr s0 i))"

lemma purge_inv_run:
  assumes "(purge_beside W cx t actor corr)\<^sup>*\<^sup>* (Purge_Start, s0) x" "well_kept (sy_db s0)"
  shows "purge_inv W cx t actor corr s0 x"
  using assms(1)
proof (induction rule: rtranclp_induct)
  case base
  then show ?case using assms(2) by (simp add: purge_inv_def)
next
  case (step y z)
  obtain p s where y: "y = (p, s)" by (cases y)
  have w: "well_kept (sy_db s)" using step(3) by (simp add: y purge_inv_def)
  from step(2) show ?case unfolding y
  proof (cases rule: purge_beside.cases)
    case (others s')
    have "well_kept (sy_db s')"
      using system_step_commits [OF others(2) w] w by (auto simp: committed_def)
    with others step(3) resting_system_step [OF others(2) w] show ?thesis by (auto simp: y purge_inv_def)
  next
    case (purges p' d' files')
    from purges(2) show ?thesis
    proof (cases rule: purge_step_cases)
      case start
      with step(1) purges(1) w start(4) show ?thesis by (auto simp: y purge_inv_def)
    next
      case (select days)
      obtain s1 where s1: "(purge_beside W cx t actor corr)\<^sup>*\<^sup>* (Purge_Start, s0) (Purge_Start, s1)"
        "\<exists>pol \<in> set (retention_policies (sy_db s1)). rp_tenant_id pol = t \<and> rp_retention_days pol = days"
        using step(3) select(1) by (auto simp: y purge_inv_def)
      have "resting t i (sy_db s) \<and> was_due W cx t actor corr s0 i" if i: "i \<in> set (selected p')" for i
      proof -
        obtain r where r: "r \<in> set (candidate_cases (sy_db s))" "cr_id r = i" "retention_due t (cx_now cx) days (sy_db s) r"
          using i select(3) by (auto simp: no_changes_def)
        have "resting t i (sy_db s)" using r by (auto simp: resting_def retention_due_def)
        moreover have "was_due W cx t actor corr s0 i"
          unfolding was_due_def using s1 r step(1) [unfolded y select(1)]
          by (intro exI [of _ s1] exI [of _ s] exI [of _ days] conjI bexI [of _ r])
        ultimately show ?thesis ..
      qed
      then show ?thesis using purges(1) select(2,3) w by (simp add: purge_inv_def)
    next
      case (collect r rs q)
      with step(3) purges(1) w show ?thesis by (auto simp: y purge_inv_def)
    next
      case (failed e)
      with purges(1) w show ?thesis by (simp add: purge_inv_def)
    next
      case (commit q)
      with purges(1) purge_written_kept(1) [OF w commit(3)] show ?thesis by (simp add: purge_inv_def)
    next
      case (idle n)
      with purges(1) w show ?thesis by (simp add: purge_inv_def)
    qed
  qed
qed

section \<open>What a purge may do beside others\<close>


section \<open>A legal hold that comes too late\<close>

definition redacted_case :: "string \<Rightarrow> db \<Rightarrow> bool" where
  "redacted_case i d = (\<exists>r \<in> set (candidate_cases d). cr_id r = i \<and> cr_first_name r = ''Redacted'' \<and>
     cr_last_name r = ''Candidate'' \<and> cr_email r = redacted_email i \<and> cr_anonymized_at r \<noteq> None)"

lemma redacted_case_stays:
  assumes "redactions_stay d d'" "redacted_case i d"
  shows "redacted_case i d'"
proof -
  obtain r where r: "r \<in> set (candidate_cases d)" "cr_id r = i" "cr_first_name r = ''Redacted''"
    "cr_last_name r = ''Candidate''" "cr_email r = redacted_email i" "cr_anonymized_at r \<noteq> None"
    using assms(2) by (auto simp: redacted_case_def)
  then have "redaction r \<in> redacted d" by (auto simp: redacted_def)
  with assms(1) have "redaction r \<in> redacted d'" by (auto simp: redactions_stay_def)
  with r show ?thesis by (auto simp: redacted_def redaction_def redacted_case_def)
qed

text \<open>Once selected, a case is redacted when the purge commits, and stays so.\<close>

definition doomed :: "string \<Rightarrow> purger \<times> system \<Rightarrow> bool" where
  "doomed i = (\<lambda>(p, s). i \<in> set (selected p) \<or> (\<exists>e. p = Purge_Failed e) \<or>
     (\<exists>n. p = Purge_Committed n \<and> redacted_case i (sy_db s)))"

lemma doomed_run:
  assumes "(purge_beside W cx t actor corr)\<^sup>*\<^sup>* (Purge_Start, s0) x" "well_kept (sy_db s0)" "doomed i x"
    and "(purge_beside W cx t actor corr)\<^sup>*\<^sup>* x y"
  shows "doomed i y"
  using assms(4)
proof (induction rule: rtranclp_induct)
  case base
  then show ?case by (rule assms(3))
next
  case (step y z)
  obtain p s where y: "y = (p, s)" by (cases y)
  have "purge_inv W cx t actor corr s0 (p, s)"
    by (rule purge_inv_run [OF _ assms(2)]) (use assms(1) step(1) y in auto)
  then have w: "well_kept (sy_db s)" and rest: "\<forall>i \<in> set (selected p). resting t i (sy_db s)" by (auto simp: purge_inv_def)
  from step(2) show ?case unfolding y
  proof (cases rule: purge_beside.cases)
    case (others s')
    have "redactions_stay (sy_db s) (sy_db s')"
      using system_step_commits [OF others(2) w] redactions_refl by (auto simp: committed_def)
    with others(1) step(3) redacted_case_stays show ?thesis by (auto simp: y doomed_def)
  next
    case (purges p' d' files')
    from purges(2) show ?thesis
    proof (cases rule: purge_step_cases)
      case (commit q)
      then obtain r where r: "r \<in> set (candidate_cases (sy_db s))" "cr_id r = i" "i \<in> set (pc_cases q)"
        using step(3) rest by (auto simp: y doomed_def resting_def)
      then have "anonymize (cx_now cx) r \<in> set (candidate_cases d')"
        using purge_commit_Inr(1) [OF commit(3)] by (force simp: purge_written_def)
      then have "redacted_case i d'"
        unfolding redacted_case_def using r(2)
        by (intro bexI [of _ "anonymize (cx_now cx) r"]) (simp_all, simp_all add: anonymize_def)
      with purges(1) commit(2) show ?thesis by (simp add: doomed_def)
    qed (use purges(1) step(3) in \<open>auto simp: y doomed_def\<close>)
  qed
qed

text \<open>
  Claim C32 (safety): a legal hold that is set after a purge has selected the case does not protect it. The
  request to hold the case is answered as a success and its hold is in the table; if the purge then commits,
  whatever else happens in between, the case is redacted all the same.
\<close>

theorem hold_too_late:
  assumes "(purge_beside W cx t actor corr)\<^sup>*\<^sup>* (Purge_Start, s0) (p, s)" "well_kept (sy_db s0)" "i \<in> set (selected p)"
    and "valid_key (ap_hex E)" "serve E h (Set_Legal_Hold i q) (sy_db s, sy_files s) = (None, d1, files1)" "qh_held q"
    and "(purge_beside W cx t actor corr)\<^sup>*\<^sup>* (p, put_db d1 files1 s) (Purge_Committed n, s')"
  shows "(\<exists>x \<in> set (legal_holds d1). lh_candidate_case_id x = i) \<and> redacted_case i (sy_db s')"
proof
  have "purge_beside W cx t actor corr (p, s) (p, put_db d1 files1 s)"
    by (rule purge_beside.others, rule system_step.requests [OF assms(4,5)])
  with assms(1) have run: "(purge_beside W cx t actor corr)\<^sup>*\<^sup>* (Purge_Start, s0) (p, put_db d1 files1 s)" by simp
  from doomed_run [OF run assms(2) _ assms(7), of i] assms(3) show "redacted_case i (sy_db s')" by (simp add: doomed_def)
  obtain r where "api_set_legal_hold E h i q (sy_db s) = (r, d1)" "error_of r = None"
    using assms(5) by (auto simp: on_db_def split: prod.splits)
  then obtain a :: actor_context and v where "set_legal_hold (ap_ctx E) (ac_tenant_id a) i True (qh_reason q) (ac_actor_id a) (correlation E h)
      (open_session (sy_db s)) = Inr (v, d1)"
    using assms(6) unfolding api_set_legal_hold_def by (elim guarded_respond) (auto simp: error_of_def)
  note l = set_legal_hold_Inr(6) [OF this]
  show "\<exists>x \<in> set (legal_holds d1). lh_candidate_case_id x = i"
  proof (cases "List.find (\<lambda>x. lh_candidate_case_id x = i) (legal_holds (sy_db s))")
    case None
    then show ?thesis by (simp add: l)
  next
    case (Some x)
    then have "x\<lparr>lh_reason := py_or (qh_reason q) (lh_reason x)\<rparr> \<in> set (legal_holds d1)"
      using find_SomeD [OF Some] by (auto simp: l set_update_where)
    then show ?thesis using find_SomeD [OF Some]
      by (intro bexI [of _ "x\<lparr>lh_reason := py_or (qh_reason q) (lh_reason x)\<rparr>"]) simp_all
  qed
qed

section \<open>A purge of the sample tenant\<close>

abbreviation sample_purge :: "purger \<times> db \<times> fs \<Rightarrow> purger \<times> db \<times> fs" where
  "sample_purge \<equiv> purge_step sample_retention_ctx ''t'' ''r'' ''k''"

abbreviation sample_beside :: "purger \<times> system \<Rightarrow> purger \<times> system \<Rightarrow> bool" where
  "sample_beside \<equiv> purge_beside sample_workers sample_retention_ctx ''t'' ''r'' ''k''"

definition sample_changes :: purge_changes where
  "sample_changes = \<lparr>pc_deleted = [''f''], pc_cases = [''c4'']\<rparr>"

lemma put_same [simp]: "put_db (sy_db s) (sy_files s) s = s"
  by (simp add: put_db_def)

lemma sample_selects:
  "sample_purge (Purge_Start, sample_retention_db ''u'', files) = (Policy_Read 1, sample_retention_db ''u'', files)"
  "sample_purge (Policy_Read 1, sample_retention_db ''u'', files) =
    (Collecting [sample_rejected] no_changes, sample_retention_db ''u'', files)"
proof -
  show "sample_purge (Purge_Start, sample_retention_db ''u'', files) = (Policy_Read 1, sample_retention_db ''u'', files)"
    by simp
  have "filter (retention_due ''t'' (10 * microseconds_per_day) 1 (sample_retention_db ''u'')) (candidate_cases (sample_retention_db ''u'')) =
      [sample_rejected]"
    using sample_due [of "''u''"] by (simp add: due_cases_def)
  then show "sample_purge (Policy_Read 1, sample_retention_db ''u'', files) =
      (Collecting [sample_rejected] no_changes, sample_retention_db ''u'', files)" by (simp only: purge_step.simps sample_ctx_retention)
qed

lemma sample_finishes:
  assumes "db_ok d" "candidate_cases d = candidate_cases (sample_retention_db ''u'')"
    "attachments d = attachments (sample_retention_db ''u'')" "has_tenant d ''t''"
    "\<forall>k. replicate k (CHR ''n'') \<notin> set (map ae_id (audit_events d))"
  shows "\<exists>files'. sample_purge (Collecting [sample_rejected] no_changes, d, files) = (Collecting [] sample_changes, d, files')"
    "sample_purge (Collecting [] sample_changes, d, files) =
      (Purge_Committed 1, purge_written sample_retention_ctx ''t'' ''r'' ''k'' sample_changes d, files)"
proof -
  have "keys_valid d" using sample_retention_keys [of "''u''"] assms(3) by (simp add: keys_valid_def)
  moreover have "attachments_of ''t'' ''c4'' d = [sample_file_row]" "at_id sample_file_row = ''f''"
    using assms(3) by (simp_all add: attachments_of_def) (simp_all add: sample_file_row_def)
  ultimately show "\<exists>files'. sample_purge (Collecting [sample_rejected] no_changes, d, files) = (Collecting [] sample_changes, d, files')"
    by (simp add: purge_records_ok no_changes_def sample_changes_def del: purge_records.simps)
  have "inj (\<lambda>k. replicate k (CHR ''n''))" by (rule injI) (metis length_replicate)
  moreover have "redaction_free {''c4''} d" using assms(2) by (simp add: redaction_free_def redacted_email_def)
  ultimately have "purge_commit sample_retention_ctx ''t'' ''r'' ''k'' sample_changes d =
      Inr (purge_written sample_retention_ctx ''t'' ''r'' ''k'' sample_changes d)"
    using assms(1,4,5) by (intro purge_commit_succeeds) (simp_all add: sample_changes_def)
  then show "sample_purge (Collecting [] sample_changes, d, files) =
      (Purge_Committed 1, purge_written sample_retention_ctx ''t'' ''r'' ''k'' sample_changes d, files)"
    by (simp add: sample_changes_def)
qed

lemma sample_selected: "sample_beside\<^sup>*\<^sup>* (Purge_Start, service_with (sample_retention_db ''u''))
    (Collecting [sample_rejected] no_changes, service_with (sample_retention_db ''u''))"
proof -
  let ?s = "service_with (sample_retention_db ''u'')"
  have "sample_beside (Purge_Start, ?s) (Policy_Read 1, put_db (sy_db ?s) (sy_files ?s) ?s)"
    by (rule purge_beside.purges) (simp only: service_with_simps sample_selects)
  moreover have "sample_beside (Policy_Read 1, ?s) (Collecting [sample_rejected] no_changes, put_db (sy_db ?s) (sy_files ?s) ?s)"
    by (rule purge_beside.purges) (simp only: service_with_simps sample_selects)
  ultimately show ?thesis unfolding put_same by (rule rtranclp.rtrancl_into_rtrancl [OF r_into_rtranclp])
qed


definition sample_hold_api :: api_env where
  "sample_hold_api = sample_api sample_ctx"

definition sample_hold_call :: api_call where
  "sample_hold_call = Set_Legal_Hold ''c4'' \<lparr>qh_held = True, qh_reason = None\<rparr>"

definition sample_held :: db where
  "sample_held = db_insert_all (sample_retention_db ''u'')
     (sample_hold_rows (correlation sample_hold_api (sample_request ''r'')))"

lemma sample_hold_served:
  "serve sample_hold_api (sample_request ''r'') sample_hold_call (sample_retention_db ''u'', files) = (None, sample_held, files)"
proof -
  have "memberships (sample_retention_db ''u'') = memberships sample_db" by (simp add: sample_retention_db_def)
  then have "require ''retention:manage'' (st_auth_mode (ap_settings sample_hold_api)) (ap_validator sample_hold_api)
      (rq_auth (sample_request ''r'')) (sample_retention_db ''u'') =
    Inr \<lparr>ac_tenant_id = ''t'', ac_actor_id = ''r'', ac_role = ''recruiter''\<rparr>"
    by (simp add: sample_hold_api_def sample_api_def sample_request_def require_def caller_identity_def default_settings_def
      sample_headers_def truthy_def membership_of_def sample_db_def role_permissions_def ROLE_PERMISSIONS_def
      recruiting_permissions_def)
  then show ?thesis
    using sample_hold_run [of "correlation sample_hold_api (sample_request ''r'')"]
    by (simp add: sample_hold_call_def api_set_legal_hold_def guarded_def checked_def legal_hold_request_ok_def respond_def
        with_session_def on_db_def error_of_def sample_held_def) (simp add: sample_hold_api_def)
qed

lemma sample_held_tables:
  "candidate_cases sample_held = candidate_cases (sample_retention_db ''u'')"
  "attachments sample_held = attachments (sample_retention_db ''u'')" "has_tenant sample_held ''t''"
  "map ae_id (audit_events sample_held) = [''n0'']" "db_ok sample_held"
  "map lh_candidate_case_id (legal_holds sample_held) = [''c4'']"
proof -
  show "db_ok sample_held"
    using set_legal_hold_Inr(2) [OF sample_hold_run] by (simp add: sample_held_def)
  have "has_tenant (sample_retention_db ''u'') ''t''" by (simp add: sample_retention_db_def)
  then show "has_tenant sample_held ''t''" by (simp add: sample_held_def sample_hold_rows_def)
qed (simp_all add: sample_held_def sample_hold_rows_def)

text \<open>The case is selected, the hold is set and answered 204, the purge goes on and commits.\<close>

theorem hold_too_late_witness:
  "map lh_candidate_case_id (legal_holds sample_held) = [''c4''] \<and>
   (\<exists>s'. sample_beside\<^sup>*\<^sup>* (Collecting [sample_rejected] no_changes, put_db sample_held (\<lambda>_. None) (service_with (sample_retention_db ''u'')))
      (Purge_Committed 1, s') \<and> redacted_case ''c4'' (sy_db s'))"
proof (intro conjI)
  let ?s = "service_with (sample_retention_db ''u'')"
  let ?h = "put_db sample_held (\<lambda>_. None) ?s"
  have "\<forall>k. replicate k (CHR ''n'') \<notin> set (map ae_id (audit_events sample_held))"
  proof
    fix k
    have "''n0'' \<noteq> replicate k (CHR ''n'')"
    proof
      assume e: "''n0'' = replicate k (CHR ''n'')"
      have "CHR ''0'' \<in> set (replicate k (CHR ''n''))" unfolding e [symmetric] by simp
      then show False by simp
    qed
    then show "replicate k (CHR ''n'') \<notin> set (map ae_id (audit_events sample_held))" by (auto simp: sample_held_tables)
  qed
  note f = sample_finishes [of sample_held, OF sample_held_tables(5,1,2,3) this]
  obtain files' where one: "sample_purge (Collecting [sample_rejected] no_changes, sample_held, \<lambda>_. None) =
      (Collecting [] sample_changes, sample_held, files')" using f(1) by blast
  have "sample_beside (Collecting [sample_rejected] no_changes, ?h) (Collecting [] sample_changes, put_db sample_held files' ?h)"
    by (rule purge_beside.purges) (simp only: put_db_simps one)
  moreover have "sample_beside (Collecting [] sample_changes, put_db sample_held files' ?h)
      (Purge_Committed 1, put_db (purge_written sample_retention_ctx ''t'' ''r'' ''k'' sample_changes sample_held) files'
        (put_db sample_held files' ?h))"
    by (rule purge_beside.purges) (simp only: put_db_simps f(2))
  ultimately have run: "sample_beside\<^sup>*\<^sup>* (Collecting [sample_rejected] no_changes, ?h)
      (Purge_Committed 1, put_db (purge_written sample_retention_ctx ''t'' ''r'' ''k'' sample_changes sample_held) files'
        (put_db sample_held files' ?h))" (is "_ (_, ?e)")
    by (rule rtranclp.rtrancl_into_rtrancl [OF r_into_rtranclp])
  have "redacted_case ''c4'' (sy_db ?e)"
    using hold_too_late [OF sample_selected _ _ _ _ _ run, of "''c4''" sample_hold_api "sample_request ''r''"
        "\<lparr>qh_held = True, qh_reason = None\<rparr>"] sample_hold_served [unfolded sample_hold_call_def] sample_retention_kept
    by (simp add: sample_hold_api_def del: serve.simps)
  with run show "\<exists>s'. sample_beside\<^sup>*\<^sup>* (Collecting [sample_rejected] no_changes, ?h) (Purge_Committed 1, s') \<and>
      redacted_case ''c4'' (sy_db s')" by blast
qed (rule sample_held_tables)

end
