(* ===== verification/Attachment_Files.thy ===== *)
theory Attachment_Files
  imports System
begin

text \<open>
  The file store beside the rows: what the whole service keeps of the attachments' files. The rows of
  \<open>candidate_attachments\<close> and the files of \<open>LocalAttachmentStorage\<close> are written one after the other, the
  files outside every transaction. As long as the generated keys are new and no purge fails, every row
  has its file, with the recorded size and digest, and every stored document has its row.
\<close>

section \<open>Rows and files\<close>

definition stored_keys :: "db \<Rightarrow> string set" where
  "stored_keys d = at_storage_key ` set (attachments d)"

definition no_orphans :: "db \<Rightarrow> fs \<Rightarrow> bool" where
  "no_orphans d files = (\<forall>k. valid_key k \<longrightarrow> files k \<noteq> None \<longrightarrow> k \<in> stored_keys d)"

definition files_follow :: "(bytes \<Rightarrow> string) \<Rightarrow> db \<Rightarrow> fs \<Rightarrow> bool" where
  "files_follow sha d files = (files_match sha d files \<and> no_orphans d files)"

lemma files_follow_cong: "attachments d' = attachments d \<Longrightarrow> files_follow sha d' files = files_follow sha d files"
  by (simp add: files_follow_def files_match_def no_orphans_def stored_keys_def)

section \<open>Which requests touch attachments\<close>

lemma respond_attachments:
  assumes "\<And>a v d'. granted E h p d a \<Longrightarrow> handler a (open_session d) = Inr (v, d') \<Longrightarrow> attachments d' = attachments d"
    and "on_db (guarded E h p d (\<lambda>a. checked ok d (respond (err a) (resp a) (handler a) d)) d) files = (out, d', files')"
  shows "attachments d' = attachments d \<and> files' = files"
proof -
  obtain r where "guarded E h p d (\<lambda>a. checked ok d (respond (err a) (resp a) (handler a) d)) d = (r, d')" "files' = files"
    using assms(2) by (auto simp: on_db_def split: prod.splits)
  then show ?thesis using assms(1) by (elim guarded_respond) auto
qed

lemma respond_attachments':
  assumes "\<And>a v d'. granted E h p d a \<Longrightarrow> handler a (open_session d) = Inr (v, d') \<Longrightarrow> attachments d' = attachments d"
    and "on_db (guarded E h p d (\<lambda>a. respond (err a) (resp a) (handler a) d) d) files = (out, d', files')"
  shows "attachments d' = attachments d \<and> files' = files"
  using respond_attachments [OF assms(1), where ok = True] assms(2) by (simp add: checked_def)

lemma transition_attachments:
  assumes "db_ok d" "serve E h (Transition i q) (d, files) = (out, d', files')"
  shows "attachments d' = attachments d \<and> files' = files"
proof -
  obtain r where g: "api_transition E h i q d = (r, d')" and f: "files' = files"
    using assms(2) by (auto simp: on_db_def split: prod.splits)
  have "attachments d' = attachments d"
    using g [unfolded api_transition_def]
  proof (elim guarded_cases checked_cases)
    fix a :: actor_context
    let ?c = "\<lparr>tc_candidate_id = i, tc_tenant_id = ac_tenant_id a, tc_target_stage = qs_target_stage q,
           tc_expected_version = qs_expected_version q, tc_actor_id = ac_actor_id a,
           tc_correlation_id = correlation_or_request E h\<rparr>"
    assume run: "(case with_session (transition_candidate (ap_ctx E) ?c) d of
         (Inl e, d') \<Rightarrow> (Inl (transition_error e), d')
       | (Inr c, d') \<Rightarrow>
           (case List.find (\<lambda>r. cr_id r = cc_id c) (candidate_cases d') of
              None \<Rightarrow> (Inl ServerError, d')
            | Some r \<Rightarrow> (Inr \<lparr>pc_id = cr_id r, pc_requisition_id = cr_requisition_id r, pc_first_name = cr_first_name r,
                pc_last_name = cr_last_name r, pc_email = cr_email r, pc_stage = stage_value (cc_stage c),
                pc_version = cc_version c\<rparr>, d'))) = (r, d')"
    show ?thesis
    proof (cases "transition_candidate (ap_ctx E) ?c (open_session d)")
      case (Inl e)
      with run show ?thesis by (simp add: with_session_def)
    next
      case (Inr md)
      obtain m e where md: "md = (m, e)" by (cases md)
      from run Inr md have "d' = e" by (auto simp: with_session_def split: option.splits)
      moreover have "attachments e = attachments d"
        by (rule transition_candidate_Inr [OF assms(1) Inr [unfolded md]]) (simp add: stage_move_def frame_simps)
      ultimately show ?thesis by simp
    qed
  qed simp_all
  with f show ?thesis by simp
qed

lemma decide_attachments:
  assumes "db_ok d" "decide_offer cx standard_policy c (open_session d) = Inr (v, d')"
  shows "attachments d' = attachments d"
  by (rule decide_offer_Inr [OF assms]) (rule decision_writes_tables(11))

lemma create_offer_attachments:
  assumes "db_ok d" "create_offer cx c (open_session d) = Inr (v, d')"
  shows "attachments d' = attachments d"
  by (rule create_offer_Inr [OF assms]) (simp add: offer_creation_tables)

lemma feedback_attachments:
  assumes "db_ok d" "submit_feedback cx c (open_session d) = Inr (v, d')"
  shows "attachments d' = attachments d"
  by (rule submit_feedback_Inr [OF assms]) simp

lemma hold_attachments:
  assumes "set_legal_hold cx t c held reason a corr (open_session d) = Inr (v, d')"
  shows "attachments d' = attachments d"
  by (rule set_legal_hold_Inr(5) [OF assms])

lemma policy_attachments:
  assumes "set_policy cx t n a corr (open_session d) = Inr (v, d')"
  shows "attachments d' = attachments d"
  by (rule set_policy_Inr [OF assms]) simp

lemma subscription_attachments:
  assumes "create_subscription cx k t i a (open_session d) = Inr (v, d')"
  shows "attachments d' = attachments d"
  using create_subscription_Inr(10) [of cx k t i a d "fst v" "snd v" d'] assms by auto

lemma revocation_attachments:
  assumes "revoke_subscription cx i t a (open_session d) = Inr (v, d')"
  shows "attachments d' = attachments d"
proof -
  obtain us e where "d' = d\<lparr>calendar_subscriptions := us, audit_events := audit_events d @ [e]\<rparr>"
    using revoke_subscription_Inr(4) [OF assms] by metis
  then show ?thesis by simp
qed

lemma download_attachments:
  assumes "download_attachment cx c (open_session d) files = Inr (v, d')"
  shows "attachments d' = attachments d"
  using download_attachment_Inr [of cx c d files "fst v" "snd v" d'] assms by auto

lemma tenant_attachments:
  assumes "serve E h (Create_Tenant q) (d, files) = (out, d', files')"
  shows "attachments d' = attachments d \<and> files' = files"
proof -
  obtain r where g: "api_create_tenant E q d = (r, d')" and f: "files' = files"
    using assms by (auto simp: on_db_def split: prod.splits)
  from g [unfolded api_create_tenant_def] have "attachments d' = attachments d"
    by (elim checked_cases respond_cases) (auto dest!: create_tenant_Inr(1) simp: tenant_rows_def admin_rows_def)
  with f show ?thesis by simp
qed

text \<open>Only uploads and purges change the attachments or the files.\<close>

lemma serve_attachments:
  assumes ok: "db_ok d" and s: "serve E h call (d, files) = (out, d', files')"
    and "\<And>i t f. call \<noteq> Upload_Attachment i t f" "call \<noteq> Purge_Due"
  shows "attachments d' = attachments d \<and> files' = files"
proof (cases call)
  case (Create_Tenant q)
  with s show ?thesis using tenant_attachments by metis
next
  case (Transition i q)
  with s show ?thesis using transition_attachments [OF ok] by metis
next
  case (Create_Requisition q)
  show ?thesis
    by (rule respond_attachments [OF _ s [unfolded Create_Requisition serve.simps api_create_requisition_def]])
      (auto dest!: create_requisition_Inr(1) simp: requisition_rows_def)
next
  case (Create_Candidate q)
  show ?thesis
    by (rule respond_attachments [OF _ s [unfolded Create_Candidate serve.simps api_create_candidate_def]])
      (auto dest!: create_candidate_Inr(4))
next
  case (Schedule_Interview i q)
  show ?thesis
    by (rule respond_attachments [OF _ s [unfolded Schedule_Interview serve.simps api_schedule_interview_def]])
      (auto dest!: schedule_interview_Inr(3))
next
  case (Submit_Feedback i q)
  show ?thesis
    by (rule respond_attachments [OF _ s [unfolded Submit_Feedback serve.simps api_submit_feedback_def]])
      (auto dest!: feedback_attachments [OF ok])
next
  case (Create_Offer i q)
  show ?thesis
    by (rule respond_attachments [OF _ s [unfolded Create_Offer serve.simps api_create_offer_def]])
      (auto dest!: create_offer_attachments [OF ok])
next
  case (Approve_Offer i q)
  show ?thesis
    by (rule respond_attachments [OF _ s [unfolded Approve_Offer serve.simps api_approve_offer_def]])
      (auto dest!: decide_attachments [OF ok])
next
  case (Download_Attachment i a)
  show ?thesis
    by (rule respond_attachments' [OF _ s [unfolded Download_Attachment serve.simps api_download_attachment_def]])
      (auto dest!: download_attachments)
next
  case (Set_Retention_Policy q)
  show ?thesis
    by (rule respond_attachments [OF _ s [unfolded Set_Retention_Policy serve.simps api_set_retention_policy_def]])
      (auto dest!: policy_attachments)
next
  case (Set_Legal_Hold i q)
  show ?thesis
    by (rule respond_attachments [OF _ s [unfolded Set_Legal_Hold serve.simps api_set_legal_hold_def]])
      (auto dest!: hold_attachments)
next
  case (Create_Subscription q)
  show ?thesis
    by (rule respond_attachments [OF _ s [unfolded Create_Subscription serve.simps api_create_subscription_def]])
      (auto dest!: subscription_attachments)
next
  case (Revoke_Subscription i)
  show ?thesis
    by (rule respond_attachments' [OF _ s [unfolded Revoke_Subscription serve.simps api_revoke_subscription_def]])
      (auto dest!: revocation_attachments)
qed (use assms(3,4) in auto)

section \<open>Uploads and purges\<close>

lemma upload_follows:
  assumes "files_follow sha d files" "valid_key (ap_hex E)" "ap_hex E \<notin> stored_keys d" "ap_sha256 E = sha"
    and "serve E h (Upload_Attachment i t f) (d, files) = (out, d', files')"
  shows "files_follow sha d' files'"
proof -
  have key: "valid_key (av_hex (attachment_service E))" "av_hex (attachment_service E) = ap_hex E"
    "av_sha256 (attachment_service E) = sha"
    using assms(2,4) by (simp_all add: attachment_service_def)
  have none: "files (ap_hex E) = None" using assms(1-3) by (auto simp: files_follow_def no_orphans_def)
  then have drop: "files(ap_hex E := None) = files" by (simp add: fun_eq_iff)
  obtain r where "api_upload_attachment E h i t f (d, files) = (r, d', files')"
    using assms(5) by (auto split: prod.splits)
  then show ?thesis
    unfolding api_upload_attachment_def prod.case
  proof (elim guarded_cases)
    fix a :: actor_context
    let ?c = "\<lparr>uc_tenant_id = ac_tenant_id a, uc_candidate_case_id = i, uc_document_type = t,
      uc_filename = py_or (ul_filename f) [], uc_content_type = py_or (ul_content_type f) [],
      uc_content = ul_content f, uc_actor_id = ac_actor_id a, uc_correlation_id = correlation E h\<rparr>"
    assume run: "(case upload_attachment (ap_ctx E) (attachment_service E) ?c (open_session d) files of
           (Inl e, files') \<Rightarrow> (Inl (upload_error e), (d, files'))
         | (Inr (a, d'), files') \<Rightarrow> (Inr (attachment_response_of a), (d', files'))) = (r, d', files')"
    obtain res fs' where u: "upload_attachment (ap_ctx E) (attachment_service E) ?c (open_session d) files = (res, fs')"
      by (cases "upload_attachment (ap_ctx E) (attachment_service E) ?c (open_session d) files")
    show ?thesis
    proof (cases res)
      case (Inl e)
      then have "fs' = files"
        using u drop unfolding upload_attachment_eq [OF key(1)] key(2) by (auto split: if_splits sum.splits)
      with run u Inl assms(1) show ?thesis by simp
    next
      case (Inr ad)
      obtain x e where ad: "ad = (x, e)" by (cases ad)
      note up = upload_attachment_Inr [OF key(1) u [unfolded Inr ad]]
      have d': "d' = e" "files' = fs'" using run u Inr ad by auto
      let ?row = "attachment_row_of (uploaded (ap_ctx E) (attachment_service E) ?c)"
      have row: "at_storage_key ?row = ap_hex E" "at_sha256 ?row = sha (ul_content f)"
        "at_size_bytes ?row = int (length (ul_content f))"
        by (simp_all add: attachment_row_of_def uploaded_def key)
      have atts: "attachments d' = attachments d @ [?row]" and fs: "files' = files(ap_hex E := Some (ul_content f))"
        using up(5,6) by (simp_all add: d' key)
      have "at_storage_key b \<noteq> ap_hex E" if "b \<in> set (attachments d)" for b
        using assms(3) that unfolding stored_keys_def by (metis imageI)
      then have "files_match sha d' files'"
        using assms(1,2) by (simp add: files_follow_def files_match_def atts fs row)
      moreover have "no_orphans d' files'"
        using assms(1) by (auto simp: files_follow_def no_orphans_def stored_keys_def atts fs row)
      ultimately show ?thesis by (simp add: files_follow_def)
    qed
  qed (use assms(1) in simp)
qed

lemma purge_follows:
  assumes "files_follow sha d files" "db_ok d" "purge_due cx t a corr (open_session d) files = (Inr (n, d'), files')"
  shows "files_follow sha d' files'"
proof -
  have kv: "keys_valid d" using assms(1) files_match_keys by (auto simp: files_follow_def)
  note r = purge_due_Inr [OF kv assms(2,3)]
  let ?P = "purged_attachment t (cx_now cx) d"
  have atts: "attachments d' = filter (\<lambda>a. \<not> ?P a) (attachments d)" by (simp add: r(2) purged_db_eq)
  have u: "distinct (map at_storage_key (attachments d))" using assms(2) by (simp add: db_ok_def attachments_ok_def)
  have keep: "files' (at_storage_key a) = files (at_storage_key a)" if "a \<in> set (attachments d)" "\<not> ?P a" for a
    using key_unique [OF u that(1)] that(2) by (auto simp: r(5) without_files_def)
  have "files_match sha d' files'"
    using assms(1) keep by (auto simp: files_follow_def files_match_def atts)
  moreover have "no_orphans d' files'"
    unfolding no_orphans_def
  proof (intro allI impI)
    fix k assume k: "valid_key k" "files' k \<noteq> None"
    then have "files k \<noteq> None" "k \<notin> at_storage_key ` {a \<in> set (attachments d). ?P a}"
      by (auto simp: r(5) without_files_def split: if_splits)
    moreover from this(1) k(1) assms(1) obtain b where "b \<in> set (attachments d)" "at_storage_key b = k"
      by (auto simp: files_follow_def no_orphans_def stored_keys_def)
    ultimately show "k \<in> stored_keys d'" by (force simp: stored_keys_def atts)
  qed
  ultimately show ?thesis by (simp add: files_follow_def)
qed

lemma purge_tenants_follow:
  assumes "purge_tenants cxs corr k ts d files n = (Inr m, d', files')" "files_follow sha d files" "db_ok d"
  shows "files_follow sha d' files'"
  using assms
proof (induction ts arbitrary: k d files n)
  case (Cons t ts)
  obtain l d1 f where p: "purge_due (cxs k) t ''system:retention'' (corr k) (open_session d) files = (Inr (l, d1), f)"
    and rest: "purge_tenants cxs corr (Suc k) ts d1 f (n + l) = (Inr m, d', files')"
    using Cons.prems(1) by (auto split: prod.splits sum.splits)
  have kv: "keys_valid d" using Cons.prems(2) files_match_keys by (auto simp: files_follow_def)
  from Cons.IH [OF rest purge_follows [OF Cons.prems(2,3) p] purge_due_Inr(3) [OF kv Cons.prems(3) p]] show ?case .
qed simp

section \<open>Runs\<close>

text \<open>
  The steps of the service under the two conditions: the key of an upload is one no row has, as
  \<open>uuid4().hex\<close> provides, and a purge ends without an exception. \<open>sha\<close> is the digest function.
\<close>

inductive filed_step :: "(bytes \<Rightarrow> string) \<Rightarrow> (nat \<Rightarrow> delivery_worker) \<Rightarrow> system \<Rightarrow> system \<Rightarrow> bool"
  for sha :: "bytes \<Rightarrow> string" and W :: "nat \<Rightarrow> delivery_worker" where
  requests: "filed_step sha W s (put_db d' files' s)"
    if "valid_key (ap_hex E)" and "ap_hex E \<notin> stored_keys (sy_db s)" and "ap_sha256 E = sha"
      and "serve E h call (sy_db s, sy_files s) = (out, d', files')" and "call = Purge_Due \<longrightarrow> out = None"
| publishes: "filed_step sha W s (put_db d' (sy_files s) s)"
    if "publish_pending cx (open_session (sy_db s)) = Inr (n, d')"
| delivers: "filed_step sha W s (s\<lparr>sy_fleet := fl\<rparr>)" if "fleet_step W False (sy_fleet s) fl"
| retains: "filed_step sha W s (put_db d' files' s)"
    if "run_retention_worker cxs corr batch_size (sy_db s) (sy_files s) = (Inr m, d', files')"

text \<open>A service whose rows and files are in step, as one that starts empty is.\<close>

definition in_step :: "(bytes \<Rightarrow> string) \<Rightarrow> system \<Rightarrow> bool" where
  "in_step sha s = (well_kept (sy_db s) \<and> files_follow sha (sy_db s) (sy_files s))"

lemma empty_in_step: "system_init s \<Longrightarrow> sy_files s = (\<lambda>_. None) \<Longrightarrow> in_step sha s"
  by (simp add: in_step_def system_init_def empty_well_kept)
    (simp add: files_follow_def files_match_def no_orphans_def empty_db_def)

lemma filed_step_system: "filed_step sha W s s' \<Longrightarrow> system_step W s s'"
  by (induction rule: filed_step.induct) (blast intro: system_step.intros)+

lemma fleet_step_attachments: "fleet_step W timely f f' \<Longrightarrow> attachments (fl_db f') = attachments (fl_db f)"
  by (induction rule: fleet_step.induct)
    (auto simp: set_phase_def claim_update_def mark_delivered_def fail_write_def Let_def split: if_splits)

lemma purge_request_follows:
  assumes "files_follow sha d files" "db_ok d" "serve E h Purge_Due (d, files) = (None, d', files')"
  shows "files_follow sha d' files'"
proof -
  obtain r where g: "api_purge_due E h (d, files) = (r, d', files')" and ok: "error_of r = None"
    using assms(3) by (auto split: prod.splits)
  from g [unfolded api_purge_due_def prod.case] show ?thesis
  proof (elim guarded_cases)
    fix a :: actor_context
    assume run: "(case purge_due (ap_ctx E) (ac_tenant_id a) (ac_actor_id a) (correlation E h) (open_session d) files of
           (Inl e, files') \<Rightarrow> (Inl ServerError, (d, files'))
         | (Inr (n, d'), files') \<Rightarrow> (Inr n, (d', files'))) = (r, d', files')"
    with ok obtain n where "purge_due (ap_ctx E) (ac_tenant_id a) (ac_actor_id a) (correlation E h) (open_session d) files =
        (Inr (n, d'), files')"
      by (auto simp: error_of_def split: prod.splits sum.splits)
    from purge_follows [OF assms(1,2) this] show ?thesis .
  qed (use assms(1) in simp)
qed

lemma filed_step_follows:
  assumes "filed_step sha W s s'" "well_kept (sy_db s)" "files_follow sha (sy_db s) (sy_files s)"
  shows "files_follow sha (sy_db s') (sy_files s')"
  using assms(1)
proof (cases rule: filed_step.cases)
  case (requests E h call out d' files')
  note ok = well_keptD(1) [OF assms(2)]
  consider (upload) i t f where "call = Upload_Attachment i t f" | (purge) "call = Purge_Due"
    | (other) "\<And>i t f. call \<noteq> Upload_Attachment i t f" "call \<noteq> Purge_Due" by (cases call) auto
  then have "files_follow sha d' files'"
  proof cases
    case upload
    with requests upload_follows [OF assms(3)] show ?thesis by metis
  next
    case purge
    with requests purge_request_follows [OF assms(3) ok] show ?thesis by metis
  next
    case other
    from serve_attachments [OF ok requests(5) other] files_follow_cong assms(3) show ?thesis by metis
  qed
  with requests(1) show ?thesis by simp
next
  case (publishes cx n d')
  then have "attachments d' = attachments (sy_db s)"
    using publish_pending_Inr(2) [OF well_keptD(1,5) [OF assms(2)] publishes(2)] by (simp add: published_db_def)
  from files_follow_cong [OF this] publishes(1) assms(3) show ?thesis by simp
next
  case (delivers fl)
  from files_follow_cong [OF fleet_step_attachments [OF delivers(2)]] delivers(1) assms(3) show ?thesis by simp
next
  case (retains cxs corr batch_size m d' files')
  from purge_tenants_follow [OF retains(2) [unfolded run_retention_worker_def] assms(3) well_keptD(1) [OF assms(2)]] retains(1)
  show ?thesis by simp
qed

interpretation filed: invariant_of "in_step sha" "filed_step sha W" "in_step sha" for sha W
proof
  fix s t assume "in_step sha s" "filed_step sha W s t"
  then show "in_step sha t"
    unfolding in_step_def using filed_step_follows filed_step_system system_step_commits by (metis committed_def)
qed

text \<open>A member who may read attachments gets any of the tenant's whose file is there.\<close>

lemma download_succeeds:
  assumes w: "well_kept d" and f: "files_follow sha d files" and a: "a \<in> set (attachments d)"
    and g: "granted E h ''candidate:attachment'' d x" "ac_tenant_id x = at_tenant_id a"
    and up: "cx_db_up (ap_ctx E)" and fresh: "cx_uuid (ap_ctx E) 0 \<notin> set (map ae_id (audit_events d))"
  shows "\<exists>d'. serve E h (Download_Attachment (at_candidate_case_id a) (at_id a)) (d, files) = (None, d', files)"
proof -
  note ok = well_keptD(1) [OF w]
  let ?c = "\<lparr>dc_attachment_id = at_id a, dc_candidate_case_id = at_candidate_case_id a, dc_tenant_id = ac_tenant_id x,
    dc_actor_id = ac_actor_id x, dc_correlation_id = correlation E h\<rparr>"
  have ids: "distinct (map at_id (attachments d))" and t: "has_tenant d (at_tenant_id a)"
    using ok a by (auto simp: db_ok_def attachments_ok_def list_all_iff)
  have find: "List.find (\<lambda>b. at_id b = at_id a \<and> at_candidate_case_id b = at_candidate_case_id a \<and>
      at_tenant_id b = at_tenant_id a) (attachments d) = Some a"
    by (rule find_key [OF ids a]) simp_all
  have "valid_key (at_storage_key a)" "files (at_storage_key a) \<noteq> None"
    using f a by (auto simp: files_follow_def files_match_def)
  then have "storage_open (at_storage_key a) files = Inr (at_storage_key a)"
    using storage.open_finds by simp
  moreover have "db_ok (d\<lparr>audit_events := audit_events d @ [downloaded_event (ap_ctx E) ?c a]\<rparr>)"
    using fresh t g(2) by (intro audits_ok [OF ok]) (simp_all add: downloaded_event_def)
  ultimately have "download_attachment (ap_ctx E) ?c (open_session d) files = Inr ((attachment_to_entity a, at_storage_key a),
      d\<lparr>audit_events := audit_events d @ [downloaded_event (ap_ctx E) ?c a]\<rparr>)"
    using find up g(2)
    by (simp add: download_attachment_def attachment_get_def attachment_to_entity_def attachment_record_audit_def
        session_commit_eq Let_def session_add_def open_session_def downloaded_event_def)
  then show ?thesis
    using g(1) by (simp add: api_download_attachment_def guarded_def granted_def respond_def with_session_def on_db_def error_of_def)
qed

text \<open>
  Claim C28 (invariant): files and rows of attachments stay in step. In every state a service that starts empty, or
  in step, reaches while generated keys are new and no purge fails, each attachment has its file, of the recorded size and digest, no
  document is left without its row, and every attachment can be downloaded by a member of its tenant who
  may read attachments. (A purge that fails breaks the first part, \<open>purge_blocked_by_address\<close>.)
\<close>

theorem files_follow_rows:
  assumes "reachable (in_step sha) (filed_step sha W) s"
  shows "(\<forall>a \<in> set (attachments (sy_db s)). \<exists>content. sy_files s (at_storage_key a) = Some content \<and>
      sha content = at_sha256 a \<and> int (length content) = at_size_bytes a) \<and>
    (\<forall>k. valid_key k \<longrightarrow> sy_files s k \<noteq> None \<longrightarrow> k \<in> stored_keys (sy_db s)) \<and>
    (\<forall>a \<in> set (attachments (sy_db s)). \<forall>E h x. granted E h ''candidate:attachment'' (sy_db s) x \<longrightarrow>
      ac_tenant_id x = at_tenant_id a \<longrightarrow> cx_db_up (ap_ctx E) \<longrightarrow>
      cx_uuid (ap_ctx E) 0 \<notin> set (map ae_id (audit_events (sy_db s))) \<longrightarrow>
      (\<exists>d'. serve E h (Download_Attachment (at_candidate_case_id a) (at_id a)) (sy_db s, sy_files s) = (None, d', sy_files s)))"
proof -
  have inv: "well_kept (sy_db s)" "files_follow sha (sy_db s) (sy_files s)" using filed.inv_reachable [OF assms] by (auto simp: in_step_def)
  show ?thesis
  proof (intro conjI ballI allI impI)
    fix a assume "a \<in> set (attachments (sy_db s))"
    then show "\<exists>content. sy_files s (at_storage_key a) = Some content \<and> sha content = at_sha256 a \<and>
        int (length content) = at_size_bytes a"
      using inv(2) by (auto simp: files_follow_def files_match_def)
  next
    fix k assume "valid_key k" "sy_files s k \<noteq> None"
    then show "k \<in> stored_keys (sy_db s)" using inv(2) by (simp add: files_follow_def no_orphans_def)
  qed (rule download_succeeds [OF inv])
qed

text \<open>The sample tenant with the file of its attachment; the retention worker removes both.\<close>

definition sample_filed :: system where
  "sample_filed = put_db (sample_retention_db ''u'') [sample_key \<mapsto> ''%PDF-1''] (service_with empty_db)"

lemma sample_file_simps [simp]:
  "at_storage_key sample_file_row = sample_key" "at_sha256 sample_file_row = ''%PDF-1''" "at_size_bytes sample_file_row = 6"
  "at_candidate_case_id sample_file_row = ''c4''" "at_tenant_id sample_file_row = ''t''"
  by (simp_all add: sample_file_row_def)

lemma sample_filed_in_step: "in_step id sample_filed"
  using sample_retention_kept
  by (simp add: in_step_def sample_filed_def files_follow_def files_match_def no_orphans_def stored_keys_def)

theorem files_follow_rows_witness:
  "\<exists>d' files'. run_retention_worker (\<lambda>_. sample_retention_ctx) (\<lambda>_. ''k'') 5 (sy_db sample_filed) (sy_files sample_filed) =
      (Inr 1, d', files') \<and> attachments d' = [] \<and> files' sample_key = None"
proof -
  let ?files = "[sample_key \<mapsto> ''%PDF-1'']"
  have "policy_tenant_ids 5 (sample_retention_db ''u'') = [''t'']" by (simp add: policy_tenant_ids_def)
  moreover obtain d' files' where p: "purge_due sample_retention_ctx ''t'' ''system:retention'' ''k''
      (open_session (sample_retention_db ''u'')) ?files = (Inr (1, d'), files')"
    using sample_purge_run [of "''system:retention''" ?files] by blast
  ultimately have w: "run_retention_worker (\<lambda>_. sample_retention_ctx) (\<lambda>_. ''k'') 5 (sy_db sample_filed) (sy_files sample_filed) =
      (Inr 1, d', files')"
    by (simp add: run_retention_worker_def sample_filed_def)
  have "purged_attachment ''t'' (10 * microseconds_per_day) (sample_retention_db ''u'') sample_file_row"
    by (simp add: purged_attachment_def sample_due)
  then have none: "attachments d' = []"
    using purge_due_Inr(2) [OF sample_retention_keys sample_retention_ok p] by (simp add: purged_db_eq)
  have "reachable (in_step id) (filed_step id sample_workers) sample_filed" by (rule reach_init, rule sample_filed_in_step)
  then have "reachable (in_step id) (filed_step id sample_workers) (put_db d' files' sample_filed)"
    by (rule reach_step [where step = "filed_step id sample_workers", OF _ filed_step.retains [OF w]])
  from files_follow_rows [OF this] have "files' sample_key = None" by (auto simp: none stored_keys_def)
  with w none show ?thesis by blast
qed

end
