(* ===== verification/Rate_Limit.thy ===== *)
theory Rate_Limit
  imports Schema Formatting
begin

text \<open>
  The rate limiter of \<open>app/shared/rate_limit.py\<close>: the fixed window kept in memory, the one kept in
  Redis, the key of a client, and the middleware.

  Clocks are read in microseconds: the monotonic clock of the process, or the clock of the Redis server
  when the script runs. The commands of the Redis server and the address arithmetic of the \<open>ipaddress\<close>
  module are arguments. The lock makes \<open>consume\<close> atomic, and Redis runs a script as one operation, so
  concurrent requests are a sequence of calls.

  What the two limiters have in common is the locale \<open>fixed_window\<close>; it carries the bound on the requests
  let through. \<open>exact_window\<close> extends it for a limiter that always answers.
\<close>

section \<open>Fixed windows\<close>

record rate_decision =
  rd_allowed :: bool
  rd_remaining :: int
  rd_retry_after :: int

type_synonym windows = "string \<Rightarrow> (int \<times> time) option"

definition memory_consume ::
  "time \<Rightarrow> string \<Rightarrow> int \<Rightarrow> int \<Rightarrow> windows \<Rightarrow> rate_decision \<times> windows" where
  "memory_consume now key limit window_seconds ws =
    (let fresh = now + window_seconds * 1000000;
         (count, expires_at) = (case ws key of None \<Rightarrow> (0, fresh) | Some w \<Rightarrow> w);
         (count, expires_at) = (if expires_at \<le> now then (0, fresh) else (count, expires_at));
         count = count + 1
     in (\<lparr>rd_allowed = (count \<le> limit), rd_remaining = max 0 (limit - count),
          rd_retry_after = max 1 ((expires_at - now) div 1000000)\<rparr>,
         ws(key \<mapsto> (count, expires_at))))"

definition memory_ping :: bool where
  "memory_ping = True"

text \<open>A limiter that keeps a state: its \<open>consume\<close> answers a decision or raises.\<close>

type_synonym 's consumer = "time \<Rightarrow> string \<Rightarrow> int \<Rightarrow> int \<Rightarrow> 's \<Rightarrow> (exn + rate_decision) \<times> 's"

definition memory_limiter :: "windows consumer" where
  "memory_limiter now key limit window_seconds ws =
    (case memory_consume now key limit window_seconds ws of (dec, ws') \<Rightarrow> (Inr dec, ws'))"

text \<open>
  The Redis server, with state \<open>'r\<close>: its commands, and what becomes of a call, which it may refuse, or
  carry out without its reply getting back before the socket's timeout. The client raises in both cases
  and does not repeat the call.
\<close>

datatype redis_link = Answers | Reply_Lost | Refuses

record 'r redis_server =
  rs_link :: "time \<Rightarrow> 'r \<Rightarrow> redis_link"
  rs_incr :: "time \<Rightarrow> string \<Rightarrow> 'r \<Rightarrow> int \<times> 'r"
  rs_expire :: "time \<Rightarrow> string \<Rightarrow> int \<Rightarrow> 'r \<Rightarrow> 'r"
  rs_ttl :: "time \<Rightarrow> string \<Rightarrow> 'r \<Rightarrow> int"
  rs_ping :: "time \<Rightarrow> 'r \<Rightarrow> bool"

text \<open>The script \<open>_CONSUME\<close>.\<close>

definition consume_script ::
  "'r redis_server \<Rightarrow> time \<Rightarrow> string \<Rightarrow> int \<Rightarrow> 'r \<Rightarrow> (int \<times> int) \<times> 'r" where
  "consume_script srv now key argv r =
    (let (current, r) = rs_incr srv now key r;
         r = (if current = 1 then rs_expire srv now key argv r else r);
         ttl = rs_ttl srv now key r
     in ((current, ttl), r))"

definition redis_consume :: "'r redis_server \<Rightarrow> 'r consumer" where
  "redis_consume srv now key limit window_seconds r =
    (case rs_link srv now r of
       Refuses \<Rightarrow> (Inl RedisError, r)
     | Reply_Lost \<Rightarrow> (Inl RedisError, snd (consume_script srv now key window_seconds r))
     | Answers \<Rightarrow>
         (case consume_script srv now key window_seconds r of
            ((count, ttl), r') \<Rightarrow>
              (let retry_after = max 1 ttl
               in (Inr \<lparr>rd_allowed = (count \<le> limit), rd_remaining = max 0 (limit - count),
                    rd_retry_after = retry_after\<rparr>, r'))))"

definition redis_ping :: "'r redis_server \<Rightarrow> time \<Rightarrow> 'r \<Rightarrow> exn + bool" where
  "redis_ping srv now r = (if rs_link srv now r = Answers then Inr (rs_ping srv now r) else Inl RedisError)"

section \<open>The key of a client\<close>

record ip_module =
  ip_network_ok :: "string \<Rightarrow> bool"
  ip_address_ok :: "string \<Rightarrow> bool"
  ip_member :: "string \<Rightarrow> string \<Rightarrow> bool"

record rate_request =
  rr_method :: string
  rr_path :: string
  rr_peer :: "string option"
  rr_forwarded :: "string option"

text \<open>
  \<open>ip_network\<close> raises for a malformed network outside the \<open>try\<close>; \<open>ip_address\<close> is only called when
  there is a network to test, and its error means an untrusted peer.
\<close>

definition client_identifier :: "ip_module \<Rightarrow> rate_request \<Rightarrow> string list \<Rightarrow> exn + string" where
  "client_identifier ip r trusted_proxy_cidrs =
    (let peer = (case rr_peer r of None \<Rightarrow> ''unknown'' | Some host \<Rightarrow> host) in
     if list_ex (\<lambda>cidr. \<not> ip_network_ok ip cidr) trusted_proxy_cidrs then Inl (ValueError ''ip_network'')
     else
       let peer_is_trusted = (ip_address_ok ip peer \<and> list_ex (\<lambda>cidr. ip_member ip peer cidr) trusted_proxy_cidrs);
           forwarded = py_strip (hd (py_split (CHR '','') (case rr_forwarded r of None \<Rightarrow> [] | Some h \<Rightarrow> h)))
       in if peer_is_trusted \<and> forwarded \<noteq> [] then Inr forwarded else Inr peer)"

section \<open>The middleware\<close>

definition EXEMPT_PATHS :: "string set" where
  "EXEMPT_PATHS = {''/health'', ''/health/live'', ''/health/ready'', ''/metrics'', ''/docs'', ''/openapi.json''}"

record rate_config =
  rc_enabled :: bool
  rc_requests_per_minute :: int
  rc_trusted_proxy_cidrs :: "string list"

text \<open>
  What the middleware does with a request: pass it on, pass it on and add headers to the answer,
  answer 429 itself, or raise.
\<close>

datatype rate_outcome =
    Pass
  | Pass_With "(string \<times> string) list"
  | Reject "(string \<times> string) list"
  | Raise exn

definition rate_headers :: "rate_config \<Rightarrow> rate_decision \<Rightarrow> (string \<times> string) list" where
  "rate_headers c dec =
    [(''X-RateLimit-Limit'', py_str_int (rc_requests_per_minute c)),
     (''X-RateLimit-Remaining'', py_str_int (rd_remaining dec)),
     (''X-RateLimit-Reset'', py_str_int (rd_retry_after dec))]"

definition rate_limit ::
  "'s consumer \<Rightarrow> ip_module \<Rightarrow> rate_config \<Rightarrow> time \<Rightarrow> rate_request \<Rightarrow> 's \<Rightarrow> rate_outcome \<times> 's" where
  "rate_limit consume ip c now r s =
    (if \<not> rc_enabled c \<or> rr_method r = ''OPTIONS'' \<or> rr_path r \<in> EXEMPT_PATHS then (Pass, s)
     else (case client_identifier ip r (rc_trusted_proxy_cidrs c) of
         Inl e \<Rightarrow> (Raise e, s)
       | Inr client \<Rightarrow>
           (case consume now (''talentflow:rate-limit:'' @ client) (rc_requests_per_minute c) 60 s of
              (Inl e, s') \<Rightarrow> (Raise e, s')
            | (Inr dec, s') \<Rightarrow>
                (let headers = rate_headers c dec
                 in if \<not> rd_allowed dec
                    then (Reject (headers @ [(''Retry-After'', py_str_int (rd_retry_after dec))]), s')
                    else (Pass_With headers, s')))))"

section \<open>How many requests are let through\<close>

text \<open>The answers to a sequence of calls, each at its time and for its key.\<close>

fun consume_all :: "'s consumer \<Rightarrow> int \<Rightarrow> int \<Rightarrow> (time \<times> string) list \<Rightarrow> 's \<Rightarrow> (exn + rate_decision) list" where
  "consume_all consume limit w [] s = []"
| "consume_all consume limit w ((now, key) # calls) s =
    (case consume now key limit w s of (r, s') \<Rightarrow> r # consume_all consume limit w calls s')"

fun lets_through :: "exn + rate_decision \<Rightarrow> bool" where
  "lets_through (Inl e) = False"
| "lets_through (Inr dec) = rd_allowed dec"

definition admitted :: "string \<Rightarrow> (time \<times> string) list \<Rightarrow> (exn + rate_decision) list \<Rightarrow> int" where
  "admitted key calls rs = int (length (filter (\<lambda>((now, k), r). k = key \<and> lets_through r) (zip calls rs)))"

lemma admitted_simps:
  "admitted key [] [] = 0"
  "admitted key ((now, k) # calls) (r # rs) =
    (if k = key \<and> lets_through r then 1 else 0) + admitted key calls rs"
  by (simp_all add: admitted_def)

lemma admitted_step:
  "admitted key ((now, k) # calls) (consume_all consume limit w ((now, k) # calls) s) =
    (if k = key \<and> lets_through (fst (consume now k limit w s)) then 1 else 0) +
    admitted key calls (consume_all consume limit w calls (snd (consume now k limit w s)))"
  by (simp add: admitted_simps case_prod_unfold)

text \<open>
  The interface the middleware relies on. \<open>window now s k\<close> is the live window of a key at a time: the number
  of its requests and its end. \<open>sound\<close> says that what the state holds for a key is a window. A call that
  raises may or may not have counted.
\<close>

definition count_up :: "time \<Rightarrow> int \<Rightarrow> (int \<times> time) option \<Rightarrow> int \<times> time" where
  "count_up now w x = (case x of None \<Rightarrow> (1, now + w * 1000000) | Some (c, e) \<Rightarrow> (c + 1, e))"

locale fixed_window =
  fixes consume :: "'s consumer"
    and window :: "time \<Rightarrow> 's \<Rightarrow> string \<Rightarrow> (int \<times> time) option"
    and sound :: "time \<Rightarrow> 's \<Rightarrow> string \<Rightarrow> bool"
  assumes window_sound: "sound now s k \<Longrightarrow> window now s k = Some (c, e) \<Longrightarrow> 0 \<le> c"
    and window_later: "now \<le> t \<Longrightarrow> window t s k =
      (case window now s k of None \<Rightarrow> None | Some (c, e) \<Rightarrow> if t < e then Some (c, e) else None)"
    and sound_later: "now \<le> t \<Longrightarrow> sound now s k \<Longrightarrow> sound t s k"
    and consume_sound: "0 < w \<Longrightarrow> sound now s k \<Longrightarrow> sound now (snd (consume now key limit w s)) k"
    and consume_frame: "0 < w \<Longrightarrow> k \<noteq> key \<Longrightarrow> window now (snd (consume now key limit w s)) k = window now s k"
    and consume_counts: "0 < w \<Longrightarrow> sound now s key \<Longrightarrow> consume now key limit w s = (Inr dec, s') \<Longrightarrow>
      window now s' key = Some (count_up now w (window now s key)) \<and>
      (rd_allowed dec \<longleftrightarrow> fst (count_up now w (window now s key)) \<le> limit) \<and>
      rd_remaining dec = max 0 (limit - fst (count_up now w (window now s key)))"
    and consume_raises: "0 < w \<Longrightarrow> sound now s key \<Longrightarrow> consume now key limit w s = (Inl x, s') \<Longrightarrow>
      window now s' key = window now s key \<or> window now s' key = Some (count_up now w (window now s key))"
    and retry_after_positive: "consume now key limit w s = (Inr dec, s') \<Longrightarrow> 1 \<le> rd_retry_after dec"
begin

lemma window_empty: "now \<le> t \<Longrightarrow> window now s k = None \<Longrightarrow> window t s k = None"
  by (simp add: window_later)

lemma window_live: "now \<le> t \<Longrightarrow> window now s k = Some (c, e) \<Longrightarrow> t < e \<Longrightarrow> window t s k = Some (c, e)"
  by (simp add: window_later)

lemma window_over: "now \<le> t \<Longrightarrow> window now s k = Some (c, e) \<Longrightarrow> e \<le> t \<Longrightarrow> window t s k = None"
  by (simp add: window_later)

text \<open>A call in a window of \<open>c\<close> requests raises the count by one, or not at all when it is not let through.\<close>

lemma consume_in_window:
  assumes "0 < w" "sound now s key" "window now s key = Some (c, e)"
  shows "\<exists>c'. window now (snd (consume now key limit w s)) key = Some (c', e) \<and> c \<le> c' \<and>
    (lets_through (fst (consume now key limit w s)) \<longrightarrow> c' = c + 1 \<and> c' \<le> limit)"
proof (cases "consume now key limit w s")
  case (Pair r s')
  show ?thesis
  proof (cases r)
    case (Inl x)
    from consume_raises [OF assms(1,2) Pair [unfolded Inl]] Pair Inl assms(3) show ?thesis
      by (auto simp: count_up_def)
  next
    case (Inr dec)
    from consume_counts [OF assms(1,2) Pair [unfolded Inr]] Pair Inr assms(3) show ?thesis
      by (auto simp: count_up_def)
  qed
qed

text \<open>A call without a window starts one, or does nothing and is not let through.\<close>

lemma consume_fresh:
  assumes "0 < w" "sound now s key" "window now s key = None"
  shows "window now (snd (consume now key limit w s)) key = Some (1, now + w * 1000000) \<and>
      (lets_through (fst (consume now key limit w s)) \<longrightarrow> 1 \<le> limit) \<or>
    window now (snd (consume now key limit w s)) key = None \<and> \<not> lets_through (fst (consume now key limit w s))"
proof (cases "consume now key limit w s")
  case (Pair r s')
  show ?thesis
  proof (cases r)
    case (Inl x)
    from consume_raises [OF assms(1,2) Pair [unfolded Inl]] Pair Inl assms(3) show ?thesis
      by (auto simp: count_up_def)
  next
    case (Inr dec)
    from consume_counts [OF assms(1,2) Pair [unfolded Inr]] Pair Inr assms(3) show ?thesis
      by (auto simp: count_up_def)
  qed
qed

lemma admitted_rest_of_window:
  assumes "0 < w" "sound t s key" "window t s key = Some (c, e)" "sorted (t # map fst calls)" "\<forall>now \<in> fst ` set calls. now < e"
  shows "admitted key calls (consume_all consume limit w calls s) \<le> max 0 (limit - c)"
  using assms(2-)
proof (induction calls arbitrary: t s c)
  case Nil
  then show ?case by (simp add: admitted_simps)
next
  case (Cons call calls)
  obtain now k where call: "call = (now, k)" by (cases call)
  let ?s = "snd (consume now k limit w s)"
  have t: "t \<le> now" "sorted (now # map fst calls)" "now < e" "\<forall>now \<in> fst ` set calls. now < e"
    using Cons.prems(3,4) call by auto
  have s: "sound now s key" "sound now ?s key" "window now s key = Some (c, e)"
    using sound_later [OF t(1) Cons.prems(1)] consume_sound [OF assms(1)] window_live [OF t(1) Cons.prems(2) t(3)] by auto
  show ?case
  proof (cases "k = key")
    case True
    obtain c' where c: "window now ?s key = Some (c', e)" "c \<le> c'"
      "lets_through (fst (consume now k limit w s)) \<longrightarrow> c' = c + 1 \<and> c' \<le> limit"
      using consume_in_window [OF assms(1) s(1,3), of limit] True by blast
    from Cons.IH [OF s(2) c(1) t(2,4)]
    have "admitted key calls (consume_all consume limit w calls ?s) \<le> max 0 (limit - c')" .
    then show ?thesis unfolding call admitted_step using c(2,3) True by (auto simp: max_def split: if_splits)
  next
    case False
    then have "window now ?s key = Some (c, e)" using consume_frame [OF assms(1)] s(3) by simp
    from Cons.IH [OF s(2) this t(2,4)] False show ?thesis unfolding call admitted_step by simp
  qed
qed

lemma admitted_interval:
  assumes "0 < w" "0 \<le> limit" "sound t s key" "sorted (t # map fst calls)"
    and "\<forall>now \<in> fst ` set calls. now < b" "b \<le> t + w * 1000000"
  shows "admitted key calls (consume_all consume limit w calls s) \<le>
    limit + (case window t s key of None \<Rightarrow> 0 | Some (c, e) \<Rightarrow> max 0 (limit - c))"
  using assms(3-)
proof (induction calls arbitrary: t s)
  case Nil
  then show ?case using assms(2) by (auto simp: admitted_simps split: option.splits)
next
  case (Cons call calls)
  obtain now k where call: "call = (now, k)" by (cases call)
  let ?s = "snd (consume now k limit w s)"
  let ?room = "\<lambda>x. case x of None \<Rightarrow> 0 | Some (c, e) \<Rightarrow> max 0 (limit - c)"
  have t: "t \<le> now" "sorted (now # map fst calls)" "\<forall>now \<in> fst ` set calls. now < b" "b \<le> now + w * 1000000"
    using Cons.prems(2-4) call by auto
  have s: "sound now s key" "sound now ?s key"
    using sound_later [OF t(1) Cons.prems(1)] consume_sound [OF assms(1)] by auto
  have room: "?room (window now s key) \<le> ?room (window t s key)"
    using window_later [OF t(1), of s key] by (auto split: option.splits)
  note IH = Cons.IH [OF s(2) t(2-4)]
  show ?case
  proof (cases "k = key")
    case False
    then have "window now ?s key = window now s key" using consume_frame [OF assms(1)] by simp
    with IH room False show ?thesis unfolding call admitted_step by simp
  next
    case key: True
    show ?thesis
    proof (cases "window now s key")
      case None
      consider (started) "window now ?s key = Some (1, now + w * 1000000)"
          "lets_through (fst (consume now k limit w s)) \<longrightarrow> 1 \<le> limit"
        | (failed) "window now ?s key = None" "\<not> lets_through (fst (consume now k limit w s))"
        using consume_fresh [OF assms(1) s(1) None, of limit] unfolding key by (elim disjE conjE) simp_all
      then show ?thesis
      proof cases
        case started
        have "admitted key calls (consume_all consume limit w calls ?s) \<le> max 0 (limit - 1)"
          by (rule admitted_rest_of_window [OF assms(1) s(2), of 1 "now + w * 1000000"])
            (use started t key in auto)
        moreover have "0 \<le> ?room (window t s key)" by (auto split: option.splits)
        ultimately show ?thesis unfolding call admitted_step using started(2) key assms(2) by (auto simp: max_def split: if_splits)
      next
        case failed
        with IH room None key show ?thesis unfolding call admitted_step by simp
      qed
    next
      case (Some x)
      obtain c e where x: "x = (c, e)" by (cases x)
      obtain c' where c: "window now ?s key = Some (c', e)" "c \<le> c'"
        "lets_through (fst (consume now k limit w s)) \<longrightarrow> c' = c + 1 \<and> c' \<le> limit"
        using consume_in_window [OF assms(1) s(1) Some [unfolded x], of limit] key by blast
      have "(if lets_through (fst (consume now k limit w s)) then 1 else 0) + max 0 (limit - c') \<le> max 0 (limit - c)"
        using c(2,3) by (auto simp: max_def)
      moreover have "admitted key calls (consume_all consume limit w calls ?s) \<le> limit + max 0 (limit - c')"
        using IH c(1) by simp
      moreover have "max 0 (limit - c) \<le> ?room (window t s key)" using room Some x by simp
      moreover have "admitted key (call # calls) (consume_all consume limit w (call # calls) s) =
          (if lets_through (fst (consume now k limit w s)) then 1 else 0) +
          admitted key calls (consume_all consume limit w calls ?s)"
        unfolding call admitted_step using key by simp
      ultimately show ?thesis by linarith
    qed
  qed
qed

text \<open>
  A client gets at most twice its limit through in any window's length. Whatever happened before, of the
  requests of one key within any interval as long as the window, mixed with those of other keys, at most
  \<open>2 * limit\<close> are let through.
\<close>

lemma admitted_bound:
  assumes "0 < w" "0 \<le> limit" "sound t s key" "sorted (t # map fst calls)" "\<forall>now \<in> fst ` set calls. now < t + w * 1000000"
  shows "admitted key calls (consume_all consume limit w calls s) \<le> 2 * limit"
proof -
  have "(case window t s key of None \<Rightarrow> 0 | Some (c, e) \<Rightarrow> max 0 (limit - c)) \<le> limit"
    using assms(2) window_sound [OF assms(3)] by (auto split: option.splits)
  with admitted_interval [OF assms order_refl] show ?thesis by linarith
qed

end

text \<open>A limiter whose state is one part of a larger state.\<close>

definition placed :: "('t \<Rightarrow> 's) \<Rightarrow> ('t \<Rightarrow> 's \<Rightarrow> 't) \<Rightarrow> 's consumer \<Rightarrow> 't consumer" where
  "placed part put consume now key limit w t =
    (case consume now key limit w (part t) of (r, s) \<Rightarrow> (r, put t s))"

lemma placed_simps [simp]:
  "fst (placed part put consume now key limit w t) = fst (consume now key limit w (part t))"
  "snd (placed part put consume now key limit w t) = put t (snd (consume now key limit w (part t)))"
  "placed part put consume now key limit w t = (r, t') \<longleftrightarrow>
    (\<exists>s. consume now key limit w (part t) = (r, s) \<and> t' = put t s)"
  by (auto simp: placed_def split: prod.splits)

locale placed_window = fixed_window consume window sound
  for consume :: "'s consumer" and window sound +
  fixes part :: "'t \<Rightarrow> 's"
    and put :: "'t \<Rightarrow> 's \<Rightarrow> 't"
  assumes part_put: "part (put t s) = s"

sublocale placed_window \<subseteq> placed: fixed_window "placed part put consume" "\<lambda>now t. window now (part t)"
  "\<lambda>now t. sound now (part t)"
proof (unfold_locales, goal_cases)
  case 1 then show ?case by (rule window_sound)
next
  case 2 then show ?case by (rule window_later)
next
  case 3 then show ?case by (rule sound_later)
next
  case 4 then show ?case by (simp add: part_put consume_sound)
next
  case 5 then show ?case by (simp add: part_put consume_frame)
next
  case 6 then show ?case using consume_counts by (auto simp: part_put)
next
  case (7 w now t key limit x t')
  then obtain s where s: "consume now key limit w (part t) = (Inl x, s)" "t' = put t s" by auto
  from consume_raises [OF 7(1,2) s(1)] show ?case by (simp add: s(2) part_put)
next
  case 8 then show ?case using retry_after_positive by auto
qed

context placed_window begin

lemma placed_fixed_window:
  "fixed_window (placed part put consume) (\<lambda>now t. window now (part t)) (\<lambda>now t. sound now (part t))"
  by (rule placed.fixed_window_axioms)

end


section \<open>A limiter that always answers\<close>

locale exact_window = fixed_window +
  assumes answers: "\<exists>dec. fst (consume now key limit w s) = Inr dec"
begin

lemma answered:
  assumes "0 < w" "sound now s key" "window now s key = Some (c, e)"
  obtains dec where "fst (consume now key limit w s) = Inr dec"
    "rd_allowed dec \<longleftrightarrow> c + 1 \<le> limit" "rd_remaining dec = max 0 (limit - (c + 1))"
    "window now (snd (consume now key limit w s)) key = Some (c + 1, e)"
proof -
  obtain dec s' where p: "consume now key limit w s = (Inr dec, s')"
    using answers [of now key limit w s] by (cases "consume now key limit w s") auto
  from consume_counts [OF assms(1,2) p] that [of dec] p assms(3) show thesis by (simp add: count_up_def)
qed

lemma window_from:
  assumes "0 < w" "sound t s key" "window t s key = Some (c, e)" "sorted (t # nows)" "\<forall>now \<in> set nows. now < e"
  shows "map (map_sum id (\<lambda>dec. (rd_allowed dec, rd_remaining dec)))
      (consume_all consume limit w (map (\<lambda>now. (now, key)) nows) s) =
    map (\<lambda>i. Inr (c + int i + 1 \<le> limit, max 0 (limit - (c + int i + 1)))) [0..<length nows]"
  using assms(2-)
proof (induction nows arbitrary: t s c)
  case (Cons now nows)
  have up: "map f [0..<Suc n] = f 0 # map (\<lambda>i. f (Suc i)) [0..<n]" for f :: "nat \<Rightarrow> 'x" and n
    by (simp add: upt_conv_Cons map_Suc_upt [symmetric] comp_def del: upt_Suc)
  have t: "t \<le> now" "sorted (now # nows)" "now < e" "\<forall>now \<in> set nows. now < e" using Cons.prems(3,4) by auto
  have s: "sound now s key" "window now s key = Some (c, e)"
    using sound_later [OF t(1) Cons.prems(1)] window_live [OF t(1) Cons.prems(2) t(3)] by auto
  obtain dec where dec: "fst (consume now key limit w s) = Inr dec"
    "rd_allowed dec \<longleftrightarrow> c + 1 \<le> limit" "rd_remaining dec = max 0 (limit - (c + 1))"
    "window now (snd (consume now key limit w s)) key = Some (c + 1, e)"
    using answered [OF assms(1) s] by metis
  from Cons.IH [OF consume_sound [OF assms(1) s(1)] dec(4) t(2,4)] dec(1-3)
  show ?case by (simp add: up case_prod_unfold algebra_simps del: upt_Suc)
qed simp

text \<open>
  Within one window the limit is exact. From the first request after the last window ended, the requests
  of a key until the new window ends are let through as long as their number does not exceed the limit,
  and each answer tells how many are left.
\<close>

lemma window_exact:
  assumes "0 < w" "sound t s key" "window t s key = None" "sorted (t # nows)" "\<forall>now \<in> set nows. now < t + w * 1000000"
  shows "map (map_sum id (\<lambda>dec. (rd_allowed dec, rd_remaining dec)))
      (consume_all consume limit w (map (\<lambda>now. (now, key)) (t # nows)) s) =
    map (\<lambda>i. Inr (int i + 1 \<le> limit, max 0 (limit - (int i + 1)))) [0..<Suc (length nows)]"
proof -
  have up: "map f [0..<Suc n] = f 0 # map (\<lambda>i. f (Suc i)) [0..<n]" for f :: "nat \<Rightarrow> 'x" and n
    by (simp add: upt_conv_Cons map_Suc_upt [symmetric] comp_def del: upt_Suc)
  obtain dec s' where p: "consume t key limit w s = (Inr dec, s')"
    using answers [of t key limit w s] by (cases "consume t key limit w s") auto
  from consume_counts [OF assms(1,2) p] assms(3)
  have c: "window t s' key = Some (1, t + w * 1000000)" "rd_allowed dec \<longleftrightarrow> 1 \<le> limit" "rd_remaining dec = max 0 (limit - 1)"
    by (simp_all add: count_up_def)
  have "sound t s' key" using consume_sound [OF assms(1,2), of key limit] p by simp
  from window_from [OF assms(1) this c(1) assms(4,5)] c(2,3) p
  show ?thesis by (simp add: up case_prod_unfold algebra_simps del: upt_Suc)
qed

end

section \<open>The limiter in memory\<close>

definition memory_window :: "time \<Rightarrow> windows \<Rightarrow> string \<Rightarrow> (int \<times> time) option" where
  "memory_window now ws k = (case ws k of None \<Rightarrow> None | Some (c, e) \<Rightarrow> if now < e then Some (c, e) else None)"

definition memory_sound :: "time \<Rightarrow> windows \<Rightarrow> string \<Rightarrow> bool" where
  "memory_sound now ws k = (case ws k of None \<Rightarrow> True | Some (c, e) \<Rightarrow> 0 \<le> c)"

lemma memory_consume_eq:
  assumes "0 < w"
  shows "memory_consume now key limit w ws =
    (let (c, e) = count_up now w (memory_window now ws key)
     in (\<lparr>rd_allowed = (c \<le> limit), rd_remaining = max 0 (limit - c), rd_retry_after = max 1 ((e - now) div 1000000)\<rparr>,
         ws(key \<mapsto> (c, e))))"
  using assms by (auto simp: memory_consume_def memory_window_def count_up_def Let_def split: option.splits)

lemma memory_frame: "k \<noteq> key \<Longrightarrow> snd (memory_consume now key limit w ws) k = ws k"
  by (auto simp: memory_consume_def Let_def case_prod_unfold)

interpretation memory: exact_window memory_limiter memory_window memory_sound
proof
  fix now :: time and key k :: string and limit w :: int and ws ws' :: windows and dec
  show "memory_sound now ws k \<Longrightarrow> memory_sound now (snd (memory_limiter now key limit w ws)) k" if "0 < w"
    using that by (auto simp: memory_limiter_def memory_consume_eq Let_def memory_sound_def memory_window_def count_up_def
        split: option.splits if_splits)
  show "memory_limiter now key limit w ws = (Inr dec, ws') \<Longrightarrow>
      memory_window now ws' key = Some (count_up now w (memory_window now ws key)) \<and>
      (rd_allowed dec \<longleftrightarrow> fst (count_up now w (memory_window now ws key)) \<le> limit) \<and>
      rd_remaining dec = max 0 (limit - fst (count_up now w (memory_window now ws key)))" if "0 < w"
    using that by (auto simp: memory_limiter_def memory_consume_eq Let_def memory_window_def count_up_def
        split: option.splits if_splits)
  show "k \<noteq> key \<Longrightarrow> memory_window now (snd (memory_limiter now key limit w ws)) k = memory_window now ws k"
    using memory_frame by (simp add: memory_limiter_def case_prod_unfold memory_window_def)
  show "memory_limiter now key limit w ws = (Inr dec, ws') \<Longrightarrow> 1 \<le> rd_retry_after dec"
    by (auto simp: memory_limiter_def memory_consume_def Let_def case_prod_unfold)
qed (auto simp: memory_window_def memory_sound_def memory_limiter_def split: option.splits prod.splits if_splits)

section \<open>The limiter in Redis\<close>

text \<open>
  What the documentation of Redis says of the commands of the script. \<open>live now r k\<close> is the number a key holds
  at a time and the end of its time to live, if it has one. INCR counts from zero where there is no key and
  keeps the time to live; EXPIRE sets it; a key is gone once it has passed. Nothing is assumed of the answer
  of TTL. That a counter ends at 64 bits is left out.
\<close>

type_synonym 'r live_keys = "time \<Rightarrow> 'r \<Rightarrow> string \<Rightarrow> (int \<times> time option) option"

definition redis_documented :: "'r redis_server \<Rightarrow> 'r live_keys \<Rightarrow> bool" where
  "redis_documented srv live =
    ((\<forall>now key r. live now (snd (rs_incr srv now key r)) = (live now r)
        (key \<mapsto> (fst (rs_incr srv now key r), case live now r key of None \<Rightarrow> None | Some (c, e) \<Rightarrow> e)) \<and>
       fst (rs_incr srv now key r) = (case live now r key of None \<Rightarrow> 1 | Some (c, e) \<Rightarrow> c + 1)) \<and>
     (\<forall>now key seconds r c e. 0 < seconds \<longrightarrow> live now r key = Some (c, e) \<longrightarrow>
       live now (rs_expire srv now key seconds r) = (live now r)(key \<mapsto> (c, Some (now + seconds * 1000000)))) \<and>
     (\<forall>now t r k. now \<le> t \<longrightarrow> live t r k =
       (case live now r k of
          Some (c, Some e) \<Rightarrow> if t < e then Some (c, Some e) else None
        | x \<Rightarrow> x)))"

definition redis_window :: "'r live_keys \<Rightarrow> time \<Rightarrow> 'r \<Rightarrow> string \<Rightarrow> (int \<times> time) option" where
  "redis_window live now r k = (case live now r k of Some (c, Some e) \<Rightarrow> Some (c, e) | _ \<Rightarrow> None)"

text \<open>A key that the limiter did not write, say one without a time to live, would never be let through again.\<close>

definition redis_sound :: "'r live_keys \<Rightarrow> time \<Rightarrow> 'r \<Rightarrow> string \<Rightarrow> bool" where
  "redis_sound live now r k = (case live now r k of None \<Rightarrow> True | Some (c, e) \<Rightarrow> 1 \<le> c \<and> e \<noteq> None)"

lemma redis_laws:
  assumes "redis_documented srv live"
  shows "live now (snd (rs_incr srv now key r)) = (live now r)
      (key \<mapsto> (fst (rs_incr srv now key r), case live now r key of None \<Rightarrow> None | Some (c, e) \<Rightarrow> e))"
    "fst (rs_incr srv now key r) = (case live now r key of None \<Rightarrow> 1 | Some (c, e) \<Rightarrow> c + 1)"
    "0 < seconds \<Longrightarrow> live now r key = Some (c, e) \<Longrightarrow>
      live now (rs_expire srv now key seconds r) = (live now r)(key \<mapsto> (c, Some (now + seconds * 1000000)))"
    "now \<le> t \<Longrightarrow> live t r k =
      (case live now r k of Some (c, Some e) \<Rightarrow> if t < e then Some (c, Some e) else None | x \<Rightarrow> x)"
  using assms unfolding redis_documented_def by blast+

lemma script_keys:
  assumes "redis_documented srv live" "0 < w" "redis_sound live now r key"
  shows "live now (snd (consume_script srv now key w r)) = (live now r)
      (key \<mapsto> (fst (count_up now w (redis_window live now r key)), Some (snd (count_up now w (redis_window live now r key)))))"
    "fst (fst (consume_script srv now key w r)) = fst (count_up now w (redis_window live now r key))"
proof -
  obtain n r1 where i: "rs_incr srv now key r = (n, r1)" by (cases "rs_incr srv now key r")
  note incr = redis_laws(1,2) [OF assms(1), of now key r, unfolded i fst_conv snd_conv]
  have n: "n = fst (count_up now w (redis_window live now r key))"
    using incr(2) assms(3) by (auto simp: count_up_def redis_window_def redis_sound_def split: option.splits)
  show "fst (fst (consume_script srv now key w r)) = fst (count_up now w (redis_window live now r key))"
    by (simp add: consume_script_def i n Let_def)
  show "live now (snd (consume_script srv now key w r)) = (live now r)
      (key \<mapsto> (fst (count_up now w (redis_window live now r key)), Some (snd (count_up now w (redis_window live now r key)))))"
  proof (cases "live now r key")
    case None
    then have "live now r1 key = Some (1, None)" "n = 1" using incr by simp_all
    with redis_laws(3) [OF assms(1,2) this(1)] incr(1) None show ?thesis
      by (simp add: consume_script_def i Let_def count_up_def redis_window_def fun_eq_iff)
  next
    case (Some x)
    then obtain c e where "live now r key = Some (c, Some e)" "1 \<le> c"
      using assms(3) by (auto simp: redis_sound_def split: option.splits)
    with incr show ?thesis by (simp add: consume_script_def i Let_def count_up_def redis_window_def)
  qed
qed

lemma script_frame:
  assumes "redis_documented srv live" "0 < w" "k \<noteq> key"
  shows "live now (snd (consume_script srv now key w r)) k = live now r k"
proof -
  obtain n r1 where i: "rs_incr srv now key r = (n, r1)" by (cases "rs_incr srv now key r")
  have r1: "live now r1 k = live now r k" "\<exists>e. live now r1 key = Some (n, e)"
    using redis_laws(1) [OF assms(1), of now key r] i assms(3) by auto
  from r1(2) obtain e where "live now r1 key = Some (n, e)" ..
  from redis_laws(3) [OF assms(1,2) this] r1(1) assms(3) show ?thesis
    by (simp add: consume_script_def i Let_def)
qed

lemma redis_consume_cases:
  assumes "redis_consume srv now key limit w r = (res, r')"
  obtains (refused) x where "res = Inl x" "r' = r"
  | (lost) x where "res = Inl x" "r' = snd (consume_script srv now key w r)"
  | (answered) ttl where "r' = snd (consume_script srv now key w r)" "rs_link srv now r = Answers"
      "res = Inr \<lparr>rd_allowed = (fst (fst (consume_script srv now key w r)) \<le> limit),
         rd_remaining = max 0 (limit - fst (fst (consume_script srv now key w r))), rd_retry_after = max 1 ttl\<rparr>"
  using assms by (auto simp: redis_consume_def Let_def split: redis_link.splits prod.splits)

text \<open>On a server that does what its documentation says, the script is a fixed window.\<close>

lemma redis_fixed_window:
  assumes "redis_documented srv live"
  shows "fixed_window (redis_consume srv) (redis_window live) (redis_sound live)"
proof
  fix now t :: time and key k :: string and limit w :: int and r r' :: 'a and dec and x :: exn and c e
  show "0 \<le> c" if "redis_sound live now r k" "redis_window live now r k = Some (c, e)"
    using that by (auto simp: redis_sound_def redis_window_def split: option.splits)
  show "redis_window live t r k =
      (case redis_window live now r k of None \<Rightarrow> None | Some (c, e) \<Rightarrow> if t < e then Some (c, e) else None)" if "now \<le> t"
    using redis_laws(4) [OF assms that, of r k] by (auto simp: redis_window_def split: option.splits)
  show "redis_sound live t r k" if "now \<le> t" "redis_sound live now r k"
    using redis_laws(4) [OF assms that(1), of r k] that(2) by (auto simp: redis_sound_def split: option.splits if_splits)
  show frame: "redis_window live now (snd (redis_consume srv now key limit w r)) k = redis_window live now r k"
    if "0 < w" "k \<noteq> key"
    using script_frame [OF assms that, of now r]
    by (cases "redis_consume srv now key limit w r") (auto simp: redis_window_def elim!: redis_consume_cases)
  show "redis_sound live now (snd (redis_consume srv now key limit w r)) k" if w: "0 < w" and s: "redis_sound live now r k"
  proof -
    have script: "redis_sound live now (snd (consume_script srv now key w r)) k"
    proof (cases "k = key")
      case True
      have "1 \<le> fst (count_up now w (redis_window live now r k))"
        using s by (auto simp: count_up_def redis_window_def redis_sound_def split: option.splits)
      with script_keys(1) [OF assms w s] True show ?thesis by (simp add: redis_sound_def)
    next
      case False
      with script_frame [OF assms w False] s show ?thesis by (simp add: redis_sound_def)
    qed
    show ?thesis
      using s script by (cases "redis_consume srv now key limit w r") (auto elim!: redis_consume_cases)
  qed
  show "redis_window live now r' key = Some (count_up now w (redis_window live now r key)) \<and>
      (rd_allowed dec \<longleftrightarrow> fst (count_up now w (redis_window live now r key)) \<le> limit) \<and>
      rd_remaining dec = max 0 (limit - fst (count_up now w (redis_window live now r key)))"
    if "0 < w" "redis_sound live now r key" "redis_consume srv now key limit w r = (Inr dec, r')"
    using script_keys [OF assms that(1,2)] that(3)
    by (cases rule: redis_consume_cases [OF that(3)]) (auto simp: redis_window_def)
  show "redis_window live now r' key = redis_window live now r key \<or>
      redis_window live now r' key = Some (count_up now w (redis_window live now r key))"
    if "0 < w" "redis_sound live now r key" "redis_consume srv now key limit w r = (Inl x, r')"
    using script_keys [OF assms that(1,2)]
    by (cases rule: redis_consume_cases [OF that(3)]) (auto simp: redis_window_def)
  show "1 \<le> rd_retry_after dec" if "redis_consume srv now key limit w r = (Inr dec, r')"
    by (cases rule: redis_consume_cases [OF that]) auto
qed

lemma redis_exact_window:
  assumes "redis_documented srv live" "\<And>now r. rs_link srv now r = Answers"
  shows "exact_window (redis_consume srv) (redis_window live) (redis_sound live)"
  using redis_fixed_window [OF assms(1)] assms(2)
  by (auto simp: exact_window_def exact_window_axioms_def redis_consume_def Let_def case_prod_unfold)

section \<open>A server that meets the documentation\<close>

text \<open>A key space with lazy expiry.\<close>

type_synonym key_space = "string \<Rightarrow> (int \<times> time option) option"

definition live_key :: "key_space live_keys" where
  "live_key now r k =
    (case r k of Some (c, Some e) \<Rightarrow> if now < e then Some (c, Some e) else None | x \<Rightarrow> x)"

definition sample_redis :: "key_space redis_server" where
  "sample_redis = \<lparr>rs_link = (\<lambda>now r. Answers),
     rs_incr = (\<lambda>now key r. case live_key now r key of
        None \<Rightarrow> (1, r(key \<mapsto> (1, None))) | Some (c, e) \<Rightarrow> (c + 1, r(key \<mapsto> (c + 1, e)))),
     rs_expire = (\<lambda>now key seconds r. case live_key now r key of
        None \<Rightarrow> r | Some (c, e) \<Rightarrow> r(key \<mapsto> (c, Some (now + seconds * 1000000)))),
     rs_ttl = (\<lambda>now key r. case live_key now r key of
        None \<Rightarrow> -2 | Some (c, None) \<Rightarrow> -1 | Some (c, Some e) \<Rightarrow> (e - now) div 1000000),
     rs_ping = (\<lambda>now r. True)\<rparr>"

lemma sample_redis_documented: "redis_documented sample_redis live_key"
  by (auto simp: redis_documented_def sample_redis_def live_key_def fun_eq_iff split: option.splits if_splits)

text \<open>The limit is reached: two requests at the end of a window, two at the start of the next.\<close>

lemma sample_redis_bound_reached:
  "admitted ''k'' [(0, ''k''), (59000000, ''k''), (60000000, ''k''), (60000000, ''k'')]
     (consume_all (redis_consume sample_redis) 2 60
       [(0, ''k''), (59000000, ''k''), (60000000, ''k''), (60000000, ''k'')] Map.empty) = 4"
  by (simp add: redis_consume_def consume_script_def sample_redis_def live_key_def Let_def admitted_def)

end
