(* ===== verification/Tenant_Reads.thy ===== *)
theory Tenant_Reads
  imports Api
begin

text \<open>
  What the reading endpoints of a tenant depend on: the rows of that tenant, and nothing else in
  the database. The candidate list, the attachment list, the pipeline report and the audit trail answer the
  same over two databases that hold the same rows of the tenant, also where they answer an error.
\<close>

definition same_rows :: "string \<Rightarrow> db \<Rightarrow> db \<Rightarrow> bool" where
  "same_rows t d d' =
    (filter (\<lambda>r. mb_tenant_id r = t) (memberships d) = filter (\<lambda>r. mb_tenant_id r = t) (memberships d') \<and>
     filter (\<lambda>r. cr_tenant_id r = t) (candidate_cases d) = filter (\<lambda>r. cr_tenant_id r = t) (candidate_cases d') \<and>
     filter (\<lambda>r. at_tenant_id r = t) (attachments d) = filter (\<lambda>r. at_tenant_id r = t) (attachments d') \<and>
     filter (\<lambda>r. iv_tenant_id r = t) (interviews d) = filter (\<lambda>r. iv_tenant_id r = t) (interviews d') \<and>
     filter (\<lambda>r. fb_tenant_id r = t) (feedbacks d) = filter (\<lambda>r. fb_tenant_id r = t) (feedbacks d') \<and>
     filter (\<lambda>r. or_tenant_id r = t) (offers d) = filter (\<lambda>r. or_tenant_id r = t) (offers d') \<and>
     filter (\<lambda>r. ae_tenant_id r = t) (audit_events d) = filter (\<lambda>r. ae_tenant_id r = t) (audit_events d'))"

text \<open>A select with a tenant predicate is a select on the tenant's rows.\<close>

lemma find_within: "List.find (\<lambda>x. P x \<and> Q x) xs = List.find Q (filter P xs)"
  by (induction xs) auto

lemma find_within': "List.find (\<lambda>x. Q x \<and> P x) xs = List.find Q (filter P xs)"
  by (induction xs) auto

lemma filter_within: "filter (\<lambda>x. P x \<and> Q x) xs = filter Q (filter P xs)"
  by (induction xs) auto

lemma filter_within': "filter (\<lambda>x. Q x \<and> P x) xs = filter Q (filter P xs)"
  by (induction xs) auto

lemma same_rows_membership:
  "same_rows t d d' \<Longrightarrow> membership_of t u d = membership_of t u d'"
  unfolding membership_of_def find_within [of "\<lambda>m. mb_tenant_id m = t"] by (simp add: same_rows_def)

lemma same_rows_require:
  assumes "same_rows t d d'" "caller_identity mode v h = Inr (Some t, who)"
  shows "require p mode v h d = require p mode v h d'"
  using same_rows_membership [OF assms(1)] by (simp add: require_def assms(2))

lemma same_rows_list:
  assumes "same_rows (lq_tenant_id q) d d'"
  shows "list_candidates q (open_session d) = list_candidates q (open_session d')"
proof -
  have f: "filter (list_filters q) (candidate_cases e) = filter (\<lambda>r. when_given (lq_stage q) (\<lambda>x. cr_stage r = x) \<and>
      when_given (lq_requisition_id q) (\<lambda>x. cr_requisition_id r = x))
      (filter (\<lambda>r. cr_tenant_id r = lq_tenant_id q) (candidate_cases e))" for e
    unfolding list_filters_def by (rule filter_within)
  have "filter (list_filters q) (candidate_cases d) = filter (list_filters q) (candidate_cases d')"
    unfolding f using assms by (simp add: same_rows_def)
  then show ?thesis
    unfolding list_candidates_def candidate_list_page_def open_session_simps filter_within [of "list_filters q"] Let_def
    by (simp only:)
qed

lemma same_rows_attachments:
  assumes "same_rows t d d'"
  shows "list_attachments i t (open_session d) = list_attachments i t (open_session d')"
  unfolding list_attachments_def attachment_candidate_exists_def attachment_list_for_candidate_def open_session_simps
    find_within' [of _ "\<lambda>r. cr_tenant_id r = t"] filter_within' [of _ "\<lambda>a. at_tenant_id a = t"]
  by (simp only: assms [unfolded same_rows_def])

lemma same_rows_report:
  assumes "same_rows t d d'"
  shows "get_pipeline_report t (open_session d) = get_pipeline_report t (open_session d')"
  unfolding get_pipeline_report_def pipeline_for_tenant_def open_session_simps
    filter_within [of "\<lambda>f. fb_tenant_id f = t"] Let_def
  by (simp only: assms [unfolded same_rows_def])

lemma same_rows_audit:
  "same_rows t d d' \<Longrightarrow> list_audit_events t (open_session d) = list_audit_events t (open_session d')"
  by (simp add: list_audit_events_def audit_list_for_tenant_def same_rows_def)

lemma guarded_same:
  assumes "same_rows t d d'" "caller_identity (st_auth_mode (ap_settings E)) (ap_validator E) (rq_auth h) = Inr (Some t, who)"
    and "\<And>a. ac_tenant_id a = t \<Longrightarrow> fst (run a) = fst (run' a)"
  shows "fst (guarded E h p d run un) = fst (guarded E h p d' run' un')"
proof -
  have "require p (st_auth_mode (ap_settings E)) (ap_validator E) (rq_auth h) d = Inr a \<Longrightarrow> ac_tenant_id a = t" for a
    using require_Inr(2) assms(2) by fastforce
  then show ?thesis
    using assms(3) same_rows_require [OF assms(1,2), of p] by (auto simp: guarded_def split: sum.splits)
qed

text \<open>
  Claim C4 (safety): the reads of a tenant are isolated. For a caller identified in tenant \<open>t\<close>, the
  candidate list (with any filter, cursor and limit), the attachment list, the pipeline report and
  the audit trail depend on the rows of \<open>t\<close> alone.
\<close>

theorem reads_isolated:
  assumes "same_rows t d d'"
    and "caller_identity (st_auth_mode (ap_settings E)) (ap_validator E) (rq_auth h) = Inr (Some t, who)"
  shows "fst (api_list_candidates E h stage requisition_id cursor limit d) =
      fst (api_list_candidates E h stage requisition_id cursor limit d') \<and>
    fst (api_list_attachments E h i d) = fst (api_list_attachments E h i d') \<and>
    fst (api_pipeline_report E h d) = fst (api_pipeline_report E h d') \<and>
    fst (api_audit_events E h d) = fst (api_audit_events E h d')"
proof (intro conjI)
  note g = guarded_same [OF assms]
  show "fst (api_list_candidates E h stage requisition_id cursor limit d) =
      fst (api_list_candidates E h stage requisition_id cursor limit d')"
    unfolding api_list_candidates_def
    by (rule g) (use same_rows_list [of _ d d'] assms(1) in \<open>simp add: checked_def split: sum.splits\<close>)
  show "fst (api_list_attachments E h i d) = fst (api_list_attachments E h i d')"
    unfolding api_list_attachments_def
    by (rule g) (use same_rows_attachments [OF assms(1)] in \<open>simp split: sum.splits\<close>)
  show "fst (api_pipeline_report E h d) = fst (api_pipeline_report E h d')"
    unfolding api_pipeline_report_def
    by (rule g) (use same_rows_report [OF assms(1)] in \<open>simp add: Let_def\<close>)
  show "fst (api_audit_events E h d) = fst (api_audit_events E h d')"
    unfolding api_audit_events_def
    by (rule g) (use same_rows_audit [OF assms(1)] in simp)
qed

definition sample_reader :: api_env where
  "sample_reader = \<lparr>ap_settings = default_settings, ap_validator = None, ap_ctx = sample_ctx, ap_uuid = ''u'',
     ap_clam = (\<lambda>_. Clam_Missing), ap_sha256 = id, ap_hex = sample_key, ap_token = ''k'', ap_token_id = ''s'',
     ap_base_url = ''http://a''\<rparr>"

definition sample_reads :: request_headers where
  "sample_reads = \<lparr>rq_auth = sample_headers ''r'', rq_correlation_id = None, rq_request_id = None\<rparr>"

definition foreign_case :: candidate_row where
  "foreign_case = (sample_case ''c9'' ''x'' ''applied'' 1)\<lparr>cr_tenant_id := ''u''\<rparr>"

theorem reads_isolated_witness:
  "fst (api_list_candidates sample_reader sample_reads None None None 25
      (sample_db\<lparr>candidate_cases := foreign_case # candidate_cases sample_db\<rparr>)) =
    fst (api_list_candidates sample_reader sample_reads None None None 25 sample_db)"
  by (rule conjunct1 [OF reads_isolated [where t = "''t''" and who = "Some ''r''"]])
     (simp_all add: same_rows_def foreign_case_def caller_identity_def sample_reader_def sample_reads_def
        default_settings_def sample_headers_def)

end
