(* ===== verification/Migrations.thy ===== *)
theory Migrations
  imports Main
begin

text \<open>
  The schema as the deployment builds it: the statements of the revision scripts under
  \<open>src/migrations/versions\<close>, the chain their \<open>down_revision\<close>s form, and the metadata of the mapped
  classes of \<open>app/shared/models.py\<close>, from which \<open>Base.metadata.create_all\<close> of \<open>app/main.py\<close> builds
  the schema outside production.

  A catalog holds the tables, each with its columns and constraints, and the indexes. A statement
  changes it as PostgreSQL does, or is refused (None). Adding a column that is not nullable is
  refused, since the table may hold rows.
\<close>

section \<open>Catalogs\<close>

datatype sql_type = String nat | Text | Integer | DateTime | JSON

datatype on_delete = NoAction | Cascade | Restrict

datatype table_item =
    Column string sql_type bool
  | PrimaryKeyConstraint "string list"
  | UniqueConstraint "string list" "string option"
  | ForeignKeyConstraint string string string on_delete

datatype index = Index string string "string list" bool

text \<open>
  \<open>Column n t b\<close>: \<open>b\<close> says whether the column is nullable. \<open>ForeignKeyConstraint c t k a\<close>: the
  column \<open>c\<close> refers to the column \<open>k\<close> of the table \<open>t\<close>. \<open>Index n t cs u\<close>: \<open>u\<close> says whether the index
  is unique.
\<close>

record catalog =
  ct_tables :: "(string \<times> table_item list) list"
  ct_indexes :: "index list"

definition empty_catalog :: catalog where
  "empty_catalog = \<lparr>ct_tables = [], ct_indexes = []\<rparr>"

definition has_table :: "string \<Rightarrow> catalog \<Rightarrow> bool" where
  "has_table t c = (t \<in> set (map fst (ct_tables c)))"

definition columns_of :: "table_item list \<Rightarrow> string list" where
  "columns_of items = List.map_filter (\<lambda>i. case i of Column n _ _ \<Rightarrow> Some n | _ \<Rightarrow> None) items"

definition table_columns :: "string \<Rightarrow> catalog \<Rightarrow> string list" where
  "table_columns t c = (case map_of (ct_tables c) t of None \<Rightarrow> [] | Some items \<Rightarrow> columns_of items)"

fun index_name :: "index \<Rightarrow> string" where "index_name (Index n t cs u) = n"
fun index_table :: "index \<Rightarrow> string" where "index_table (Index n t cs u) = t"
fun index_columns :: "index \<Rightarrow> string list" where "index_columns (Index n t cs u) = cs"

text \<open>The columns a constraint is about, and the column it refers to.\<close>

fun item_columns :: "table_item \<Rightarrow> string list" where
  "item_columns (Column n ty nullable) = [n]"
| "item_columns (PrimaryKeyConstraint cs) = cs"
| "item_columns (UniqueConstraint cs name) = cs"
| "item_columns (ForeignKeyConstraint n t k a) = [n]"

definition references :: "table_item list \<Rightarrow> (string \<times> string) list" where
  "references items =
    List.map_filter (\<lambda>i. case i of ForeignKeyConstraint n t k a \<Rightarrow> Some (t, k) | _ \<Rightarrow> None) items"

definition well_formed :: "table_item list \<Rightarrow> bool" where
  "well_formed items = (distinct (columns_of items) \<and>
     list_all (\<lambda>i. list_all (\<lambda>n. n \<in> set (columns_of items)) (item_columns i)) items)"

text \<open>A foreign key must refer to the primary key of an existing table.\<close>

definition has_key :: "string \<Rightarrow> table_item list \<Rightarrow> bool" where
  "has_key k items = (PrimaryKeyConstraint [k] \<in> set items)"

definition references_ok :: "catalog \<Rightarrow> table_item list \<Rightarrow> bool" where
  "references_ok c items = list_all (\<lambda>(t, k).
     case map_of (ct_tables c) t of None \<Rightarrow> False | Some target \<Rightarrow> has_key k target) (references items)"

section \<open>Statements\<close>

datatype ddl =
    CreateTable string "table_item list"
  | DropTable string
  | AddColumn string table_item
  | DropColumn string string
  | CreateIndex index
  | DropIndex string string

definition change_table ::
  "string \<Rightarrow> (table_item list \<Rightarrow> table_item list) \<Rightarrow> catalog \<Rightarrow> catalog" where
  "change_table t f c =
    c\<lparr>ct_tables := map (\<lambda>(n, items). (n, if n = t then f items else items)) (ct_tables c)\<rparr>"

fun addable :: "string list \<Rightarrow> table_item \<Rightarrow> bool" where
  "addable cs (Column n ty nullable) = (n \<notin> set cs \<and> nullable)"
| "addable cs i = False"

fun run_statement :: "ddl \<Rightarrow> catalog \<Rightarrow> catalog option" where
  "run_statement (CreateTable t items) c =
    (if \<not> has_table t c \<and> well_formed items \<and> references_ok c items
     then Some (c\<lparr>ct_tables := ct_tables c @ [(t, items)]\<rparr>) else None)"
| "run_statement (DropTable t) c =
    (if has_table t c \<and> list_all (\<lambda>(n, items). n = t \<or> t \<notin> set (map fst (references items))) (ct_tables c)
     then Some \<lparr>ct_tables = filter (\<lambda>(n, items). n \<noteq> t) (ct_tables c),
       ct_indexes = filter (\<lambda>i. index_table i \<noteq> t) (ct_indexes c)\<rparr>
     else None)"
| "run_statement (AddColumn t i) c =
    (if has_table t c \<and> addable (table_columns t c) i
     then Some (change_table t (\<lambda>items. items @ [i]) c) else None)"
| "run_statement (DropColumn t n) c =
    (if n \<in> set (table_columns t c) \<and>
        list_all (\<lambda>(m, items). (t, n) \<notin> set (references items)) (ct_tables c)
     then Some ((change_table t (filter (\<lambda>i. n \<notin> set (item_columns i))) c)
       \<lparr>ct_indexes := filter (\<lambda>i. \<not> (index_table i = t \<and> n \<in> set (index_columns i))) (ct_indexes c)\<rparr>)
     else None)"
| "run_statement (CreateIndex i) c =
    (if index_name i \<notin> set (map index_name (ct_indexes c)) \<and> has_table (index_table i) c \<and>
        list_all (\<lambda>n. n \<in> set (table_columns (index_table i) c)) (index_columns i)
     then Some (c\<lparr>ct_indexes := ct_indexes c @ [i]\<rparr>) else None)"
| "run_statement (DropIndex n t) c =
    (if list_ex (\<lambda>i. index_name i = n \<and> index_table i = t) (ct_indexes c)
     then Some (c\<lparr>ct_indexes := filter (\<lambda>i. index_name i \<noteq> n) (ct_indexes c)\<rparr>) else None)"

fun run_statements :: "ddl list \<Rightarrow> catalog \<Rightarrow> catalog option" where
  "run_statements [] c = Some c"
| "run_statements (x # xs) c = (case run_statement x c of None \<Rightarrow> None | Some c1 \<Rightarrow> run_statements xs c1)"

section \<open>The revision scripts\<close>

record revision =
  rv_id :: string
  rv_down :: "string option"
  rv_upgrade :: "ddl list"
  rv_downgrade :: "ddl list"

definition tenants_items :: "table_item list" where
  "tenants_items =
    [Column ''id'' (String 36) False, Column ''name'' (String 120) False,
     Column ''slug'' (String 80) False, Column ''created_at'' DateTime False,
     PrimaryKeyConstraint [''id'']]"

definition users_items :: "table_item list" where
  "users_items =
    [Column ''id'' (String 128) False, Column ''email'' (String 320) True,
     Column ''created_at'' DateTime False, PrimaryKeyConstraint [''id''],
     UniqueConstraint [''email''] None]"

definition audit_events_items :: "table_item list" where
  "audit_events_items =
    [Column ''id'' (String 36) False, Column ''tenant_id'' (String 36) False,
     Column ''actor_id'' (String 128) False, Column ''action'' (String 120) False,
     Column ''aggregate_type'' (String 80) False, Column ''aggregate_id'' (String 36) False,
     Column ''correlation_id'' (String 128) False, Column ''metadata_json'' JSON False,
     Column ''created_at'' DateTime False,
     ForeignKeyConstraint ''tenant_id'' ''tenants'' ''id'' Cascade, PrimaryKeyConstraint [''id'']]"

definition memberships_items :: "table_item list" where
  "memberships_items =
    [Column ''id'' (String 36) False, Column ''tenant_id'' (String 36) False,
     Column ''user_id'' (String 128) False, Column ''role'' (String 32) False,
     Column ''created_at'' DateTime False,
     ForeignKeyConstraint ''tenant_id'' ''tenants'' ''id'' Cascade,
     ForeignKeyConstraint ''user_id'' ''users'' ''id'' Cascade, PrimaryKeyConstraint [''id''],
     UniqueConstraint [''tenant_id'', ''user_id''] (Some ''uq_membership_tenant_user'')]"

definition outbox_events_items :: "table_item list" where
  "outbox_events_items =
    [Column ''id'' (String 36) False, Column ''tenant_id'' (String 36) False,
     Column ''topic'' (String 160) False, Column ''payload_json'' JSON False,
     Column ''status'' (String 20) False, Column ''published_at'' DateTime True,
     Column ''created_at'' DateTime False,
     ForeignKeyConstraint ''tenant_id'' ''tenants'' ''id'' Cascade, PrimaryKeyConstraint [''id'']]"

definition requisitions_items :: "table_item list" where
  "requisitions_items =
    [Column ''id'' (String 36) False, Column ''tenant_id'' (String 36) False,
     Column ''title'' (String 160) False, Column ''department'' (String 120) False,
     Column ''created_by'' (String 128) False, Column ''created_at'' DateTime False,
     ForeignKeyConstraint ''created_by'' ''users'' ''id'' NoAction,
     ForeignKeyConstraint ''tenant_id'' ''tenants'' ''id'' Cascade, PrimaryKeyConstraint [''id'']]"

definition candidate_cases_items :: "table_item list" where
  "candidate_cases_items =
    [Column ''id'' (String 36) False, Column ''tenant_id'' (String 36) False,
     Column ''requisition_id'' (String 36) False, Column ''first_name'' (String 100) False,
     Column ''last_name'' (String 100) False, Column ''email'' (String 320) False,
     Column ''stage'' (String 40) False, Column ''version'' Integer False,
     Column ''created_by'' (String 128) False, Column ''created_at'' DateTime False,
     ForeignKeyConstraint ''created_by'' ''users'' ''id'' NoAction,
     ForeignKeyConstraint ''requisition_id'' ''requisitions'' ''id'' Restrict,
     ForeignKeyConstraint ''tenant_id'' ''tenants'' ''id'' Cascade, PrimaryKeyConstraint [''id''],
     UniqueConstraint [''tenant_id'', ''email''] (Some ''uq_candidate_case_tenant_email'')]"

definition notification_deliveries_items :: "table_item list" where
  "notification_deliveries_items =
    [Column ''id'' (String 36) False, Column ''outbox_event_id'' (String 36) False,
     Column ''tenant_id'' (String 36) False, Column ''recipient_id'' (String 128) False,
     Column ''channel'' (String 32) False, Column ''status'' (String 20) False,
     Column ''attempts'' Integer False, Column ''last_error'' Text True,
     Column ''payload_json'' JSON False, Column ''created_at'' DateTime False,
     ForeignKeyConstraint ''outbox_event_id'' ''outbox_events'' ''id'' Cascade,
     ForeignKeyConstraint ''recipient_id'' ''users'' ''id'' NoAction,
     ForeignKeyConstraint ''tenant_id'' ''tenants'' ''id'' Cascade, PrimaryKeyConstraint [''id''],
     UniqueConstraint [''outbox_event_id''] (Some ''uq_notification_delivery_outbox'')]"

definition interviews_items :: "table_item list" where
  "interviews_items =
    [Column ''id'' (String 36) False, Column ''tenant_id'' (String 36) False,
     Column ''candidate_case_id'' (String 36) False, Column ''interviewer_id'' (String 128) False,
     Column ''scheduled_at'' DateTime False, Column ''created_by'' (String 128) False,
     Column ''created_at'' DateTime False,
     ForeignKeyConstraint ''candidate_case_id'' ''candidate_cases'' ''id'' Cascade,
     ForeignKeyConstraint ''created_by'' ''users'' ''id'' NoAction,
     ForeignKeyConstraint ''interviewer_id'' ''users'' ''id'' NoAction,
     ForeignKeyConstraint ''tenant_id'' ''tenants'' ''id'' Cascade, PrimaryKeyConstraint [''id'']]"

definition offers_items :: "table_item list" where
  "offers_items =
    [Column ''id'' (String 36) False, Column ''tenant_id'' (String 36) False,
     Column ''candidate_case_id'' (String 36) False, Column ''title'' (String 160) False,
     Column ''annual_salary'' Integer False, Column ''currency'' (String 3) False,
     Column ''status'' (String 40) False, Column ''approval_step'' Integer False,
     Column ''version'' Integer False, Column ''created_by'' (String 128) False,
     ForeignKeyConstraint ''candidate_case_id'' ''candidate_cases'' ''id'' Cascade,
     ForeignKeyConstraint ''created_by'' ''users'' ''id'' NoAction,
     ForeignKeyConstraint ''tenant_id'' ''tenants'' ''id'' Cascade, PrimaryKeyConstraint [''id''],
     UniqueConstraint [''candidate_case_id''] None]"

definition approval_decisions_items :: "table_item list" where
  "approval_decisions_items =
    [Column ''id'' (String 36) False, Column ''offer_id'' (String 36) False,
     Column ''tenant_id'' (String 36) False, Column ''step'' Integer False,
     Column ''actor_id'' (String 128) False, Column ''decision'' (String 16) False,
     ForeignKeyConstraint ''actor_id'' ''users'' ''id'' NoAction,
     ForeignKeyConstraint ''offer_id'' ''offers'' ''id'' Cascade,
     ForeignKeyConstraint ''tenant_id'' ''tenants'' ''id'' Cascade, PrimaryKeyConstraint [''id''],
     UniqueConstraint [''offer_id'', ''step''] (Some ''uq_approval_decision_offer_step'')]"

definition interview_feedback_items :: "table_item list" where
  "interview_feedback_items =
    [Column ''id'' (String 36) False, Column ''tenant_id'' (String 36) False,
     Column ''interview_id'' (String 36) False, Column ''interviewer_id'' (String 128) False,
     Column ''score'' Integer False, Column ''recommendation'' (String 40) False,
     Column ''comments'' Text False, Column ''submitted_at'' DateTime False,
     ForeignKeyConstraint ''interview_id'' ''interviews'' ''id'' Cascade,
     ForeignKeyConstraint ''interviewer_id'' ''users'' ''id'' NoAction,
     ForeignKeyConstraint ''tenant_id'' ''tenants'' ''id'' Cascade, PrimaryKeyConstraint [''id''],
     UniqueConstraint [''interview_id''] (Some ''uq_interview_feedback_interview'')]"

definition upgrade_talentflow_schema :: "ddl list" where
  "upgrade_talentflow_schema =
    [CreateTable ''tenants'' tenants_items,
     CreateIndex (Index ''ix_tenants_slug'' ''tenants'' [''slug''] True),
     CreateTable ''users'' users_items, CreateTable ''audit_events'' audit_events_items,
     CreateIndex (Index ''ix_audit_events_tenant_id'' ''audit_events'' [''tenant_id''] False),
     CreateTable ''memberships'' memberships_items,
     CreateTable ''outbox_events'' outbox_events_items,
     CreateIndex (Index ''ix_outbox_events_topic'' ''outbox_events'' [''topic''] False),
     CreateTable ''requisitions'' requisitions_items,
     CreateIndex (Index ''ix_requisitions_tenant_id'' ''requisitions'' [''tenant_id''] False),
     CreateTable ''candidate_cases'' candidate_cases_items,
     CreateIndex (Index ''ix_candidate_cases_requisition_id'' ''candidate_cases'' [''requisition_id''] False),
     CreateIndex (Index ''ix_candidate_cases_tenant_id'' ''candidate_cases'' [''tenant_id''] False),
     CreateTable ''notification_deliveries'' notification_deliveries_items,
     CreateTable ''interviews'' interviews_items,
     CreateIndex (Index ''ix_interviews_candidate_case_id'' ''interviews'' [''candidate_case_id''] False),
     CreateIndex (Index ''ix_interviews_interviewer_id'' ''interviews'' [''interviewer_id''] False),
     CreateIndex (Index ''ix_interviews_tenant_id'' ''interviews'' [''tenant_id''] False),
     CreateTable ''offers'' offers_items,
     CreateIndex (Index ''ix_offers_tenant_id'' ''offers'' [''tenant_id''] False),
     CreateTable ''approval_decisions'' approval_decisions_items,
     CreateTable ''interview_feedback'' interview_feedback_items,
     CreateIndex (Index ''ix_interview_feedback_tenant_id'' ''interview_feedback'' [''tenant_id''] False)]"

definition downgrade_talentflow_schema :: "ddl list" where
  "downgrade_talentflow_schema =
    [DropIndex ''ix_interview_feedback_tenant_id'' ''interview_feedback'',
     DropTable ''interview_feedback'', DropTable ''approval_decisions'',
     DropIndex ''ix_offers_tenant_id'' ''offers'', DropTable ''offers'',
     DropIndex ''ix_interviews_tenant_id'' ''interviews'',
     DropIndex ''ix_interviews_interviewer_id'' ''interviews'',
     DropIndex ''ix_interviews_candidate_case_id'' ''interviews'', DropTable ''interviews'',
     DropTable ''notification_deliveries'',
     DropIndex ''ix_candidate_cases_tenant_id'' ''candidate_cases'',
     DropIndex ''ix_candidate_cases_requisition_id'' ''candidate_cases'',
     DropTable ''candidate_cases'', DropIndex ''ix_requisitions_tenant_id'' ''requisitions'',
     DropTable ''requisitions'', DropIndex ''ix_outbox_events_topic'' ''outbox_events'',
     DropTable ''outbox_events'', DropTable ''memberships'',
     DropIndex ''ix_audit_events_tenant_id'' ''audit_events'', DropTable ''audit_events'',
     DropTable ''users'', DropIndex ''ix_tenants_slug'' ''tenants'', DropTable ''tenants'']"

definition rev_talentflow_schema :: revision where
  "rev_talentflow_schema = \<lparr>rv_id = ''4fcd240472c8'', rv_down = None,
    rv_upgrade = upgrade_talentflow_schema, rv_downgrade = downgrade_talentflow_schema\<rparr>"

definition upgrade_delivery_leases :: "ddl list" where
  "upgrade_delivery_leases =
    [AddColumn ''notification_deliveries'' (Column ''lease_owner'' (String 128) True),
     AddColumn ''notification_deliveries'' (Column ''lease_expires_at'' DateTime True),
     CreateIndex (Index ''ix_notification_deliveries_lease_owner'' ''notification_deliveries'' [''lease_owner''] False)]"

definition downgrade_delivery_leases :: "ddl list" where
  "downgrade_delivery_leases =
    [DropIndex ''ix_notification_deliveries_lease_owner'' ''notification_deliveries'',
     DropColumn ''notification_deliveries'' ''lease_expires_at'',
     DropColumn ''notification_deliveries'' ''lease_owner'']"

definition rev_delivery_leases :: revision where
  "rev_delivery_leases = \<lparr>rv_id = ''ef1b28c33b03'', rv_down = Some ''4fcd240472c8'',
    rv_upgrade = upgrade_delivery_leases, rv_downgrade = downgrade_delivery_leases\<rparr>"

definition candidate_attachments_items :: "table_item list" where
  "candidate_attachments_items =
    [Column ''id'' (String 36) False, Column ''tenant_id'' (String 36) False,
     Column ''candidate_case_id'' (String 36) False, Column ''document_type'' (String 32) False,
     Column ''original_filename'' (String 255) False, Column ''content_type'' (String 127) False,
     Column ''size_bytes'' Integer False, Column ''sha256'' (String 64) False,
     Column ''storage_key'' (String 32) False, Column ''created_by'' (String 128) False,
     Column ''created_at'' DateTime False,
     ForeignKeyConstraint ''candidate_case_id'' ''candidate_cases'' ''id'' Cascade,
     ForeignKeyConstraint ''created_by'' ''users'' ''id'' NoAction,
     ForeignKeyConstraint ''tenant_id'' ''tenants'' ''id'' Cascade, PrimaryKeyConstraint [''id''],
     UniqueConstraint [''storage_key''] (Some ''uq_candidate_attachment_storage_key'')]"

definition upgrade_candidate_attachments :: "ddl list" where
  "upgrade_candidate_attachments =
    [CreateTable ''candidate_attachments'' candidate_attachments_items,
     CreateIndex (Index ''ix_candidate_attachments_candidate_case_id'' ''candidate_attachments'' [''candidate_case_id''] False),
     CreateIndex (Index ''ix_candidate_attachments_tenant_id'' ''candidate_attachments'' [''tenant_id''] False)]"

definition downgrade_candidate_attachments :: "ddl list" where
  "downgrade_candidate_attachments =
    [DropIndex ''ix_candidate_attachments_tenant_id'' ''candidate_attachments'',
     DropIndex ''ix_candidate_attachments_candidate_case_id'' ''candidate_attachments'',
     DropTable ''candidate_attachments'']"

definition rev_candidate_attachments :: revision where
  "rev_candidate_attachments = \<lparr>rv_id = ''5b02a38d7c91'', rv_down = Some ''ef1b28c33b03'',
    rv_upgrade = upgrade_candidate_attachments, rv_downgrade = downgrade_candidate_attachments\<rparr>"

definition calendar_subscriptions_items :: "table_item list" where
  "calendar_subscriptions_items =
    [Column ''id'' (String 64) False, Column ''tenant_id'' (String 36) False,
     Column ''interviewer_id'' (String 128) False, Column ''token_hash'' (String 64) False,
     Column ''created_by'' (String 128) False, Column ''created_at'' DateTime False,
     Column ''expires_at'' DateTime False, Column ''revoked_at'' DateTime True,
     ForeignKeyConstraint ''created_by'' ''users'' ''id'' NoAction,
     ForeignKeyConstraint ''interviewer_id'' ''users'' ''id'' NoAction,
     ForeignKeyConstraint ''tenant_id'' ''tenants'' ''id'' Cascade, PrimaryKeyConstraint [''id''],
     UniqueConstraint [''token_hash''] None]"

definition upgrade_calendar_subscriptions :: "ddl list" where
  "upgrade_calendar_subscriptions =
    [CreateTable ''calendar_subscriptions'' calendar_subscriptions_items,
     CreateIndex (Index ''ix_calendar_subscriptions_tenant_id'' ''calendar_subscriptions'' [''tenant_id''] False),
     CreateIndex (Index ''ix_calendar_subscriptions_interviewer_id'' ''calendar_subscriptions'' [''interviewer_id''] False)]"

definition downgrade_calendar_subscriptions :: "ddl list" where
  "downgrade_calendar_subscriptions =
    [DropIndex ''ix_calendar_subscriptions_interviewer_id'' ''calendar_subscriptions'',
     DropIndex ''ix_calendar_subscriptions_tenant_id'' ''calendar_subscriptions'',
     DropTable ''calendar_subscriptions'']"

definition rev_calendar_subscriptions :: revision where
  "rev_calendar_subscriptions = \<lparr>rv_id = ''a47b9c0d13e6'', rv_down = Some ''5b02a38d7c91'',
    rv_upgrade = upgrade_calendar_subscriptions, rv_downgrade = downgrade_calendar_subscriptions\<rparr>"

definition retention_policies_items :: "table_item list" where
  "retention_policies_items =
    [Column ''tenant_id'' (String 36) False, Column ''retention_days'' Integer False,
     Column ''updated_at'' DateTime False,
     ForeignKeyConstraint ''tenant_id'' ''tenants'' ''id'' Cascade,
     PrimaryKeyConstraint [''tenant_id'']]"

definition candidate_legal_holds_items :: "table_item list" where
  "candidate_legal_holds_items =
    [Column ''candidate_case_id'' (String 36) False, Column ''tenant_id'' (String 36) False,
     Column ''reason'' (String 500) False, Column ''created_by'' (String 128) False,
     Column ''created_at'' DateTime False,
     ForeignKeyConstraint ''candidate_case_id'' ''candidate_cases'' ''id'' Cascade,
     ForeignKeyConstraint ''created_by'' ''users'' ''id'' NoAction,
     ForeignKeyConstraint ''tenant_id'' ''tenants'' ''id'' Cascade,
     PrimaryKeyConstraint [''candidate_case_id'']]"

definition upgrade_retention_controls :: "ddl list" where
  "upgrade_retention_controls =
    [AddColumn ''candidate_cases'' (Column ''anonymized_at'' DateTime True),
     CreateTable ''retention_policies'' retention_policies_items,
     CreateTable ''candidate_legal_holds'' candidate_legal_holds_items,
     CreateIndex (Index ''ix_candidate_legal_holds_tenant_id'' ''candidate_legal_holds'' [''tenant_id''] False)]"

definition downgrade_retention_controls :: "ddl list" where
  "downgrade_retention_controls =
    [DropIndex ''ix_candidate_legal_holds_tenant_id'' ''candidate_legal_holds'',
     DropTable ''candidate_legal_holds'', DropTable ''retention_policies'',
     DropColumn ''candidate_cases'' ''anonymized_at'']"

definition rev_retention_controls :: revision where
  "rev_retention_controls = \<lparr>rv_id = ''b64d2e1a9f03'', rv_down = Some ''a47b9c0d13e6'',
    rv_upgrade = upgrade_retention_controls, rv_downgrade = downgrade_retention_controls\<rparr>"

definition upgrade_terminal_time :: "ddl list" where
  "upgrade_terminal_time =
    [AddColumn ''candidate_cases'' (Column ''terminal_at'' DateTime True),
     CreateIndex (Index ''ix_candidate_cases_terminal_at'' ''candidate_cases'' [''terminal_at''] False)]"

definition downgrade_terminal_time :: "ddl list" where
  "downgrade_terminal_time =
    [DropIndex ''ix_candidate_cases_terminal_at'' ''candidate_cases'',
     DropColumn ''candidate_cases'' ''terminal_at'']"

definition rev_terminal_time :: revision where
  "rev_terminal_time = \<lparr>rv_id = ''c91e5b7d2a64'', rv_down = Some ''b64d2e1a9f03'',
    rv_upgrade = upgrade_terminal_time, rv_downgrade = downgrade_terminal_time\<rparr>"

text \<open>The scripts in the order of their file names.\<close>

definition versions :: "revision list" where
  "versions =
    [rev_talentflow_schema, rev_candidate_attachments, rev_calendar_subscriptions,
     rev_retention_controls, rev_terminal_time, rev_delivery_leases]"

text \<open>
  The chain from a revision on: the script whose \<open>down_revision\<close> is the one just run comes next. The
  chain is no longer than the number of scripts, the fuel.
\<close>

fun revision_chain :: "nat \<Rightarrow> string option \<Rightarrow> revision list \<Rightarrow> revision list" where
  "revision_chain 0 current scripts = []"
| "revision_chain (Suc n) current scripts =
    (case List.find (\<lambda>r. rv_down r = current) scripts of
       None \<Rightarrow> []
     | Some r \<Rightarrow> r # revision_chain n (Some (rv_id r)) scripts)"

definition upgrade_path :: "revision list" where
  "upgrade_path = revision_chain (length versions) None versions"

text \<open>\<open>alembic upgrade\<close> through the first \<open>k\<close> revisions, and \<open>alembic downgrade\<close> from the last one to there.\<close>

definition upgraded :: "nat \<Rightarrow> catalog option" where
  "upgraded k = run_statements (concat (map rv_upgrade (take k upgrade_path))) empty_catalog"

definition downgraded :: "nat \<Rightarrow> catalog \<Rightarrow> catalog option" where
  "downgraded k c = run_statements (concat (map rv_downgrade (rev (drop k upgrade_path)))) c"

section \<open>The metadata of the mapped classes\<close>

datatype column_flag = PrimaryKey | Nullable | Unique | Indexed

datatype mapped_column =
  Mapped_Column string "sql_type option" "(string \<times> string \<times> on_delete) option" "column_flag list"

datatype mapped_class = Mapped string "table_item list" "mapped_column list"

text \<open>
  \<open>Mapped n args cols\<close>: the class of table \<open>n\<close> with its \<open>__table_args__\<close>. \<open>Mapped_Column n ty fk flags\<close>:
  a column whose type, if it is not given, is that of the column it refers to.
\<close>

definition Tenant_class :: mapped_class where
  "Tenant_class = Mapped ''tenants''
    []
    [Mapped_Column ''id'' (Some (String 36)) None [PrimaryKey],
     Mapped_Column ''name'' (Some (String 120)) None [],
     Mapped_Column ''slug'' (Some (String 80)) None [Unique, Indexed],
     Mapped_Column ''created_at'' (Some DateTime) None []]"

definition User_class :: mapped_class where
  "User_class = Mapped ''users''
    []
    [Mapped_Column ''id'' (Some (String 128)) None [PrimaryKey],
     Mapped_Column ''email'' (Some (String 320)) None [Nullable, Unique],
     Mapped_Column ''created_at'' (Some DateTime) None []]"

definition Membership_class :: mapped_class where
  "Membership_class = Mapped ''memberships''
    [UniqueConstraint [''tenant_id'', ''user_id''] (Some ''uq_membership_tenant_user'')]
    [Mapped_Column ''id'' (Some (String 36)) None [PrimaryKey],
     Mapped_Column ''tenant_id'' None (Some (''tenants'', ''id'', Cascade)) [],
     Mapped_Column ''user_id'' None (Some (''users'', ''id'', Cascade)) [],
     Mapped_Column ''role'' (Some (String 32)) None [],
     Mapped_Column ''created_at'' (Some DateTime) None []]"

definition Requisition_class :: mapped_class where
  "Requisition_class = Mapped ''requisitions''
    []
    [Mapped_Column ''id'' (Some (String 36)) None [PrimaryKey],
     Mapped_Column ''tenant_id'' None (Some (''tenants'', ''id'', Cascade)) [Indexed],
     Mapped_Column ''title'' (Some (String 160)) None [],
     Mapped_Column ''department'' (Some (String 120)) None [],
     Mapped_Column ''created_by'' None (Some (''users'', ''id'', NoAction)) [],
     Mapped_Column ''created_at'' (Some DateTime) None []]"

definition CandidateCase_class :: mapped_class where
  "CandidateCase_class = Mapped ''candidate_cases''
    [UniqueConstraint [''tenant_id'', ''email''] (Some ''uq_candidate_case_tenant_email'')]
    [Mapped_Column ''id'' (Some (String 36)) None [PrimaryKey],
     Mapped_Column ''tenant_id'' None (Some (''tenants'', ''id'', Cascade)) [Indexed],
     Mapped_Column ''requisition_id'' None (Some (''requisitions'', ''id'', Restrict)) [Indexed],
     Mapped_Column ''first_name'' (Some (String 100)) None [],
     Mapped_Column ''last_name'' (Some (String 100)) None [],
     Mapped_Column ''email'' (Some (String 320)) None [],
     Mapped_Column ''stage'' (Some (String 40)) None [],
     Mapped_Column ''version'' (Some Integer) None [],
     Mapped_Column ''created_by'' None (Some (''users'', ''id'', NoAction)) [],
     Mapped_Column ''created_at'' (Some DateTime) None [],
     Mapped_Column ''anonymized_at'' (Some DateTime) None [Nullable],
     Mapped_Column ''terminal_at'' (Some DateTime) None [Nullable]]"

definition RetentionPolicy_class :: mapped_class where
  "RetentionPolicy_class = Mapped ''retention_policies''
    []
    [Mapped_Column ''tenant_id'' None (Some (''tenants'', ''id'', Cascade)) [PrimaryKey],
     Mapped_Column ''retention_days'' (Some Integer) None [],
     Mapped_Column ''updated_at'' (Some DateTime) None []]"

definition CandidateLegalHold_class :: mapped_class where
  "CandidateLegalHold_class = Mapped ''candidate_legal_holds''
    []
    [Mapped_Column ''candidate_case_id'' None (Some (''candidate_cases'', ''id'', Cascade)) [PrimaryKey],
     Mapped_Column ''tenant_id'' None (Some (''tenants'', ''id'', Cascade)) [Indexed],
     Mapped_Column ''reason'' (Some (String 500)) None [],
     Mapped_Column ''created_by'' None (Some (''users'', ''id'', NoAction)) [],
     Mapped_Column ''created_at'' (Some DateTime) None []]"

definition Attachment_class :: mapped_class where
  "Attachment_class = Mapped ''candidate_attachments''
    [UniqueConstraint [''storage_key''] (Some ''uq_candidate_attachment_storage_key'')]
    [Mapped_Column ''id'' (Some (String 36)) None [PrimaryKey],
     Mapped_Column ''tenant_id'' None (Some (''tenants'', ''id'', Cascade)) [Indexed],
     Mapped_Column ''candidate_case_id'' None (Some (''candidate_cases'', ''id'', Cascade)) [Indexed],
     Mapped_Column ''document_type'' (Some (String 32)) None [],
     Mapped_Column ''original_filename'' (Some (String 255)) None [],
     Mapped_Column ''content_type'' (Some (String 127)) None [],
     Mapped_Column ''size_bytes'' (Some Integer) None [],
     Mapped_Column ''sha256'' (Some (String 64)) None [],
     Mapped_Column ''storage_key'' (Some (String 32)) None [],
     Mapped_Column ''created_by'' None (Some (''users'', ''id'', NoAction)) [],
     Mapped_Column ''created_at'' (Some DateTime) None []]"

definition Interview_class :: mapped_class where
  "Interview_class = Mapped ''interviews''
    []
    [Mapped_Column ''id'' (Some (String 36)) None [PrimaryKey],
     Mapped_Column ''tenant_id'' None (Some (''tenants'', ''id'', Cascade)) [Indexed],
     Mapped_Column ''candidate_case_id'' None (Some (''candidate_cases'', ''id'', Cascade)) [Indexed],
     Mapped_Column ''interviewer_id'' None (Some (''users'', ''id'', NoAction)) [Indexed],
     Mapped_Column ''scheduled_at'' (Some DateTime) None [],
     Mapped_Column ''created_by'' None (Some (''users'', ''id'', NoAction)) [],
     Mapped_Column ''created_at'' (Some DateTime) None []]"

definition CalendarSubscription_class :: mapped_class where
  "CalendarSubscription_class = Mapped ''calendar_subscriptions''
    []
    [Mapped_Column ''id'' (Some (String 64)) None [PrimaryKey],
     Mapped_Column ''tenant_id'' None (Some (''tenants'', ''id'', Cascade)) [Indexed],
     Mapped_Column ''interviewer_id'' None (Some (''users'', ''id'', NoAction)) [Indexed],
     Mapped_Column ''token_hash'' (Some (String 64)) None [Unique],
     Mapped_Column ''created_by'' None (Some (''users'', ''id'', NoAction)) [],
     Mapped_Column ''created_at'' (Some DateTime) None [],
     Mapped_Column ''expires_at'' (Some DateTime) None [],
     Mapped_Column ''revoked_at'' (Some DateTime) None [Nullable]]"

definition InterviewFeedback_class :: mapped_class where
  "InterviewFeedback_class = Mapped ''interview_feedback''
    [UniqueConstraint [''interview_id''] (Some ''uq_interview_feedback_interview'')]
    [Mapped_Column ''id'' (Some (String 36)) None [PrimaryKey],
     Mapped_Column ''tenant_id'' None (Some (''tenants'', ''id'', Cascade)) [Indexed],
     Mapped_Column ''interview_id'' None (Some (''interviews'', ''id'', Cascade)) [],
     Mapped_Column ''interviewer_id'' None (Some (''users'', ''id'', NoAction)) [],
     Mapped_Column ''score'' (Some Integer) None [],
     Mapped_Column ''recommendation'' (Some (String 40)) None [],
     Mapped_Column ''comments'' (Some Text) None [],
     Mapped_Column ''submitted_at'' (Some DateTime) None []]"

definition Offer_class :: mapped_class where
  "Offer_class = Mapped ''offers''
    []
    [Mapped_Column ''id'' (Some (String 36)) None [PrimaryKey],
     Mapped_Column ''tenant_id'' None (Some (''tenants'', ''id'', Cascade)) [Indexed],
     Mapped_Column ''candidate_case_id'' None (Some (''candidate_cases'', ''id'', Cascade)) [Unique],
     Mapped_Column ''title'' (Some (String 160)) None [],
     Mapped_Column ''annual_salary'' (Some Integer) None [],
     Mapped_Column ''currency'' (Some (String 3)) None [],
     Mapped_Column ''status'' (Some (String 40)) None [],
     Mapped_Column ''approval_step'' (Some Integer) None [],
     Mapped_Column ''version'' (Some Integer) None [],
     Mapped_Column ''created_by'' None (Some (''users'', ''id'', NoAction)) []]"

definition ApprovalDecision_class :: mapped_class where
  "ApprovalDecision_class = Mapped ''approval_decisions''
    [UniqueConstraint [''offer_id'', ''step''] (Some ''uq_approval_decision_offer_step'')]
    [Mapped_Column ''id'' (Some (String 36)) None [PrimaryKey],
     Mapped_Column ''offer_id'' None (Some (''offers'', ''id'', Cascade)) [],
     Mapped_Column ''tenant_id'' None (Some (''tenants'', ''id'', Cascade)) [],
     Mapped_Column ''step'' (Some Integer) None [],
     Mapped_Column ''actor_id'' None (Some (''users'', ''id'', NoAction)) [],
     Mapped_Column ''decision'' (Some (String 16)) None []]"

definition OutboxEvent_class :: mapped_class where
  "OutboxEvent_class = Mapped ''outbox_events''
    []
    [Mapped_Column ''id'' (Some (String 36)) None [PrimaryKey],
     Mapped_Column ''tenant_id'' None (Some (''tenants'', ''id'', Cascade)) [],
     Mapped_Column ''topic'' (Some (String 160)) None [Indexed],
     Mapped_Column ''payload_json'' (Some JSON) None [],
     Mapped_Column ''status'' (Some (String 20)) None [],
     Mapped_Column ''published_at'' (Some DateTime) None [Nullable],
     Mapped_Column ''created_at'' (Some DateTime) None []]"

definition NotificationDelivery_class :: mapped_class where
  "NotificationDelivery_class = Mapped ''notification_deliveries''
    [UniqueConstraint [''outbox_event_id''] (Some ''uq_notification_delivery_outbox'')]
    [Mapped_Column ''id'' (Some (String 36)) None [PrimaryKey],
     Mapped_Column ''outbox_event_id'' None (Some (''outbox_events'', ''id'', Cascade)) [],
     Mapped_Column ''tenant_id'' None (Some (''tenants'', ''id'', Cascade)) [],
     Mapped_Column ''recipient_id'' None (Some (''users'', ''id'', NoAction)) [],
     Mapped_Column ''channel'' (Some (String 32)) None [],
     Mapped_Column ''status'' (Some (String 20)) None [],
     Mapped_Column ''attempts'' (Some Integer) None [],
     Mapped_Column ''last_error'' (Some Text) None [Nullable],
     Mapped_Column ''payload_json'' (Some JSON) None [],
     Mapped_Column ''lease_owner'' (Some (String 128)) None [Nullable, Indexed],
     Mapped_Column ''lease_expires_at'' (Some DateTime) None [Nullable],
     Mapped_Column ''created_at'' (Some DateTime) None []]"

definition AuditEvent_class :: mapped_class where
  "AuditEvent_class = Mapped ''audit_events''
    []
    [Mapped_Column ''id'' (Some (String 36)) None [PrimaryKey],
     Mapped_Column ''tenant_id'' None (Some (''tenants'', ''id'', Cascade)) [Indexed],
     Mapped_Column ''actor_id'' (Some (String 128)) None [],
     Mapped_Column ''action'' (Some (String 120)) None [],
     Mapped_Column ''aggregate_type'' (Some (String 80)) None [],
     Mapped_Column ''aggregate_id'' (Some (String 36)) None [],
     Mapped_Column ''correlation_id'' (Some (String 128)) None [],
     Mapped_Column ''metadata_json'' (Some JSON) None [],
     Mapped_Column ''created_at'' (Some DateTime) None []]"

definition Base_metadata :: "mapped_class list" where
  "Base_metadata =
    [Tenant_class, User_class, Membership_class, Requisition_class, CandidateCase_class,
     RetentionPolicy_class, CandidateLegalHold_class, Attachment_class, Interview_class,
     CalendarSubscription_class, InterviewFeedback_class, Offer_class, ApprovalDecision_class,
     OutboxEvent_class, NotificationDelivery_class, AuditEvent_class]"

fun class_columns :: "string \<Rightarrow> mapped_class list \<Rightarrow> mapped_column list" where
  "class_columns t [] = []"
| "class_columns t (Mapped n args cols # classes) = (if n = t then cols else class_columns t classes)"

fun declared_type :: "string \<Rightarrow> mapped_column list \<Rightarrow> sql_type option" where
  "declared_type n [] = None"
| "declared_type n (Mapped_Column m ty fk flags # cols) = (if m = n then ty else declared_type n cols)"

fun column_type :: "mapped_class list \<Rightarrow> mapped_column \<Rightarrow> sql_type option" where
  "column_type classes (Mapped_Column n (Some ty) fk flags) = Some ty"
| "column_type classes (Mapped_Column n None (Some (t, k, a)) flags) = declared_type k (class_columns t classes)"
| "column_type classes (Mapped_Column n None None flags) = None"

text \<open>
  What SQLAlchemy makes of a column. A primary key is never nullable; a column that is both unique
  and indexed gets one unique index and no constraint; an index is named after table and column.
\<close>

fun column_items :: "mapped_class list \<Rightarrow> mapped_column \<Rightarrow> table_item list" where
  "column_items classes (Mapped_Column n ty fk flags) =
    (case column_type classes (Mapped_Column n ty fk flags) of
       None \<Rightarrow> [] | Some ty' \<Rightarrow> [Column n ty' (Nullable \<in> set flags \<and> PrimaryKey \<notin> set flags)]) @
    (case fk of None \<Rightarrow> [] | Some (t, k, a) \<Rightarrow> [ForeignKeyConstraint n t k a]) @
    (if Unique \<in> set flags \<and> Indexed \<notin> set flags then [UniqueConstraint [n] None] else [])"

fun column_index :: "string \<Rightarrow> mapped_column \<Rightarrow> index list" where
  "column_index t (Mapped_Column n ty fk flags) =
    (if Indexed \<in> set flags
     then [Index (''ix_'' @ t @ ''_'' @ n) t [n] (Unique \<in> set flags)] else [])"

fun key_column :: "mapped_column \<Rightarrow> string option" where
  "key_column (Mapped_Column n ty fk flags) = (if PrimaryKey \<in> set flags then Some n else None)"

fun class_items :: "mapped_class list \<Rightarrow> mapped_class \<Rightarrow> table_item list" where
  "class_items classes (Mapped t args cols) =
    concat (map (column_items classes) cols) @ [PrimaryKeyConstraint (List.map_filter key_column cols)] @ args"

fun class_statements :: "mapped_class list \<Rightarrow> mapped_class \<Rightarrow> ddl list" where
  "class_statements classes (Mapped t args cols) =
    CreateTable t (class_items classes (Mapped t args cols)) #
    map CreateIndex (concat (map (column_index t) cols))"

fun class_table :: "mapped_class \<Rightarrow> string" where "class_table (Mapped t args cols) = t"

text \<open>
  \<open>create_all\<close> creates each table that is not there, with its indexes, and leaves the others alone.
  The order of the declarations is one in which every table comes after those it refers to.
\<close>

fun create_missing :: "mapped_class list \<Rightarrow> mapped_class list \<Rightarrow> catalog \<Rightarrow> catalog option" where
  "create_missing classes [] c = Some c"
| "create_missing classes (x # xs) c =
    (if has_table (class_table x) c then create_missing classes xs c
     else (case run_statements (class_statements classes x) c of
         None \<Rightarrow> None | Some c1 \<Rightarrow> create_missing classes xs c1))"

definition create_all :: "catalog \<Rightarrow> catalog option" where
  "create_all c = create_missing Base_metadata Base_metadata c"

section \<open>The two ways to the schema\<close>

definition same_set :: "'a list \<Rightarrow> 'a list \<Rightarrow> bool" where
  "same_set xs ys = (set xs = set ys)"

definition same_table :: "catalog \<Rightarrow> string \<times> table_item list \<Rightarrow> bool" where
  "same_table c x = (case map_of (ct_tables c) (fst x) of None \<Rightarrow> False | Some items \<Rightarrow> same_set (snd x) items)"

definition same_tables :: "catalog \<Rightarrow> catalog \<Rightarrow> bool" where
  "same_tables c m = (list_all (same_table m) (ct_tables c) \<and> list_all (same_table c) (ct_tables m))"

end
