(* ===== verification/Schema_Build.thy ===== *)
theory Schema_Build
  imports Migrations
begin

text \<open>
  What the revision scripts build: the catalog after each of them, that each \<open>downgrade\<close> undoes its
  \<open>upgrade\<close>, and that the last catalog is the one the mapped classes declare.
\<close>

section \<open>Running the scripts\<close>

lemma item_list_simps:
  "columns_of [] = []" "columns_of (Column n ty b # xs) = n # columns_of xs"
  "columns_of (PrimaryKeyConstraint cs # xs) = columns_of xs"
  "columns_of (UniqueConstraint cs nm # xs) = columns_of xs"
  "columns_of (ForeignKeyConstraint n t k a # xs) = columns_of xs"
  "references [] = []" "references (Column n ty b # xs) = references xs"
  "references (PrimaryKeyConstraint cs # xs) = references xs"
  "references (UniqueConstraint cs nm # xs) = references xs"
  "references (ForeignKeyConstraint n t k a # xs) = (t, k) # references xs"
  by (simp_all add: columns_of_def references_def List.map_filter_def)

lemma item_append_simps:
  "columns_of (xs @ ys) = columns_of xs @ columns_of ys"
  "references (xs @ ys) = references xs @ references ys"
  "has_key k (xs @ ys) = (has_key k xs \<or> has_key k ys)"
  by (auto simp add: columns_of_def references_def List.map_filter_def has_key_def)

lemma filter_column [simp]:
  "n \<notin> set (columns_of items) \<Longrightarrow> well_formed items \<Longrightarrow>
    filter (\<lambda>i. n \<notin> set (item_columns i)) items = items"
  by (induction items rule: rev_induct) (auto simp: filter_id_conv well_formed_def list_all_iff)

lemmas statement_simps =
  empty_catalog_def has_table_def table_columns_def change_table_def references_ok_def
  item_list_simps item_append_simps

lemma tenants_facts [simp]:
  "well_formed tenants_items" "has_key ''id'' tenants_items"
  "columns_of tenants_items =
    [''id'', ''name'', ''slug'', ''created_at'']"
  "references tenants_items =
    []"
  by (simp_all add: tenants_items_def well_formed_def has_key_def item_list_simps)

lemma users_facts [simp]:
  "well_formed users_items" "has_key ''id'' users_items"
  "columns_of users_items =
    [''id'', ''email'', ''created_at'']"
  "references users_items =
    []"
  by (simp_all add: users_items_def well_formed_def has_key_def item_list_simps)

lemma audit_events_facts [simp]:
  "well_formed audit_events_items" "has_key ''id'' audit_events_items"
  "columns_of audit_events_items =
    [''id'', ''tenant_id'', ''actor_id'', ''action'', ''aggregate_type'', ''aggregate_id'',
     ''correlation_id'', ''metadata_json'', ''created_at'']"
  "references audit_events_items =
    [(''tenants'', ''id'')]"
  by (simp_all add: audit_events_items_def well_formed_def has_key_def item_list_simps)

lemma memberships_facts [simp]:
  "well_formed memberships_items" "has_key ''id'' memberships_items"
  "columns_of memberships_items =
    [''id'', ''tenant_id'', ''user_id'', ''role'', ''created_at'']"
  "references memberships_items =
    [(''tenants'', ''id''), (''users'', ''id'')]"
  by (simp_all add: memberships_items_def well_formed_def has_key_def item_list_simps)

lemma outbox_events_facts [simp]:
  "well_formed outbox_events_items" "has_key ''id'' outbox_events_items"
  "columns_of outbox_events_items =
    [''id'', ''tenant_id'', ''topic'', ''payload_json'', ''status'', ''published_at'',
     ''created_at'']"
  "references outbox_events_items =
    [(''tenants'', ''id'')]"
  by (simp_all add: outbox_events_items_def well_formed_def has_key_def item_list_simps)

lemma requisitions_facts [simp]:
  "well_formed requisitions_items" "has_key ''id'' requisitions_items"
  "columns_of requisitions_items =
    [''id'', ''tenant_id'', ''title'', ''department'', ''created_by'', ''created_at'']"
  "references requisitions_items =
    [(''users'', ''id''), (''tenants'', ''id'')]"
  by (simp_all add: requisitions_items_def well_formed_def has_key_def item_list_simps)

lemma candidate_cases_facts [simp]:
  "well_formed candidate_cases_items" "has_key ''id'' candidate_cases_items"
  "columns_of candidate_cases_items =
    [''id'', ''tenant_id'', ''requisition_id'', ''first_name'', ''last_name'', ''email'',
     ''stage'', ''version'', ''created_by'', ''created_at'']"
  "references candidate_cases_items =
    [(''users'', ''id''), (''requisitions'', ''id''), (''tenants'', ''id'')]"
  by (simp_all add: candidate_cases_items_def well_formed_def has_key_def item_list_simps)

lemma notification_deliveries_facts [simp]:
  "well_formed notification_deliveries_items" "has_key ''id'' notification_deliveries_items"
  "columns_of notification_deliveries_items =
    [''id'', ''outbox_event_id'', ''tenant_id'', ''recipient_id'', ''channel'', ''status'',
     ''attempts'', ''last_error'', ''payload_json'', ''created_at'']"
  "references notification_deliveries_items =
    [(''outbox_events'', ''id''), (''users'', ''id''), (''tenants'', ''id'')]"
  by (simp_all add: notification_deliveries_items_def well_formed_def has_key_def item_list_simps)

lemma interviews_facts [simp]:
  "well_formed interviews_items" "has_key ''id'' interviews_items"
  "columns_of interviews_items =
    [''id'', ''tenant_id'', ''candidate_case_id'', ''interviewer_id'', ''scheduled_at'',
     ''created_by'', ''created_at'']"
  "references interviews_items =
    [(''candidate_cases'', ''id''), (''users'', ''id''), (''users'', ''id''),
     (''tenants'', ''id'')]"
  by (simp_all add: interviews_items_def well_formed_def has_key_def item_list_simps)

lemma offers_facts [simp]:
  "well_formed offers_items" "has_key ''id'' offers_items"
  "columns_of offers_items =
    [''id'', ''tenant_id'', ''candidate_case_id'', ''title'', ''annual_salary'', ''currency'',
     ''status'', ''approval_step'', ''version'', ''created_by'']"
  "references offers_items =
    [(''candidate_cases'', ''id''), (''users'', ''id''), (''tenants'', ''id'')]"
  by (simp_all add: offers_items_def well_formed_def has_key_def item_list_simps)

lemma approval_decisions_facts [simp]:
  "well_formed approval_decisions_items" "has_key ''id'' approval_decisions_items"
  "columns_of approval_decisions_items =
    [''id'', ''offer_id'', ''tenant_id'', ''step'', ''actor_id'', ''decision'']"
  "references approval_decisions_items =
    [(''users'', ''id''), (''offers'', ''id''), (''tenants'', ''id'')]"
  by (simp_all add: approval_decisions_items_def well_formed_def has_key_def item_list_simps)

lemma interview_feedback_facts [simp]:
  "well_formed interview_feedback_items" "has_key ''id'' interview_feedback_items"
  "columns_of interview_feedback_items =
    [''id'', ''tenant_id'', ''interview_id'', ''interviewer_id'', ''score'', ''recommendation'',
     ''comments'', ''submitted_at'']"
  "references interview_feedback_items =
    [(''interviews'', ''id''), (''users'', ''id''), (''tenants'', ''id'')]"
  by (simp_all add: interview_feedback_items_def well_formed_def has_key_def item_list_simps)

lemma candidate_attachments_facts [simp]:
  "well_formed candidate_attachments_items" "has_key ''id'' candidate_attachments_items"
  "columns_of candidate_attachments_items =
    [''id'', ''tenant_id'', ''candidate_case_id'', ''document_type'', ''original_filename'',
     ''content_type'', ''size_bytes'', ''sha256'', ''storage_key'', ''created_by'', ''created_at'']"
  "references candidate_attachments_items =
    [(''candidate_cases'', ''id''), (''users'', ''id''), (''tenants'', ''id'')]"
  by (simp_all add: candidate_attachments_items_def well_formed_def has_key_def item_list_simps)

lemma calendar_subscriptions_facts [simp]:
  "well_formed calendar_subscriptions_items" "has_key ''id'' calendar_subscriptions_items"
  "columns_of calendar_subscriptions_items =
    [''id'', ''tenant_id'', ''interviewer_id'', ''token_hash'', ''created_by'', ''created_at'',
     ''expires_at'', ''revoked_at'']"
  "references calendar_subscriptions_items =
    [(''users'', ''id''), (''users'', ''id''), (''tenants'', ''id'')]"
  by (simp_all add: calendar_subscriptions_items_def well_formed_def has_key_def item_list_simps)

lemma retention_policies_facts [simp]:
  "well_formed retention_policies_items" "has_key ''tenant_id'' retention_policies_items"
  "columns_of retention_policies_items =
    [''tenant_id'', ''retention_days'', ''updated_at'']"
  "references retention_policies_items =
    [(''tenants'', ''id'')]"
  by (simp_all add: retention_policies_items_def well_formed_def has_key_def item_list_simps)

lemma candidate_legal_holds_facts [simp]:
  "well_formed candidate_legal_holds_items" "has_key ''candidate_case_id'' candidate_legal_holds_items"
  "columns_of candidate_legal_holds_items =
    [''candidate_case_id'', ''tenant_id'', ''reason'', ''created_by'', ''created_at'']"
  "references candidate_legal_holds_items =
    [(''candidate_cases'', ''id''), (''users'', ''id''), (''tenants'', ''id'')]"
  by (simp_all add: candidate_legal_holds_items_def well_formed_def has_key_def item_list_simps)

definition talentflow_schema_catalog :: catalog where
  "talentflow_schema_catalog = \<lparr>ct_tables =
    [(''tenants'', tenants_items), (''users'', users_items),
     (''audit_events'', audit_events_items), (''memberships'', memberships_items),
     (''outbox_events'', outbox_events_items), (''requisitions'', requisitions_items),
     (''candidate_cases'', candidate_cases_items),
     (''notification_deliveries'', notification_deliveries_items),
     (''interviews'', interviews_items), (''offers'', offers_items),
     (''approval_decisions'', approval_decisions_items),
     (''interview_feedback'', interview_feedback_items)],
   ct_indexes =
    [Index ''ix_tenants_slug'' ''tenants'' [''slug''] True,
     Index ''ix_audit_events_tenant_id'' ''audit_events'' [''tenant_id''] False,
     Index ''ix_outbox_events_topic'' ''outbox_events'' [''topic''] False,
     Index ''ix_requisitions_tenant_id'' ''requisitions'' [''tenant_id''] False,
     Index ''ix_candidate_cases_requisition_id'' ''candidate_cases'' [''requisition_id''] False,
     Index ''ix_candidate_cases_tenant_id'' ''candidate_cases'' [''tenant_id''] False,
     Index ''ix_interviews_candidate_case_id'' ''interviews'' [''candidate_case_id''] False,
     Index ''ix_interviews_interviewer_id'' ''interviews'' [''interviewer_id''] False,
     Index ''ix_interviews_tenant_id'' ''interviews'' [''tenant_id''] False,
     Index ''ix_offers_tenant_id'' ''offers'' [''tenant_id''] False,
     Index ''ix_interview_feedback_tenant_id'' ''interview_feedback'' [''tenant_id''] False]\<rparr>"

lemma upgrade_talentflow_schema: "run_statements upgrade_talentflow_schema empty_catalog = Some talentflow_schema_catalog"
  by (simp add: upgrade_talentflow_schema_def empty_catalog_def talentflow_schema_catalog_def statement_simps)

lemma downgrade_talentflow_schema: "run_statements downgrade_talentflow_schema talentflow_schema_catalog = Some empty_catalog"
  by (simp add: downgrade_talentflow_schema_def empty_catalog_def talentflow_schema_catalog_def statement_simps)

definition delivery_leases_catalog :: catalog where
  "delivery_leases_catalog = \<lparr>ct_tables =
    [(''tenants'', tenants_items), (''users'', users_items),
     (''audit_events'', audit_events_items), (''memberships'', memberships_items),
     (''outbox_events'', outbox_events_items), (''requisitions'', requisitions_items),
     (''candidate_cases'', candidate_cases_items),
     (''notification_deliveries'', notification_deliveries_items @ [Column ''lease_owner'' (String 128) True] @ [Column ''lease_expires_at'' DateTime True]),
     (''interviews'', interviews_items), (''offers'', offers_items),
     (''approval_decisions'', approval_decisions_items),
     (''interview_feedback'', interview_feedback_items)],
   ct_indexes =
    [Index ''ix_tenants_slug'' ''tenants'' [''slug''] True,
     Index ''ix_audit_events_tenant_id'' ''audit_events'' [''tenant_id''] False,
     Index ''ix_outbox_events_topic'' ''outbox_events'' [''topic''] False,
     Index ''ix_requisitions_tenant_id'' ''requisitions'' [''tenant_id''] False,
     Index ''ix_candidate_cases_requisition_id'' ''candidate_cases'' [''requisition_id''] False,
     Index ''ix_candidate_cases_tenant_id'' ''candidate_cases'' [''tenant_id''] False,
     Index ''ix_interviews_candidate_case_id'' ''interviews'' [''candidate_case_id''] False,
     Index ''ix_interviews_interviewer_id'' ''interviews'' [''interviewer_id''] False,
     Index ''ix_interviews_tenant_id'' ''interviews'' [''tenant_id''] False,
     Index ''ix_offers_tenant_id'' ''offers'' [''tenant_id''] False,
     Index ''ix_interview_feedback_tenant_id'' ''interview_feedback'' [''tenant_id''] False,
     Index ''ix_notification_deliveries_lease_owner'' ''notification_deliveries'' [''lease_owner''] False]\<rparr>"

lemma upgrade_delivery_leases: "run_statements upgrade_delivery_leases talentflow_schema_catalog = Some delivery_leases_catalog"
  by (simp add: upgrade_delivery_leases_def talentflow_schema_catalog_def delivery_leases_catalog_def statement_simps)

lemma downgrade_delivery_leases: "run_statements downgrade_delivery_leases delivery_leases_catalog = Some talentflow_schema_catalog"
  by (simp add: downgrade_delivery_leases_def talentflow_schema_catalog_def delivery_leases_catalog_def statement_simps)

definition candidate_attachments_catalog :: catalog where
  "candidate_attachments_catalog = \<lparr>ct_tables =
    [(''tenants'', tenants_items), (''users'', users_items),
     (''audit_events'', audit_events_items), (''memberships'', memberships_items),
     (''outbox_events'', outbox_events_items), (''requisitions'', requisitions_items),
     (''candidate_cases'', candidate_cases_items),
     (''notification_deliveries'', notification_deliveries_items @ [Column ''lease_owner'' (String 128) True] @ [Column ''lease_expires_at'' DateTime True]),
     (''interviews'', interviews_items), (''offers'', offers_items),
     (''approval_decisions'', approval_decisions_items),
     (''interview_feedback'', interview_feedback_items),
     (''candidate_attachments'', candidate_attachments_items)],
   ct_indexes =
    [Index ''ix_tenants_slug'' ''tenants'' [''slug''] True,
     Index ''ix_audit_events_tenant_id'' ''audit_events'' [''tenant_id''] False,
     Index ''ix_outbox_events_topic'' ''outbox_events'' [''topic''] False,
     Index ''ix_requisitions_tenant_id'' ''requisitions'' [''tenant_id''] False,
     Index ''ix_candidate_cases_requisition_id'' ''candidate_cases'' [''requisition_id''] False,
     Index ''ix_candidate_cases_tenant_id'' ''candidate_cases'' [''tenant_id''] False,
     Index ''ix_interviews_candidate_case_id'' ''interviews'' [''candidate_case_id''] False,
     Index ''ix_interviews_interviewer_id'' ''interviews'' [''interviewer_id''] False,
     Index ''ix_interviews_tenant_id'' ''interviews'' [''tenant_id''] False,
     Index ''ix_offers_tenant_id'' ''offers'' [''tenant_id''] False,
     Index ''ix_interview_feedback_tenant_id'' ''interview_feedback'' [''tenant_id''] False,
     Index ''ix_notification_deliveries_lease_owner'' ''notification_deliveries'' [''lease_owner''] False,
     Index ''ix_candidate_attachments_candidate_case_id'' ''candidate_attachments'' [''candidate_case_id''] False,
     Index ''ix_candidate_attachments_tenant_id'' ''candidate_attachments'' [''tenant_id''] False]\<rparr>"

lemma upgrade_candidate_attachments: "run_statements upgrade_candidate_attachments delivery_leases_catalog = Some candidate_attachments_catalog"
  by (simp add: upgrade_candidate_attachments_def delivery_leases_catalog_def candidate_attachments_catalog_def statement_simps)

lemma downgrade_candidate_attachments: "run_statements downgrade_candidate_attachments candidate_attachments_catalog = Some delivery_leases_catalog"
  by (simp add: downgrade_candidate_attachments_def delivery_leases_catalog_def candidate_attachments_catalog_def statement_simps)

definition calendar_subscriptions_catalog :: catalog where
  "calendar_subscriptions_catalog = \<lparr>ct_tables =
    [(''tenants'', tenants_items), (''users'', users_items),
     (''audit_events'', audit_events_items), (''memberships'', memberships_items),
     (''outbox_events'', outbox_events_items), (''requisitions'', requisitions_items),
     (''candidate_cases'', candidate_cases_items),
     (''notification_deliveries'', notification_deliveries_items @ [Column ''lease_owner'' (String 128) True] @ [Column ''lease_expires_at'' DateTime True]),
     (''interviews'', interviews_items), (''offers'', offers_items),
     (''approval_decisions'', approval_decisions_items),
     (''interview_feedback'', interview_feedback_items),
     (''candidate_attachments'', candidate_attachments_items),
     (''calendar_subscriptions'', calendar_subscriptions_items)],
   ct_indexes =
    [Index ''ix_tenants_slug'' ''tenants'' [''slug''] True,
     Index ''ix_audit_events_tenant_id'' ''audit_events'' [''tenant_id''] False,
     Index ''ix_outbox_events_topic'' ''outbox_events'' [''topic''] False,
     Index ''ix_requisitions_tenant_id'' ''requisitions'' [''tenant_id''] False,
     Index ''ix_candidate_cases_requisition_id'' ''candidate_cases'' [''requisition_id''] False,
     Index ''ix_candidate_cases_tenant_id'' ''candidate_cases'' [''tenant_id''] False,
     Index ''ix_interviews_candidate_case_id'' ''interviews'' [''candidate_case_id''] False,
     Index ''ix_interviews_interviewer_id'' ''interviews'' [''interviewer_id''] False,
     Index ''ix_interviews_tenant_id'' ''interviews'' [''tenant_id''] False,
     Index ''ix_offers_tenant_id'' ''offers'' [''tenant_id''] False,
     Index ''ix_interview_feedback_tenant_id'' ''interview_feedback'' [''tenant_id''] False,
     Index ''ix_notification_deliveries_lease_owner'' ''notification_deliveries'' [''lease_owner''] False,
     Index ''ix_candidate_attachments_candidate_case_id'' ''candidate_attachments'' [''candidate_case_id''] False,
     Index ''ix_candidate_attachments_tenant_id'' ''candidate_attachments'' [''tenant_id''] False,
     Index ''ix_calendar_subscriptions_tenant_id'' ''calendar_subscriptions'' [''tenant_id''] False,
     Index ''ix_calendar_subscriptions_interviewer_id'' ''calendar_subscriptions'' [''interviewer_id''] False]\<rparr>"

lemma upgrade_calendar_subscriptions: "run_statements upgrade_calendar_subscriptions candidate_attachments_catalog = Some calendar_subscriptions_catalog"
  by (simp add: upgrade_calendar_subscriptions_def candidate_attachments_catalog_def calendar_subscriptions_catalog_def statement_simps)

lemma downgrade_calendar_subscriptions: "run_statements downgrade_calendar_subscriptions calendar_subscriptions_catalog = Some candidate_attachments_catalog"
  by (simp add: downgrade_calendar_subscriptions_def candidate_attachments_catalog_def calendar_subscriptions_catalog_def statement_simps)

definition retention_controls_catalog :: catalog where
  "retention_controls_catalog = \<lparr>ct_tables =
    [(''tenants'', tenants_items), (''users'', users_items),
     (''audit_events'', audit_events_items), (''memberships'', memberships_items),
     (''outbox_events'', outbox_events_items), (''requisitions'', requisitions_items),
     (''candidate_cases'', candidate_cases_items @ [Column ''anonymized_at'' DateTime True]),
     (''notification_deliveries'', notification_deliveries_items @ [Column ''lease_owner'' (String 128) True] @ [Column ''lease_expires_at'' DateTime True]),
     (''interviews'', interviews_items), (''offers'', offers_items),
     (''approval_decisions'', approval_decisions_items),
     (''interview_feedback'', interview_feedback_items),
     (''candidate_attachments'', candidate_attachments_items),
     (''calendar_subscriptions'', calendar_subscriptions_items),
     (''retention_policies'', retention_policies_items),
     (''candidate_legal_holds'', candidate_legal_holds_items)],
   ct_indexes =
    [Index ''ix_tenants_slug'' ''tenants'' [''slug''] True,
     Index ''ix_audit_events_tenant_id'' ''audit_events'' [''tenant_id''] False,
     Index ''ix_outbox_events_topic'' ''outbox_events'' [''topic''] False,
     Index ''ix_requisitions_tenant_id'' ''requisitions'' [''tenant_id''] False,
     Index ''ix_candidate_cases_requisition_id'' ''candidate_cases'' [''requisition_id''] False,
     Index ''ix_candidate_cases_tenant_id'' ''candidate_cases'' [''tenant_id''] False,
     Index ''ix_interviews_candidate_case_id'' ''interviews'' [''candidate_case_id''] False,
     Index ''ix_interviews_interviewer_id'' ''interviews'' [''interviewer_id''] False,
     Index ''ix_interviews_tenant_id'' ''interviews'' [''tenant_id''] False,
     Index ''ix_offers_tenant_id'' ''offers'' [''tenant_id''] False,
     Index ''ix_interview_feedback_tenant_id'' ''interview_feedback'' [''tenant_id''] False,
     Index ''ix_notification_deliveries_lease_owner'' ''notification_deliveries'' [''lease_owner''] False,
     Index ''ix_candidate_attachments_candidate_case_id'' ''candidate_attachments'' [''candidate_case_id''] False,
     Index ''ix_candidate_attachments_tenant_id'' ''candidate_attachments'' [''tenant_id''] False,
     Index ''ix_calendar_subscriptions_tenant_id'' ''calendar_subscriptions'' [''tenant_id''] False,
     Index ''ix_calendar_subscriptions_interviewer_id'' ''calendar_subscriptions'' [''interviewer_id''] False,
     Index ''ix_candidate_legal_holds_tenant_id'' ''candidate_legal_holds'' [''tenant_id''] False]\<rparr>"

lemma upgrade_retention_controls: "run_statements upgrade_retention_controls calendar_subscriptions_catalog = Some retention_controls_catalog"
  by (simp add: upgrade_retention_controls_def calendar_subscriptions_catalog_def retention_controls_catalog_def statement_simps)

lemma downgrade_retention_controls: "run_statements downgrade_retention_controls retention_controls_catalog = Some calendar_subscriptions_catalog"
  by (simp add: downgrade_retention_controls_def calendar_subscriptions_catalog_def retention_controls_catalog_def statement_simps)

definition terminal_time_catalog :: catalog where
  "terminal_time_catalog = \<lparr>ct_tables =
    [(''tenants'', tenants_items), (''users'', users_items),
     (''audit_events'', audit_events_items), (''memberships'', memberships_items),
     (''outbox_events'', outbox_events_items), (''requisitions'', requisitions_items),
     (''candidate_cases'', candidate_cases_items @ [Column ''anonymized_at'' DateTime True] @ [Column ''terminal_at'' DateTime True]),
     (''notification_deliveries'', notification_deliveries_items @ [Column ''lease_owner'' (String 128) True] @ [Column ''lease_expires_at'' DateTime True]),
     (''interviews'', interviews_items), (''offers'', offers_items),
     (''approval_decisions'', approval_decisions_items),
     (''interview_feedback'', interview_feedback_items),
     (''candidate_attachments'', candidate_attachments_items),
     (''calendar_subscriptions'', calendar_subscriptions_items),
     (''retention_policies'', retention_policies_items),
     (''candidate_legal_holds'', candidate_legal_holds_items)],
   ct_indexes =
    [Index ''ix_tenants_slug'' ''tenants'' [''slug''] True,
     Index ''ix_audit_events_tenant_id'' ''audit_events'' [''tenant_id''] False,
     Index ''ix_outbox_events_topic'' ''outbox_events'' [''topic''] False,
     Index ''ix_requisitions_tenant_id'' ''requisitions'' [''tenant_id''] False,
     Index ''ix_candidate_cases_requisition_id'' ''candidate_cases'' [''requisition_id''] False,
     Index ''ix_candidate_cases_tenant_id'' ''candidate_cases'' [''tenant_id''] False,
     Index ''ix_interviews_candidate_case_id'' ''interviews'' [''candidate_case_id''] False,
     Index ''ix_interviews_interviewer_id'' ''interviews'' [''interviewer_id''] False,
     Index ''ix_interviews_tenant_id'' ''interviews'' [''tenant_id''] False,
     Index ''ix_offers_tenant_id'' ''offers'' [''tenant_id''] False,
     Index ''ix_interview_feedback_tenant_id'' ''interview_feedback'' [''tenant_id''] False,
     Index ''ix_notification_deliveries_lease_owner'' ''notification_deliveries'' [''lease_owner''] False,
     Index ''ix_candidate_attachments_candidate_case_id'' ''candidate_attachments'' [''candidate_case_id''] False,
     Index ''ix_candidate_attachments_tenant_id'' ''candidate_attachments'' [''tenant_id''] False,
     Index ''ix_calendar_subscriptions_tenant_id'' ''calendar_subscriptions'' [''tenant_id''] False,
     Index ''ix_calendar_subscriptions_interviewer_id'' ''calendar_subscriptions'' [''interviewer_id''] False,
     Index ''ix_candidate_legal_holds_tenant_id'' ''candidate_legal_holds'' [''tenant_id''] False,
     Index ''ix_candidate_cases_terminal_at'' ''candidate_cases'' [''terminal_at''] False]\<rparr>"

lemma upgrade_terminal_time: "run_statements upgrade_terminal_time retention_controls_catalog = Some terminal_time_catalog"
  by (simp add: upgrade_terminal_time_def retention_controls_catalog_def terminal_time_catalog_def statement_simps)

lemma downgrade_terminal_time: "run_statements downgrade_terminal_time terminal_time_catalog = Some retention_controls_catalog"
  by (simp add: downgrade_terminal_time_def retention_controls_catalog_def terminal_time_catalog_def statement_simps)

lemma upgrade_path_eq:
  "upgrade_path = [rev_talentflow_schema, rev_delivery_leases, rev_candidate_attachments,
     rev_calendar_subscriptions, rev_retention_controls, rev_terminal_time]"
  by (simp add: upgrade_path_def versions_def rev_talentflow_schema_def rev_delivery_leases_def
      rev_candidate_attachments_def rev_calendar_subscriptions_def rev_retention_controls_def
      rev_terminal_time_def)

lemma run_statements_append:
  "run_statements (xs @ ys) c =
    (case run_statements xs c of None \<Rightarrow> None | Some c1 \<Rightarrow> run_statements ys c1)"
  by (induction xs arbitrary: c) (auto split: option.splits)

lemmas revision_runs =
  upgrade_talentflow_schema upgrade_delivery_leases upgrade_candidate_attachments
  upgrade_calendar_subscriptions upgrade_retention_controls upgrade_terminal_time
  downgrade_talentflow_schema downgrade_delivery_leases downgrade_candidate_attachments
  downgrade_calendar_subscriptions downgrade_retention_controls downgrade_terminal_time

lemmas revision_scripts =
  rev_talentflow_schema_def rev_delivery_leases_def rev_candidate_attachments_def
  rev_calendar_subscriptions_def rev_retention_controls_def rev_terminal_time_def

lemmas run_path = upgraded_def downgraded_def upgrade_path_eq revision_scripts run_statements_append revision_runs

lemma upgraded_head: "upgraded 6 = Some terminal_time_catalog"
  by (simp add: run_path)

text \<open>
  Claim C38 (roundtrip): from every revision on, upgrading to the last one and downgrading again gives
  back the schema of that revision; the chain visits every script once.
\<close>

theorem downgrades_undo_upgrades:
  "set upgrade_path = set versions \<and> distinct (map rv_id upgrade_path) \<and>
   list_all (\<lambda>k. upgraded k \<noteq> None \<and> Option.bind (upgraded (length versions)) (downgraded k) = upgraded k)
     [0..<Suc (length versions)]"
proof -
  have l: "length versions = 6" by (simp add: versions_def)
  have s: "set upgrade_path = set versions" by (auto simp: upgrade_path_eq versions_def)
  have d: "distinct (map rv_id upgrade_path)" by (simp add: upgrade_path_eq revision_scripts)
  have "[0..<Suc 6] = [0, 1, 2, 3, 4, 5, 6]" by (simp add: upt_rec)
  then show ?thesis unfolding l using s d by (simp add: run_path)
qed

section \<open>The mapped classes\<close>

lemmas class_defs =
  Tenant_class_def User_class_def Membership_class_def Requisition_class_def
  CandidateCase_class_def RetentionPolicy_class_def CandidateLegalHold_class_def
  Attachment_class_def Interview_class_def CalendarSubscription_class_def
  InterviewFeedback_class_def Offer_class_def ApprovalDecision_class_def OutboxEvent_class_def
  NotificationDelivery_class_def AuditEvent_class_def

lemma declared_id_types [simp]:
  "declared_type ''id'' (class_columns ''candidate_cases'' Base_metadata) = Some (String 36)"
  "declared_type ''id'' (class_columns ''interviews'' Base_metadata) = Some (String 36)"
  "declared_type ''id'' (class_columns ''offers'' Base_metadata) = Some (String 36)"
  "declared_type ''id'' (class_columns ''outbox_events'' Base_metadata) = Some (String 36)"
  "declared_type ''id'' (class_columns ''requisitions'' Base_metadata) = Some (String 36)"
  "declared_type ''id'' (class_columns ''tenants'' Base_metadata) = Some (String 36)"
  "declared_type ''id'' (class_columns ''users'' Base_metadata) = Some (String 128)"
  by (simp_all add: Base_metadata_def class_defs)

lemma Tenant_class_facts [simp]:
  "class_table Tenant_class = ''tenants''"
  "well_formed (class_items Base_metadata Tenant_class)" "has_key ''id'' (class_items Base_metadata Tenant_class)"
  "columns_of (class_items Base_metadata Tenant_class) =
    [''id'', ''name'', ''slug'', ''created_at'']"
  "references (class_items Base_metadata Tenant_class) =
    []"
  "class_statements Base_metadata Tenant_class =
    [CreateTable ''tenants'' (class_items Base_metadata Tenant_class),
     CreateIndex (Index ''ix_tenants_slug'' ''tenants'' [''slug''] True)]"
  "same_set (class_items Base_metadata Tenant_class) tenants_items"
  by (simp_all add: Tenant_class_def tenants_items_def well_formed_def has_key_def same_set_def item_list_simps
      List.map_filter_def item_append_simps insert_commute)

lemma User_class_facts [simp]:
  "class_table User_class = ''users''"
  "well_formed (class_items Base_metadata User_class)" "has_key ''id'' (class_items Base_metadata User_class)"
  "columns_of (class_items Base_metadata User_class) =
    [''id'', ''email'', ''created_at'']"
  "references (class_items Base_metadata User_class) =
    []"
  "class_statements Base_metadata User_class =
    [CreateTable ''users'' (class_items Base_metadata User_class)]"
  "same_set (class_items Base_metadata User_class) users_items"
  by (simp_all add: User_class_def users_items_def well_formed_def has_key_def same_set_def item_list_simps
      List.map_filter_def item_append_simps insert_commute)

lemma Membership_class_facts [simp]:
  "class_table Membership_class = ''memberships''"
  "well_formed (class_items Base_metadata Membership_class)" "has_key ''id'' (class_items Base_metadata Membership_class)"
  "columns_of (class_items Base_metadata Membership_class) =
    [''id'', ''tenant_id'', ''user_id'', ''role'', ''created_at'']"
  "references (class_items Base_metadata Membership_class) =
    [(''tenants'', ''id''), (''users'', ''id'')]"
  "class_statements Base_metadata Membership_class =
    [CreateTable ''memberships'' (class_items Base_metadata Membership_class)]"
  "same_set (class_items Base_metadata Membership_class) memberships_items"
  by (simp_all add: Membership_class_def memberships_items_def well_formed_def has_key_def same_set_def item_list_simps
      List.map_filter_def item_append_simps insert_commute)

lemma Requisition_class_facts [simp]:
  "class_table Requisition_class = ''requisitions''"
  "well_formed (class_items Base_metadata Requisition_class)" "has_key ''id'' (class_items Base_metadata Requisition_class)"
  "columns_of (class_items Base_metadata Requisition_class) =
    [''id'', ''tenant_id'', ''title'', ''department'', ''created_by'', ''created_at'']"
  "references (class_items Base_metadata Requisition_class) =
    [(''tenants'', ''id''), (''users'', ''id'')]"
  "class_statements Base_metadata Requisition_class =
    [CreateTable ''requisitions'' (class_items Base_metadata Requisition_class),
     CreateIndex (Index ''ix_requisitions_tenant_id'' ''requisitions'' [''tenant_id''] False)]"
  "same_set (class_items Base_metadata Requisition_class) requisitions_items"
  by (simp_all add: Requisition_class_def requisitions_items_def well_formed_def has_key_def same_set_def item_list_simps
      List.map_filter_def item_append_simps insert_commute)

lemma CandidateCase_class_facts [simp]:
  "class_table CandidateCase_class = ''candidate_cases''"
  "well_formed (class_items Base_metadata CandidateCase_class)" "has_key ''id'' (class_items Base_metadata CandidateCase_class)"
  "columns_of (class_items Base_metadata CandidateCase_class) =
    [''id'', ''tenant_id'', ''requisition_id'', ''first_name'', ''last_name'', ''email'',
     ''stage'', ''version'', ''created_by'', ''created_at'', ''anonymized_at'', ''terminal_at'']"
  "references (class_items Base_metadata CandidateCase_class) =
    [(''tenants'', ''id''), (''requisitions'', ''id''), (''users'', ''id'')]"
  "class_statements Base_metadata CandidateCase_class =
    [CreateTable ''candidate_cases'' (class_items Base_metadata CandidateCase_class),
     CreateIndex (Index ''ix_candidate_cases_tenant_id'' ''candidate_cases'' [''tenant_id''] False),
     CreateIndex (Index ''ix_candidate_cases_requisition_id'' ''candidate_cases'' [''requisition_id''] False)]"
  "same_set (class_items Base_metadata CandidateCase_class) (candidate_cases_items @
      [Column ''anonymized_at'' DateTime True, Column ''terminal_at'' DateTime True])"
  by (simp_all add: CandidateCase_class_def candidate_cases_items_def well_formed_def has_key_def same_set_def item_list_simps
      List.map_filter_def item_append_simps insert_commute)

lemma RetentionPolicy_class_facts [simp]:
  "class_table RetentionPolicy_class = ''retention_policies''"
  "well_formed (class_items Base_metadata RetentionPolicy_class)" "has_key ''tenant_id'' (class_items Base_metadata RetentionPolicy_class)"
  "columns_of (class_items Base_metadata RetentionPolicy_class) =
    [''tenant_id'', ''retention_days'', ''updated_at'']"
  "references (class_items Base_metadata RetentionPolicy_class) =
    [(''tenants'', ''id'')]"
  "class_statements Base_metadata RetentionPolicy_class =
    [CreateTable ''retention_policies'' (class_items Base_metadata RetentionPolicy_class)]"
  "same_set (class_items Base_metadata RetentionPolicy_class) retention_policies_items"
  by (simp_all add: RetentionPolicy_class_def retention_policies_items_def well_formed_def has_key_def same_set_def item_list_simps
      List.map_filter_def item_append_simps insert_commute)

lemma CandidateLegalHold_class_facts [simp]:
  "class_table CandidateLegalHold_class = ''candidate_legal_holds''"
  "well_formed (class_items Base_metadata CandidateLegalHold_class)" "has_key ''candidate_case_id'' (class_items Base_metadata CandidateLegalHold_class)"
  "columns_of (class_items Base_metadata CandidateLegalHold_class) =
    [''candidate_case_id'', ''tenant_id'', ''reason'', ''created_by'', ''created_at'']"
  "references (class_items Base_metadata CandidateLegalHold_class) =
    [(''candidate_cases'', ''id''), (''tenants'', ''id''), (''users'', ''id'')]"
  "class_statements Base_metadata CandidateLegalHold_class =
    [CreateTable ''candidate_legal_holds'' (class_items Base_metadata CandidateLegalHold_class),
     CreateIndex (Index ''ix_candidate_legal_holds_tenant_id'' ''candidate_legal_holds'' [''tenant_id''] False)]"
  "same_set (class_items Base_metadata CandidateLegalHold_class) candidate_legal_holds_items"
  by (simp_all add: CandidateLegalHold_class_def candidate_legal_holds_items_def well_formed_def has_key_def same_set_def item_list_simps
      List.map_filter_def item_append_simps insert_commute)

lemma Attachment_class_facts [simp]:
  "class_table Attachment_class = ''candidate_attachments''"
  "well_formed (class_items Base_metadata Attachment_class)" "has_key ''id'' (class_items Base_metadata Attachment_class)"
  "columns_of (class_items Base_metadata Attachment_class) =
    [''id'', ''tenant_id'', ''candidate_case_id'', ''document_type'', ''original_filename'',
     ''content_type'', ''size_bytes'', ''sha256'', ''storage_key'', ''created_by'', ''created_at'']"
  "references (class_items Base_metadata Attachment_class) =
    [(''tenants'', ''id''), (''candidate_cases'', ''id''), (''users'', ''id'')]"
  "class_statements Base_metadata Attachment_class =
    [CreateTable ''candidate_attachments'' (class_items Base_metadata Attachment_class),
     CreateIndex (Index ''ix_candidate_attachments_tenant_id'' ''candidate_attachments'' [''tenant_id''] False),
     CreateIndex (Index ''ix_candidate_attachments_candidate_case_id'' ''candidate_attachments'' [''candidate_case_id''] False)]"
  "same_set (class_items Base_metadata Attachment_class) candidate_attachments_items"
  by (simp_all add: Attachment_class_def candidate_attachments_items_def well_formed_def has_key_def same_set_def item_list_simps
      List.map_filter_def item_append_simps insert_commute)

lemma Interview_class_facts [simp]:
  "class_table Interview_class = ''interviews''"
  "well_formed (class_items Base_metadata Interview_class)" "has_key ''id'' (class_items Base_metadata Interview_class)"
  "columns_of (class_items Base_metadata Interview_class) =
    [''id'', ''tenant_id'', ''candidate_case_id'', ''interviewer_id'', ''scheduled_at'',
     ''created_by'', ''created_at'']"
  "references (class_items Base_metadata Interview_class) =
    [(''tenants'', ''id''), (''candidate_cases'', ''id''), (''users'', ''id''),
     (''users'', ''id'')]"
  "class_statements Base_metadata Interview_class =
    [CreateTable ''interviews'' (class_items Base_metadata Interview_class),
     CreateIndex (Index ''ix_interviews_tenant_id'' ''interviews'' [''tenant_id''] False),
     CreateIndex (Index ''ix_interviews_candidate_case_id'' ''interviews'' [''candidate_case_id''] False),
     CreateIndex (Index ''ix_interviews_interviewer_id'' ''interviews'' [''interviewer_id''] False)]"
  "same_set (class_items Base_metadata Interview_class) interviews_items"
  by (simp_all add: Interview_class_def interviews_items_def well_formed_def has_key_def same_set_def item_list_simps
      List.map_filter_def item_append_simps insert_commute)

lemma CalendarSubscription_class_facts [simp]:
  "class_table CalendarSubscription_class = ''calendar_subscriptions''"
  "well_formed (class_items Base_metadata CalendarSubscription_class)" "has_key ''id'' (class_items Base_metadata CalendarSubscription_class)"
  "columns_of (class_items Base_metadata CalendarSubscription_class) =
    [''id'', ''tenant_id'', ''interviewer_id'', ''token_hash'', ''created_by'', ''created_at'',
     ''expires_at'', ''revoked_at'']"
  "references (class_items Base_metadata CalendarSubscription_class) =
    [(''tenants'', ''id''), (''users'', ''id''), (''users'', ''id'')]"
  "class_statements Base_metadata CalendarSubscription_class =
    [CreateTable ''calendar_subscriptions'' (class_items Base_metadata CalendarSubscription_class),
     CreateIndex (Index ''ix_calendar_subscriptions_tenant_id'' ''calendar_subscriptions'' [''tenant_id''] False),
     CreateIndex (Index ''ix_calendar_subscriptions_interviewer_id'' ''calendar_subscriptions'' [''interviewer_id''] False)]"
  "same_set (class_items Base_metadata CalendarSubscription_class) calendar_subscriptions_items"
  by (simp_all add: CalendarSubscription_class_def calendar_subscriptions_items_def well_formed_def has_key_def same_set_def item_list_simps
      List.map_filter_def item_append_simps insert_commute)

lemma InterviewFeedback_class_facts [simp]:
  "class_table InterviewFeedback_class = ''interview_feedback''"
  "well_formed (class_items Base_metadata InterviewFeedback_class)" "has_key ''id'' (class_items Base_metadata InterviewFeedback_class)"
  "columns_of (class_items Base_metadata InterviewFeedback_class) =
    [''id'', ''tenant_id'', ''interview_id'', ''interviewer_id'', ''score'', ''recommendation'',
     ''comments'', ''submitted_at'']"
  "references (class_items Base_metadata InterviewFeedback_class) =
    [(''tenants'', ''id''), (''interviews'', ''id''), (''users'', ''id'')]"
  "class_statements Base_metadata InterviewFeedback_class =
    [CreateTable ''interview_feedback'' (class_items Base_metadata InterviewFeedback_class),
     CreateIndex (Index ''ix_interview_feedback_tenant_id'' ''interview_feedback'' [''tenant_id''] False)]"
  "same_set (class_items Base_metadata InterviewFeedback_class) interview_feedback_items"
  by (simp_all add: InterviewFeedback_class_def interview_feedback_items_def well_formed_def has_key_def same_set_def item_list_simps
      List.map_filter_def item_append_simps insert_commute)

lemma Offer_class_facts [simp]:
  "class_table Offer_class = ''offers''"
  "well_formed (class_items Base_metadata Offer_class)" "has_key ''id'' (class_items Base_metadata Offer_class)"
  "columns_of (class_items Base_metadata Offer_class) =
    [''id'', ''tenant_id'', ''candidate_case_id'', ''title'', ''annual_salary'', ''currency'',
     ''status'', ''approval_step'', ''version'', ''created_by'']"
  "references (class_items Base_metadata Offer_class) =
    [(''tenants'', ''id''), (''candidate_cases'', ''id''), (''users'', ''id'')]"
  "class_statements Base_metadata Offer_class =
    [CreateTable ''offers'' (class_items Base_metadata Offer_class),
     CreateIndex (Index ''ix_offers_tenant_id'' ''offers'' [''tenant_id''] False)]"
  "same_set (class_items Base_metadata Offer_class) offers_items"
  by (simp_all add: Offer_class_def offers_items_def well_formed_def has_key_def same_set_def item_list_simps
      List.map_filter_def item_append_simps insert_commute)

lemma ApprovalDecision_class_facts [simp]:
  "class_table ApprovalDecision_class = ''approval_decisions''"
  "well_formed (class_items Base_metadata ApprovalDecision_class)" "has_key ''id'' (class_items Base_metadata ApprovalDecision_class)"
  "columns_of (class_items Base_metadata ApprovalDecision_class) =
    [''id'', ''offer_id'', ''tenant_id'', ''step'', ''actor_id'', ''decision'']"
  "references (class_items Base_metadata ApprovalDecision_class) =
    [(''offers'', ''id''), (''tenants'', ''id''), (''users'', ''id'')]"
  "class_statements Base_metadata ApprovalDecision_class =
    [CreateTable ''approval_decisions'' (class_items Base_metadata ApprovalDecision_class)]"
  "same_set (class_items Base_metadata ApprovalDecision_class) approval_decisions_items"
  by (simp_all add: ApprovalDecision_class_def approval_decisions_items_def well_formed_def has_key_def same_set_def item_list_simps
      List.map_filter_def item_append_simps insert_commute)

lemma OutboxEvent_class_facts [simp]:
  "class_table OutboxEvent_class = ''outbox_events''"
  "well_formed (class_items Base_metadata OutboxEvent_class)" "has_key ''id'' (class_items Base_metadata OutboxEvent_class)"
  "columns_of (class_items Base_metadata OutboxEvent_class) =
    [''id'', ''tenant_id'', ''topic'', ''payload_json'', ''status'', ''published_at'',
     ''created_at'']"
  "references (class_items Base_metadata OutboxEvent_class) =
    [(''tenants'', ''id'')]"
  "class_statements Base_metadata OutboxEvent_class =
    [CreateTable ''outbox_events'' (class_items Base_metadata OutboxEvent_class),
     CreateIndex (Index ''ix_outbox_events_topic'' ''outbox_events'' [''topic''] False)]"
  "same_set (class_items Base_metadata OutboxEvent_class) outbox_events_items"
  by (simp_all add: OutboxEvent_class_def outbox_events_items_def well_formed_def has_key_def same_set_def item_list_simps
      List.map_filter_def item_append_simps insert_commute)

lemma NotificationDelivery_class_facts [simp]:
  "class_table NotificationDelivery_class = ''notification_deliveries''"
  "well_formed (class_items Base_metadata NotificationDelivery_class)" "has_key ''id'' (class_items Base_metadata NotificationDelivery_class)"
  "columns_of (class_items Base_metadata NotificationDelivery_class) =
    [''id'', ''outbox_event_id'', ''tenant_id'', ''recipient_id'', ''channel'', ''status'',
     ''attempts'', ''last_error'', ''payload_json'', ''lease_owner'', ''lease_expires_at'',
     ''created_at'']"
  "references (class_items Base_metadata NotificationDelivery_class) =
    [(''outbox_events'', ''id''), (''tenants'', ''id''), (''users'', ''id'')]"
  "class_statements Base_metadata NotificationDelivery_class =
    [CreateTable ''notification_deliveries'' (class_items Base_metadata NotificationDelivery_class),
     CreateIndex (Index ''ix_notification_deliveries_lease_owner'' ''notification_deliveries'' [''lease_owner''] False)]"
  "same_set (class_items Base_metadata NotificationDelivery_class) (notification_deliveries_items @
      [Column ''lease_owner'' (String 128) True, Column ''lease_expires_at'' DateTime True])"
  by (simp_all add: NotificationDelivery_class_def notification_deliveries_items_def well_formed_def has_key_def same_set_def item_list_simps
      List.map_filter_def item_append_simps insert_commute)

lemma AuditEvent_class_facts [simp]:
  "class_table AuditEvent_class = ''audit_events''"
  "well_formed (class_items Base_metadata AuditEvent_class)" "has_key ''id'' (class_items Base_metadata AuditEvent_class)"
  "columns_of (class_items Base_metadata AuditEvent_class) =
    [''id'', ''tenant_id'', ''actor_id'', ''action'', ''aggregate_type'', ''aggregate_id'',
     ''correlation_id'', ''metadata_json'', ''created_at'']"
  "references (class_items Base_metadata AuditEvent_class) =
    [(''tenants'', ''id'')]"
  "class_statements Base_metadata AuditEvent_class =
    [CreateTable ''audit_events'' (class_items Base_metadata AuditEvent_class),
     CreateIndex (Index ''ix_audit_events_tenant_id'' ''audit_events'' [''tenant_id''] False)]"
  "same_set (class_items Base_metadata AuditEvent_class) audit_events_items"
  by (simp_all add: AuditEvent_class_def audit_events_items_def well_formed_def has_key_def same_set_def item_list_simps
      List.map_filter_def item_append_simps insert_commute)

definition metadata_catalog :: catalog where
  "metadata_catalog = \<lparr>ct_tables =
    [(''tenants'', class_items Base_metadata Tenant_class),
     (''users'', class_items Base_metadata User_class),
     (''memberships'', class_items Base_metadata Membership_class),
     (''requisitions'', class_items Base_metadata Requisition_class),
     (''candidate_cases'', class_items Base_metadata CandidateCase_class),
     (''retention_policies'', class_items Base_metadata RetentionPolicy_class),
     (''candidate_legal_holds'', class_items Base_metadata CandidateLegalHold_class),
     (''candidate_attachments'', class_items Base_metadata Attachment_class),
     (''interviews'', class_items Base_metadata Interview_class),
     (''calendar_subscriptions'', class_items Base_metadata CalendarSubscription_class),
     (''interview_feedback'', class_items Base_metadata InterviewFeedback_class),
     (''offers'', class_items Base_metadata Offer_class),
     (''approval_decisions'', class_items Base_metadata ApprovalDecision_class),
     (''outbox_events'', class_items Base_metadata OutboxEvent_class),
     (''notification_deliveries'', class_items Base_metadata NotificationDelivery_class),
     (''audit_events'', class_items Base_metadata AuditEvent_class)],
   ct_indexes =
    [Index ''ix_tenants_slug'' ''tenants'' [''slug''] True,
     Index ''ix_requisitions_tenant_id'' ''requisitions'' [''tenant_id''] False,
     Index ''ix_candidate_cases_tenant_id'' ''candidate_cases'' [''tenant_id''] False,
     Index ''ix_candidate_cases_requisition_id'' ''candidate_cases'' [''requisition_id''] False,
     Index ''ix_candidate_legal_holds_tenant_id'' ''candidate_legal_holds'' [''tenant_id''] False,
     Index ''ix_candidate_attachments_tenant_id'' ''candidate_attachments'' [''tenant_id''] False,
     Index ''ix_candidate_attachments_candidate_case_id'' ''candidate_attachments'' [''candidate_case_id''] False,
     Index ''ix_interviews_tenant_id'' ''interviews'' [''tenant_id''] False,
     Index ''ix_interviews_candidate_case_id'' ''interviews'' [''candidate_case_id''] False,
     Index ''ix_interviews_interviewer_id'' ''interviews'' [''interviewer_id''] False,
     Index ''ix_calendar_subscriptions_tenant_id'' ''calendar_subscriptions'' [''tenant_id''] False,
     Index ''ix_calendar_subscriptions_interviewer_id'' ''calendar_subscriptions'' [''interviewer_id''] False,
     Index ''ix_interview_feedback_tenant_id'' ''interview_feedback'' [''tenant_id''] False,
     Index ''ix_offers_tenant_id'' ''offers'' [''tenant_id''] False,
     Index ''ix_outbox_events_topic'' ''outbox_events'' [''topic''] False,
     Index ''ix_notification_deliveries_lease_owner'' ''notification_deliveries'' [''lease_owner''] False,
     Index ''ix_audit_events_tenant_id'' ''audit_events'' [''tenant_id''] False]\<rparr>"

lemma create_all_empty: "create_all empty_catalog = Some metadata_catalog"
proof -
  have "create_missing Base_metadata
      [Tenant_class, User_class, Membership_class, Requisition_class, CandidateCase_class,
       RetentionPolicy_class, CandidateLegalHold_class, Attachment_class, Interview_class,
       CalendarSubscription_class, InterviewFeedback_class, Offer_class, ApprovalDecision_class,
       OutboxEvent_class, NotificationDelivery_class, AuditEvent_class] empty_catalog =
    Some metadata_catalog"
    by (simp add: metadata_catalog_def statement_simps)
  then show ?thesis by (simp add: create_all_def Base_metadata_def [symmetric])
qed

lemma same_set_sym: "same_set xs ys = same_set ys xs"
  by (auto simp: same_set_def)

lemma create_missing_none:
  "list_all (\<lambda>x. has_table (class_table x) c) classes \<Longrightarrow> create_missing base classes c = Some c"
  by (induction classes) auto

text \<open>
  Claim C37 (equivalence): the schema that the revision scripts build and the one that \<open>create_all\<close>
  builds from the mapped classes have the same tables, with the same columns, types, keys, unique
  constraints and references. The indexes are the same but for \<open>ix_candidate_cases_terminal_at\<close>,
  which only the scripts create. On a migrated database \<open>create_all\<close> changes nothing.
\<close>

theorem migrations_build_models:
  "case (upgraded (length versions), create_all empty_catalog) of
     (Some c, Some m) \<Rightarrow> same_tables c m \<and>
       set (ct_indexes c) = insert
         (Index ''ix_candidate_cases_terminal_at'' ''candidate_cases'' [''terminal_at''] False)
         (set (ct_indexes m)) \<and>
       Index ''ix_candidate_cases_terminal_at'' ''candidate_cases'' [''terminal_at''] False
         \<notin> set (ct_indexes m) \<and>
       create_all c = Some c
   | _ \<Rightarrow> False"
proof -
  have l: "length versions = 6" by (simp add: versions_def)
  have t: "same_tables terminal_time_catalog metadata_catalog"
    unfolding same_tables_def
    by (simp add: same_table_def terminal_time_catalog_def metadata_catalog_def
        same_set_sym [where ys = "class_items base C" for base C])
  have i: "set (ct_indexes terminal_time_catalog) = insert
      (Index ''ix_candidate_cases_terminal_at'' ''candidate_cases'' [''terminal_at''] False)
      (set (ct_indexes metadata_catalog))"
    by (simp add: terminal_time_catalog_def metadata_catalog_def insert_commute)
  have n: "Index ''ix_candidate_cases_terminal_at'' ''candidate_cases'' [''terminal_at''] False
      \<notin> set (ct_indexes metadata_catalog)"
    by (simp add: metadata_catalog_def)
  have "create_all terminal_time_catalog = Some terminal_time_catalog"
    unfolding create_all_def by (rule create_missing_none)
      (simp add: Base_metadata_def has_table_def terminal_time_catalog_def)
  then show ?thesis using t i n by (simp add: l upgraded_head create_all_empty)
qed

end
