(* ===== verification/Table_Constraints.thy ===== *)
theory Table_Constraints
  imports Schema_Build Schema
begin

text \<open>
  The catalog and the tables of \<open>Schema\<close> side by side: the columns a row has, and the constraints of
  the catalog read over the rows. The constraints that the revision scripts declare are those the
  sessions of this development enforce, and the widths of the columns.
\<close>

section \<open>Rows as values\<close>

datatype sql_value = Null | VString string | VInteger int | VTime time | VJson json_object

fun nullable :: "('a \<Rightarrow> sql_value) \<Rightarrow> 'a option \<Rightarrow> sql_value" where
  "nullable f None = Null"
| "nullable f (Some x) = f x"

fun row_table :: "row \<Rightarrow> string" where
  "row_table (Tenant_Row x) = ''tenants''"
| "row_table (User_Row x) = ''users''"
| "row_table (Membership_Row x) = ''memberships''"
| "row_table (Requisition_Row x) = ''requisitions''"
| "row_table (Candidate_Row x) = ''candidate_cases''"
| "row_table (Policy_Row x) = ''retention_policies''"
| "row_table (Hold_Row x) = ''candidate_legal_holds''"
| "row_table (Attachment_Row x) = ''candidate_attachments''"
| "row_table (Interview_Row x) = ''interviews''"
| "row_table (Calendar_Row x) = ''calendar_subscriptions''"
| "row_table (Feedback_Row x) = ''interview_feedback''"
| "row_table (Offer_Row x) = ''offers''"
| "row_table (Decision_Row x) = ''approval_decisions''"
| "row_table (Outbox_Row x) = ''outbox_events''"
| "row_table (Delivery_Row x) = ''notification_deliveries''"
| "row_table (Audit_Row x) = ''audit_events''"

fun row_values :: "row \<Rightarrow> (string \<times> sql_value) list" where
  "row_values (Tenant_Row x) =
     [(''id'', VString (tn_id x)), (''name'', VString (tn_name x)),
      (''slug'', VString (tn_slug x)), (''created_at'', VTime (tn_created_at x))]"
| "row_values (User_Row x) =
     [(''id'', VString (us_id x)), (''email'', nullable VString (us_email x)),
      (''created_at'', VTime (us_created_at x))]"
| "row_values (Membership_Row x) =
     [(''id'', VString (mb_id x)), (''tenant_id'', VString (mb_tenant_id x)),
      (''user_id'', VString (mb_user_id x)), (''role'', VString (mb_role x)),
      (''created_at'', VTime (mb_created_at x))]"
| "row_values (Requisition_Row x) =
     [(''id'', VString (rq_id x)), (''tenant_id'', VString (rq_tenant_id x)),
      (''title'', VString (rq_title x)), (''department'', VString (rq_department x)),
      (''created_by'', VString (rq_created_by x)), (''created_at'', VTime (rq_created_at x))]"
| "row_values (Candidate_Row x) =
     [(''id'', VString (cr_id x)), (''tenant_id'', VString (cr_tenant_id x)),
      (''requisition_id'', VString (cr_requisition_id x)),
      (''first_name'', VString (cr_first_name x)), (''last_name'', VString (cr_last_name x)),
      (''email'', VString (cr_email x)), (''stage'', VString (cr_stage x)),
      (''version'', VInteger (cr_version x)), (''created_by'', VString (cr_created_by x)),
      (''created_at'', VTime (cr_created_at x)),
      (''anonymized_at'', nullable VTime (cr_anonymized_at x)),
      (''terminal_at'', nullable VTime (cr_terminal_at x))]"
| "row_values (Policy_Row x) =
     [(''tenant_id'', VString (rp_tenant_id x)),
      (''retention_days'', VInteger (rp_retention_days x)),
      (''updated_at'', VTime (rp_updated_at x))]"
| "row_values (Hold_Row x) =
     [(''candidate_case_id'', VString (lh_candidate_case_id x)),
      (''tenant_id'', VString (lh_tenant_id x)), (''reason'', VString (lh_reason x)),
      (''created_by'', VString (lh_created_by x)), (''created_at'', VTime (lh_created_at x))]"
| "row_values (Attachment_Row x) =
     [(''id'', VString (at_id x)), (''tenant_id'', VString (at_tenant_id x)),
      (''candidate_case_id'', VString (at_candidate_case_id x)),
      (''document_type'', VString (at_document_type x)),
      (''original_filename'', VString (at_original_filename x)),
      (''content_type'', VString (at_content_type x)),
      (''size_bytes'', VInteger (at_size_bytes x)), (''sha256'', VString (at_sha256 x)),
      (''storage_key'', VString (at_storage_key x)), (''created_by'', VString (at_created_by x)),
      (''created_at'', VTime (at_created_at x))]"
| "row_values (Interview_Row x) =
     [(''id'', VString (iv_id x)), (''tenant_id'', VString (iv_tenant_id x)),
      (''candidate_case_id'', VString (iv_candidate_case_id x)),
      (''interviewer_id'', VString (iv_interviewer_id x)),
      (''scheduled_at'', VTime (iv_scheduled_at x)), (''created_by'', VString (iv_created_by x)),
      (''created_at'', VTime (iv_created_at x))]"
| "row_values (Calendar_Row x) =
     [(''id'', VString (cs_id x)), (''tenant_id'', VString (cs_tenant_id x)),
      (''interviewer_id'', VString (cs_interviewer_id x)),
      (''token_hash'', VString (cs_token_hash x)), (''created_by'', VString (cs_created_by x)),
      (''created_at'', VTime (cs_created_at x)), (''expires_at'', VTime (cs_expires_at x)),
      (''revoked_at'', nullable VTime (cs_revoked_at x))]"
| "row_values (Feedback_Row x) =
     [(''id'', VString (fb_id x)), (''tenant_id'', VString (fb_tenant_id x)),
      (''interview_id'', VString (fb_interview_id x)),
      (''interviewer_id'', VString (fb_interviewer_id x)), (''score'', VInteger (fb_score x)),
      (''recommendation'', VString (fb_recommendation x)),
      (''comments'', VString (fb_comments x)), (''submitted_at'', VTime (fb_submitted_at x))]"
| "row_values (Offer_Row x) =
     [(''id'', VString (or_id x)), (''tenant_id'', VString (or_tenant_id x)),
      (''candidate_case_id'', VString (or_candidate_case_id x)),
      (''title'', VString (or_title x)), (''annual_salary'', VInteger (or_annual_salary x)),
      (''currency'', VString (or_currency x)), (''status'', VString (or_status x)),
      (''approval_step'', VInteger (or_approval_step x)), (''version'', VInteger (or_version x)),
      (''created_by'', VString (or_created_by x))]"
| "row_values (Decision_Row x) =
     [(''id'', VString (ad_id x)), (''offer_id'', VString (ad_offer_id x)),
      (''tenant_id'', VString (ad_tenant_id x)), (''step'', VInteger (ad_step x)),
      (''actor_id'', VString (ad_actor_id x)), (''decision'', VString (ad_decision x))]"
| "row_values (Outbox_Row x) =
     [(''id'', VString (ob_id x)), (''tenant_id'', VString (ob_tenant_id x)),
      (''topic'', VString (ob_topic x)), (''payload_json'', VJson (ob_payload x)),
      (''status'', VString (ob_status x)), (''published_at'', nullable VTime (ob_published_at x)),
      (''created_at'', VTime (ob_created_at x))]"
| "row_values (Delivery_Row x) =
     [(''id'', VString (nd_id x)), (''outbox_event_id'', VString (nd_outbox_event_id x)),
      (''tenant_id'', VString (nd_tenant_id x)), (''recipient_id'', VString (nd_recipient_id x)),
      (''channel'', VString (nd_channel x)), (''status'', VString (nd_status x)),
      (''attempts'', VInteger (nd_attempts x)),
      (''last_error'', nullable VString (nd_last_error x)),
      (''payload_json'', VJson (nd_payload x)),
      (''lease_owner'', nullable VString (nd_lease_owner x)),
      (''lease_expires_at'', nullable VTime (nd_lease_expires_at x)),
      (''created_at'', VTime (nd_created_at x))]"
| "row_values (Audit_Row x) =
     [(''id'', VString (ae_id x)), (''tenant_id'', VString (ae_tenant_id x)),
      (''actor_id'', VString (ae_actor_id x)), (''action'', VString (ae_action x)),
      (''aggregate_type'', VString (ae_aggregate_type x)),
      (''aggregate_id'', VString (ae_aggregate_id x)),
      (''correlation_id'', VString (ae_correlation_id x)),
      (''metadata_json'', VJson (ae_metadata x)), (''created_at'', VTime (ae_created_at x))]"

definition db_rows :: "db \<Rightarrow> row list" where
  "db_rows d =
    map Tenant_Row (tenants d) @ map User_Row (users d) @ map Membership_Row (memberships d) @
    map Requisition_Row (requisitions d) @ map Candidate_Row (candidate_cases d) @
    map Policy_Row (retention_policies d) @ map Hold_Row (legal_holds d) @
    map Attachment_Row (attachments d) @ map Interview_Row (interviews d) @
    map Calendar_Row (calendar_subscriptions d) @ map Feedback_Row (feedbacks d) @
    map Offer_Row (offers d) @ map Decision_Row (approval_decisions d) @
    map Outbox_Row (outbox_events d) @ map Delivery_Row (deliveries d) @
    map Audit_Row (audit_events d)"

definition rows_of :: "string \<Rightarrow> db \<Rightarrow> row list" where
  "rows_of t d = filter (\<lambda>r. row_table r = t) (db_rows d)"

definition column_value :: "string \<Rightarrow> row \<Rightarrow> sql_value" where
  "column_value n r = (case map_of (row_values r) n of None \<Rightarrow> Null | Some v \<Rightarrow> v)"

definition key_value :: "string list \<Rightarrow> row \<Rightarrow> sql_value list" where
  "key_value cs r = map (\<lambda>n. column_value n r) cs"

section \<open>What a catalog demands of the rows\<close>

text \<open>An integer column is 32 bits wide.\<close>

fun kind_fits :: "sql_type \<Rightarrow> bool \<Rightarrow> sql_value \<Rightarrow> bool" where
  "kind_fits ty b Null = b"
| "kind_fits ty b (VString s) = (case ty of String n \<Rightarrow> True | Text \<Rightarrow> True | _ \<Rightarrow> False)"
| "kind_fits ty b (VInteger i) = (ty = Integer)"
| "kind_fits ty b (VTime t) = (ty = DateTime)"
| "kind_fits ty b (VJson j) = (ty = JSON)"

fun width_fits :: "sql_type \<Rightarrow> sql_value \<Rightarrow> bool" where
  "width_fits (String n) (VString s) = (length s \<le> n)"
| "width_fits Integer (VInteger i) = (- (2 ^ 31) \<le> i \<and> i < 2 ^ 31)"
| "width_fits ty v = True"

definition unique_on :: "string list \<Rightarrow> row list \<Rightarrow> bool" where
  "unique_on cs rows = distinct (filter (\<lambda>k. Null \<notin> set k) (map (key_value cs) rows))"

fun item_holds :: "db \<Rightarrow> string \<Rightarrow> table_item \<Rightarrow> bool" where
  "item_holds d t (Column n ty b) = True"
| "item_holds d t (PrimaryKeyConstraint cs) = distinct (map (key_value cs) (rows_of t d))"
| "item_holds d t (UniqueConstraint cs name) = unique_on cs (rows_of t d)"
| "item_holds d t (ForeignKeyConstraint n t' k a) = list_all (\<lambda>r. column_value n r = Null \<or>
     column_value n r \<in> set (map (column_value k) (rows_of t' d))) (rows_of t d)"

fun index_holds :: "db \<Rightarrow> index \<Rightarrow> bool" where
  "index_holds d (Index n t cs u) = (u \<longrightarrow> unique_on cs (rows_of t d))"

definition constraints_hold :: "catalog \<Rightarrow> db \<Rightarrow> bool" where
  "constraints_hold c d = (list_all (\<lambda>(t, items). list_all (item_holds d t) items) (ct_tables c) \<and>
     list_all (index_holds d) (ct_indexes c))"

text \<open>A row has the columns of its table, each with a value of the column's type.\<close>

fun column_typed :: "row \<Rightarrow> table_item \<Rightarrow> bool" where
  "column_typed r (Column n ty b) = kind_fits ty b (column_value n r)"
| "column_typed r i = True"

definition row_typed :: "catalog \<Rightarrow> row \<Rightarrow> bool" where
  "row_typed c r = (case map_of (ct_tables c) (row_table r) of
     None \<Rightarrow> False
   | Some items \<Rightarrow> same_set (map fst (row_values r)) (columns_of items) \<and> list_all (column_typed r) items)"

fun column_wide :: "row \<Rightarrow> table_item \<Rightarrow> bool" where
  "column_wide r (Column n ty b) = width_fits ty (column_value n r)"
| "column_wide r i = True"

definition row_wide :: "catalog \<Rightarrow> row \<Rightarrow> bool" where
  "row_wide c r = (case map_of (ct_tables c) (row_table r) of
     None \<Rightarrow> False | Some items \<Rightarrow> list_all (column_wide r) items)"

section \<open>The constraints of each table\<close>

lemma rows_of_table [simp]:
  "rows_of ''tenants'' d = map Tenant_Row (tenants d)"
  "rows_of ''users'' d = map User_Row (users d)"
  "rows_of ''memberships'' d = map Membership_Row (memberships d)"
  "rows_of ''requisitions'' d = map Requisition_Row (requisitions d)"
  "rows_of ''candidate_cases'' d = map Candidate_Row (candidate_cases d)"
  "rows_of ''retention_policies'' d = map Policy_Row (retention_policies d)"
  "rows_of ''candidate_legal_holds'' d = map Hold_Row (legal_holds d)"
  "rows_of ''candidate_attachments'' d = map Attachment_Row (attachments d)"
  "rows_of ''interviews'' d = map Interview_Row (interviews d)"
  "rows_of ''calendar_subscriptions'' d = map Calendar_Row (calendar_subscriptions d)"
  "rows_of ''interview_feedback'' d = map Feedback_Row (feedbacks d)"
  "rows_of ''offers'' d = map Offer_Row (offers d)"
  "rows_of ''approval_decisions'' d = map Decision_Row (approval_decisions d)"
  "rows_of ''outbox_events'' d = map Outbox_Row (outbox_events d)"
  "rows_of ''notification_deliveries'' d = map Delivery_Row (deliveries d)"
  "rows_of ''audit_events'' d = map Audit_Row (audit_events d)"
  by (simp_all add: rows_of_def db_rows_def filter_map comp_def)

lemma unique_on_email: "unique_on [''email''] (map User_Row us) = distinct (List.map_filter us_email us)"
proof -
  have "filter (\<lambda>k. Null \<notin> set k) (map (key_value [''email'']) (map User_Row us)) =
      map (\<lambda>e. [VString e]) (List.map_filter us_email us)"
  proof (induction us)
    case (Cons u us)
    then show ?case
      by (cases "us_email u") (simp_all add: key_value_def column_value_def List.map_filter_def)
  qed (simp add: List.map_filter_def)
  then show ?thesis by (simp add: unique_on_def distinct_map inj_on_def)
qed

lemma distinct_key [simp]:
  "distinct (map (\<lambda>x. [VString (f x)]) xs) = distinct (map f xs)"
  "distinct (map (\<lambda>x. [VString (f x), VString (g x)]) xs) = distinct (map (\<lambda>x. (f x, g x)) xs)"
  "distinct (map (\<lambda>x. [VString (f x), VInteger (h x)]) xs) = distinct (map (\<lambda>x. (f x, h x)) xs)"
  by (simp_all add: distinct_map inj_on_def)

lemma string_ref [simp]: "VString a \<in> (\<lambda>x. VString (f x)) ` S \<longleftrightarrow> a \<in> f ` S"
  by auto

lemmas constraint_simps = key_value_def column_value_def unique_on_def filter_map comp_def list_all_iff


lemmas table_item_defs =
  tenants_items_def users_items_def audit_events_items_def
  memberships_items_def outbox_events_items_def requisitions_items_def
  candidate_cases_items_def notification_deliveries_items_def interviews_items_def
  offers_items_def approval_decisions_items_def interview_feedback_items_def
  candidate_attachments_items_def calendar_subscriptions_items_def retention_policies_items_def
  candidate_legal_holds_items_def

lemma tenants_constraints:
  "(list_all (item_holds d ''tenants'') tenants_items \<and>
    index_holds d (Index ''ix_tenants_slug'' ''tenants'' [''slug''] True)) = tenants_ok d"
  by (simp add: tenants_items_def tenants_ok_def comp_def constraint_simps)

lemma users_constraints:
  "list_all (item_holds d ''users'') users_items = users_ok d"
  by (simp add: users_items_def users_ok_def unique_on_email) (simp add: comp_def constraint_simps)

lemma memberships_constraints:
  "list_all (item_holds d ''memberships'') memberships_items = memberships_ok d"
  by (auto simp: memberships_items_def memberships_ok_def list_all_iff comp_def constraint_simps)

lemma requisitions_constraints:
  "list_all (item_holds d ''requisitions'') requisitions_items = requisitions_ok d"
  by (auto simp: requisitions_items_def requisitions_ok_def list_all_iff comp_def constraint_simps)

lemma candidate_cases_constraints:
  "list_all (item_holds d ''candidate_cases'') candidate_cases_items = candidate_cases_ok d"
  by (auto simp: candidate_cases_items_def candidate_cases_ok_def list_all_iff comp_def constraint_simps)

lemma retention_policies_constraints:
  "list_all (item_holds d ''retention_policies'') retention_policies_items = retention_policies_ok d"
  by (auto simp: retention_policies_items_def retention_policies_ok_def list_all_iff comp_def constraint_simps)

lemma legal_holds_constraints:
  "list_all (item_holds d ''candidate_legal_holds'') candidate_legal_holds_items = legal_holds_ok d"
  by (auto simp: candidate_legal_holds_items_def legal_holds_ok_def list_all_iff comp_def constraint_simps)

lemma attachments_constraints:
  "list_all (item_holds d ''candidate_attachments'') candidate_attachments_items = attachments_ok d"
  by (auto simp: candidate_attachments_items_def attachments_ok_def list_all_iff comp_def constraint_simps)

lemma interviews_constraints:
  "list_all (item_holds d ''interviews'') interviews_items = interviews_ok d"
  by (auto simp: interviews_items_def interviews_ok_def list_all_iff comp_def constraint_simps)

lemma calendar_subscriptions_constraints:
  "list_all (item_holds d ''calendar_subscriptions'') calendar_subscriptions_items = calendar_subscriptions_ok d"
  by (auto simp: calendar_subscriptions_items_def calendar_subscriptions_ok_def list_all_iff comp_def constraint_simps)

lemma feedbacks_constraints:
  "list_all (item_holds d ''interview_feedback'') interview_feedback_items = feedbacks_ok d"
  by (auto simp: interview_feedback_items_def feedbacks_ok_def list_all_iff comp_def constraint_simps)

lemma offers_constraints:
  "list_all (item_holds d ''offers'') offers_items = offers_ok d"
  by (auto simp: offers_items_def offers_ok_def list_all_iff comp_def constraint_simps)

lemma approval_decisions_constraints:
  "list_all (item_holds d ''approval_decisions'') approval_decisions_items = approval_decisions_ok d"
  by (auto simp: approval_decisions_items_def approval_decisions_ok_def list_all_iff comp_def constraint_simps)

lemma outbox_events_constraints:
  "list_all (item_holds d ''outbox_events'') outbox_events_items = outbox_events_ok d"
  by (auto simp: outbox_events_items_def outbox_events_ok_def list_all_iff comp_def constraint_simps)

lemma deliveries_constraints:
  "list_all (item_holds d ''notification_deliveries'') notification_deliveries_items = deliveries_ok d"
  by (auto simp: notification_deliveries_items_def deliveries_ok_def list_all_iff comp_def constraint_simps)

lemma audit_events_constraints:
  "list_all (item_holds d ''audit_events'') audit_events_items = audit_events_ok d"
  by (auto simp: audit_events_items_def audit_events_ok_def list_all_iff comp_def constraint_simps)

lemmas table_constraints =
  memberships_constraints requisitions_constraints candidate_cases_constraints
  retention_policies_constraints legal_holds_constraints attachments_constraints
  interviews_constraints calendar_subscriptions_constraints feedbacks_constraints
  offers_constraints approval_decisions_constraints outbox_events_constraints
  deliveries_constraints audit_events_constraints users_constraints

lemma constraints_hold_iff: "constraints_hold terminal_time_catalog d = db_ok d"
proof -
  have "constraints_hold terminal_time_catalog d =
    (list_all (item_holds d ''tenants'') tenants_items \<and>
     index_holds d (Index ''ix_tenants_slug'' ''tenants'' [''slug''] True) \<and>
     users_ok d \<and> memberships_ok d \<and> requisitions_ok d \<and>
     candidate_cases_ok d \<and> retention_policies_ok d \<and> legal_holds_ok d \<and> attachments_ok d \<and>
     interviews_ok d \<and> calendar_subscriptions_ok d \<and> feedbacks_ok d \<and> offers_ok d \<and>
     approval_decisions_ok d \<and> outbox_events_ok d \<and> deliveries_ok d \<and> audit_events_ok d)"
    by (simp add: constraints_hold_def terminal_time_catalog_def table_constraints
        del: index_holds.simps) (auto)
  then show ?thesis using tenants_constraints [of d] by (auto simp: db_ok_def)
qed

lemma nullable_fits [simp]: "(\<And>x. kind_fits ty True (f x)) \<Longrightarrow> kind_fits ty True (nullable f v)"
  by (cases v) simp_all

lemma row_typed_always: "row_typed terminal_time_catalog r"
  by (cases r) (simp_all add: row_typed_def terminal_time_catalog_def same_set_def item_append_simps
      item_list_simps column_value_def insert_commute table_item_defs)

text \<open>
  Claim C39 (type): the rows of this development have the columns that the revision scripts declare,
  each with a value of its type and null only where the column may be null; and the constraints
  those scripts declare (primary keys, unique constraints and indexes, references) hold exactly of the
  databases that a flush accepts.
\<close>

theorem schema_as_declared:
  "case upgraded (length versions) of
     Some c \<Rightarrow> list_all (row_typed c) (db_rows d) \<and> constraints_hold c d = db_ok d
   | None \<Rightarrow> False"
proof -
  have "length versions = 6" by (simp add: versions_def)
  then show ?thesis
    by (simp add: upgraded_head row_typed_always constraints_hold_iff list_all_iff)
qed

end
