(* ===== verification/Column_Widths.thy ===== *)
theory Column_Widths
  imports System Table_Constraints
begin

text \<open>
  The widths of the columns. The tables of \<open>Schema\<close> hold strings of any length and integers of any
  size; PostgreSQL refuses a value that does not fit its column. What a request writes fits the
  columns the revision scripts declare, under conditions on what the request schemas do not bound:
  the identifiers drawn, the correlation id and the salary.
\<close>

section \<open>Rows that fit\<close>

definition rows_fit :: "db \<Rightarrow> bool" where
  "rows_fit d = (case upgraded (length versions) of
     None \<Rightarrow> False | Some c \<Rightarrow> list_all (row_wide c) (db_rows d))"

definition int32 :: "int \<Rightarrow> bool" where
  "int32 i = (- (2 ^ 31) \<le> i \<and> i < 2 ^ 31)"

text \<open>The widths of the columns that are no references; those follow from what they refer to.\<close>

fun own_fits :: "row \<Rightarrow> bool" where
  "own_fits (Tenant_Row x) = (length (tn_id x) \<le> 36 \<and> length (tn_name x) \<le> 120 \<and> length (tn_slug x) \<le> 80)"
| "own_fits (User_Row x) =
     (length (us_id x) \<le> 128 \<and> (case us_email x of None \<Rightarrow> True | Some a \<Rightarrow> length a \<le> 320))"
| "own_fits (Membership_Row x) = (length (mb_id x) \<le> 36 \<and> length (mb_role x) \<le> 32)"
| "own_fits (Requisition_Row x) =
     (length (rq_id x) \<le> 36 \<and> length (rq_title x) \<le> 160 \<and> length (rq_department x) \<le> 120)"
| "own_fits (Candidate_Row x) =
     (length (cr_id x) \<le> 36 \<and> length (cr_first_name x) \<le> 100 \<and> length (cr_last_name x) \<le> 100 \<and>
      length (cr_email x) \<le> 320 \<and> length (cr_stage x) \<le> 40 \<and> int32 (cr_version x))"
| "own_fits (Policy_Row x) = int32 (rp_retention_days x)"
| "own_fits (Hold_Row x) = (length (lh_reason x) \<le> 500)"
| "own_fits (Attachment_Row x) =
     (length (at_id x) \<le> 36 \<and> length (at_document_type x) \<le> 32 \<and> length (at_original_filename x) \<le> 255 \<and>
      length (at_content_type x) \<le> 127 \<and> int32 (at_size_bytes x) \<and> length (at_sha256 x) \<le> 64 \<and>
      length (at_storage_key x) \<le> 32)"
| "own_fits (Interview_Row x) = (length (iv_id x) \<le> 36)"
| "own_fits (Calendar_Row x) = (length (cs_id x) \<le> 64 \<and> length (cs_token_hash x) \<le> 64)"
| "own_fits (Feedback_Row x) =
     (length (fb_id x) \<le> 36 \<and> int32 (fb_score x) \<and> length (fb_recommendation x) \<le> 40)"
| "own_fits (Offer_Row x) =
     (length (or_id x) \<le> 36 \<and> length (or_title x) \<le> 160 \<and> int32 (or_annual_salary x) \<and>
      length (or_currency x) \<le> 3 \<and> length (or_status x) \<le> 40 \<and> int32 (or_approval_step x) \<and>
      int32 (or_version x))"
| "own_fits (Decision_Row x) = (length (ad_id x) \<le> 36 \<and> int32 (ad_step x) \<and> length (ad_decision x) \<le> 16)"
| "own_fits (Outbox_Row x) = (length (ob_id x) \<le> 36 \<and> length (ob_topic x) \<le> 160 \<and> length (ob_status x) \<le> 20)"
| "own_fits (Delivery_Row x) =
     (length (nd_id x) \<le> 36 \<and> length (nd_channel x) \<le> 32 \<and> length (nd_status x) \<le> 20 \<and>
      int32 (nd_attempts x) \<and> (case nd_lease_owner x of None \<Rightarrow> True | Some w \<Rightarrow> length w \<le> 128))"
| "own_fits (Audit_Row x) =
     (length (ae_id x) \<le> 36 \<and> length (ae_actor_id x) \<le> 128 \<and> length (ae_action x) \<le> 120 \<and>
      length (ae_aggregate_type x) \<le> 80 \<and> length (ae_aggregate_id x) \<le> 36 \<and>
      length (ae_correlation_id x) \<le> 128)"

definition fits :: "db \<Rightarrow> bool" where
  "fits d = list_all own_fits (db_rows d)"

lemma fits_iff:
  "fits d = (list_all (\<lambda>x. own_fits (Tenant_Row x)) (tenants d) \<and> list_all (\<lambda>x. own_fits (User_Row x)) (users d) \<and>
     list_all (\<lambda>x. own_fits (Membership_Row x)) (memberships d) \<and>
     list_all (\<lambda>x. own_fits (Requisition_Row x)) (requisitions d) \<and>
     list_all (\<lambda>x. own_fits (Candidate_Row x)) (candidate_cases d) \<and>
     list_all (\<lambda>x. own_fits (Policy_Row x)) (retention_policies d) \<and>
     list_all (\<lambda>x. own_fits (Hold_Row x)) (legal_holds d) \<and>
     list_all (\<lambda>x. own_fits (Attachment_Row x)) (attachments d) \<and>
     list_all (\<lambda>x. own_fits (Interview_Row x)) (interviews d) \<and>
     list_all (\<lambda>x. own_fits (Calendar_Row x)) (calendar_subscriptions d) \<and>
     list_all (\<lambda>x. own_fits (Feedback_Row x)) (feedbacks d) \<and> list_all (\<lambda>x. own_fits (Offer_Row x)) (offers d) \<and>
     list_all (\<lambda>x. own_fits (Decision_Row x)) (approval_decisions d) \<and>
     list_all (\<lambda>x. own_fits (Outbox_Row x)) (outbox_events d) \<and>
     list_all (\<lambda>x. own_fits (Delivery_Row x)) (deliveries d) \<and>
     list_all (\<lambda>x. own_fits (Audit_Row x)) (audit_events d))"
  by (simp add: fits_def db_rows_def list.pred_map comp_def del: own_fits.simps)

lemma row_wide_nullable [simp]:
  "width_fits (String n) (nullable VString v) = (case v of None \<Rightarrow> True | Some a \<Rightarrow> length a \<le> n)"
  "width_fits DateTime (nullable VTime t)" "width_fits Text (nullable VString v)"
  by (cases v; cases t; simp)+

lemma own_fits_wide: "row_wide terminal_time_catalog r \<Longrightarrow> own_fits r"
  by (cases r) (simp_all add: row_wide_def terminal_time_catalog_def column_value_def table_item_defs int32_def)

lemma ids_fit:
  assumes "fits d"
  shows "has_tenant d i \<Longrightarrow> length i \<le> 36" "has_user d i \<Longrightarrow> length i \<le> 128"
    "has_requisition d i \<Longrightarrow> length i \<le> 36" "has_candidate d i \<Longrightarrow> length i \<le> 36"
    "has_interview d i \<Longrightarrow> length i \<le> 36" "has_offer d i \<Longrightarrow> length i \<le> 36" "has_event d i \<Longrightarrow> length i \<le> 36"
  using assms unfolding fits_iff by (auto simp: list_all_iff)

lemma set_db_rows:
  "r \<in> set (db_rows d) \<longleftrightarrow>
    (case r of
       Tenant_Row x \<Rightarrow> x \<in> set (tenants d) | User_Row x \<Rightarrow> x \<in> set (users d)
     | Membership_Row x \<Rightarrow> x \<in> set (memberships d) | Requisition_Row x \<Rightarrow> x \<in> set (requisitions d)
     | Candidate_Row x \<Rightarrow> x \<in> set (candidate_cases d) | Policy_Row x \<Rightarrow> x \<in> set (retention_policies d)
     | Hold_Row x \<Rightarrow> x \<in> set (legal_holds d) | Attachment_Row x \<Rightarrow> x \<in> set (attachments d)
     | Interview_Row x \<Rightarrow> x \<in> set (interviews d) | Calendar_Row x \<Rightarrow> x \<in> set (calendar_subscriptions d)
     | Feedback_Row x \<Rightarrow> x \<in> set (feedbacks d) | Offer_Row x \<Rightarrow> x \<in> set (offers d)
     | Decision_Row x \<Rightarrow> x \<in> set (approval_decisions d) | Outbox_Row x \<Rightarrow> x \<in> set (outbox_events d)
     | Delivery_Row x \<Rightarrow> x \<in> set (deliveries d) | Audit_Row x \<Rightarrow> x \<in> set (audit_events d))"
  by (cases r) (simp_all add: db_rows_def image_iff)

fun refs_fit :: "row \<Rightarrow> bool" where
  "refs_fit (Membership_Row x) = (length (mb_tenant_id x) \<le> 36 \<and> length (mb_user_id x) \<le> 128)"
| "refs_fit (Requisition_Row x) = (length (rq_tenant_id x) \<le> 36 \<and> length (rq_created_by x) \<le> 128)"
| "refs_fit (Candidate_Row x) = (length (cr_tenant_id x) \<le> 36 \<and> length (cr_requisition_id x) \<le> 36 \<and>
     length (cr_created_by x) \<le> 128)"
| "refs_fit (Policy_Row x) = (length (rp_tenant_id x) \<le> 36)"
| "refs_fit (Hold_Row x) = (length (lh_candidate_case_id x) \<le> 36 \<and> length (lh_tenant_id x) \<le> 36 \<and>
     length (lh_created_by x) \<le> 128)"
| "refs_fit (Attachment_Row x) = (length (at_tenant_id x) \<le> 36 \<and> length (at_candidate_case_id x) \<le> 36 \<and>
     length (at_created_by x) \<le> 128)"
| "refs_fit (Interview_Row x) = (length (iv_tenant_id x) \<le> 36 \<and> length (iv_candidate_case_id x) \<le> 36 \<and>
     length (iv_interviewer_id x) \<le> 128 \<and> length (iv_created_by x) \<le> 128)"
| "refs_fit (Calendar_Row x) = (length (cs_tenant_id x) \<le> 36 \<and> length (cs_interviewer_id x) \<le> 128 \<and>
     length (cs_created_by x) \<le> 128)"
| "refs_fit (Feedback_Row x) = (length (fb_tenant_id x) \<le> 36 \<and> length (fb_interview_id x) \<le> 36 \<and>
     length (fb_interviewer_id x) \<le> 128)"
| "refs_fit (Offer_Row x) = (length (or_tenant_id x) \<le> 36 \<and> length (or_candidate_case_id x) \<le> 36 \<and>
     length (or_created_by x) \<le> 128)"
| "refs_fit (Decision_Row x) = (length (ad_offer_id x) \<le> 36 \<and> length (ad_tenant_id x) \<le> 36 \<and>
     length (ad_actor_id x) \<le> 128)"
| "refs_fit (Outbox_Row x) = (length (ob_tenant_id x) \<le> 36)"
| "refs_fit (Delivery_Row x) = (length (nd_outbox_event_id x) \<le> 36 \<and> length (nd_tenant_id x) \<le> 36 \<and>
     length (nd_recipient_id x) \<le> 128)"
| "refs_fit (Audit_Row x) = (length (ae_tenant_id x) \<le> 36)"
| "refs_fit _ = True"

lemma db_ok_refs_fit:
  assumes ok: "db_ok d" and f: "fits d" and r: "r \<in> set (db_rows d)"
  shows "refs_fit r"
  by (cases r) (use ok r in \<open>simp add: set_db_rows db_ok_def table_ok_defs list_all_iff ids_fit [OF f] del: set_map\<close>)+

lemma wide_from_parts: "own_fits r \<Longrightarrow> refs_fit r \<Longrightarrow> row_wide terminal_time_catalog r"
  by (cases r) (simp_all add: row_wide_def terminal_time_catalog_def column_value_def table_item_defs int32_def)

lemma fits_row_wide: "db_ok d \<Longrightarrow> fits d \<Longrightarrow> r \<in> set (db_rows d) \<Longrightarrow> row_wide terminal_time_catalog r"
  by (rule wide_from_parts [OF _ db_ok_refs_fit]) (auto simp: fits_def list_all_iff)

lemma rows_fit_iff: "db_ok d \<Longrightarrow> rows_fit d = fits d"
proof -
  assume ok: "db_ok d"
  have "length versions = 6" by (simp add: versions_def)
  then have "rows_fit d = list_all (row_wide terminal_time_catalog) (db_rows d)"
    by (simp add: rows_fit_def upgraded_head)
  then show ?thesis
    using fits_row_wide [OF ok] own_fits_wide by (auto simp: fits_def list_all_iff)
qed

section \<open>Room for what a request adds\<close>

text \<open>
  Two columns of rows that fit have room left. The workflow moves only forward, so a case's version stays
  near the rank of its stage; and a subscription's identifier, drawn with 24 characters for a column
  of 64, also fits the column of the audit trail that repeats it.
\<close>

fun own_room :: "row \<Rightarrow> bool" where
  "own_room (Candidate_Row x) =
     (case CandidateStage (cr_stage x) of Inl e \<Rightarrow> True | Inr a \<Rightarrow> cr_version x \<le> 1 + int (stage_rank a))"
| "own_room (Calendar_Row x) = (length (cs_id x) \<le> 36)"
| "own_room r = True"

definition has_room :: "db \<Rightarrow> bool" where
  "has_room d = list_all own_room (db_rows d)"

definition snug_row :: "row \<Rightarrow> bool" where
  "snug_row r = (own_fits r \<and> own_room r)"

definition snug :: "db \<Rightarrow> bool" where
  "snug d = list_all snug_row (db_rows d)"

lemma snug_parts: "snug d = (fits d \<and> has_room d)"
  by (auto simp: snug_def fits_def has_room_def snug_row_def list_all_iff)

lemma snug_iff:
  "snug d = (list_all (\<lambda>x. snug_row (Tenant_Row x)) (tenants d) \<and> list_all (\<lambda>x. snug_row (User_Row x)) (users d) \<and>
     list_all (\<lambda>x. snug_row (Membership_Row x)) (memberships d) \<and>
     list_all (\<lambda>x. snug_row (Requisition_Row x)) (requisitions d) \<and>
     list_all (\<lambda>x. snug_row (Candidate_Row x)) (candidate_cases d) \<and>
     list_all (\<lambda>x. snug_row (Policy_Row x)) (retention_policies d) \<and>
     list_all (\<lambda>x. snug_row (Hold_Row x)) (legal_holds d) \<and>
     list_all (\<lambda>x. snug_row (Attachment_Row x)) (attachments d) \<and>
     list_all (\<lambda>x. snug_row (Interview_Row x)) (interviews d) \<and>
     list_all (\<lambda>x. snug_row (Calendar_Row x)) (calendar_subscriptions d) \<and>
     list_all (\<lambda>x. snug_row (Feedback_Row x)) (feedbacks d) \<and> list_all (\<lambda>x. snug_row (Offer_Row x)) (offers d) \<and>
     list_all (\<lambda>x. snug_row (Decision_Row x)) (approval_decisions d) \<and>
     list_all (\<lambda>x. snug_row (Outbox_Row x)) (outbox_events d) \<and>
     list_all (\<lambda>x. snug_row (Delivery_Row x)) (deliveries d) \<and>
     list_all (\<lambda>x. snug_row (Audit_Row x)) (audit_events d))"
  by (simp add: snug_def db_rows_def list.pred_map comp_def)

lemma snug_insert [simp]: "snug (db_insert d r) = (snug_row r \<and> snug d)"
  by (cases r) (auto simp: snug_iff)

lemma snug_insert_all: "snug (db_insert_all d rs) = (list_all snug_row rs \<and> snug d)"
  by (induction rs arbitrary: d) (auto simp: db_insert_all_def simp del: db_insert.simps)

lemma snug_update:
  "snug d \<Longrightarrow> list_all (\<lambda>x. snug_row (Candidate_Row x)) cs \<Longrightarrow> snug (d\<lparr>candidate_cases := cs\<rparr>)"
  "snug d \<Longrightarrow> list_all (\<lambda>x. snug_row (Offer_Row x)) os \<Longrightarrow> snug (d\<lparr>offers := os\<rparr>)"
  "snug d \<Longrightarrow> list_all (\<lambda>x. snug_row (Policy_Row x)) ps \<Longrightarrow> snug (d\<lparr>retention_policies := ps\<rparr>)"
  "snug d \<Longrightarrow> list_all (\<lambda>x. snug_row (Hold_Row x)) hs \<Longrightarrow> snug (d\<lparr>legal_holds := hs\<rparr>)"
  "snug d \<Longrightarrow> list_all (\<lambda>x. snug_row (Calendar_Row x)) ss \<Longrightarrow> snug (d\<lparr>calendar_subscriptions := ss\<rparr>)"
  "snug d \<Longrightarrow> list_all (\<lambda>x. snug_row (Attachment_Row x)) as \<Longrightarrow> snug (d\<lparr>attachments := as\<rparr>)"
  by (simp_all add: snug_iff)

lemma snug_rows:
  assumes "snug d"
  shows "list_all (\<lambda>x. snug_row (Candidate_Row x)) (candidate_cases d)"
    "list_all (\<lambda>x. snug_row (Offer_Row x)) (offers d)"
    "list_all (\<lambda>x. snug_row (Policy_Row x)) (retention_policies d)"
    "list_all (\<lambda>x. snug_row (Hold_Row x)) (legal_holds d)"
    "list_all (\<lambda>x. snug_row (Calendar_Row x)) (calendar_subscriptions d)"
    "list_all (\<lambda>x. snug_row (Attachment_Row x)) (attachments d)"
  using assms by (simp_all add: snug_iff)

lemma snug_ids:
  assumes "snug d"
  shows "has_tenant d i \<Longrightarrow> length i \<le> 36" "has_user d i \<Longrightarrow> length i \<le> 128"
    "has_candidate d i \<Longrightarrow> length i \<le> 36" "has_interview d i \<Longrightarrow> length i \<le> 36"
  using assms ids_fit [of d i] by (simp_all add: snug_parts)

lemma list_all_rewrite:
  "list_all R rows \<Longrightarrow> (\<And>r. r \<in> set rows \<Longrightarrow> P r \<Longrightarrow> R r \<Longrightarrow> R (f r)) \<Longrightarrow> list_all R (update_where P f rows)"
  by (auto simp: list_all_iff update_where_def)

definition short_ids :: "ctx \<Rightarrow> bool" where
  "short_ids cx = (\<forall>k. length (cx_uuid cx k) \<le> 36)"

lemma short_ids_uuid [simp]:
  "short_ids cx \<Longrightarrow> length (cx_uuid cx k) \<le> 36" "short_ids cx \<Longrightarrow> length (cx_uuid cx k) \<le> 128"
  by (auto simp: short_ids_def intro: order_trans)

section \<open>What the handlers write\<close>

lemma py_strip_length: "length (py_strip s) \<le> n" if "length s \<le> n"
proof -
  have "length (py_lstrip s) \<le> length s" for s by (simp add: py_lstrip_def length_dropWhile_le)
  from this [of "rev (py_lstrip s)"] this [of s] that show ?thesis by (simp add: py_strip_def)
qed

lemma create_tenant_snug:
  assumes "snug d" "short_ids cx" "length (ct_name c) \<le> 120" "length (ct_slug c) \<le> 80" "length (ct_admin_id c) \<le> 128"
    and "create_tenant cx c (open_session d) = Inr (t, d')"
  shows "snug d'"
  unfolding create_tenant_Inr(1) [OF assms(6)] snug_insert_all
  using assms(1-5) by (simp add: tenant_rows_def admin_rows_def snug_row_def)

lemma create_requisition_snug:
  assumes "snug d" "short_ids cx" "length (cq_title c) \<le> 160" "length (cq_department c) \<le> 120"
    and "length (cq_actor_id c) \<le> 128" "length (cq_correlation_id c) \<le> 128"
    and "create_requisition cx c (open_session d) = Inr (t, d')"
  shows "snug d'"
  unfolding create_requisition_Inr(1) [OF assms(7)] snug_insert_all
  using assms(1-6) by (simp add: requisition_rows_def snug_row_def)

lemma applied_stage [simp]: "CandidateStage ''applied'' = Inr APPLIED"
  using CandidateStage_value [of APPLIED] by simp

lemma create_candidate_snug:
  assumes "snug d" "short_ids cx" "length (kc_first_name c) \<le> 100" "length (kc_last_name c) \<le> 100"
    and "length (kc_email c) \<le> 320" "length (kc_actor_id c) \<le> 128" "length (kc_correlation_id c) \<le> 128"
    and "create_candidate cx c (open_session d) = Inr (t, d')"
  shows "snug d'"
  unfolding create_candidate_Inr(4) [OF assms(8)] snug_insert_all using assms(1-7)
  by (simp add: created_row_def created_event_def normalize_email_def py_lower_def py_strip_length int32_def snug_row_def)

lemma stage_value_length: "length (stage_value b) \<le> 40"
  by (cases b) simp_all

lemma stage_set_snug:
  assumes "snug d" "r \<in> set (candidate_cases d)" "cr_stage r = stage_value a" "b \<in> allowed_transitions a"
  shows "snug (stage_set cx r b d)"
  unfolding stage_set_def
proof (rule snug_update(1) [OF assms(1) list_all_rewrite [OF snug_rows(1) [OF assms(1)]]])
  have "snug_row (Candidate_Row r)" using snug_rows(1) [OF assms(1)] assms(2) by (simp add: list_all_iff)
  moreover have "stage_rank a < stage_rank b"
    using allowed_forward [OF assms(4)] by (simp add: less_candidate_stage_def)
  moreover have "stage_rank b \<le> 8" by (cases b) (simp_all add: stage_rank_def)
  ultimately have "int32 (cr_version r + 1)" "cr_version r + 1 \<le> 1 + int (stage_rank b)"
    by (simp_all add: snug_row_def assms(3) int32_def)
  then show "snug_row (Candidate_Row (candidate_set_stage cx (moved_case r b) x))" if "snug_row (Candidate_Row x)" for x
    using that stage_value_length by (simp add: candidate_set_stage_def snug_row_def)
qed

lemma case_id_length: "snug d \<Longrightarrow> r \<in> set (candidate_cases d) \<Longrightarrow> length (cr_id r) \<le> 36"
  by (rule snug_ids(3)) auto

lemma transition_snug:
  assumes "db_ok d" "snug d" "short_ids cx" "length (tc_actor_id c) \<le> 128" "length (tc_correlation_id c) \<le> 128"
    and "transition_candidate cx c (open_session d) = Inr (m, d')"
  shows "snug d'"
proof -
  obtain r a b where r: "r \<in> set (candidate_cases d)" "cr_stage r = stage_value a" "b \<in> allowed_transitions a"
    "d' = stage_move cx c r a b d"
    by (rule transition_candidate_Inr [OF assms(1,6)])
  then show ?thesis
    using stage_set_snug [OF assms(2) r(1-3)] case_id_length [OF assms(2) r(1)] assms(3-5)
    by (simp add: stage_move_def stage_transitioned_event_def snug_row_def del: db_insert.simps)
qed

lemma schedule_snug:
  assumes "snug d" "short_ids cx" "length (si_actor_id c) \<le> 128" "length (si_correlation_id c) \<le> 128"
    and "schedule_interview cx c (open_session d) = Inr (i, d')"
  shows "snug d'"
  unfolding schedule_interview_Inr(3) [OF assms(5)] using assms(1-4)
  by (simp add: snug_iff scheduled_row_def scheduled_event_def snug_row_def)

lemma feedback_snug:
  assumes "db_ok d" "snug d" "short_ids cx" "length (sf_actor_id c) \<le> 128" "length (sf_correlation_id c) \<le> 128"
    and "int32 (sf_score c)" "length (sf_recommendation c) \<le> 40"
    and "submit_feedback cx c (open_session d) = Inr (f, d')"
  shows "snug d'"
proof -
  obtain r where r: "r \<in> set (interviews d)" "iv_id r = sf_interview_id c"
    "d' = d\<lparr>feedbacks := feedbacks d @ [feedback_row_of cx c r], audit_events := audit_events d @ [feedback_event cx c]\<rparr>"
    by (rule submit_feedback_Inr [OF assms(1,8)])
  have "length (sf_interview_id c) \<le> 36" using snug_ids(4) [OF assms(2), of "iv_id r"] r(1) by (simp add: r(2) [symmetric])
  then show ?thesis unfolding r(3) using assms(2-7)
    by (simp add: snug_iff feedback_row_of_def feedback_event_def snug_row_def)
qed

lemma offer_creation_snug:
  assumes "db_ok d" "snug d" "short_ids cx" "length (ko_title c) \<le> 160" "int32 (ko_annual_salary c)"
    and "length (ko_currency c) \<le> 3" "create_offer cx c (open_session d) = Inr (f, d')"
  shows "snug d'"
proof -
  obtain r where r: "creation_enabled c r d" "d' = offer_creation cx c r d"
    by (rule create_offer_Inr [OF assms(1,7)])
  then have "snug (stage_set cx r OFFER_PENDING_APPROVAL d)"
    by (intro stage_set_snug [OF assms(2), of _ INTERVIEWING]) (simp_all add: creation_enabled_def)
  then show ?thesis
    using assms(3-6) by (simp add: r(2) offer_creation_def created_offer_def snug_row_def int32_def del: db_insert.simps)
qed

lemma offer_put_snug:
  assumes "offers_inv d" "snug d" "r \<in> set (offers d)"
  shows "snug (offer_put r dec d)"
  unfolding offer_put_def
proof (rule snug_update(2) [OF assms(2) list_all_rewrite [OF snug_rows(2) [OF assms(2)]]])
  have "offer_state d r \<in> set offer_states" using assms(1,3) by (simp add: offers_inv_def list_all_iff)
  then have "length (or_status r) \<le> 40" "int32 (or_version r + 1)" "int32 (or_approval_step r)"
    by (auto simp: offer_state_def offer_states_def int32_def)
  then show "snug_row (Offer_Row (offer_set (decided_offer (offer_to_domain r) dec) x))" if "snug_row (Offer_Row x)" for x
    using that by (simp add: offer_set_def decided_offer_def snug_row_def int32_def)
qed

lemma candidate_part_snug:
  assumes "candidate_part cx i t target d d'" "snug d"
  shows "snug d'"
  using assms stage_set_snug by (auto simp: candidate_part_def split: option.splits)

lemma decision_snug:
  assumes "db_ok d" "offers_inv d" "snug d" "short_ids cx" "decide_offer cx standard_policy c (open_session d) = Inr (v, d')"
  shows "snug d'"
proof -
  obtain r where w: "decision_writes cx c r d d'" by (rule decide_offer_Inr [OF assms(1,5)])
  then have r: "r \<in> set (offers d)" and dec: "do_decision c = ''approved'' \<or> do_decision c = ''rejected''"
    and step: "or_approval_step r = 1 \<or> or_approval_step r = 2"
    by (auto simp: decision_writes_def may_decide_def)
  obtain d2 where d2: "candidate_part cx (or_candidate_case_id r) (do_tenant_id c)
      (decision_target (or_approval_step r) (do_decision c)) (offer_put r (do_decision c) d) d2"
    and d': "d' = db_insert_all d2 [Decision_Row (decision_of cx c r), Outbox_Row (decision_event cx c r)]"
    using w by (auto simp: decision_writes_def)
  have "snug d2" by (rule candidate_part_snug [OF d2 offer_put_snug [OF assms(2,3) r]])
  with assms(4) dec step show ?thesis
    unfolding d' snug_insert_all by (auto simp: decision_of_def decision_event_def snug_row_def int32_def)
qed

lemma upload_snug:
  assumes "snug d" "short_ids cx" "length (uc_actor_id c) \<le> 128" "length (uc_correlation_id c) \<le> 128"
    and "valid_key (av_hex v)" "\<And>b. length (av_sha256 v b) \<le> 64" "av_max_bytes v < 2 ^ 31"
    and "upload_attachment cx v c (open_session d) files = (Inr (a, d'), files')"
  shows "snug d'"
proof -
  note r = upload_attachment_Inr [OF assms(5,8)]
  have "length (uc_filename c) \<le> 255 \<and> length (uc_document_type c) \<le> 32 \<and> length (uc_content_type c) \<le> 127 \<and>
      int (length (uc_content c)) < 2 ^ 31"
    using r(2) assms(7)
    by (auto simp: validate_upload_def Let_def ALLOWED_DOCUMENT_TYPES_def ALLOWED_CONTENT_TYPES_def pdf_type_def
        docx_type_def split: if_splits)
  moreover have "length (av_hex v) \<le> 32" using assms(5) by (simp add: valid_key_def)
  ultimately show ?thesis
    unfolding r(6) using assms(1-4,6)
    by (simp add: snug_iff attachment_row_of_def uploaded_def uploaded_event_def snug_row_def int32_def)
qed

lemma download_snug:
  assumes "snug d" "short_ids cx" "length (dc_actor_id c) \<le> 128" "length (dc_correlation_id c) \<le> 128"
    and "download_attachment cx c (open_session d) files = Inr (v, d')"
  shows "snug d'"
proof -
  obtain a path where v: "v = (a, path)" by (cases v)
  obtain r where r: "r \<in> set (attachments d)" "d' = d\<lparr>audit_events := audit_events d @ [downloaded_event cx c r]\<rparr>"
    using download_attachment_Inr [OF assms(5) [unfolded v]] by blast
  then have "length (at_id r) \<le> 36" using snug_rows(6) [OF assms(1)] by (auto simp: list_all_iff snug_row_def)
  then show ?thesis unfolding r(2) using assms(1-4) by (simp add: snug_iff downloaded_event_def snug_row_def)
qed

lemma set_policy_snug:
  assumes "snug d" "short_ids cx" "length t \<le> 36" "length a \<le> 128" "length corr \<le> 128" "int32 n"
    and "set_policy cx t n a corr (open_session d) = Inr (v, d')"
  shows "snug d'"
proof -
  obtain s where c: "session_commit cx s = Inr d'"
    and s: "s = retention_record cx (cx_uuid cx 0) t a ''retention_policy.updated'' ''retention_policy'' t corr
      [(''retention_days'', JInt n)] (retention_set_policy cx t n (open_session d))"
    using assms(7) by (auto simp: set_policy_def Let_def split: sum.splits)
  have "snug (ss_db s) \<and> list_all snug_row (ss_new s)"
    using assms(1-6) unfolding s
    by (auto simp: retention_set_policy_def retention_record_def snug_row_def split: option.splits
        intro!: snug_update(3) list_all_rewrite snug_rows(3))
  with session_commitD [OF c] show ?thesis by (simp add: snug_insert_all)
qed

lemma set_legal_hold_snug:
  assumes "snug d" "short_ids cx" "length a \<le> 128" "length corr \<le> 128"
    and "case reason of None \<Rightarrow> True | Some w \<Rightarrow> length w \<le> 500"
    and "set_legal_hold cx t i held reason a corr (open_session d) = Inr (v, d')"
  shows "snug d'"
proof -
  have i: "length i \<le> 36"
    using set_legal_hold_Inr(1) [OF assms(6)] case_id_length [OF assms(1)] by auto
  obtain s where c: "session_commit cx s = Inr d'"
    and s: "s = retention_record cx (cx_uuid cx 0) t a
      (if held then ''candidate_case.legal_hold_set'' else ''candidate_case.legal_hold_released'')
      ''candidate_case'' i corr [] (retention_set_legal_hold cx t i held reason a (open_session d))"
    using assms(6) by (auto simp: set_legal_hold_def Let_def split: sum.splits if_splits)
  have "snug_row (Hold_Row (h\<lparr>lh_reason := py_or reason (lh_reason h)\<rparr>))" if "snug_row (Hold_Row h)" for h
    using that assms(5) by (auto simp: snug_row_def py_or_def split: option.splits)
  then have "snug (d\<lparr>legal_holds := update_where P (\<lambda>h. h\<lparr>lh_reason := py_or reason (lh_reason h)\<rparr>) (legal_holds d)\<rparr>)" for P
    using assms(1) by (intro snug_update(4) list_all_rewrite snug_rows(4))
  moreover have "snug (d\<lparr>legal_holds := filter P (legal_holds d)\<rparr>)" for P
    using snug_rows(4) [OF assms(1)] by (intro snug_update(4) assms(1)) (auto simp: list_all_iff)
  moreover have "length (py_or reason ''Legal hold'') \<le> 500"
    using assms(5) by (auto simp: py_or_def split: option.splits)
  ultimately have "snug (ss_db s) \<and> list_all snug_row (ss_new s)"
    using assms(1-4) i unfolding s
    by (auto simp: retention_set_legal_hold_def retention_record_def snug_row_def Let_def split: option.splits)
  with session_commitD [OF c] show ?thesis by (simp add: snug_insert_all)
qed

lemma anonymize_snug:
  assumes "snug_row (Candidate_Row x)"
  shows "snug_row (Candidate_Row (anonymize now x))"
  using assms by (auto simp: anonymize_def redacted_email_def snug_row_def split: sum.splits)

lemma purge_snug:
  assumes "keys_valid d" "db_ok d" "snug d" "short_ids cx" "length a \<le> 128" "length corr \<le> 128"
    and "purge_due cx t a corr (open_session d) files = (Inr (n, d'), files')"
  shows "snug d'"
proof -
  note r = purge_due_Inr(2) [OF assms(1,2,7)]
  let ?ids = "map cr_id (due_cases t (cx_now cx) d)"
  have ids: "length i \<le> 36" if "i \<in> set ?ids" for i
    using that case_id_length [OF assms(3)] due_casesD(1) by auto
  have "snug_row (Audit_Row (purged_event cx t a corr p))" if "p \<in> set (List.enumerate 0 ?ids)" for p
    using that assms(4-6) ids [of "snd p"]
    by (auto simp: purged_event_def snug_row_def set_zip enumerate_eq_zip in_set_zip split: prod.splits)
  then show ?thesis
    using assms(3) anonymize_snug unfolding r purged_db_eq
    by (auto simp: snug_iff list_all_iff set_update_where)
qed

lemma create_subscription_snug:
  assumes "snug d" "short_ids cx" "length a \<le> 128" "length (ke_id k) \<le> 36" "\<And>w. length (ke_sha256 k w) \<le> 64"
    and "create_subscription cx k t i a (open_session d) = Inr (v, d')"
  shows "snug d'"
proof -
  obtain s where c: "session_commit cx s = Inr d'" and "ss_db s = d" "list_all snug_row (ss_new s)"
    using assms
    by (auto simp: create_subscription_def calendar_add_def calendar_audit_def Let_def snug_row_def
        split: sum.splits if_splits)
  with session_commitD [OF c] assms(1) show ?thesis by (simp add: snug_insert_all)
qed

lemma revoke_subscription_snug:
  assumes "snug d" "short_ids cx" "length a \<le> 128"
    and "revoke_subscription cx i t a (open_session d) = Inr (v, d')"
  shows "snug d'"
proof -
  obtain u where u: "calendar_get_owned i t (open_session d) = Some u"
    using assms(4) by (auto simp: revoke_subscription_def split: option.splits)
  then have "length (cu_id u) \<le> 36"
    using snug_rows(5) [OF assms(1)]
    by (auto simp: calendar_get_owned_def calendar_of_row_def list_all_iff snug_row_def dest!: find_SomeD)
  moreover have "snug (d\<lparr>calendar_subscriptions := update_where P (\<lambda>r. r\<lparr>cs_revoked_at := x\<rparr>) (calendar_subscriptions d)\<rparr>)" for P x
    using assms(1) by (intro snug_update(5) list_all_rewrite snug_rows(5)) (simp_all add: snug_row_def)
  ultimately obtain s where "session_commit cx s = Inr d'" "snug (ss_db s)" "list_all snug_row (ss_new s)"
    using assms u
    by (auto simp: revoke_subscription_def calendar_revoke_def calendar_audit_def Let_def snug_row_def split: sum.splits)
  then show ?thesis by (auto dest!: session_commitD simp: snug_insert_all)
qed

section \<open>Requests\<close>

text \<open>
  What the request models leave open, and the service must not exceed: the identifiers drawn, the headers that
  name a correlation id, the digest, the configured size of an attachment, and the salary.
\<close>

definition modest :: "api_env \<Rightarrow> request_headers \<Rightarrow> api_call \<Rightarrow> bool" where
  "modest E h call =
    (short_ids (ap_ctx E) \<and> valid_key (ap_hex E) \<and> length (ap_token_id E) \<le> 36 \<and>
     length (correlation E h) \<le> 128 \<and> length (correlation_or_request E h) \<le> 128 \<and>
     st_attachment_max_bytes (ap_settings E) < 2 ^ 31 \<and>
     (case call of Create_Offer i q \<Rightarrow> qo_annual_salary q < 2 ^ 31 | _ \<Rightarrow> True))"

lemma granted_lengths:
  assumes "db_ok d" "snug d" "granted E h p d a"
  shows "length (ac_tenant_id a) \<le> 36" "length (ac_actor_id a) \<le> 128"
  using require_member [OF assms(1) assms(3) [unfolded granted_def]] snug_ids(1,2) [OF assms(2)] by blast+

lemma snug_respond:
  assumes "snug d"
    and "\<And>a v d'. granted E h p d a \<Longrightarrow> ok \<Longrightarrow> handler a (open_session d) = Inr (v, d') \<Longrightarrow> snug d'"
  shows "snug (fst (snd (on_db (guarded E h p d (\<lambda>a. checked ok d (respond (err a) (resp a) (handler a) d)) d) files)))"
proof -
  obtain r d' where g: "guarded E h p d (\<lambda>a. checked ok d (respond (err a) (resp a) (handler a) d)) d = (r, d')"
    by (cases "guarded E h p d (\<lambda>a. checked ok d (respond (err a) (resp a) (handler a) d)) d")
  then have "snug d'"
    by (elim guarded_cases checked_cases respond_cases) (use assms in blast)+
  with g show ?thesis by (simp add: on_db_def)
qed

lemma snug_respond':
  assumes "snug d"
    and "\<And>a v d'. granted E h p d a \<Longrightarrow> handler a (open_session d) = Inr (v, d') \<Longrightarrow> snug d'"
  shows "snug (fst (snd (on_db (guarded E h p d (\<lambda>a. respond (err a) (resp a) (handler a) d) d) files)))"
  using snug_respond [OF assms, where ok = True] by (simp add: checked_def)

lemma modestD:
  assumes "modest E h call"
  shows "short_ids (ap_ctx E)" "valid_key (ap_hex E)" "length (ap_token_id E) \<le> 36" "length (correlation E h) \<le> 128"
    "length (correlation_or_request E h) \<le> 128" "st_attachment_max_bytes (ap_settings E) < 2 ^ 31"
  using assms by (simp_all add: modest_def)

lemma create_tenant_served:
  assumes "snug d" "short_ids (ap_ctx E)"
  shows "snug (fst (snd (serve E h (Create_Tenant q) (d, files))))"
proof -
  obtain r d' where g: "api_create_tenant E q d = (r, d')" by (cases "api_create_tenant E q d")
  have "snug d'"
    using g [unfolded api_create_tenant_def]
    by (elim checked_cases respond_cases)
      (use assms in \<open>auto simp: create_tenant_request_ok_def length_between_def elim!: create_tenant_snug [rotated -1]\<close>)
  then show ?thesis by (simp add: g on_db_def)
qed

lemma transition_served:
  assumes "db_ok d" "snug d" "modest E h (Transition i q)"
  shows "snug (fst (snd (serve E h (Transition i q) (d, files))))"
proof -
  obtain r d' where g: "api_transition E h i q d = (r, d')" by (cases "api_transition E h i q d")
  have "snug d'"
    using g [unfolded api_transition_def]
  proof (elim guarded_cases checked_cases)
    fix a assume a: "granted E h ''candidate:transition'' d a"
    let ?c = "\<lparr>tc_candidate_id = i, tc_tenant_id = ac_tenant_id a, tc_target_stage = qs_target_stage q,
           tc_expected_version = qs_expected_version q, tc_actor_id = ac_actor_id a,
           tc_correlation_id = correlation_or_request E h\<rparr>"
    assume run: "(case with_session (transition_candidate (ap_ctx E) ?c) d of
         (Inl e, d') \<Rightarrow> (Inl (transition_error e), d')
       | (Inr c, d') \<Rightarrow>
           (case List.find (\<lambda>r. cr_id r = cc_id c) (candidate_cases d') of
              None \<Rightarrow> (Inl ServerError, d')
            | Some r \<Rightarrow> (Inr \<lparr>pc_id = cr_id r, pc_requisition_id = cr_requisition_id r, pc_first_name = cr_first_name r,
                pc_last_name = cr_last_name r, pc_email = cr_email r, pc_stage = stage_value (cc_stage c),
                pc_version = cc_version c\<rparr>, d'))) = (r, d')"
    then have "d' = snd (with_session (transition_candidate (ap_ctx E) ?c) d)"
      by (auto split: prod.splits sum.splits option.splits)
    moreover have "snug (snd (with_session (transition_candidate (ap_ctx E) ?c) d))"
      using transition_snug [OF assms(1,2) modestD(1) [OF assms(3)], of ?c] modestD(5) [OF assms(3)]
        granted_lengths(2) [OF assms(1,2) a] assms(2)
      by (auto simp: with_session_def split: sum.splits)
    ultimately show ?thesis by simp
  qed (use assms(2) in simp_all)
  then show ?thesis by (simp add: g on_db_def)
qed

lemma upload_served:
  assumes "db_ok d" "snug d" "modest E h (Upload_Attachment i t f)" "\<And>w. length (ap_sha256 E w) \<le> 64"
  shows "snug (fst (snd (serve E h (Upload_Attachment i t f) (d, files))))"
proof -
  note m = modestD [OF assms(3)]
  have s: "valid_key (av_hex (attachment_service E))" "length (av_sha256 (attachment_service E) w) \<le> 64"
    "av_max_bytes (attachment_service E) < 2 ^ 31" for w
    using m assms(4) by (simp_all add: attachment_service_def)
  obtain r d' files' where g: "api_upload_attachment E h i t f (d, files) = (r, d', files')"
    by (cases "api_upload_attachment E h i t f (d, files)") auto
  have "snug d'"
    using g [unfolded api_upload_attachment_def prod.case]
    by (elim guarded_cases)
      (use assms(2) m granted_lengths(2) [OF assms(1,2)] in
        \<open>auto split: prod.splits sum.splits elim!: upload_snug [OF assms(2) m(1) _ _ s, rotated -1]\<close>)
  then show ?thesis by (simp add: g)
qed

lemma purge_served:
  assumes "well_kept d" "snug d" "modest E h Purge_Due"
  shows "snug (fst (snd (serve E h Purge_Due (d, files))))"
proof -
  note m = modestD [OF assms(3)] and ok = well_keptD(1) [OF assms(1)]
    and keys = attachments_linked_keys [OF well_keptD(10) [OF assms(1)]]
  obtain r d' files' where g: "api_purge_due E h (d, files) = (r, d', files')"
    by (cases "api_purge_due E h (d, files)") auto
  have "snug d'"
    using g [unfolded api_purge_due_def prod.case]
    by (elim guarded_cases)
      (use assms(2) m(4) granted_lengths(2) [OF ok assms(2)] in
        \<open>auto split: prod.splits sum.splits elim!: purge_snug [OF keys ok assms(2) m(1), rotated -1]\<close>)
  then show ?thesis by (simp add: g)
qed

lemma serve_snug:
  assumes w: "well_kept d" and s: "snug d" and m: "modest E h call" and sha: "\<And>w. length (ap_sha256 E w) \<le> 64"
  shows "snug (fst (snd (serve E h call (d, files))))"
proof -
  note ok = well_keptD(1) [OF w] and u = modestD(1) [OF m] and cor = modestD(4,5) [OF m]
    and len = granted_lengths [OF ok s]
  show ?thesis
  proof (cases call)
    case (Create_Tenant q)
    then show ?thesis using create_tenant_served [OF s u] by simp
  next
    case (Create_Requisition q)
    show ?thesis unfolding Create_Requisition serve.simps api_create_requisition_def
      by (intro snug_respond [OF s], rule create_requisition_snug [OF s u])
        (auto simp: create_requisition_request_ok_def length_between_def len cor)
  next
    case (Create_Candidate q)
    show ?thesis unfolding Create_Candidate serve.simps api_create_candidate_def
      by (intro snug_respond [OF s], rule create_candidate_snug [OF s u])
        (auto simp: create_candidate_request_ok_def length_between_def len cor)
  next
    case (Transition i q)
    then show ?thesis using transition_served [OF ok s] m by simp
  next
    case (Schedule_Interview i q)
    show ?thesis unfolding Schedule_Interview serve.simps api_schedule_interview_def
      by (intro snug_respond [OF s], rule schedule_snug [OF s u]) (auto simp: len cor)
  next
    case (Submit_Feedback i q)
    show ?thesis unfolding Submit_Feedback serve.simps api_submit_feedback_def
      by (intro snug_respond [OF s], rule feedback_snug [OF ok s u])
        (auto simp: submit_feedback_request_ok_def int32_def len cor)
  next
    case (Create_Offer i q)
    then have "qo_annual_salary q < 2 ^ 31" using m by (simp add: modest_def)
    then show ?thesis unfolding Create_Offer serve.simps api_create_offer_def
      by (intro snug_respond [OF s], intro offer_creation_snug [OF ok s u])
        (auto simp: create_offer_request_ok_def length_between_def int32_def)
  next
    case (Approve_Offer i q)
    show ?thesis unfolding Approve_Offer serve.simps api_approve_offer_def
      by (intro snug_respond [OF s]) (rule decision_snug [OF ok well_keptD(4) [OF w] s u])
  next
    case (Upload_Attachment i t f)
    then show ?thesis using upload_served [OF ok s _ sha] m by simp
  next
    case (Download_Attachment i a)
    show ?thesis unfolding Download_Attachment serve.simps api_download_attachment_def
      by (intro snug_respond' [OF s], rule download_snug [OF s u]) (auto simp: len cor)
  next
    case (Set_Retention_Policy q)
    show ?thesis unfolding Set_Retention_Policy serve.simps api_set_retention_policy_def
      by (intro snug_respond [OF s], rule set_policy_snug [OF s u])
        (auto simp: retention_policy_request_ok_def int32_def len cor)
  next
    case (Set_Legal_Hold i q)
    show ?thesis unfolding Set_Legal_Hold serve.simps api_set_legal_hold_def
      by (intro snug_respond [OF s], rule set_legal_hold_snug [OF s u])
        (auto simp: legal_hold_request_ok_def length_between_def len cor split: option.splits)
  next
    case Purge_Due
    then show ?thesis using purge_served [OF w s] m by simp
  next
    case (Create_Subscription q)
    show ?thesis unfolding Create_Subscription serve.simps api_create_subscription_def
      by (intro snug_respond [OF s], rule create_subscription_snug [OF s u])
        (auto simp: calendar_service_def sha modestD(3) [OF m] len)
  next
    case (Revoke_Subscription i)
    show ?thesis unfolding Revoke_Subscription serve.simps api_revoke_subscription_def
      by (intro snug_respond' [OF s], rule revoke_subscription_snug [OF s u]) (auto simp: len)
  qed
qed


section \<open>What does not fit\<close>

text \<open>A request whose correlation id is longer, or whose salary is larger, leaves a row PostgreSQL refuses.\<close>

lemma long_correlation_overflows:
  assumes "db_ok d" "create_requisition cx c (open_session d) = Inr (v, d')" "128 < length (cq_correlation_id c)"
  shows "\<not> rows_fit d'"
proof -
  note r = create_requisition_Inr [OF assms(2)]
  have "\<not> fits d'" using assms(3) by (simp add: r(1) requisition_rows_def fits_iff)
  then show ?thesis using rows_fit_iff [OF r(2)] by simp
qed

lemma large_salary_overflows:
  assumes "db_ok d" "create_offer cx c (open_session d) = Inr (f, d')" "2 ^ 31 \<le> ko_annual_salary c"
  shows "\<not> rows_fit d'"
proof -
  obtain r where r: "d' = offer_creation cx c r d" "db_ok d'" by (rule create_offer_Inr [OF assms(1,2)])
  have "\<not> fits d'" using assms(3) by (simp add: fits_iff r(1) offer_creation_tables created_offer_def int32_def)
  then show ?thesis using rows_fit_iff [OF r(2)] by simp
qed

lemma unbounded_salary: "create_offer_request_ok \<lparr>qo_title = ''Dev'', qo_annual_salary = 2 ^ 31, qo_currency = ''USD''\<rparr>"
  by (simp add: create_offer_request_ok_def length_between_def char_in_def)

section \<open>An instance\<close>

definition sample_digest :: "string \<Rightarrow> string" where
  "sample_digest w = replicate 64 (CHR ''a'')"

definition digest_api :: api_env where
  "digest_api = (sample_api sample_ctx)\<lparr>ap_sha256 := sample_digest\<rparr>"

lemma sample_snug: "snug sample_db"
proof -
  have "CandidateStage ''interviewing'' = Inr INTERVIEWING" "CandidateStage ''offer_pending_approval'' = Inr OFFER_PENDING_APPROVAL"
    using CandidateStage_value [of INTERVIEWING] CandidateStage_value [of OFFER_PENDING_APPROVAL] by simp_all
  then show ?thesis
    by (simp add: snug_iff snug_row_def int32_def sample_db_def sample_case_def sample_offer_def sample_interview_def
        empty_db_def stage_rank_def)
qed

lemma sample_modest: "modest digest_api (sample_request ''r'') sample_approval"
  by (simp add: modest_def digest_api_def sample_api_def sample_request_def short_ids_def sample_ctx_def correlation_def
      correlation_or_request_def py_or_def default_settings_def sample_approval_def)


end
