(* ===== verification/Workers.thy ===== *)
theory Workers
  imports Delivery Runtime_Settings
begin

text \<open>
  The two entry points of the notification module, \<open>run_outbox_publisher.py\<close> and
  \<open>run_email_worker.py\<close>: settings, publisher, sender and delivery loop put together. Logging and the
  disposal of the engine are left out.

  A run is None when it does not return. \<open>post k\<close> is what the \<open>k\<close>-th HTTP call answers; \<open>worker_id\<close>
  is the \<open>uuid4()\<close> the worker draws. Durations are in microseconds.
\<close>

definition outbox_publisher_main :: "ctx \<Rightarrow> db \<Rightarrow> (exn + nat) \<times> db" where
  "outbox_publisher_main cx d = with_session (publish_pending cx) d"

definition email_worker_main ::
  "settings \<Rightarrow> string \<Rightarrow> ctx \<Rightarrow> (nat \<Rightarrow> time) \<Rightarrow> (nat \<Rightarrow> mail \<Rightarrow> string option) \<Rightarrow> db \<Rightarrow>
   ((exn + nat \<times> int) \<times> db) option" where
  "email_worker_main st worker_id cx now post d =
    (case SendGridEmailAdapter (py_or (st_sendgrid_api_key st) []) (st_notification_from_email st) of
       Inl e \<Rightarrow> Some (Inl e, d)
     | Inr adapter \<Rightarrow>
         (case with_session (publish_pending cx) d of
            (Inl e, d1) \<Rightarrow> Some (Inl e, d1)
          | (Inr published, d1) \<Rightarrow>
              let w = \<lparr>dw_max_attempts = st_worker_max_attempts st,
                    dw_lease = st_worker_lease_seconds st * 1000000, dw_id = worker_id\<rparr>
              in (case deliver_pending w now (\<lambda>k. delivery_sender (post k) adapter d1) 0 0 d1 of
                    None \<Rightarrow> None
                  | Some (delivered, d2) \<Rightarrow> Some (Inr (published, delivered), d2))))"

section \<open>What becomes of the deliveries of a recipient\<close>

text \<open>
  If all attempts for a recipient have the same outcome, a row of that recipient that the run touches
  is delivered exactly when that outcome is success.
\<close>

definition settled :: "(string \<Rightarrow> bool) \<Rightarrow> (string \<Rightarrow> bool) \<Rightarrow> delivery_row \<Rightarrow> delivery_row \<Rightarrow> bool" where
  "settled P A x y = (nd_recipient_id y = nd_recipient_id x \<and>
     (P (nd_recipient_id x) \<longrightarrow> y = x \<or> (nd_status y = ''delivered'') = A (nd_recipient_id x)))"

lemma settled_trans: "settled P A x y \<Longrightarrow> settled P A y z \<Longrightarrow> settled P A x z"
  by (auto simp: settled_def)

lemma deliver_pending_settles:
  assumes "db_ok d" and send: "\<And>k n. P (nd_recipient_id n) \<Longrightarrow> (send k n = None) = A (nd_recipient_id n)"
    and "deliver_pending w now send k m d = Some (n, d')"
  shows "list_all2 (settled P A) (deliveries d) (deliveries d')"
  using assms(1,3)
proof (induction "work_left w d" arbitrary: k m d rule: less_induct)
  case less
  from claim_next_eq [OF less.prems(1), of "now k" w] show ?case
  proof (elim disjE bexE conjE)
    assume "claim_next w (now k) d = (None, d)"
    with less.prems(2) have "d' = d" by (simp add: deliver_pending.simps)
    then show ?thesis by (simp add: list_all2_refl settled_def)
  next
    fix x assume x: "x \<in> set (deliveries d)" "eligible (now k) x"
      and c: "claim_next w (now k) d = (Some (claim_row w (now k) x), put_row x (claim_row w (now k) x) d)"
    let ?res = "send k (claim_row w (now k) x)"
    let ?y = "attempt_row w (now k) ?res x"
    let ?d = "put_row x ?y d"
    have "deliver_pending w now send k m d =
        deliver_pending w now send (k + 1) (m + (if ?res = None then 1 else 0)) ?d"
      by (subst deliver_pending.simps) (simp add: c finish_attempt [OF less.prems(1) x(1)] split: option.splits)
    with less.prems(2) have run: "deliver_pending w now send (k + 1) (m + (if ?res = None then 1 else 0)) ?d = Some (n, d')"
      by simp
    have ok: "db_ok ?d" by (rule put_row_ok [OF less.prems(1) x(1)]) simp_all
    have "settled P A x ?y"
      using send [of "claim_row w (now k) x" k] by (auto simp: settled_def split: option.splits)
    then have "settled P A z (if z = x then ?y else z)" for z by (simp add: settled_def)
    then have "list_all2 (settled P A) (deliveries d) (deliveries ?d)"
      by (simp add: put_row_def list_all2_map2 list_all2_refl)
    then show ?thesis
      using less.hyps [OF work_put [OF less.prems(1) x] ok run]
      by (rule list_all2_trans [rotated]) (rule settled_trans)
  qed
qed

section \<open>A run of the email worker\<close>

text \<open>The address of a user: the first row of that id, if its address is not empty.\<close>

definition address_of :: "db \<Rightarrow> string \<Rightarrow> string option" where
  "address_of d i = (case List.find (\<lambda>u. us_id u = i) (users d) of
     None \<Rightarrow> None
   | Some u \<Rightarrow> (case us_email u of None \<Rightarrow> None | Some a \<Rightarrow> if a = [] then None else Some a))"

lemma sender_without_address:
  "address_of d (nd_recipient_id n) = None \<Longrightarrow>
    delivery_sender post a d n = Some ''Notification recipient has no email address''"
  by (auto simp: delivery_sender_def address_of_def split: option.splits if_splits)

lemma sender_with_address:
  "address_of d (nd_recipient_id n) \<noteq> None \<Longrightarrow> (\<And>m. post m = None) \<Longrightarrow> delivery_sender post a d n = None"
  by (auto simp: delivery_sender_def address_of_def adapter_send_def Let_def split: option.splits if_splits)

lemma undelivered_row:
  assumes "e \<in> set (undelivered d)"
  shows "\<exists>k. new_delivery cx k e (recipient e) \<in> set (deliveries (published_db cx d))"
proof -
  obtain i where i: "i < length (undelivered d)" "undelivered d ! i = e"
    using assms by (auto simp: in_set_conv_nth)
  have "deliveries_for cx 0 (undelivered d) ! i = new_delivery cx i e (recipient e)"
    using i by (simp add: deliveries_for_def)
  moreover have "length (deliveries_for cx 0 (undelivered d)) = length (undelivered d)"
    by (simp add: deliveries_for_def)
  ultimately have "new_delivery cx i e (recipient e) \<in> set (deliveries_for cx 0 (undelivered d))"
    using i(1) by (metis nth_mem)
  then show ?thesis by (intro exI [of _ i]) (simp add: published_db_def)
qed

text \<open>The row of an event that had none, after a run that settles every delivery.\<close>

lemma settled_event:
  assumes "e \<in> set (undelivered d)"
    and "list_all2 (run_outcome w) (deliveries (published_db cx d)) rows"
    and "list_all2 (settled P A) (deliveries (published_db cx d)) rows"
    and "\<forall>n \<in> set rows. nd_status n \<notin> {''pending'', ''retry''}"
  shows "\<exists>n \<in> set rows. nd_outbox_event_id n = ob_id e \<and>
    nd_status n \<in> {''delivered'', ''dead_letter''} \<and>
    (P (recipient e) \<longrightarrow> (nd_status n = ''delivered'') = A (recipient e))"
proof -
  obtain k where "new_delivery cx k e (recipient e) \<in> set (deliveries (published_db cx d))"
    using undelivered_row [OF assms(1)] by blast
  then obtain j where j: "j < length (deliveries (published_db cx d))"
    "deliveries (published_db cx d) ! j = new_delivery cx k e (recipient e)" by (metis in_set_conv_nth)
  define y where "y = rows ! j"
  have y: "y \<in> set rows" "run_outcome w (new_delivery cx k e (recipient e)) y"
    "settled P A (new_delivery cx k e (recipient e)) y"
    using list_all2_nthD [OF assms(2) j(1)] list_all2_nthD [OF assms(3) j(1)] list_all2_lengthD [OF assms(2)] j
    by (simp_all add: y_def)
  have ne: "y \<noteq> new_delivery cx k e (recipient e)" using assms(4) y(1) by (auto simp: new_delivery_def)
  then have "nd_outbox_event_id y = ob_id e" "nd_status y \<in> {''delivered'', ''dead_letter''}"
    using y(2) assms(4) y(1) by (auto simp: run_outcome_def new_delivery_def)
  moreover have "P (recipient e) \<longrightarrow> (nd_status y = ''delivered'') = A (recipient e)"
    using y(3) ne by (auto simp: settled_def new_delivery_def)
  ultimately show ?thesis using y(1) by blast
qed

text \<open>
  Claim C23 (liveness): a run of the email worker with a configured key and sender returns. It
  publishes every pending event; then no delivery is pending or to be retried; and the delivery of
  each event that had none is delivered or dead-lettered: dead-lettered if its recipient has no
  address, delivered if it has one and the mail service accepts what it is sent.
\<close>

theorem email_worker_drains:
  assumes "db_ok d" "outbox_lockstep d" "cx_db_up cx"
    and "distinct (map nd_id (deliveries d) @ map (cx_uuid cx) [0..<length (undelivered d)])"
    and "st_sendgrid_api_key st = Some key" "key \<noteq> []" "st_notification_from_email st \<noteq> []"
  shows "\<exists>delivered d'. email_worker_main st i cx now post d =
      Some (Inr (length (undelivered d), delivered), d') \<and> db_ok d' \<and> pending_events d' = [] \<and>
    (\<forall>n \<in> set (deliveries d'). nd_status n \<notin> {''pending'', ''retry''}) \<and>
    (\<forall>e \<in> set (undelivered d). \<exists>n \<in> set (deliveries d'). nd_outbox_event_id n = ob_id e \<and>
      nd_status n \<in> {''delivered'', ''dead_letter''} \<and>
      (address_of d (recipient e) = None \<longrightarrow> nd_status n = ''dead_letter'') \<and>
      (address_of d (recipient e) \<noteq> None \<and> (\<forall>k m. post k m = None) \<longrightarrow> nd_status n = ''delivered''))"
proof -
  define w where "w = \<lparr>dw_max_attempts = st_worker_max_attempts st,
    dw_lease = st_worker_lease_seconds st * 1000000, dw_id = i\<rparr>"
  define a where "a = \<lparr>sg_api_key = key, sg_sender = st_notification_from_email st\<rparr>"
  let ?d1 = "published_db cx d"
  let ?send = "\<lambda>k. delivery_sender (post k) a ?d1"
  have ad: "address_of ?d1 = address_of d" by (simp add: fun_eq_iff address_of_def published_db_def)
  have p: "with_session (publish_pending cx) d = (Inr (length (undelivered d)), ?d1)"
    by (rule publish_pending_result) (use assms in simp_all)
  then have ok: "db_ok ?d1"
    unfolding with_session_Inr by (rule publish_pending_Inr(3) [OF assms(1,2)])
  obtain n d' t where r: "deliver_pending w now ?send 0 0 ?d1 = Some (n, d')" "db_ok d'"
    "list_all2 (run_outcome w) (deliveries ?d1) (deliveries d')" "d'\<lparr>deliveries := deliveries ?d1\<rparr> = ?d1"
    "\<forall>x \<in> set (deliveries d'). \<not> eligible t x"
    using deliver_pending_run [OF ok, of w now ?send 0 0] by blast
  define A where "A = (\<lambda>i. address_of d i \<noteq> None)"
  define P where "P = (\<lambda>i. A i \<longrightarrow> (\<forall>k m. post k m = None))"
  have s: "list_all2 (settled P A) (deliveries ?d1) (deliveries d')"
  proof (rule deliver_pending_settles [OF ok _ r(1)])
    fix k and n :: delivery_row assume "P (nd_recipient_id n)"
    then show "(?send k n = None) = A (nd_recipient_id n)"
    proof (cases "A (nd_recipient_id n)")
      case True
      then have "address_of ?d1 (nd_recipient_id n) \<noteq> None" "\<And>m. post k m = None"
        using \<open>P (nd_recipient_id n)\<close> by (auto simp: P_def A_def ad)
      from sender_with_address [OF this] True show ?thesis by simp
    next
      case False
      then have "address_of ?d1 (nd_recipient_id n) = None" by (simp add: A_def ad)
      from sender_without_address [OF this] False show ?thesis by simp
    qed
  qed
  have closed: "\<forall>n \<in> set (deliveries d'). nd_status n \<notin> {''pending'', ''retry''}"
    using r(5) by (auto simp: eligible_def)
  have "\<exists>n \<in> set (deliveries d'). nd_outbox_event_id n = ob_id e \<and>
      nd_status n \<in> {''delivered'', ''dead_letter''} \<and>
      (address_of d (recipient e) = None \<longrightarrow> nd_status n = ''dead_letter'') \<and>
      (address_of d (recipient e) \<noteq> None \<and> (\<forall>k m. post k m = None) \<longrightarrow> nd_status n = ''delivered'')"
    if "e \<in> set (undelivered d)" for e
    using settled_event [OF that r(3) s closed] by (auto simp: P_def A_def)
  moreover have "pending_events d' = []"
    using published_none_pending [of cx d] arg_cong [OF r(4), of outbox_events] by (simp add: pending_events_def)
  moreover have "email_worker_main st i cx now post d = Some (Inr (length (undelivered d), n), d')"
    using assms(5-7) r(1) p
    by (simp add: email_worker_main_def SendGridEmailAdapter_def py_or_def Let_def a_def w_def)
  ultimately show ?thesis using r(2) closed by blast
qed

definition sample_mail_settings :: settings where
  "sample_mail_settings = default_settings\<lparr>st_sendgrid_api_key := Some ''k'', st_notification_from_email := ''a''\<rparr>"

theorem email_worker_drains_witness:
  "\<exists>delivered d'. email_worker_main sample_mail_settings ''w'' sample_ctx2 (\<lambda>k. 0) (\<lambda>k m. None) sample_outbox =
     Some (Inr (1, delivered), d') \<and> list_ex (\<lambda>n. nd_status n = ''dead_letter'') (deliveries d')"
proof -
  have u: "users sample_outbox = users sample_db" by (simp add: sample_outbox_def)
  obtain e where e: "undelivered sample_outbox = [e]"
    using sample_pending(1) by (auto simp: length_Suc_conv)
  have "address_of sample_outbox i = None" for i
    by (auto simp: address_of_def u sample_db_def dest: find_SomeD split: option.splits)
  then show ?thesis
    using email_worker_drains [OF sample_outbox_ok(1,2), of sample_ctx2 sample_mail_settings "''k''" "''w''" "\<lambda>k. 0" "\<lambda>k m. None"]
    by (fastforce simp: sample_mail_settings_def sample_outbox_ok(3) e list_ex_iff)
qed

end
