(* ===== verification/Observability.thy ===== *)
theory Observability
  imports Schema
begin

text \<open>
  The observability of \<open>app/shared/observability.py\<close>: the fields of a log line, the installation of
  the log handler, and the middleware that gives every request a correlation id and counts it.

  Counters and gauges are functions from their labels to numbers; the histogram keeps the number of its
  observations. Each process has a registry of its own, a \<open>metrics\<close>. Rendering to JSON and to the text of
  Prometheus and what OpenTelemetry does are left to the libraries.
\<close>

section \<open>Logging\<close>

record log_record =
  lr_levelname :: string
  lr_name :: string
  lr_message :: string
  lr_extra :: json_object

fun truthy_value :: "json \<Rightarrow> bool" where
  "truthy_value (JStr s) = (s \<noteq> [])"
| "truthy_value (JInt i) = (i \<noteq> 0)"

definition log_keys :: "string list" where
  "log_keys = [''event'', ''delivery_id'', ''outcome'', ''published'', ''delivered'', ''purged'']"

definition log_field :: "log_record \<Rightarrow> string \<Rightarrow> (string \<times> json) option" where
  "log_field r key =
    (case map_of (lr_extra r) key of
       None \<Rightarrow> None | Some v \<Rightarrow> if truthy_value v then Some (key, v) else None)"

text \<open>\<open>JsonFormatter.format\<close>, up to \<open>json.dumps\<close>; \<open>correlation_id\<close> is the value of the context variable.\<close>

definition log_payload :: "string option \<Rightarrow> log_record \<Rightarrow> json_object" where
  "log_payload correlation_id r =
    [(''level'', JStr (lr_levelname r)), (''logger'', JStr (lr_name r)), (''message'', JStr (lr_message r))] @
    (case correlation_id of None \<Rightarrow> [] | Some c \<Rightarrow> if c = [] then [] else [(''correlation_id'', JStr c)]) @
    List.map_filter (log_field r) log_keys"

text \<open>\<open>configure_logging\<close> on the root logger's handlers; True is a handler with the JSON formatter.\<close>

definition configure_logging :: "bool list \<Rightarrow> bool list" where
  "configure_logging handlers = (if list_ex (\<lambda>json. json) handlers then handlers else [True])"

lemma configure_logging_once: "configure_logging (configure_logging handlers) = configure_logging handlers"
  by (simp add: configure_logging_def)

text \<open>A run that delivers or publishes nothing logs no such field.\<close>

lemma log_field_key: "log_field r key = Some x \<Longrightarrow> fst x = key"
  by (auto simp: log_field_def split: option.splits if_splits)

lemma log_drops_zero:
  assumes "map_of (lr_extra r) ''published'' = Some (JInt 0)"
  shows "''published'' \<notin> fst ` set (List.map_filter (log_field r) log_keys)"
proof
  assume "''published'' \<in> fst ` set (List.map_filter (log_field r) log_keys)"
  then obtain key x where k: "log_field r key = Some x" "fst x = ''published''"
    by (fastforce simp: List.map_filter_def)
  then have "key = ''published''" using log_field_key by metis
  with k(1) assms show False by (simp add: log_field_def)
qed

section \<open>The middleware\<close>

text \<open>What the application makes of a request: an answer, of which status and headers matter here, or an
  exception that propagates.\<close>

datatype app_result = Responded nat "(string \<times> string) list" | Raised

record metrics =
  mt_http_requests :: "string \<times> string \<times> nat \<Rightarrow> nat"
  mt_http_duration :: "string \<times> string \<Rightarrow> nat"
  mt_command_conflicts :: "string \<Rightarrow> nat"
  mt_outbox_backlog :: nat
  mt_delivery_attempts :: "string \<Rightarrow> nat"
  mt_dead_letters :: nat
  mt_worker_claims :: "string \<Rightarrow> nat"
  mt_rate_limit_rejections :: nat

definition no_metrics :: metrics where
  "no_metrics = \<lparr>mt_http_requests = (\<lambda>_. 0), mt_http_duration = (\<lambda>_. 0), mt_command_conflicts = (\<lambda>_. 0),
     mt_outbox_backlog = 0, mt_delivery_attempts = (\<lambda>_. 0), mt_dead_letters = 0, mt_worker_claims = (\<lambda>_. 0),
     mt_rate_limit_rejections = 0\<rparr>"

text \<open>\<open>c.labels(l).inc()\<close>.\<close>

definition bump :: "'l \<Rightarrow> ('l \<Rightarrow> nat) \<Rightarrow> 'l \<Rightarrow> nat" where
  "bump l c = c(l := c l + 1)"

definition count_conflict :: "string \<Rightarrow> metrics \<Rightarrow> metrics" where
  "count_conflict aggregate_type m = m\<lparr>mt_command_conflicts := bump aggregate_type (mt_command_conflicts m)\<rparr>"

definition count_claim :: "string \<Rightarrow> metrics \<Rightarrow> metrics" where
  "count_claim outcome m = m\<lparr>mt_worker_claims := bump outcome (mt_worker_claims m)\<rparr>"

definition count_attempt :: "string \<Rightarrow> metrics \<Rightarrow> metrics" where
  "count_attempt outcome m = m\<lparr>mt_delivery_attempts := bump outcome (mt_delivery_attempts m)\<rparr>"

definition count_dead_letter :: "metrics \<Rightarrow> metrics" where
  "count_dead_letter m = m\<lparr>mt_dead_letters := mt_dead_letters m + 1\<rparr>"

definition count_rejection :: "metrics \<Rightarrow> metrics" where
  "count_rejection m = m\<lparr>mt_rate_limit_rejections := mt_rate_limit_rejections m + 1\<rparr>"

definition set_backlog :: "nat \<Rightarrow> metrics \<Rightarrow> metrics" where
  "set_backlog n m = m\<lparr>mt_outbox_backlog := n\<rparr>"

definition count_request :: "string \<Rightarrow> string \<Rightarrow> nat \<Rightarrow> metrics \<Rightarrow> metrics" where
  "count_request meth route status m = m\<lparr>
     mt_http_requests := bump (meth, route, status) (mt_http_requests m),
     mt_http_duration := bump (meth, route) (mt_http_duration m)\<rparr>"

text \<open>Setting a header replaces the one of that name.\<close>

definition set_header :: "string \<Rightarrow> string \<Rightarrow> (string \<times> string) list \<Rightarrow> (string \<times> string) list" where
  "set_header n v hs = filter (\<lambda>(m, _). m \<noteq> n) hs @ [(n, v)]"

text \<open>
  \<open>observe_request\<close>. The rest of the application gets the correlation id and answers its result, the
  path of the route that matched, if one did, and the metrics it leaves. An exception passes through
  after the context variable is reset: nothing is counted and no header is set.
\<close>

definition observe_request ::
  "string option \<Rightarrow> string \<Rightarrow> string \<Rightarrow> string \<Rightarrow> (string \<Rightarrow> app_result \<times> string option \<times> metrics \<times> 's) \<Rightarrow>
   app_result \<times> metrics \<times> 's" where
  "observe_request header uuid meth path call_next =
    (let correlation_id = py_or header uuid
     in case call_next correlation_id of
          (Raised, _, m, s) \<Rightarrow> (Raised, m, s)
        | (Responded status hs, route, m, s) \<Rightarrow>
            (let route_path = (case route of None \<Rightarrow> path | Some r \<Rightarrow> r)
             in (Responded status (set_header ''X-Correlation-Id'' correlation_id hs),
                 count_request meth route_path status m, s)))"

text \<open>
  \<open>instrument_app\<close>: OpenTelemetry is installed on an application once, by the flag in its state; the
  observer is added with every call.
\<close>

record instrumentation =
  is_otel_instrumented :: bool
  is_otel_installs :: nat
  is_observers :: nat

definition instrument_app :: "instrumentation \<Rightarrow> instrumentation" where
  "instrument_app a =
    (let a1 = (if \<not> is_otel_instrumented a
               then a\<lparr>is_otel_installs := is_otel_installs a + 1, is_otel_instrumented := True\<rparr> else a)
     in a1\<lparr>is_observers := is_observers a1 + 1\<rparr>)"

lemma instrument_twice:
  assumes "\<not> is_otel_instrumented a"
  shows "is_otel_installs (instrument_app (instrument_app a)) = is_otel_installs a + 1"
    "is_observers (instrument_app (instrument_app a)) = is_observers a + 2"
  using assms by (simp_all add: instrument_app_def Let_def)

lemma observe_cases:
  assumes "observe_request header uuid meth path f = (r, m', s')"
  obtains (raised) route where "f (py_or header uuid) = (Raised, route, m', s')" "r = Raised"
  | (responded) status hs route m where "f (py_or header uuid) = (Responded status hs, route, m, s')"
      "r = Responded status (set_header ''X-Correlation-Id'' (py_or header uuid) hs)"
      "m' = count_request meth (case route of None \<Rightarrow> path | Some p \<Rightarrow> p) status m"
  using assms by (auto simp: observe_request_def Let_def split: app_result.splits prod.splits)

lemma set_header_lookup: "map_of (set_header n v hs) n = Some v"
proof -
  have "map_of (filter (\<lambda>(m, _). m \<noteq> n) hs) n = None" by (induction hs) auto
  then show ?thesis by (simp add: set_header_def map_add_def)
qed

lemma set_header_other: "n \<noteq> k \<Longrightarrow> map_of (set_header n v hs) k = map_of hs k"
proof -
  assume "n \<noteq> k"
  then have "map_of (filter (\<lambda>(m, _). m \<noteq> n) hs) k = map_of hs k" by (induction hs) auto
  with \<open>n \<noteq> k\<close> show ?thesis by (simp add: set_header_def map_add_def split: option.splits)
qed

end
