(* ===== verification/Worker_Metrics.thy ===== *)
theory Worker_Metrics
  imports Workers Observability
begin

text \<open>
  The counters of the notification workers: the publisher's gauge of the backlog and the delivery loop
  with what it counts. Without its counters the loop is \<open>deliver_pending\<close>; the counters account for its
  attempts and for the rows it leaves.
\<close>

section \<open>The publisher\<close>

definition backlog :: "db \<Rightarrow> nat" where
  "backlog d = length (filter (\<lambda>e. ob_status e = ''pending'') (outbox_events d))"

text \<open>The gauge is set after the commit; an exception leaves it alone.\<close>

definition publish_metered :: "ctx \<Rightarrow> db \<Rightarrow> metrics \<Rightarrow> (exn + nat) \<times> metrics \<times> db" where
  "publish_metered cx d m =
    (case with_session (publish_pending cx) d of
       (Inl e, d') \<Rightarrow> (Inl e, m, d')
     | (Inr n, d') \<Rightarrow> (Inr n, set_backlog (backlog d') m, d'))"

section \<open>The delivery loop\<close>

definition claim_outcome :: "delivery_worker \<Rightarrow> time \<Rightarrow> db \<Rightarrow> string" where
  "claim_outcome w now d =
    (case claim_select now d of
       None \<Rightarrow> ''empty''
     | Some i \<Rightarrow> if fst (claim_update w now i d) then ''claimed'' else ''contended'')"

definition count_mark :: "delivery_worker \<Rightarrow> string \<Rightarrow> db \<Rightarrow> metrics \<Rightarrow> metrics" where
  "count_mark w i d m = (if rowcount (held_by w i) (deliveries d) = 1 then count_attempt ''delivered'' m else m)"

definition count_failure :: "delivery_worker \<Rightarrow> string \<Rightarrow> db \<Rightarrow> metrics \<Rightarrow> metrics" where
  "count_failure w i d m =
    (case List.find (held_by w i) (deliveries d) of
       None \<Rightarrow> m
     | Some found \<Rightarrow>
         if nd_attempts found \<ge> dw_max_attempts w then count_dead_letter (count_attempt ''dead_letter'' m)
         else count_attempt ''retry'' m)"

partial_function (option) deliver_metered ::
  "delivery_worker \<Rightarrow> (nat \<Rightarrow> time) \<Rightarrow> (nat \<Rightarrow> delivery_row \<Rightarrow> string option) \<Rightarrow> nat \<Rightarrow> int \<Rightarrow> metrics \<Rightarrow> db \<Rightarrow>
   (int \<times> metrics \<times> db) option" where
  "deliver_metered w now send k delivered m d =
    (case claim_next w (now k) d of
       (None, d1) \<Rightarrow> Some (delivered, count_claim (claim_outcome w (now k) d) m, d1)
     | (Some n, d1) \<Rightarrow>
         (case send k n of
            Some error \<Rightarrow>
              deliver_metered w now send (k + 1) delivered
                (count_failure w (nd_id n) d1 (count_claim (claim_outcome w (now k) d) m))
                (fail_delivery w (nd_id n) error d1)
          | None \<Rightarrow>
              deliver_metered w now send (k + 1) (delivered + 1)
                (count_mark w (nd_id n) d1 (count_claim (claim_outcome w (now k) d) m))
                (mark_delivered w (nd_id n) d1)))"

section \<open>What the counters say\<close>

text \<open>The attempts and dead letters of a table.\<close>

definition count_dead :: "db \<Rightarrow> nat" where
  "count_dead d = length (filter (\<lambda>n. nd_status n = ''dead_letter'') (deliveries d))"

definition attempts_made :: "db \<Rightarrow> int" where
  "attempts_made d = sum_list (map nd_attempts (deliveries d))"

lemma claim_outcome_cases:
  assumes "db_ok d"
  shows "\<forall>n \<in> set (deliveries d). \<not> eligible t n \<Longrightarrow> claim_outcome w t d = ''empty''"
    "n \<in> set (deliveries d) \<Longrightarrow> eligible t n \<Longrightarrow> claim_outcome w t d = ''claimed''"
proof -
  show "claim_outcome w t d = ''empty''" if "\<forall>n \<in> set (deliveries d). \<not> eligible t n"
    using that claim_select_None [of t d] by (simp add: claim_outcome_def)
  show "claim_outcome w t d = ''claimed''" if n: "n \<in> set (deliveries d)" "eligible t n"
  proof -
    obtain i where i: "claim_select t d = Some i" using n claim_select_None [of t d] by (cases "claim_select t d") auto
    obtain x where x: "x \<in> set (deliveries d)" "eligible t x" "i = nd_id x" by (rule claim_select_Some [OF i])
    show ?thesis by (simp add: claim_outcome_def i x(3) claim_update_hit [OF db_ok_keys(5) [OF assms] x(1,2)])
  qed
qed

text \<open>One attempt: what is counted of it.\<close>

definition attempt_outcome_of :: "delivery_worker \<Rightarrow> bool \<Rightarrow> delivery_row \<Rightarrow> string" where
  "attempt_outcome_of w sent n =
    (if sent then ''delivered'' else if nd_attempts n + 1 \<ge> dw_max_attempts w then ''dead_letter'' else ''retry'')"

definition count_round :: "string \<Rightarrow> metrics \<Rightarrow> metrics" where
  "count_round outcome m =
    (let m1 = count_attempt outcome (count_claim ''claimed'' m)
     in if outcome = ''dead_letter'' then count_dead_letter m1 else m1)"

lemma counted_round:
  assumes ok: "db_ok d" and n: "n \<in> set (deliveries d)"
  shows "count_mark w (nd_id n) (put_row n (claim_row w t n) d) (count_claim ''claimed'' m) =
      count_round (attempt_outcome_of w True n) m"
    "count_failure w (nd_id n) (put_row n (claim_row w t n) d) (count_claim ''claimed'' m) =
      count_round (attempt_outcome_of w False n) m"
proof -
  let ?n = "claim_row w t n" and ?d = "put_row n (claim_row w t n) d"
  have d1: "distinct (map nd_id (deliveries ?d))" using db_ok_keys(5) [OF ok] by (simp add: put_row_ids)
  have n1: "?n \<in> set (deliveries ?d)" using put_row_set [OF n] .
  have f: "List.find (held_by w (nd_id n)) (deliveries ?d) = Some ?n"
    by (rule find_unique [OF n1]) (use key_unique [OF d1 _ n1] in \<open>auto simp: held_by_def\<close>)
  have "held_by w (nd_id n) = (\<lambda>x. nd_id x = nd_id n \<and> nd_status x = ''processing'' \<and> nd_lease_owner x = Some (dw_id w))"
    by (simp add: fun_eq_iff held_by_def)
  with f have "rowcount (held_by w (nd_id n)) (deliveries ?d) = 1" using rowcount_key [OF d1, of "nd_id n"] by simp
  then show "count_mark w (nd_id n) ?d (count_claim ''claimed'' m) = count_round (attempt_outcome_of w True n) m"
    by (simp add: count_mark_def count_round_def attempt_outcome_of_def)
  show "count_failure w (nd_id n) ?d (count_claim ''claimed'' m) = count_round (attempt_outcome_of w False n) m"
    by (simp add: count_failure_def f count_round_def attempt_outcome_of_def)
qed

lemma deliver_metered_unfold:
  assumes ok: "db_ok d"
  shows "(\<forall>n \<in> set (deliveries d). \<not> eligible (now k) n) \<and>
      deliver_metered w now send k j m d = Some (j, count_claim ''empty'' m, d) \<and>
      deliver_pending w now send k j d = Some (j, d) \<or>
    (\<exists>n \<in> set (deliveries d). \<exists>res. eligible (now k) n \<and>
      deliver_metered w now send k j m d = deliver_metered w now send (k + 1)
        (j + (if res = None then 1 else 0)) (count_round (attempt_outcome_of w (res = None) n) m)
        (put_row n (attempt_row w (now k) res n) d) \<and>
      deliver_pending w now send k j d = deliver_pending w now send (k + 1)
        (j + (if res = None then 1 else 0)) (put_row n (attempt_row w (now k) res n) d))"
  using claim_next_eq [OF ok, of "now k" w]
proof (elim disjE bexE conjE)
  assume "claim_next w (now k) d = (None, d)" and e: "\<forall>n \<in> set (deliveries d). \<not> eligible (now k) n"
  then show ?thesis by (simp add: deliver_metered.simps deliver_pending.simps claim_outcome_cases(1) [OF ok])
next
  fix n assume n: "n \<in> set (deliveries d)" "eligible (now k) n"
    and c: "claim_next w (now k) d = (Some (claim_row w (now k) n), put_row n (claim_row w (now k) n) d)"
  let ?res = "send k (claim_row w (now k) n)"
  have "deliver_metered w now send k j m d = deliver_metered w now send (k + 1)
      (j + (if ?res = None then 1 else 0)) (count_round (attempt_outcome_of w (?res = None) n) m)
      (put_row n (attempt_row w (now k) ?res n) d)"
    by (subst deliver_metered.simps)
      (simp add: c claim_outcome_cases(2) [OF ok n] counted_round [OF ok n(1)] finish_attempt [OF ok n(1)] split: option.splits)
  moreover have "deliver_pending w now send k j d = deliver_pending w now send (k + 1)
      (j + (if ?res = None then 1 else 0)) (put_row n (attempt_row w (now k) ?res n) d)"
    by (subst deliver_pending.simps) (simp add: c finish_attempt [OF ok n(1)] split: option.splits)
  ultimately show ?thesis using n by blast
qed


lemma sum_put_int:
  assumes "distinct rows" "n \<in> set rows"
  shows "sum_list (map f (map (\<lambda>x. if x = n then n' else x) rows)) + f n = sum_list (map f rows) + (f n' :: int)"
  using assms
proof (induction rows)
  case (Cons r rows)
  show ?case
  proof (cases "r = n")
    case True
    with Cons.prems have "map (\<lambda>x. if x = n then n' else x) rows = rows" by (auto intro: map_idI)
    with True show ?thesis by simp
  next
    case False
    with Cons show ?thesis by simp
  qed
qed simp

lemma attempt_tables:
  assumes "db_ok d" "n \<in> set (deliveries d)" "eligible t n"
  shows "attempts_made (put_row n (attempt_row w t res n) d) = attempts_made d + 1"
    "count_dead (put_row n (attempt_row w t res n) d) =
      count_dead d + (if attempt_outcome_of w (res = None) n = ''dead_letter'' then 1 else 0)"
proof -
  note s = sum_put_int [OF distinct_deliveries [OF assms(1)] assms(2), where n' = "attempt_row w t res n"]
    sum_put [OF distinct_deliveries [OF assms(1)] assms(2), where n' = "attempt_row w t res n"]
  show "attempts_made (put_row n (attempt_row w t res n) d) = attempts_made d + 1"
    using s(1) [of nd_attempts] by (simp add: attempts_made_def put_row_def)
  let ?f = "\<lambda>n. if nd_status n = ''dead_letter'' then 1 else (0::nat)"
  have "length (filter (\<lambda>n. nd_status n = ''dead_letter'') rows) = sum_list (map ?f rows)" for rows
    by (induction rows) auto
  then have c: "count_dead d = sum_list (map ?f (deliveries d))" for d by (simp add: count_dead_def)
  have "?f n = 0" using eligible_open [OF assms(3)] by (auto simp: open_status_def)
  moreover have "?f (attempt_row w t res n) = (if attempt_outcome_of w (res = None) n = ''dead_letter'' then 1 else 0)"
    by (auto simp: attempt_outcome_of_def split: option.splits)
  ultimately show "count_dead (put_row n (attempt_row w t res n) d) =
      count_dead d + (if attempt_outcome_of w (res = None) n = ''dead_letter'' then 1 else 0)"
    using s(2) [of ?f] unfolding c by (simp add: put_row_def)
qed

text \<open>How far the counters moved between two registries.\<close>

definition moved :: "(metrics \<Rightarrow> nat) \<Rightarrow> metrics \<Rightarrow> metrics \<Rightarrow> int" where
  "moved f m m' = int (f m') - int (f m)"

lemma round_moves:
  assumes "outcome \<in> {''delivered'', ''retry'', ''dead_letter''}"
  shows "moved (\<lambda>m. mt_worker_claims m ''claimed'') m (count_round outcome m) = 1"
    "moved (\<lambda>m. mt_worker_claims m ''empty'') m (count_round outcome m) = 0"
    "moved (\<lambda>m. mt_worker_claims m ''contended'') m (count_round outcome m) = 0"
    "moved mt_dead_letters m (count_round outcome m) = (if outcome = ''dead_letter'' then 1 else 0)"
    "moved (\<lambda>m. mt_delivery_attempts m l) m (count_round outcome m) = (if outcome = l then 1 else 0)"
  by (auto simp: moved_def count_round_def count_claim_def count_attempt_def count_dead_letter_def bump_def Let_def)

lemma moved_trans: "moved f m m1 + moved f m1 m2 = moved f m m2"
  by (simp add: moved_def)

lemma attempt_outcome_names: "attempt_outcome_of w sent n \<in> {''delivered'', ''retry'', ''dead_letter''}"
  "attempt_outcome_of w sent n = ''delivered'' \<longleftrightarrow> sent"
  by (auto simp: attempt_outcome_of_def)

definition accounted :: "db \<Rightarrow> metrics \<Rightarrow> int \<Rightarrow> metrics \<Rightarrow> db \<Rightarrow> bool" where
  "accounted d m n m' d' =
    (moved (\<lambda>m. mt_worker_claims m ''claimed'') m m' = attempts_made d' - attempts_made d \<and>
     moved (\<lambda>m. mt_worker_claims m ''empty'') m m' = 1 \<and>
     moved (\<lambda>m. mt_worker_claims m ''contended'') m m' = 0 \<and>
     moved (\<lambda>m. mt_delivery_attempts m ''delivered'') m m' = n \<and>
     moved (\<lambda>m. mt_delivery_attempts m ''delivered'') m m' + moved (\<lambda>m. mt_delivery_attempts m ''retry'') m m' +
       moved (\<lambda>m. mt_delivery_attempts m ''dead_letter'') m m' = moved (\<lambda>m. mt_worker_claims m ''claimed'') m m' \<and>
     moved (\<lambda>m. mt_delivery_attempts m ''dead_letter'') m m' = int (count_dead d') - int (count_dead d) \<and>
     moved mt_dead_letters m m' = int (count_dead d') - int (count_dead d))"

lemma accounted_round:
  assumes "db_ok d" "x \<in> set (deliveries d)" "eligible t x"
    and "accounted (put_row x (attempt_row w t res x) d) (count_round (attempt_outcome_of w (res = None) x) m) n m' d'"
  shows "accounted d m (n + (if res = None then 1 else 0)) m' d'"
proof -
  note r = round_moves [OF attempt_outcome_names(1) [of w "res = None" x], where m = m]
  have split: "moved f m m' = moved f m (count_round (attempt_outcome_of w (res = None) x) m) +
      moved f (count_round (attempt_outcome_of w (res = None) x) m) m'" for f by (simp add: moved_trans)
  show ?thesis
    using assms(4) attempt_outcome_names [of w "res = None" x]
    unfolding accounted_def split attempt_tables [OF assms(1-3)] r
    by auto
qed

lemma deliver_metered_run:
  assumes "db_ok d"
  shows "\<exists>n m' d'. deliver_metered w now send k j m d = Some (j + n, m', d') \<and>
    deliver_pending w now send k j d = Some (j + n, d') \<and> accounted d m n m' d'"
  using assms
proof (induction "work_left w d" arbitrary: k j m d rule: less_induct)
  case less
  from deliver_metered_unfold [OF less.prems, of now k w send j m] show ?case
  proof (elim disjE conjE bexE exE)
    assume "deliver_metered w now send k j m d = Some (j, count_claim ''empty'' m, d)"
      and "deliver_pending w now send k j d = Some (j, d)"
    then show ?thesis
      by (intro exI [of _ 0] exI [of _ "count_claim ''empty'' m"] exI [of _ d])
        (simp add: accounted_def moved_def count_claim_def bump_def)
  next
    fix x res
    assume x: "x \<in> set (deliveries d)" "eligible (now k) x"
      and eq: "deliver_metered w now send k j m d = deliver_metered w now send (k + 1)
        (j + (if res = None then 1 else 0)) (count_round (attempt_outcome_of w (res = None) x) m)
        (put_row x (attempt_row w (now k) res x) d)"
        "deliver_pending w now send k j d = deliver_pending w now send (k + 1)
        (j + (if res = None then 1 else 0)) (put_row x (attempt_row w (now k) res x) d)"
    let ?d = "put_row x (attempt_row w (now k) res x) d"
    let ?m = "count_round (attempt_outcome_of w (res = None) x) m"
    have ok: "db_ok ?d" by (rule put_row_ok [OF less.prems x(1)]) simp_all
    obtain n m' d' where r: "deliver_metered w now send (k + 1) (j + (if res = None then 1 else 0)) ?m ?d =
        Some (j + (if res = None then 1 else 0) + n, m', d')"
      "deliver_pending w now send (k + 1) (j + (if res = None then 1 else 0)) ?d =
        Some (j + (if res = None then 1 else 0) + n, d')" "accounted ?d ?m n m' d'"
      using less.hyps [OF work_put [OF less.prems x] ok] by blast
    from accounted_round [OF less.prems x r(3)] r(1,2) eq show ?thesis
      by (intro exI [of _ "n + (if res = None then 1 else 0)"] exI [of _ m'] exI [of _ d']) simp
  qed
qed


text \<open>
  A delivery run counts what it does: each claim as claimed and then under the outcome of its attempt,
  one empty claim at the end, and each row it dead-letters.
\<close>

lemma delivery_counters_account:
  assumes "db_ok d"
  shows "\<exists>n m' d'. deliver_metered w now send 0 0 m d = Some (n, m', d') \<and>
    deliver_pending w now send 0 0 d = Some (n, d') \<and> accounted d m n m' d'"
  using deliver_metered_run [OF assms, of w now send 0 0 m] by simp

text \<open>The gauges describe the process, not the tables: a fresh one has seen no dead letter, and the backlog is
  measured when it has just been published.\<close>

lemma dead_letters_since_start:
  assumes "db_ok d" "deliver_metered w now send 0 0 no_metrics d = Some (n, m', d')" "0 < count_dead d"
  shows "mt_dead_letters m' < count_dead d'"
proof -
  have "accounted d no_metrics n m' d'"
    using delivery_counters_account [OF assms(1), of w now send no_metrics] assms(2) by auto
  then show ?thesis using assms(3) by (simp add: accounted_def moved_def no_metrics_def)
qed

lemma backlog_gauge_zero:
  assumes "db_ok d" "outbox_lockstep d" "publish_metered cx d m = (Inr n, m', d')"
  shows "mt_outbox_backlog m' = 0"
proof -
  have p: "publish_pending cx (open_session d) = Inr (n, d')" and m: "m' = set_backlog (backlog d') m"
    using assms(3) by (auto simp: publish_metered_def with_session_def split: sum.splits prod.splits)
  have "pending_events d' = []"
    using publish_pending_Inr(2) [OF assms(1,2) p] published_none_pending [of cx d] by simp
  then have "filter (\<lambda>e. ob_status e = ''pending'') (outbox_events d') = []"
    unfolding pending_events_def by (metis set_empty set_sort)
  then show ?thesis by (simp add: m set_backlog_def backlog_def)
qed

end
