(* ===== verification/Application.thy ===== *)
theory Application
  imports System Rate_Limit Observability Migrations
begin

text \<open>
  The application that \<open>create_app\<close> of \<open>app/main.py\<close> puts together: what it takes from the settings,
  its routes, and the way of a request through the middleware (the observer outside, then the rate
  limiter, then the routes) to an endpoint and back. The CORS middleware, the innermost one, adds
  headers and answers preflight requests; of it only the configuration is modelled. An answer is its
  status and the headers the middleware sets.
\<close>

section \<open>What the settings decide\<close>

datatype limiter = MemoryFixedWindowRateLimiter | RedisFixedWindowRateLimiter string

record cors_config =
  co_allow_origins :: "string list"
  co_allow_methods :: "string list"
  co_allow_headers :: "string list"

record token_config =
  tk_issuer :: string
  tk_audience :: string
  tk_algorithms :: "string list"
  tk_jwks_url :: string
  tk_cache_ttl_seconds :: int

record application =
  ac_database_url :: string
  ac_limiter :: limiter
  ac_creates_schema :: bool
  ac_cors :: "cors_config option"
  ac_auth_mode :: string
  ac_rate :: rate_config
  ac_tokens :: "token_config option"

definition create_app :: "string option \<Rightarrow> settings \<Rightarrow> application" where
  "create_app database_url s =
    \<lparr>ac_database_url = py_or database_url (st_database_url s),
     ac_limiter = (if st_redis_url s \<noteq> [] then RedisFixedWindowRateLimiter (st_redis_url s)
       else MemoryFixedWindowRateLimiter),
     ac_creates_schema = (st_app_env s \<noteq> ''production''),
     ac_cors = (if cors_origins s \<noteq> []
       then Some \<lparr>co_allow_origins = cors_origins s,
           co_allow_methods = [''GET'', ''POST'', ''PATCH'', ''OPTIONS''],
           co_allow_headers = [''Authorization'', ''Content-Type'', ''X-Correlation-Id'']\<rparr>
       else None),
     ac_auth_mode = st_auth_mode s,
     ac_rate = \<lparr>rc_enabled = st_rate_limit_enabled s,
       rc_requests_per_minute = st_rate_limit_requests_per_minute s,
       rc_trusted_proxy_cidrs = trusted_proxy_cidrs s\<rparr>,
     ac_tokens = (if st_auth_mode s = ''oidc_jwt''
       then Some \<lparr>tk_issuer = st_oidc_issuer s, tk_audience = st_oidc_audience s, tk_algorithms = [''RS256''],
           tk_jwks_url = st_oidc_jwks_url s, tk_cache_ttl_seconds = st_oidc_jwks_cache_ttl_seconds s\<rparr>
       else None)\<rparr>"

definition start_up :: "application \<Rightarrow> catalog \<Rightarrow> catalog option" where
  "start_up app c = (if ac_creates_schema app then create_all c else Some c)"

text \<open>
  The limiter that \<open>create_app\<close> chose, on a state that holds the windows in memory and the Redis servers'
  keys; \<open>srv\<close> is the server of a URL.
\<close>

definition put_windows :: "windows \<times> 'r \<Rightarrow> windows \<Rightarrow> windows \<times> 'r" where
  "put_windows st ws = (ws, snd st)"

definition put_redis :: "windows \<times> 'r \<Rightarrow> 'r \<Rightarrow> windows \<times> 'r" where
  "put_redis st r = (fst st, r)"

fun limiter_consume :: "(string \<Rightarrow> 'r redis_server) \<Rightarrow> limiter \<Rightarrow> (windows \<times> 'r) consumer" where
  "limiter_consume srv MemoryFixedWindowRateLimiter = placed fst put_windows memory_limiter"
| "limiter_consume srv (RedisFixedWindowRateLimiter url) = placed snd put_redis (redis_consume (srv url))"

definition limiter_ping :: "(string \<Rightarrow> 'r redis_server) \<Rightarrow> limiter \<Rightarrow> time \<Rightarrow> windows \<times> 'r \<Rightarrow> exn + bool" where
  "limiter_ping srv l now st =
    (case l of
       MemoryFixedWindowRateLimiter \<Rightarrow> Inr memory_ping
     | RedisFixedWindowRateLimiter url \<Rightarrow> redis_ping (srv url) now (snd st))"

text \<open>Readiness through the application's limiter.\<close>

definition app_readiness :: "(string \<Rightarrow> 'r redis_server) \<Rightarrow> application \<Rightarrow> time \<Rightarrow> bool \<Rightarrow> windows \<times> 'r \<Rightarrow> nat \<times> string" where
  "app_readiness srv app now db_up st = api_readiness db_up (isl (limiter_ping srv (ac_limiter app) now st))"

text \<open>
  Both limiters meet the interface \<open>fixed_window\<close>, the one in Redis on a server that does what its
  documentation says.
\<close>

fun limiter_window :: "'r live_keys \<Rightarrow> limiter \<Rightarrow> time \<Rightarrow> windows \<times> 'r \<Rightarrow> string \<Rightarrow> (int \<times> time) option" where
  "limiter_window live MemoryFixedWindowRateLimiter = (\<lambda>now st. memory_window now (fst st))"
| "limiter_window live (RedisFixedWindowRateLimiter url) = (\<lambda>now st. redis_window live now (snd st))"

fun limiter_sound :: "'r live_keys \<Rightarrow> limiter \<Rightarrow> time \<Rightarrow> windows \<times> 'r \<Rightarrow> string \<Rightarrow> bool" where
  "limiter_sound live MemoryFixedWindowRateLimiter = (\<lambda>now st. memory_sound now (fst st))"
| "limiter_sound live (RedisFixedWindowRateLimiter url) = (\<lambda>now st. redis_sound live now (snd st))"

fun limiter_documented :: "(string \<Rightarrow> 'r redis_server) \<Rightarrow> 'r live_keys \<Rightarrow> limiter \<Rightarrow> bool" where
  "limiter_documented srv live MemoryFixedWindowRateLimiter = True"
| "limiter_documented srv live (RedisFixedWindowRateLimiter url) = redis_documented (srv url) live"

interpretation memory_part: placed_window memory_limiter memory_window memory_sound fst put_windows
  by unfold_locales (simp add: put_windows_def)

lemma redis_part:
  assumes "redis_documented srv live"
  shows "placed_window (redis_consume srv) (redis_window live) (redis_sound live) snd put_redis"
  using redis_fixed_window [OF assms] by (simp add: placed_window_def placed_window_axioms_def put_redis_def)

lemma limiter_fixed_window:
  assumes "limiter_documented srv live l"
  shows "fixed_window (limiter_consume srv l) (limiter_window live l) (limiter_sound live l)"
proof (cases l)
  case MemoryFixedWindowRateLimiter
  then show ?thesis using memory_part.placed_fixed_window by simp
next
  case (RedisFixedWindowRateLimiter url)
  then show ?thesis using placed_window.placed_fixed_window [OF redis_part] assms by simp
qed

lemma limiter_retry_after:
  assumes "limiter_consume srv l now key limit w st = (Inr dec, st')"
  shows "1 \<le> rd_retry_after dec"
  using assms memory.retry_after_positive
  by (cases l) (auto simp: redis_consume_def Let_def split: redis_link.splits prod.splits)

section \<open>Routes\<close>

text \<open>Method, path and the status of a success, as each endpoint's decorator declares them.\<close>

type_synonym route = "string \<times> string \<times> nat"

definition create_tenant_route :: route where
  "create_tenant_route = (''POST'', ''/v1/tenants'', 201)"
definition create_requisition_route :: route where
  "create_requisition_route = (''POST'', ''/v1/requisitions'', 201)"
definition create_candidate_route :: route where
  "create_candidate_route = (''POST'', ''/v1/candidate-cases'', 201)"
definition transition_route :: route where
  "transition_route = (''PATCH'', ''/v1/candidate-cases/{candidate_case_id}/stage'', 200)"
definition schedule_interview_route :: route where
  "schedule_interview_route = (''POST'', ''/v1/candidate-cases/{candidate_case_id}/interviews'', 201)"
definition submit_feedback_route :: route where
  "submit_feedback_route = (''POST'', ''/v1/interviews/{interview_id}/feedback'', 201)"
definition create_offer_route :: route where
  "create_offer_route = (''POST'', ''/v1/candidate-cases/{candidate_case_id}/offers'', 201)"
definition approve_offer_route :: route where
  "approve_offer_route = (''POST'', ''/v1/offers/{offer_id}/approvals'', 200)"
definition upload_attachment_route :: route where
  "upload_attachment_route = (''POST'', ''/v1/candidate-cases/{candidate_case_id}/attachments'', 201)"
definition download_attachment_route :: route where
  "download_attachment_route =
    (''GET'', ''/v1/candidate-cases/{candidate_case_id}/attachments/{attachment_id}/download'', 200)"
definition set_retention_policy_route :: route where
  "set_retention_policy_route = (''PUT'', ''/v1/retention-policy'', 200)"
definition set_legal_hold_route :: route where
  "set_legal_hold_route = (''PUT'', ''/v1/candidate-cases/{candidate_case_id}/legal-hold'', 204)"
definition purge_due_route :: route where
  "purge_due_route = (''POST'', ''/v1/retention/purge'', 200)"
definition create_subscription_route :: route where
  "create_subscription_route = (''POST'', ''/v1/calendar-subscriptions'', 201)"
definition revoke_subscription_route :: route where
  "revoke_subscription_route = (''DELETE'', ''/v1/calendar-subscriptions/{subscription_id}'', 204)"

lemmas route_defs =
  create_tenant_route_def create_requisition_route_def create_candidate_route_def transition_route_def
  schedule_interview_route_def submit_feedback_route_def create_offer_route_def approve_offer_route_def
  upload_attachment_route_def download_attachment_route_def set_retention_policy_route_def
  set_legal_hold_route_def purge_due_route_def create_subscription_route_def revoke_subscription_route_def

fun route_of :: "api_call \<Rightarrow> route" where
  "route_of (Create_Tenant q) = create_tenant_route"
| "route_of (Create_Requisition q) = create_requisition_route"
| "route_of (Create_Candidate q) = create_candidate_route"
| "route_of (Transition i q) = transition_route"
| "route_of (Schedule_Interview i q) = schedule_interview_route"
| "route_of (Submit_Feedback i q) = submit_feedback_route"
| "route_of (Create_Offer i q) = create_offer_route"
| "route_of (Approve_Offer i q) = approve_offer_route"
| "route_of (Upload_Attachment i t f) = upload_attachment_route"
| "route_of (Download_Attachment i a) = download_attachment_route"
| "route_of (Set_Retention_Policy q) = set_retention_policy_route"
| "route_of (Set_Legal_Hold i q) = set_legal_hold_route"
| "route_of Purge_Due = purge_due_route"
| "route_of (Create_Subscription q) = create_subscription_route"
| "route_of (Revoke_Subscription i) = revoke_subscription_route"

text \<open>A path with its parameters in the place of the braces.\<close>

function fill_path :: "string \<Rightarrow> string list \<Rightarrow> string" where
  "fill_path [] args = []"
| "fill_path (c # cs) args =
    (if c = CHR ''{'' then
       (case args of [] \<Rightarrow> [] | a # as \<Rightarrow> a) @ fill_path (drop 1 (dropWhile (\<lambda>x. x \<noteq> CHR ''}'') cs)) (drop 1 args)
     else c # fill_path cs args)"
  by pat_completeness auto
termination
proof (relation "measure (\<lambda>(cs, _). length cs)")
  fix c :: char and cs :: string and args :: "string list"
  have "length (dropWhile (\<lambda>x. x \<noteq> CHR ''}'') cs) \<le> length cs" by (rule length_dropWhile_le)
  then show "((drop 1 (dropWhile (\<lambda>x. x \<noteq> CHR ''}'') cs), drop 1 args), c # cs, args) \<in>
      measure (\<lambda>(cs, _). length cs)" by simp
qed auto

fun path_args :: "api_call \<Rightarrow> string list" where
  "path_args (Transition i q) = [i]"
| "path_args (Schedule_Interview i q) = [i]"
| "path_args (Submit_Feedback i q) = [i]"
| "path_args (Create_Offer i q) = [i]"
| "path_args (Approve_Offer i q) = [i]"
| "path_args (Upload_Attachment i t f) = [i]"
| "path_args (Download_Attachment i a) = [i, a]"
| "path_args (Set_Legal_Hold i q) = [i]"
| "path_args (Revoke_Subscription i) = [i]"
| "path_args _ = []"

definition call_method :: "api_call \<Rightarrow> string" where
  "call_method call = fst (route_of call)"

definition call_path :: "api_call \<Rightarrow> string" where
  "call_path call = fill_path (fst (snd (route_of call))) (path_args call)"

text \<open>No route is exempt from rate limiting.\<close>

lemma call_limited: "call_method call \<noteq> ''OPTIONS'' \<and> call_path call \<notin> EXEMPT_PATHS"
  by (cases call) (simp_all add: call_method_def call_path_def route_defs EXEMPT_PATHS_def)

section \<open>The way of a request\<close>

record http_call =
  hc_now :: time
  hc_peer :: "string option"
  hc_forwarded :: "string option"
  hc_uuid :: string
  hc_env :: api_env
  hc_headers :: request_headers
  hc_call :: api_call

record 's app_state =
  as_db :: db
  as_files :: fs
  as_limiter :: 's
  as_metrics :: metrics

definition rate_request_of :: "http_call \<Rightarrow> rate_request" where
  "rate_request_of q = \<lparr>rr_method = call_method (hc_call q), rr_path = call_path (hc_call q),
     rr_peer = hc_peer q, rr_forwarded = hc_forwarded q\<rparr>"

text \<open>An endpoint: an exception it does not map propagates.\<close>

definition endpoint :: "http_call \<Rightarrow> db \<times> fs \<Rightarrow> app_result \<times> db \<times> fs" where
  "endpoint q st =
    (case serve (hc_env q) (hc_headers q) (hc_call q) st of
       (None, st') \<Rightarrow> (Responded (snd (snd (route_of (hc_call q)))) [], st')
     | (Some (HTTPException n detail), st') \<Rightarrow> (Responded n [], st')
     | (Some ServerError, st') \<Rightarrow> (Raised, st'))"

text \<open>
  What the endpoint counts: the two handlers of a conflict of versions, the only exceptions that these two
  endpoints answer 409.
\<close>

fun conflict_of :: "api_call \<Rightarrow> string option" where
  "conflict_of (Transition i q) = Some ''candidate_case''"
| "conflict_of (Approve_Offer i q) = Some ''offer''"
| "conflict_of call = None"

definition count_outcome :: "api_call \<Rightarrow> app_result \<Rightarrow> metrics \<Rightarrow> metrics" where
  "count_outcome call r m =
    (case (r, conflict_of call) of
       (Responded n hs, Some aggregate_type) \<Rightarrow> if n = 409 then count_conflict aggregate_type m else m
     | _ \<Rightarrow> m)"

text \<open>\<open>response.headers.update(headers)\<close>.\<close>

fun add_headers :: "(string \<times> string) list \<Rightarrow> app_result \<Rightarrow> app_result" where
  "add_headers hs Raised = Raised"
| "add_headers hs (Responded n rs) = Responded n (foldl (\<lambda>rs (k, v). set_header k v rs) rs hs)"

text \<open>The rate limiter around the routes: result, path of the route, metrics and the state it leaves.\<close>

definition limited_endpoint ::
  "'s consumer \<Rightarrow> ip_module \<Rightarrow> rate_config \<Rightarrow> http_call \<Rightarrow> 's app_state \<Rightarrow>
   app_result \<times> string option \<times> metrics \<times> (db \<times> fs) \<times> 's" where
  "limited_endpoint consume ip c q st =
    (let path = fst (snd (route_of (hc_call q)));
         m = as_metrics st;
         data = (as_db st, as_files st)
     in case rate_limit consume ip c (hc_now q) (rate_request_of q) (as_limiter st) of
          (Pass, ws) \<Rightarrow> (case endpoint q data of (r, data') \<Rightarrow>
              (r, Some path, count_outcome (hc_call q) r m, data', ws))
        | (Pass_With hs, ws) \<Rightarrow>
            (case endpoint q data of (r, data') \<Rightarrow>
              (add_headers hs r, Some path, count_outcome (hc_call q) r m, data', ws))
        | (Reject hs, ws) \<Rightarrow>
            (Responded 429 hs, None, count_rejection m, data, ws)
        | (Raise e, ws) \<Rightarrow> (Raised, None, m, data, ws))"

definition handle_request ::
  "'s consumer \<Rightarrow> ip_module \<Rightarrow> rate_config \<Rightarrow> http_call \<Rightarrow> 's app_state \<Rightarrow> app_result \<times> 's app_state" where
  "handle_request consume ip c q st =
    (case observe_request (rq_correlation_id (hc_headers q)) (hc_uuid q) (call_method (hc_call q))
        (call_path (hc_call q)) (\<lambda>correlation_id. limited_endpoint consume ip c q st) of
       (r, m, (d, files), ws) \<Rightarrow>
         (r, \<lparr>as_db = d, as_files = files, as_limiter = ws, as_metrics = m\<rparr>))"

section \<open>What a request can do\<close>

lemma endpoint_changes:
  assumes "well_kept d" "valid_key (ap_hex (hc_env q))" "endpoint q (d, files) = (r, d', files')" "d' \<noteq> d"
  shows "r = Responded (snd (snd (route_of (hc_call q)))) []"
proof -
  obtain out where s: "serve (hc_env q) (hc_headers q) (hc_call q) (d, files) = (out, d', files')"
    using assms(3) by (auto simp: endpoint_def split: prod.splits option.splits http_error.splits)
  have "out = None"
    using serve_outcome [OF assms(1,2), of "hc_headers q" "hc_call q" files] s assms(4) by (auto simp: outcome_def)
  with s assms(3) show ?thesis by (simp add: endpoint_def)
qed

lemma success_status: "snd (snd (route_of call)) \<in> {200, 201, 204}"
  by (cases call) (simp_all add: route_defs)

lemma limited_cases:
  assumes "limited_endpoint consume ip c q st = (r, route, m, (d', files'), ws)"
  obtains (rejected) hs where "rate_limit consume ip c (hc_now q) (rate_request_of q) (as_limiter st) = (Reject hs, ws)"
      "r = Responded 429 hs" "d' = as_db st" "files' = as_files st"
      "m = count_rejection (as_metrics st)"
  | (raised) e where "rate_limit consume ip c (hc_now q) (rate_request_of q) (as_limiter st) = (Raise e, ws)"
      "r = Raised" "d' = as_db st" "files' = as_files st" "m = as_metrics st"
  | (served) out r0 where "rate_limit consume ip c (hc_now q) (rate_request_of q) (as_limiter st) = (out, ws)"
      "out = Pass \<or> (\<exists>hs. out = Pass_With hs)"
      "endpoint q (as_db st, as_files st) = (r0, d', files')" "m = count_outcome (hc_call q) r0 (as_metrics st)"
      "r = r0 \<or> (\<exists>hs. r = add_headers hs r0)"
proof -
  obtain out ws0 where o: "rate_limit consume ip c (hc_now q) (rate_request_of q) (as_limiter st) = (out, ws0)"
    by (cases "rate_limit consume ip c (hc_now q) (rate_request_of q) (as_limiter st)")
  obtain r0 d0 f0 where e: "endpoint q (as_db st, as_files st) = (r0, d0, f0)"
    by (cases "endpoint q (as_db st, as_files st)") auto
  show thesis
  proof (cases out)
    case Pass
    then show ?thesis using assms o e served [of Pass r0] by (auto simp: limited_endpoint_def)
  next
    case (Pass_With hs)
    then show ?thesis using assms o e served [of "Pass_With hs" r0] by (simp add: limited_endpoint_def) blast
  next
    case (Reject hs)
    then show ?thesis using assms o rejected [of hs] by (auto simp: limited_endpoint_def Let_def)
  next
    case (Raise e)
    then show ?thesis using assms o raised [of e] by (auto simp: limited_endpoint_def)
  qed
qed

lemma counted_requests:
  "mt_http_requests (count_rejection m) = mt_http_requests m"
  "mt_http_requests (count_outcome call r m) = mt_http_requests m"
  by (simp_all add: count_rejection_def count_outcome_def count_conflict_def split: app_result.splits option.splits)

lemma handle_limited:
  assumes "handle_request consume ip c q st = (r, st')"
  obtains (raised) route where
      "limited_endpoint consume ip c q st = (Raised, route, as_metrics st', (as_db st', as_files st'), as_limiter st')" "r = Raised"
  | (responded) status hs route m where
      "limited_endpoint consume ip c q st = (Responded status hs, route, m, (as_db st', as_files st'), as_limiter st')"
      "r = Responded status (set_header ''X-Correlation-Id'' (py_or (rq_correlation_id (hc_headers q)) (hc_uuid q)) hs)"
      "as_metrics st' = count_request (call_method (hc_call q))
         (case route of None \<Rightarrow> call_path (hc_call q) | Some p \<Rightarrow> p) status m"
proof -
  obtain m d f ws where o: "observe_request (rq_correlation_id (hc_headers q)) (hc_uuid q) (call_method (hc_call q))
      (call_path (hc_call q)) (\<lambda>correlation_id. limited_endpoint consume ip c q st) = (r, m, (d, f), ws)"
    and st: "st' = \<lparr>as_db = d, as_files = f, as_limiter = ws, as_metrics = m\<rparr>"
    using assms by (auto simp: handle_request_def split: prod.splits)
  show thesis
    using o by (cases rule: observe_cases) (use st raised responded in auto)
qed

lemma add_headers_status: "(add_headers hs r = Raised) = (r = Raised)"
  "r = Responded n rs \<Longrightarrow> \<exists>rs'. add_headers hs r = Responded n rs'"
  by (cases r; simp)+

lemma map_of_append_retry [simp]:
  "map_of (rate_headers c dec @ [(''Retry-After'', v)]) ''Retry-After'' = Some v"
  by (simp add: rate_headers_def)

lemma reject_headers:
  assumes "rate_limit (limiter_consume srv l) ip c now rr st = (Reject hs, st')"
  shows "\<exists>n \<ge> 1. map_of hs ''Retry-After'' = Some (py_str_int n)"
proof -
  obtain client where c: "client_identifier ip rr (rc_trusted_proxy_cidrs c) = Inr client"
    using assms by (auto simp: rate_limit_def split: if_splits sum.splits)
  obtain dec st0 where m: "limiter_consume srv l now (''talentflow:rate-limit:'' @ client) (rc_requests_per_minute c) 60 st =
      (Inr dec, st0)"
    using assms unfolding rate_limit_def c sum.case
    by (cases "limiter_consume srv l now (''talentflow:rate-limit:'' @ client) (rc_requests_per_minute c) 60 st")
      (auto split: if_splits sum.splits)
  have "hs = rate_headers c dec @ [(''Retry-After'', py_str_int (rd_retry_after dec))]"
    using assms unfolding rate_limit_def c sum.case m Let_def prod.case by (simp split: if_splits)
  then show ?thesis using limiter_retry_after [OF m]
    by (intro exI [of _ "rd_retry_after dec"]) (simp only: map_of_append_retry simp_thms)
qed

text \<open>
  Claim C10 (error, safety): what becomes of a request on its way through the middleware. The database
  changes only if the answer is a success. A request over the limit is answered 429 with the seconds to
  wait, and changes neither the database nor the files; one whose client cannot be told, or whose limiter
  does not answer, ends in the exception and changes nothing either. Every answer carries the client's correlation
  id, or a fresh one, and is counted once under its status; an exception that no endpoint maps is
  counted nowhere.
\<close>

theorem requests_answered:
  assumes "well_kept (as_db st)" "valid_key (ap_hex (hc_env q))"
    and "handle_request (limiter_consume srv l) ip c q st = (r, st')"
  shows "(as_db st' \<noteq> as_db st \<longrightarrow> (\<exists>status \<in> {200, 201, 204}. \<exists>hs. r = Responded status hs)) \<and>
    (\<forall>hs s. rate_limit (limiter_consume srv l) ip c (hc_now q) (rate_request_of q) (as_limiter st) = (Reject hs, s) \<longrightarrow>
      as_db st' = as_db st \<and> as_files st' = as_files st \<and>
      (\<exists>hs' n. r = Responded 429 hs' \<and> map_of hs' ''Retry-After'' = Some (py_str_int n) \<and> 1 \<le> n)) \<and>
    (\<forall>e s. rate_limit (limiter_consume srv l) ip c (hc_now q) (rate_request_of q) (as_limiter st) = (Raise e, s) \<longrightarrow>
      as_db st' = as_db st \<and> as_files st' = as_files st \<and> r = Raised) \<and>
    (case r of
       Responded status hs \<Rightarrow>
         map_of hs ''X-Correlation-Id'' = Some (py_or (rq_correlation_id (hc_headers q)) (hc_uuid q)) \<and>
         (\<exists>route. mt_http_requests (as_metrics st') = (mt_http_requests (as_metrics st))
           ((call_method (hc_call q), route, status) :=
             mt_http_requests (as_metrics st) (call_method (hc_call q), route, status) + 1))
     | Raised \<Rightarrow> as_metrics st' = as_metrics st)"
  using assms(3)
proof (cases rule: handle_limited)
  case (raised route)
  from raised(1) show ?thesis
  proof (cases rule: limited_cases)
    case (served out r0)
    then have "r0 = Raised" using add_headers_status(1) by metis
    with endpoint_changes [OF assms(1,2) served(3)] have "as_db st' = as_db st" by auto
    with served raised(2) \<open>r0 = Raised\<close> show ?thesis by (auto simp: count_outcome_def)
  qed (use raised(2) in auto)
next
  case (responded status hs route m)
  have count: "\<exists>route. mt_http_requests (as_metrics st') = (mt_http_requests (as_metrics st))
      ((call_method (hc_call q), route, status) :=
        mt_http_requests (as_metrics st) (call_method (hc_call q), route, status) + 1)"
    if "mt_http_requests m = mt_http_requests (as_metrics st)"
    using that responded(3) by (auto simp: count_request_def bump_def)
  from responded(1) show ?thesis
  proof (cases rule: limited_cases)
    case (rejected hs')
    then show ?thesis
      using count reject_headers [OF rejected(1)] counted_requests(1)
      by (auto simp: responded(2) set_header_lookup set_header_other)
  next
    case (served out r0)
    have "status \<in> {200, 201, 204}" if "as_db st' \<noteq> as_db st"
    proof -
      have r0: "r0 = Responded (snd (snd (route_of (hc_call q)))) []"
        by (rule endpoint_changes [OF assms(1,2) served(3) that])
      have "status = snd (snd (route_of (hc_call q)))"
        using served(5) by (auto simp: r0)
      then show ?thesis using success_status [of "hc_call q"] by simp
    qed
    then show ?thesis
      using count served counted_requests(2) by (auto simp: responded(2) set_header_lookup)
  qed simp
qed

section \<open>How often a client can change anything\<close>

fun run_requests ::
  "'s consumer \<Rightarrow> ip_module \<Rightarrow> rate_config \<Rightarrow> http_call list \<Rightarrow> 's app_state \<Rightarrow>
   (http_call \<times> 's app_state \<times> 's app_state) list" where
  "run_requests consume ip c [] st = []"
| "run_requests consume ip c (q # qs) st =
    (let st' = snd (handle_request consume ip c q st) in (q, st, st') # run_requests consume ip c qs st')"

definition networks_ok :: "ip_module \<Rightarrow> rate_config \<Rightarrow> bool" where
  "networks_ok ip c = list_all (ip_network_ok ip) (rc_trusted_proxy_cidrs c)"

definition client_of :: "ip_module \<Rightarrow> rate_config \<Rightarrow> http_call \<Rightarrow> string" where
  "client_of ip c q =
    (case client_identifier ip (rate_request_of q) (rc_trusted_proxy_cidrs c) of Inl e \<Rightarrow> [] | Inr k \<Rightarrow> k)"

definition client_key :: "string \<Rightarrow> string" where
  "client_key k = ''talentflow:rate-limit:'' @ k"

lemma client_key_inject [simp]: "client_key k = client_key l \<longleftrightarrow> k = l"
  by (simp add: client_key_def)

text \<open>The requests of client \<open>k\<close> that changed the database or the files.\<close>

definition changes_by :: "ip_module \<Rightarrow> rate_config \<Rightarrow> string \<Rightarrow> (http_call \<times> 's app_state \<times> 's app_state) list \<Rightarrow> nat" where
  "changes_by ip c k trace = length (filter (\<lambda>(q, st, st').
     client_of ip c q = k \<and> (as_db st' \<noteq> as_db st \<or> as_files st' \<noteq> as_files st)) trace)"

lemma client_identified:
  "networks_ok ip c \<Longrightarrow>
    client_identifier ip (rate_request_of q) (rc_trusted_proxy_cidrs c) = Inr (client_of ip c q)"
  by (auto simp: client_of_def client_identifier_def networks_ok_def list_all_iff list_ex_iff Let_def)

lemma rate_limit_request:
  assumes "rc_enabled c" "networks_ok ip c"
    and "consume (hc_now q) (client_key (client_of ip c q)) (rc_requests_per_minute c) 60 s = (res, s')"
  shows "rate_limit consume ip c (hc_now q) (rate_request_of q) s =
    (case res of
       Inl e \<Rightarrow> Raise e
     | Inr dec \<Rightarrow> if rd_allowed dec then Pass_With (rate_headers c dec)
         else Reject (rate_headers c dec @ [(''Retry-After'', py_str_int (rd_retry_after dec))]), s')"
proof -
  have "rr_method (rate_request_of q) \<noteq> ''OPTIONS''" "rr_path (rate_request_of q) \<notin> EXEMPT_PATHS"
    using call_limited [of "hc_call q"] by (simp_all add: rate_request_of_def)
  then show ?thesis unfolding rate_limit_def client_identified [OF assms(2)] sum.case assms(3) [unfolded client_key_def] Let_def
      prod.case
    using assms(1) by (simp split: sum.splits)
qed

text \<open>A trusted network that does not parse, which nothing checks before, makes every request fail.\<close>

lemma bad_network_fails_requests:
  assumes "rc_enabled c" "\<not> networks_ok ip c" "handle_request consume ip c q st = (r, st')"
  shows "r = Raised \<and> st' = st"
proof -
  have "rr_method (rate_request_of q) \<noteq> ''OPTIONS''" "rr_path (rate_request_of q) \<notin> EXEMPT_PATHS"
    using call_limited [of "hc_call q"] by (simp_all add: rate_request_of_def)
  moreover have "client_identifier ip (rate_request_of q) (rc_trusted_proxy_cidrs c) = Inl (ValueError ''ip_network'')"
    using assms(2) by (auto simp: client_identifier_def networks_ok_def list_all_iff list_ex_iff Let_def)
  ultimately have "rate_limit consume ip c (hc_now q) (rate_request_of q) (as_limiter st) =
      (Raise (ValueError ''ip_network''), as_limiter st)"
    unfolding rate_limit_def using assms(1) by simp
  then show ?thesis using assms(3)
    by (auto simp: handle_request_def limited_endpoint_def observe_request_def Let_def)
qed

lemma handle_step:
  assumes "rc_enabled c" "networks_ok ip c" "handle_request consume ip c q st = (r, st')"
    and "consume (hc_now q) (client_key (client_of ip c q)) (rc_requests_per_minute c) 60 (as_limiter st) = (res, s')"
  shows "as_limiter st' = s' \<and> (\<not> lets_through res \<longrightarrow> as_db st' = as_db st \<and> as_files st' = as_files st)"
proof -
  note rl = rate_limit_request [where consume = consume, OF assms(1,2,4)]
  obtain r0 route m where l: "limited_endpoint consume ip c q st = (r0, route, m, (as_db st', as_files st'), as_limiter st')"
    using assms(3) by (cases rule: handle_limited) blast+
  then show ?thesis by (cases rule: limited_cases) (use rl in \<open>auto split: if_splits sum.splits\<close>)
qed

lemma changes_admitted:
  assumes "rc_enabled c" "networks_ok ip c"
  shows "int (changes_by ip c k (run_requests consume ip c qs st)) \<le>
    admitted (client_key k) (map (\<lambda>q. (hc_now q, client_key (client_of ip c q))) qs)
      (consume_all consume (rc_requests_per_minute c) 60 (map (\<lambda>q. (hc_now q, client_key (client_of ip c q))) qs)
        (as_limiter st))"
proof (induction qs arbitrary: st)
  case Nil
  then show ?case by (simp add: changes_by_def admitted_simps)
next
  case (Cons q qs)
  obtain r st' where h: "handle_request consume ip c q st = (r, st')" by (cases "handle_request consume ip c q st")
  obtain res s' where m: "consume (hc_now q) (client_key (client_of ip c q)) (rc_requests_per_minute c) 60
      (as_limiter st) = (res, s')"
    by (cases "consume (hc_now q) (client_key (client_of ip c q)) (rc_requests_per_minute c) 60 (as_limiter st)")
  note step = handle_step [where consume = consume, OF assms h m]
  have "int (changes_by ip c k (run_requests consume ip c (q # qs) st)) \<le>
      (if client_of ip c q = k \<and> lets_through res then 1 else 0) +
      int (changes_by ip c k (run_requests consume ip c qs st'))"
    using step by (auto simp: h changes_by_def)
  also have "\<dots> \<le> (if client_of ip c q = k \<and> lets_through res then 1 else 0) +
      admitted (client_key k) (map (\<lambda>q. (hc_now q, client_key (client_of ip c q))) qs)
        (consume_all consume (rc_requests_per_minute c) 60 (map (\<lambda>q. (hc_now q, client_key (client_of ip c q))) qs) s')"
    using Cons.IH [of st'] step by simp
  finally show ?case by (simp add: m admitted_simps del: run_requests.simps)
qed

text \<open>
  Claim C35 (bounds): the rate limit bounds what a client can do, whichever limiter the application was
  built with. Of the requests handled within any minute, mixed with those of other clients and whatever
  came before, no more than twice the configured number of one client's change the database or the files.
  The limiter in Redis needs a server that does what its documentation says; calls it refuses or whose
  replies are lost change nothing.
\<close>

theorem changes_rate_limited:
  assumes "rc_enabled (ac_rate app)" "networks_ok ip (ac_rate app)" "0 \<le> rc_requests_per_minute (ac_rate app)"
    and "limiter_documented srv live (ac_limiter app)"
    and "sorted (t # map hc_now qs)" "\<forall>q \<in> set qs. hc_now q < t + 60 * 1000000"
    and "limiter_sound live (ac_limiter app) t (as_limiter st) (client_key k)"
  shows "int (changes_by ip (ac_rate app) k
      (run_requests (limiter_consume srv (ac_limiter app)) ip (ac_rate app) qs st)) \<le>
    2 * rc_requests_per_minute (ac_rate app)"
proof -
  let ?calls = "map (\<lambda>q. (hc_now q, client_key (client_of ip (ac_rate app) q))) qs"
  have "map fst ?calls = map hc_now qs" by simp
  then have "admitted (client_key k) ?calls (consume_all (limiter_consume srv (ac_limiter app))
      (rc_requests_per_minute (ac_rate app)) 60 ?calls (as_limiter st)) \<le> 2 * rc_requests_per_minute (ac_rate app)"
    by (intro fixed_window.admitted_bound [OF limiter_fixed_window [OF assms(4)] _ assms(3,7)]) (use assms(5,6) in \<open>auto simp: comp_def\<close>)
  then show ?thesis
    using changes_admitted [OF assms(1,2), of k "limiter_consume srv (ac_limiter app)" qs st] by linarith
qed

section \<open>What the application counts\<close>

text \<open>
  A conflict of versions is counted under its aggregate. Of what the workers count, a process that
  answers requests, and with them \<open>/metrics\<close>, counts nothing.
\<close>

definition worker_metrics :: "metrics \<Rightarrow> nat \<times> (string \<Rightarrow> nat) \<times> nat \<times> (string \<Rightarrow> nat)" where
  "worker_metrics m = (mt_outbox_backlog m, mt_delivery_attempts m, mt_dead_letters m, mt_worker_claims m)"

lemma worker_metrics_simps [simp]:
  "worker_metrics (count_rejection m) = worker_metrics m" "worker_metrics (count_outcome call r m) = worker_metrics m"
  "worker_metrics (count_request meth route status m) = worker_metrics m"
  by (simp_all add: worker_metrics_def count_rejection_def count_outcome_def count_conflict_def count_request_def
      split: app_result.splits option.splits)

lemma handle_worker_metrics:
  assumes "handle_request consume ip c q st = (r, st')"
  shows "worker_metrics (as_metrics st') = worker_metrics (as_metrics st)"
  using assms
proof (cases rule: handle_limited)
  case (raised route)
  from raised(1) show ?thesis by (cases rule: limited_cases) auto
next
  case (responded status hs route m)
  from responded(1) show ?thesis by (cases rule: limited_cases) (simp_all add: responded(3))
qed

lemma application_counts_no_deliveries:
  "(q, st1, st2) \<in> set (run_requests consume ip c qs st) \<Longrightarrow> worker_metrics (as_metrics st2) = worker_metrics (as_metrics st)"
proof (induction qs arbitrary: st)
  case (Cons p qs)
  obtain r st' where h: "handle_request consume ip c p st = (r, st')" by (cases "handle_request consume ip c p st")
  from Cons.prems have "st2 = st' \<or> (q, st1, st2) \<in> set (run_requests consume ip c qs st')" by (auto simp: h Let_def)
  then show ?case using Cons.IH [of st'] handle_worker_metrics [OF h] by auto
qed simp

section \<open>The production application\<close>



text \<open>The methods the CORS configuration admits leave out those of three endpoints.\<close>

lemma cors_misses_methods:
  assumes "ac_cors (create_app u s) = Some co"
    and "call \<in> {Set_Retention_Policy p, Set_Legal_Hold i h, Revoke_Subscription j}"
  shows "call_method call \<notin> set (co_allow_methods co)"
  using assms by (auto simp: create_app_def call_method_def route_defs split: if_splits)

section \<open>Sample requests\<close>

definition sample_ip :: ip_module where
  "sample_ip = \<lparr>ip_network_ok = (\<lambda>_. True), ip_address_ok = (\<lambda>_. True), ip_member = (\<lambda>_ _. False)\<rparr>"

definition sample_rate :: rate_config where
  "sample_rate = \<lparr>rc_enabled = True, rc_requests_per_minute = 1, rc_trusted_proxy_cidrs = []\<rparr>"

definition sample_http :: "api_call \<Rightarrow> http_call" where
  "sample_http call = \<lparr>hc_now = 0, hc_peer = Some ''p'', hc_forwarded = None, hc_uuid = ''o'',
     hc_env = sample_api sample_ctx, hc_headers = sample_request ''r'', hc_call = call\<rparr>"

text \<open>Two applications, one for each limiter, that admit one request a minute.\<close>

definition sample_app :: "limiter \<Rightarrow> application" where
  "sample_app l = (create_app None sample_production)\<lparr>ac_limiter := l, ac_rate := sample_rate\<rparr>"

definition sample_full :: "(windows \<times> key_space) app_state" where
  "sample_full = \<lparr>as_db = sample_db, as_files = (\<lambda>_. None), as_limiter = ([client_key ''p'' \<mapsto> (1, 1000000)], Map.empty),
     as_metrics = no_metrics\<rparr>"

lemma sample_client: "networks_ok sample_ip sample_rate" "client_of sample_ip sample_rate (sample_http call) = ''p''"
  by (simp_all add: networks_ok_def client_of_def client_identifier_def rate_request_of_def sample_ip_def
      sample_rate_def sample_http_def)

lemma sample_full_rejects:
  "\<exists>hs s. rate_limit (limiter_consume (\<lambda>_. sample_redis) MemoryFixedWindowRateLimiter) sample_ip sample_rate 0
      (rate_request_of (sample_http call)) (as_limiter sample_full) = (Reject hs, s)"
proof -
  let ?consume = "limiter_consume (\<lambda>_. sample_redis) MemoryFixedWindowRateLimiter"
  obtain dec s where m: "?consume 0 (client_key ''p'') 1 60 (as_limiter sample_full) = (Inr dec, s)" "\<not> rd_allowed dec"
    by (simp add: memory_limiter_def sample_full_def memory_consume_def Let_def)
  then show ?thesis
    using rate_limit_request [of sample_rate sample_ip ?consume "sample_http call" "as_limiter sample_full" "Inr dec" s]
    by (simp add: sample_client) (simp add: sample_rate_def sample_http_def)
qed

theorem requests_answered_witness:
  "\<exists>r st'. handle_request (limiter_consume (\<lambda>_. sample_redis) MemoryFixedWindowRateLimiter) sample_ip sample_rate
      (sample_http Purge_Due) sample_full = (r, st') \<and>
    as_db st' = sample_db \<and> (\<exists>hs. r = Responded 429 hs \<and> map_of hs ''X-Correlation-Id'' = Some ''o'')"
proof -
  let ?consume = "limiter_consume (\<lambda>_. sample_redis) MemoryFixedWindowRateLimiter"
  obtain r st' where h: "handle_request ?consume sample_ip sample_rate (sample_http Purge_Due) sample_full = (r, st')"
    by (cases "handle_request ?consume sample_ip sample_rate (sample_http Purge_Due) sample_full")
  obtain hs s where "rate_limit ?consume sample_ip sample_rate (hc_now (sample_http Purge_Due))
      (rate_request_of (sample_http Purge_Due)) (as_limiter sample_full) = (Reject hs, s)"
    using sample_full_rejects [of Purge_Due] by (auto simp: sample_http_def)
  with requests_answered [OF _ _ h] sample_well_kept
  have "as_db st' = sample_db \<and> (\<exists>hs. r = Responded 429 hs \<and> map_of hs ''X-Correlation-Id'' = Some ''o'')"
    by (auto simp: sample_full_def sample_http_def sample_api_def sample_request_def py_or_def)
  with h show ?thesis by blast
qed

theorem changes_rate_limited_witness:
  "changes_by sample_ip sample_rate ''p''
     (run_requests (limiter_consume (\<lambda>_. sample_redis) (RedisFixedWindowRateLimiter ''redis://r'')) sample_ip sample_rate
       [sample_http Purge_Due, sample_http Purge_Due, sample_http Purge_Due] sample_full) \<le> 2"
proof -
  define app where "app = sample_app (RedisFixedWindowRateLimiter ''redis://r'')"
  have app: "ac_limiter app = RedisFixedWindowRateLimiter ''redis://r''" "ac_rate app = sample_rate"
    by (simp_all add: app_def sample_app_def)
  have d: "limiter_documented (\<lambda>_. sample_redis) live_key (ac_limiter app)"
    by (simp add: app sample_redis_documented)
  have ok: "limiter_sound live_key (ac_limiter app) 0 (as_limiter sample_full) (client_key ''p'')"
    by (simp add: app redis_sound_def live_key_def sample_full_def)
  from changes_rate_limited [OF _ _ _ d _ _ ok, of sample_ip "replicate 3 (sample_http Purge_Due)"] show ?thesis
    by (simp add: app sample_client numeral_3_eq_3 del: run_requests.simps)
      (simp add: sample_rate_def sample_http_def del: run_requests.simps)
qed

end
